(* ===== verification/Prelude.thy ===== *)
theory Prelude
  imports Main "HOL-Library.Word" "HOL-Library.State_Monad"
begin

text \<open>
  Shared vocabulary of the development. Machine integers are words, byte strings are lists
  of 8-bit words, a fallible computation returns a sum (\<open>Inl\<close> the error, as Rust's
  \<open>Err\<close>), and a computation that touches the process state or the outside world is a state
  transformer of \<open>HOL-Library.State_Monad\<close>. The second half is a small weakest-precondition
  calculus for those transformers: \<open>wp\<close> with one equation per construct, and a
  consequence rule, so that a contract of an operation is one lemma about \<open>wp\<close>.
\<close>

section \<open>Collections of rules\<close>

named_theorems wp_simps \<open>equations of the weakest precondition\<close>
named_theorems advance_rules \<open>procedures move the world only forward\<close>
named_theorems machine_defs \<open>definitions of the ownership machine's operations\<close>

section \<open>Types\<close>

type_synonym u8 = "8 word"
type_synonym u16 = "16 word"
type_synonym u32 = "32 word"
type_synonym u64 = "64 word"
type_synonym bytes = "u8 list"

text \<open>An \<open>Instant\<close> and a \<open>Duration\<close> count nanoseconds.\<close>

type_synonym instant = nat
type_synonym duration = nat

abbreviation from_secs :: "nat \<Rightarrow> duration" where
  "from_secs n \<equiv> n * 1000000000"

abbreviation from_millis :: "nat \<Rightarrow> duration" where
  "from_millis n \<equiv> n * 1000000"

section \<open>Results\<close>

text \<open>\<open>ok_or\<close>, \<open>map_err\<close> and the \<open>?\<close> operator on a pure result.\<close>

definition ok_or :: "'e \<Rightarrow> 'a option \<Rightarrow> 'e + 'a" where
  "ok_or e x = (case x of None \<Rightarrow> Inl e | Some v \<Rightarrow> Inr v)"

definition map_err :: "('e \<Rightarrow> 'f) \<Rightarrow> 'e + 'a \<Rightarrow> 'f + 'a" where
  "map_err f x = (case x of Inl e \<Rightarrow> Inl (f e) | Inr v \<Rightarrow> Inr v)"

definition res_ok :: "'e + 'a \<Rightarrow> 'a option" where
  "res_ok x = (case x of Inl _ \<Rightarrow> None | Inr v \<Rightarrow> Some v)"

definition res_bind :: "'e + 'a \<Rightarrow> ('a \<Rightarrow> 'e + 'b) \<Rightarrow> 'e + 'b" where
  "res_bind x f = (case x of Inl e \<Rightarrow> Inl e | Inr v \<Rightarrow> f v)"

definition is_ok :: "'e + 'a \<Rightarrow> bool" where
  "is_ok x = (case x of Inl _ \<Rightarrow> False | Inr _ \<Rightarrow> True)"

definition is_some :: "'a option \<Rightarrow> bool" where
  "is_some x = (case x of None \<Rightarrow> False | Some _ \<Rightarrow> True)"

lemma ok_or_simps [simp]: "ok_or e None = Inl e" "ok_or e (Some v) = Inr v"
  by (simp_all add: ok_or_def)

lemma map_err_simps [simp]: "map_err f (Inl e) = Inl (f e)" "map_err f (Inr v) = Inr v"
  by (simp_all add: map_err_def)

lemma res_ok_simps [simp]: "res_ok (Inl e) = None" "res_ok (Inr v) = Some v"
  by (simp_all add: res_ok_def)

lemma res_bind_simps [simp]: "res_bind (Inl e) f = Inl e" "res_bind (Inr v) f = f v"
  by (simp_all add: res_bind_def)

lemma is_ok_simps [simp]: "is_ok (Inl e) = False" "is_ok (Inr v) = True"
  by (simp_all add: is_ok_def)

lemma is_some_simps [simp]: "is_some None = False" "is_some (Some v) = True"
  by (simp_all add: is_some_def)

lemma is_some_iff: "is_some x \<longleftrightarrow> x \<noteq> None"
  by (cases x) simp_all

lemma res_bind_Inr: "res_bind x f = Inr y \<longleftrightarrow> (\<exists>v. x = Inr v \<and> f v = Inr y)"
  by (cases x) simp_all

lemma ok_or_Inr: "ok_or e x = Inr v \<longleftrightarrow> x = Some v"
  by (cases x) simp_all

lemma map_err_Inr: "map_err f x = Inr v \<longleftrightarrow> x = Inr v"
  by (cases x) simp_all

lemmas result_iffs = res_bind_Inr ok_or_Inr map_err_Inr

section \<open>Words\<close>

lemma unat_u8 [simp]: "unat (b :: u8) < 256"
  using unsigned_less [of b] by simp

lemma unat_u16 [simp]: "unat (b :: u16) < 65536"
  using unsigned_less [of b] by simp

lemma unat_u32 [simp]: "unat (b :: u32) < 4294967296"
  using unsigned_less [of b] by simp

lemma word_of_nat_u8: "n < 256 \<Longrightarrow> unat (word_of_nat n :: u8) = n"
  by (simp add: unat_of_nat take_bit_eq_mod)

lemma word_of_nat_u16: "n < 65536 \<Longrightarrow> unat (word_of_nat n :: u16) = n"
  by (simp add: unat_of_nat take_bit_eq_mod)

lemma word_of_nat_u32: "n < 4294967296 \<Longrightarrow> unat (word_of_nat n :: u32) = n"
  by (simp add: unat_of_nat take_bit_eq_mod)

lemma word_of_nat_u64: "n < 18446744073709551616 \<Longrightarrow> unat (word_of_nat n :: u64) = n"
  by (simp add: unat_of_nat take_bit_eq_mod)

section \<open>Lists\<close>

lemma set_dropWhile_subset: "x \<in> set (dropWhile P xs) \<Longrightarrow> x \<in> set xs"
  by (metis set_dropWhileD)

lemma sorted_dropWhile: "sorted (xs :: 'a :: linorder list) \<Longrightarrow> sorted (dropWhile P xs)"
  by (metis dropWhile_eq_drop sorted_wrt_drop)

lemma length_filter_mono:
  "(\<And>x. x \<in> set xs \<Longrightarrow> P x \<Longrightarrow> Q x) \<Longrightarrow> length (filter P xs) \<le> length (filter Q xs)"
  by (induction xs) (auto simp: le_SucI)

section \<open>State transformers\<close>

text \<open>\<open>and_then\<close> is \<open>.await?\<close>: run, and return the error early.\<close>

definition and_then ::
  "('s, 'e + 'a) state \<Rightarrow> ('a \<Rightarrow> ('s, 'e + 'b) state) \<Rightarrow> ('s, 'e + 'b) state" where
  "and_then m f =
     State_Monad.bind m (\<lambda>r. case r of Inl e \<Rightarrow> State_Monad.return (Inl e) | Inr x \<Rightarrow> f x)"

definition modify :: "('s \<Rightarrow> 's) \<Rightarrow> ('s, unit) state" where
  "modify f = State (\<lambda>s. ((), f s))"

definition gets :: "('s \<Rightarrow> 'a) \<Rightarrow> ('s, 'a) state" where
  "gets f = State (\<lambda>s. (f s, s))"

definition wp :: "('s, 'a) state \<Rightarrow> ('a \<Rightarrow> 's \<Rightarrow> bool) \<Rightarrow> 's \<Rightarrow> bool" where
  "wp m Q s = (case run_state m s of (x, s') \<Rightarrow> Q x s')"

lemma run_bind [simp]:
  "run_state (State_Monad.bind m f) s =
     (case run_state m s of (x, s') \<Rightarrow> run_state (f x) s')"
  by (simp add: State_Monad.bind_def)

lemma run_return [simp]: "run_state (State_Monad.return x) s = (x, s)"
  by (simp add: State_Monad.return_def)

lemma run_modify [simp]: "run_state (modify f) s = ((), f s)"
  by (simp add: modify_def)

lemma run_gets [simp]: "run_state (gets f) s = (f s, s)"
  by (simp add: gets_def)

lemma run_and_then [simp]:
  "run_state (and_then m f) s =
     (case run_state m s of (Inl e, s') \<Rightarrow> (Inl e, s') | (Inr x, s') \<Rightarrow> run_state (f x) s')"
  by (auto simp: and_then_def split: prod.splits sum.splits)

lemma wp_return [wp_simps]: "wp (State_Monad.return x) Q s = Q x s"
  by (simp add: wp_def)

lemma wp_bind [wp_simps]: "wp (State_Monad.bind m f) Q s = wp m (\<lambda>x. wp (f x) Q) s"
  by (simp add: wp_def split: prod.splits)

lemma wp_modify [wp_simps]: "wp (modify f) Q s = Q () (f s)"
  by (simp add: wp_def)

lemma wp_gets [wp_simps]: "wp (gets f) Q s = Q (f s) s"
  by (simp add: wp_def)

lemma wp_and_then [wp_simps]:
  "wp (and_then m f) Q s = wp m (\<lambda>r. case r of Inl e \<Rightarrow> Q (Inl e) | Inr x \<Rightarrow> wp (f x) Q) s"
  by (auto simp: wp_def split: prod.splits sum.splits)

lemma wp_if [wp_simps]: "wp (if b then m else n) Q s = (if b then wp m Q s else wp n Q s)"
  by simp

lemma wp_let [wp_simps]: "wp (let x = v in m x) Q s = wp (m v) Q s"
  by simp

lemma wp_mono: "wp m P s \<Longrightarrow> (\<And>x t. P x t \<Longrightarrow> Q x t) \<Longrightarrow> wp m Q s"
  by (auto simp: wp_def)

lemma wp_conj: "wp m P s \<Longrightarrow> wp m Q s \<Longrightarrow> wp m (\<lambda>x t. P x t \<and> Q x t) s"
  by (auto simp: wp_def split: prod.splits)

lemma wpD: "wp m Q s \<Longrightarrow> run_state m s = (x, t) \<Longrightarrow> Q x t"
  by (simp add: wp_def)

lemma wpI: "(\<And>x t. run_state m s = (x, t) \<Longrightarrow> Q x t) \<Longrightarrow> wp m Q s"
  by (auto simp: wp_def split: prod.splits)

end
