(* ===== verification/Rust_Std.thy ===== *)
theory Rust_Std
  imports Complex_Main Prelude
begin

text \<open>
  The parts of Rust's standard library the program uses on strings and integers. A
  \<open>str\<close> is its UTF-8 byte sequence: each \<^typ>\<open>char\<close> of a \<^typ>\<open>string\<close> is one byte, so
  \<open>len()\<close> is \<^const>\<open>length\<close>, \<open>as_bytes()\<close> is \<open>as_bytes\<close> and multi-byte white
  space is recognised byte by byte.
\<close>

section \<open>Bytes and characters\<close>

abbreviation ord :: "char \<Rightarrow> nat" where
  "ord c \<equiv> of_char c"

definition as_bytes :: "string \<Rightarrow> bytes" where
  "as_bytes s = map (\<lambda>c. word_of_nat (ord c)) s"

definition bytes_to_str :: "bytes \<Rightarrow> string" where
  "bytes_to_str bs = map (\<lambda>b. char_of (unat b)) bs"

definition is_ascii_digit :: "char \<Rightarrow> bool" where
  "is_ascii_digit c \<longleftrightarrow> 48 \<le> ord c \<and> ord c \<le> 57"

definition is_ascii_lower :: "char \<Rightarrow> bool" where
  "is_ascii_lower c \<longleftrightarrow> 97 \<le> ord c \<and> ord c \<le> 122"

definition is_ascii_upper :: "char \<Rightarrow> bool" where
  "is_ascii_upper c \<longleftrightarrow> 65 \<le> ord c \<and> ord c \<le> 90"

definition is_ascii_alphabetic :: "char \<Rightarrow> bool" where
  "is_ascii_alphabetic c \<longleftrightarrow> is_ascii_lower c \<or> is_ascii_upper c"

definition is_ascii_alphanumeric :: "char \<Rightarrow> bool" where
  "is_ascii_alphanumeric c \<longleftrightarrow> is_ascii_alphabetic c \<or> is_ascii_digit c"

definition is_ascii_hexdigit :: "char \<Rightarrow> bool" where
  "is_ascii_hexdigit c \<longleftrightarrow> is_ascii_digit c \<or>
     (97 \<le> ord c \<and> ord c \<le> 102) \<or> (65 \<le> ord c \<and> ord c \<le> 70)"

definition char_to_ascii_lowercase :: "char \<Rightarrow> char" where
  "char_to_ascii_lowercase c = (if is_ascii_upper c then char_of (ord c + 32) else c)"

definition to_ascii_lowercase :: "string \<Rightarrow> string" where
  "to_ascii_lowercase s = map char_to_ascii_lowercase s"

definition eq_ignore_ascii_case :: "string \<Rightarrow> string \<Rightarrow> bool" where
  "eq_ignore_ascii_case a b \<longleftrightarrow> to_ascii_lowercase a = to_ascii_lowercase b"

lemmas ascii_defs = is_ascii_digit_def is_ascii_lower_def is_ascii_upper_def
  is_ascii_alphabetic_def is_ascii_alphanumeric_def is_ascii_hexdigit_def

section \<open>White space\<close>

text \<open>
  \<open>trim\<close> removes the code points of Unicode's \<open>White_Space\<close>: the ASCII ones (9 to 13 and
  32), U+0085 and U+00A0 (two bytes), U+1680, U+2000 to U+200A, U+2028, U+2029, U+202F,
  U+205F and U+3000 (three bytes). \<open>ws_len\<close> is the length of the white-space character a
  string starts with, and \<open>ws_len_rev\<close> of the one a reversed string ends with.
\<close>

definition ws1 :: "nat \<Rightarrow> bool" where
  "ws1 a \<longleftrightarrow> (9 \<le> a \<and> a \<le> 13) \<or> a = 32"

definition ws2 :: "nat \<Rightarrow> nat \<Rightarrow> bool" where
  "ws2 a b \<longleftrightarrow> a = 194 \<and> (b = 133 \<or> b = 160)"

definition ws3 :: "nat \<Rightarrow> nat \<Rightarrow> nat \<Rightarrow> bool" where
  "ws3 a b c \<longleftrightarrow> (a = 225 \<and> b = 154 \<and> c = 128) \<or>
     (a = 226 \<and> b = 128 \<and> ((128 \<le> c \<and> c \<le> 138) \<or> c = 168 \<or> c = 169 \<or> c = 175)) \<or>
     (a = 226 \<and> b = 129 \<and> c = 159) \<or> (a = 227 \<and> b = 128 \<and> c = 128)"

fun ws_len :: "string \<Rightarrow> nat" where
  "ws_len [] = 0"
| "ws_len [a] = (if ws1 (ord a) then 1 else 0)"
| "ws_len [a, b] = (if ws1 (ord a) then 1 else if ws2 (ord a) (ord b) then 2 else 0)"
| "ws_len (a # b # c # _) =
     (if ws1 (ord a) then 1 else if ws2 (ord a) (ord b) then 2
      else if ws3 (ord a) (ord b) (ord c) then 3 else 0)"

fun ws_len_rev :: "string \<Rightarrow> nat" where
  "ws_len_rev [] = 0"
| "ws_len_rev [a] = (if ws1 (ord a) then 1 else 0)"
| "ws_len_rev [b, a] = (if ws1 (ord b) then 1 else if ws2 (ord a) (ord b) then 2 else 0)"
| "ws_len_rev (c # b # a # _) =
     (if ws1 (ord c) then 1 else if ws2 (ord b) (ord c) then 2
      else if ws3 (ord a) (ord b) (ord c) then 3 else 0)"

function drop_ws :: "(string \<Rightarrow> nat) \<Rightarrow> string \<Rightarrow> string" where
  "drop_ws f s = (if s = [] \<or> f s = 0 then s else drop_ws f (drop (f s) s))"
  by pat_completeness auto
termination
  by (relation "measure (\<lambda>(f, s). length s)") auto

declare drop_ws.simps [simp del]

definition trim_start :: "string \<Rightarrow> string" where
  "trim_start s = drop_ws ws_len s"

definition trim_end :: "string \<Rightarrow> string" where
  "trim_end s = rev (drop_ws ws_len_rev (rev s))"

definition trim :: "string \<Rightarrow> string" where
  "trim s = trim_end (trim_start s)"

definition trim_start_matches :: "char \<Rightarrow> string \<Rightarrow> string" where
  "trim_start_matches c s = dropWhile (\<lambda>x. x = c) s"

definition trim_end_matches :: "char \<Rightarrow> string \<Rightarrow> string" where
  "trim_end_matches c s = rev (dropWhile (\<lambda>x. x = c) (rev s))"

definition trim_matches :: "char \<Rightarrow> string \<Rightarrow> string" where
  "trim_matches c s = trim_end_matches c (trim_start_matches c s)"

section \<open>Prefixes, suffixes and splitting\<close>

fun strip_prefix :: "'a list \<Rightarrow> 'a list \<Rightarrow> 'a list option" where
  "strip_prefix [] s = Some s"
| "strip_prefix (p # ps) [] = None"
| "strip_prefix (p # ps) (x # xs) = (if p = x then strip_prefix ps xs else None)"

definition strip_suffix :: "'a list \<Rightarrow> 'a list \<Rightarrow> 'a list option" where
  "strip_suffix p s = map_option rev (strip_prefix (rev p) (rev s))"

definition starts_with :: "'a list \<Rightarrow> 'a list \<Rightarrow> bool" where
  "starts_with p s = (strip_prefix p s \<noteq> None)"

definition ends_with :: "'a list \<Rightarrow> 'a list \<Rightarrow> bool" where
  "ends_with p s = (strip_suffix p s \<noteq> None)"

text \<open>\<open>contains(needle)\<close> for a substring.\<close>

fun contains :: "'a list \<Rightarrow> 'a list \<Rightarrow> bool" where
  "contains p [] = (p = [])"
| "contains p (x # xs) = (starts_with p (x # xs) \<or> contains p xs)"

text \<open>\<open>split_once\<close> of a string at the first occurrence of a separator string.\<close>

fun split_once :: "'a list \<Rightarrow> 'a list \<Rightarrow> ('a list \<times> 'a list) option" where
  "split_once p [] = (if p = [] then Some ([], []) else None)"
| "split_once p (x # xs) =
     (case strip_prefix p (x # xs) of
        Some rest \<Rightarrow> Some ([], rest)
      | None \<Rightarrow> map_option (\<lambda>(a, b). (x # a, b)) (split_once p xs))"

lemma strip_prefix_append_Some: "strip_prefix p s = Some r \<Longrightarrow> s = p @ r"
  by (induction p s rule: strip_prefix.induct) (auto split: if_splits)

lemma split_once_append: "split_once p s = Some (a, b) \<Longrightarrow> s = a @ p @ b"
  by (induction p s arbitrary: a rule: split_once.induct)
    (auto dest: strip_prefix_append_Some split: if_splits option.splits)

text \<open>\<open>split(c)\<close> for one character: always at least one piece.\<close>

fun split_char :: "'a \<Rightarrow> 'a list \<Rightarrow> 'a list list" where
  "split_char c [] = [[]]"
| "split_char c (x # xs) =
     (if x = c then [] # split_char c xs
      else case split_char c xs of [] \<Rightarrow> [[x]] | p # ps \<Rightarrow> (x # p) # ps)"

text \<open>\<open>split(p)\<close> for a non-empty pattern string, \<open>rsplit_once\<close>, and \<open>split_whitespace\<close>.\<close>

function split_str :: "string \<Rightarrow> string \<Rightarrow> string list" where
  "split_str p s =
     (if p = [] then [s]
      else case split_once p s of None \<Rightarrow> [s] | Some (a, b) \<Rightarrow> a # split_str p b)"
  by pat_completeness auto
termination
  by (relation "measure (\<lambda>(p, s). length s)") (auto dest: split_once_append)

declare split_str.simps [simp del]

definition rsplit_once :: "'a list \<Rightarrow> 'a list \<Rightarrow> ('a list \<times> 'a list) option" where
  "rsplit_once p s = map_option (\<lambda>(a, b). (rev b, rev a)) (split_once (rev p) (rev s))"

function split_ws :: "string \<Rightarrow> string list" where
  "split_ws s =
     (case s of [] \<Rightarrow> [[]]
      | c # cs \<Rightarrow>
          if ws_len s = 0 then (case split_ws cs of [] \<Rightarrow> [[c]] | p # ps \<Rightarrow> (c # p) # ps)
          else [] # split_ws (drop (ws_len s) s))"
  by pat_completeness auto
termination
  by (relation "measure length") (auto split: list.splits)

declare split_ws.simps [simp del]

definition split_whitespace :: "string \<Rightarrow> string list" where
  "split_whitespace s = filter (\<lambda>p. p \<noteq> []) (split_ws s)"

section \<open>UTF-8\<close>

text \<open>\<open>std::str::from_utf8\<close> accepts exactly the well-formed sequences: no overlong forms, no
  surrogates, nothing above U+10FFFF.\<close>

definition utf8_cont :: "u8 \<Rightarrow> bool" where
  "utf8_cont b \<longleftrightarrow> 128 \<le> b \<and> b \<le> 191"

fun utf8_valid :: "bytes \<Rightarrow> bool" where
  "utf8_valid [] = True"
| "utf8_valid (a # s) =
     (if a < 128 then utf8_valid s
      else if 194 \<le> a \<and> a \<le> 223 then
        (case s of b # t \<Rightarrow> utf8_cont b \<and> utf8_valid t | [] \<Rightarrow> False)
      else if 224 \<le> a \<and> a \<le> 239 then
        (case s of b # c # t \<Rightarrow>
           (if a = 224 then 160 \<le> b \<and> b \<le> 191
            else if a = 237 then 128 \<le> b \<and> b \<le> 159 else utf8_cont b) \<and>
           utf8_cont c \<and> utf8_valid t
         | _ \<Rightarrow> False)
      else if 240 \<le> a \<and> a \<le> 244 then
        (case s of b # c # d # t \<Rightarrow>
           (if a = 240 then 144 \<le> b \<and> b \<le> 191
            else if a = 244 then 128 \<le> b \<and> b \<le> 143 else utf8_cont b) \<and>
           utf8_cont c \<and> utf8_cont d \<and> utf8_valid t
         | _ \<Rightarrow> False)
      else False)"

definition from_utf8 :: "bytes \<Rightarrow> string option" where
  "from_utf8 bs = (if utf8_valid bs then Some (bytes_to_str bs) else None)"

section \<open>Decimal numbers\<close>

fun digits_of :: "nat \<Rightarrow> string" where
  "digits_of n = (if n < 10 then [char_of (48 + n)] else digits_of (n div 10) @ [char_of (48 + n mod 10)])"

declare digits_of.simps [simp del]

text \<open>\<open>to_string()\<close> of an unsigned integer, and \<open>{:0w}\<close>.\<close>

definition show_nat :: "nat \<Rightarrow> string" where
  "show_nat n = digits_of n"

definition pad_left :: "nat \<Rightarrow> char \<Rightarrow> string \<Rightarrow> string" where
  "pad_left w c s = replicate (w - length s) c @ s"

definition show_padded :: "nat \<Rightarrow> nat \<Rightarrow> string" where
  "show_padded w n = pad_left w CHR ''0'' (show_nat n)"

section \<open>Floating point\<close>

text \<open>
  An \<open>f64\<close> is its exact value (every finite double is a rational number), an infinity or
  a NaN. \<open>max\<close> ignores a NaN, comparisons with a NaN are false, and
  \<open>Duration::from_secs_f64\<close> panics (\<open>None\<close>) on a NaN, a negative value or a value of at
  least \<open>2 ^ 64\<close> seconds, and otherwise rounds to the nearest nanosecond, ties to even.
\<close>

datatype f64 = Finite rat | PosInf | NegInf | NaN

fun f64_le :: "f64 \<Rightarrow> f64 \<Rightarrow> bool" where
  "f64_le NaN _ = False"
| "f64_le _ NaN = False"
| "f64_le NegInf _ = True"
| "f64_le _ PosInf = True"
| "f64_le (Finite a) (Finite b) = (a \<le> b)"
| "f64_le _ _ = False"

definition f64_lt :: "f64 \<Rightarrow> f64 \<Rightarrow> bool" where
  "f64_lt a b \<longleftrightarrow> f64_le a b \<and> \<not> f64_le b a"

fun f64_max :: "f64 \<Rightarrow> f64 \<Rightarrow> f64" where
  "f64_max NaN b = b"
| "f64_max a NaN = a"
| "f64_max a b = (if f64_le a b then b else a)"

fun f64_min :: "f64 \<Rightarrow> f64 \<Rightarrow> f64" where
  "f64_min NaN b = b"
| "f64_min a NaN = a"
| "f64_min a b = (if f64_le a b then a else b)"

definition round_half_even :: "rat \<Rightarrow> int" where
  "round_half_even x =
     (let f = \<lfloor>x\<rfloor>; d = x - of_int f
      in if d < 1 / 2 then f else if 1 / 2 < d then f + 1 else if even f then f else f + 1)"

definition from_secs_f64 :: "f64 \<Rightarrow> duration option" where
  "from_secs_f64 x =
     (case x of
        Finite a \<Rightarrow>
          (if 0 \<le> a \<and> a < 2 ^ 64 then
             (let ns = nat (round_half_even (a * 1000000000))
              in if ns < from_secs (2 ^ 64) then Some ns else None)
           else None)
      | _ \<Rightarrow> None)"

text \<open>\<open>Instant::now() + Duration::from_secs_f64(x)\<close>, \<open>now\<close> being the reading of the clock. An instant
  counts its seconds in an \<open>i64\<close>: the addition panics (\<open>None\<close>) when they do not fit.\<close>

definition instant_plus :: "instant \<Rightarrow> duration \<Rightarrow> instant option" where
  "instant_plus now d = (if (now + d) div 10 ^ 9 < 2 ^ 63 then Some (now + d) else None)"

definition after_secs_f64 :: "instant \<Rightarrow> f64 \<Rightarrow> instant option" where
  "after_secs_f64 now x = Option.bind (from_secs_f64 x) (instant_plus now)"

text \<open>Rounding a rational to the nearest double, ties to even, with gradual underflow and
  overflow to infinity, and the arithmetic the program does. (The sign of a zero is never
  observed.)\<close>

definition pow2 :: "int \<Rightarrow> rat" where
  "pow2 k = (if 0 \<le> k then 2 ^ nat k else 1 / 2 ^ nat (- k))"

fun bit_count :: "nat \<Rightarrow> nat" where
  "bit_count n = (if n = 0 then 0 else Suc (bit_count (n div 2)))"

declare bit_count.simps [simp del]

definition ilog2 :: "rat \<Rightarrow> int" where
  "ilog2 x = (case quotient_of x of (p, q) \<Rightarrow>
     let k = int (bit_count (nat p)) - int (bit_count (nat q)) in if pow2 k \<le> x then k else k - 1)"

definition f64_round :: "rat \<Rightarrow> f64" where
  "f64_round x =
     (if x = 0 then Finite 0
      else let a = \<bar>x\<bar>; ulp = pow2 (max (ilog2 a) (- 1022) - 52);
               v = of_int (round_half_even (a / ulp)) * ulp
           in if 2 ^ 1024 \<le> v then (if 0 < x then PosInf else NegInf) else Finite (sgn x * v))"

fun f64_add :: "f64 \<Rightarrow> f64 \<Rightarrow> f64" where
  "f64_add (Finite a) (Finite b) = f64_round (a + b)"
| "f64_add NaN _ = NaN"
| "f64_add _ NaN = NaN"
| "f64_add PosInf NegInf = NaN"
| "f64_add NegInf PosInf = NaN"
| "f64_add PosInf _ = PosInf"
| "f64_add NegInf _ = NegInf"
| "f64_add _ PosInf = PosInf"
| "f64_add _ NegInf = NegInf"

fun f64_neg :: "f64 \<Rightarrow> f64" where
  "f64_neg (Finite a) = Finite (- a)"
| "f64_neg PosInf = NegInf"
| "f64_neg NegInf = PosInf"
| "f64_neg NaN = NaN"

definition f64_sub :: "f64 \<Rightarrow> f64 \<Rightarrow> f64" where
  "f64_sub a b = f64_add a (f64_neg b)"

text \<open>\<open>n as f64\<close>, \<open>x as u64\<close> (saturating) and \<open>Duration::as_secs_f64\<close>.\<close>

definition int_as_f64 :: "int \<Rightarrow> f64" where
  "int_as_f64 n = f64_round (of_int n)"

fun f64_as_u64 :: "f64 \<Rightarrow> nat" where
  "f64_as_u64 (Finite a) = (if a \<le> 0 then 0 else min (nat \<lfloor>a\<rfloor>) (2 ^ 64 - 1))"
| "f64_as_u64 PosInf = 2 ^ 64 - 1"
| "f64_as_u64 _ = 0"

definition as_secs_f64 :: "nat \<Rightarrow> nat \<Rightarrow> f64" where
  "as_secs_f64 secs nanos =
     f64_add (int_as_f64 (int secs)) (f64_round (of_nat nanos / 1000000000))"

lemma round_half_even_nonneg: "0 \<le> x \<Longrightarrow> 0 \<le> round_half_even x"
  by (auto simp: round_half_even_def Let_def intro: order_trans [of _ "\<lfloor>x\<rfloor>"])

section \<open>Facts about trimming\<close>

lemma drop_ws_id: "f s = 0 \<Longrightarrow> drop_ws f s = s"
  by (simp add: drop_ws.simps)

lemma drop_ws_suffix: "\<exists>n. drop_ws f s = drop n s"
proof (induction f s rule: drop_ws.induct)
  case (1 f s)
  show ?case
  proof (cases "s = [] \<or> f s = 0")
    case True
    then have "drop_ws f s = drop 0 s" by (simp add: drop_ws.simps)
    then show ?thesis ..
  next
    case False
    with 1 obtain n where "drop_ws f (drop (f s) s) = drop n (drop (f s) s)" by blast
    with False have "drop_ws f s = drop (n + f s) s" by (simp add: drop_ws.simps [of f s])
    then show ?thesis ..
  qed
qed

lemma set_drop_ws: "set (drop_ws f s) \<subseteq> set s"
  using drop_ws_suffix [of f s] by (metis set_drop_subset)

lemma set_trim: "set (trim s) \<subseteq> set s"
  using set_drop_ws [of ws_len_rev "rev (drop_ws ws_len s)"] set_drop_ws [of ws_len s]
  by (auto simp: trim_def trim_end_def trim_start_def)

lemma length_drop_ws: "length (drop_ws f s) \<le> length s"
  using drop_ws_suffix [of f s] by auto

lemma length_trim: "length (trim s) \<le> length s"
proof -
  have "length (trim s) \<le> length (drop_ws ws_len s)"
    using length_drop_ws [of ws_len_rev "rev (drop_ws ws_len s)"]
    by (simp add: trim_def trim_end_def trim_start_def)
  then show ?thesis using length_drop_ws [of ws_len s] by linarith
qed

text \<open>A byte that is neither ASCII white space nor part of a multi-byte character.\<close>

definition plain_char :: "char \<Rightarrow> bool" where
  "plain_char c \<longleftrightarrow> \<not> ws1 (ord c) \<and> ord c < 128"

lemma ws_len_plain: "plain_char c \<Longrightarrow> ws_len (c # s) = 0"
  by (cases s; cases "tl s") (auto simp: plain_char_def ws2_def ws3_def)

lemma ws_len_rev_plain: "plain_char c \<Longrightarrow> ws_len_rev (c # s) = 0"
  by (cases s; cases "tl s") (auto simp: plain_char_def ws2_def ws3_def)

lemma trim_plain: "s = [] \<or> plain_char (hd s) \<and> plain_char (last s) \<Longrightarrow> trim s = s"
proof (elim disjE conjE)
  assume h: "plain_char (hd s)" and l: "plain_char (last s)"
  show "trim s = s"
  proof (cases "s = []")
    case False
    then have "ws_len s = 0" using ws_len_plain [of "hd s" "tl s"] h by simp
    moreover have "ws_len_rev (rev s) = 0"
      using ws_len_rev_plain [of "last s" "rev (butlast s)"] l False
      by (metis append_butlast_last_id rev.simps(2) rev_rev_ident)
    ultimately show ?thesis by (simp add: trim_def trim_start_def trim_end_def drop_ws_id)
  qed (simp add: trim_def trim_start_def trim_end_def drop_ws_id)
qed (simp add: trim_def trim_start_def trim_end_def drop_ws_id)

lemma trim_all_plain: "list_all plain_char s \<Longrightarrow> trim s = s"
  by (rule trim_plain) (auto simp: list_all_iff)

lemma trim_Nil [simp]: "trim [] = []"
  by (simp add: trim_plain)

section \<open>Facts about prefixes and suffixes\<close>

lemma strip_prefix_iff: "strip_prefix p s = Some r \<longleftrightarrow> s = p @ r"
  by (induction p s rule: strip_prefix.induct) auto

lemma strip_prefix_append [simp]: "strip_prefix p (p @ r) = Some r"
  by (simp add: strip_prefix_iff)

lemma strip_suffix_iff: "strip_suffix p s = Some r \<longleftrightarrow> s = r @ p"
  by (auto simp: strip_suffix_def strip_prefix_iff rev_eq_append_conv intro: exI [of _ "rev r"])

lemma starts_with_iff: "starts_with p s \<longleftrightarrow> (\<exists>r. s = p @ r)"
  by (auto simp: starts_with_def strip_prefix_iff)

lemma ends_with_iff: "ends_with p s \<longleftrightarrow> (\<exists>r. s = r @ p)"
  by (auto simp: ends_with_def strip_suffix_iff)

lemma contains_iff: "contains p s \<longleftrightarrow> (\<exists>a b. s = a @ p @ b)"
proof (induction s)
  case (Cons x xs)
  have "(\<exists>a b. x # xs = a @ p @ b) \<longleftrightarrow> (\<exists>b. x # xs = p @ b) \<or> (\<exists>a b. xs = a @ p @ b)"
    (is "?L \<longleftrightarrow> ?R")
  proof
    assume ?L
    then obtain a b where "x # xs = a @ p @ b" by blast
    then show ?R by (cases a) auto
  next
    assume ?R
    then show ?L by (metis append_Cons append_Nil)
  qed
  with Cons show ?case by (simp only: contains.simps starts_with_iff)
qed auto

lemmas split_once_Some = split_once_append

lemma split_once_None: "split_once p s = None \<longleftrightarrow> \<not> contains p s"
  by (induction p s rule: split_once.induct) (auto simp: starts_with_def split: option.splits)

lemma split_char_nonempty [simp]: "split_char c s \<noteq> []"
  by (induction c s rule: split_char.induct) (auto split: list.splits)

section \<open>Numbers in text\<close>

text \<open>\<open>parse::<u32>\<close> and \<open>parse::<u64>\<close> with the text of \<open>ParseIntError\<close>.\<close>

fun parse_digits :: "nat \<Rightarrow> nat \<Rightarrow> string \<Rightarrow> string + nat" where
  "parse_digits bound acc [] = Inr acc"
| "parse_digits bound acc (c # cs) =
     (if \<not> is_ascii_digit c then Inl ''invalid digit found in string''
      else if bound \<le> acc * 10 + (ord c - 48) then Inl ''number too large to fit in target type''
      else parse_digits bound (acc * 10 + (ord c - 48)) cs)"

definition parse_uint :: "nat \<Rightarrow> string \<Rightarrow> string + nat" where
  "parse_uint bound s =
     (if s = [] then Inl ''cannot parse integer from empty string''
      else if s = ''+'' \<or> s = ''-'' then Inl ''invalid digit found in string''
      else parse_digits bound 0 (if hd s = CHR ''+'' then tl s else s))"

section \<open>Lines\<close>

text \<open>\<open>str::lines\<close>: split at line feeds, drop one carriage return before each of them, and no line after
  a final line feed.\<close>

definition str_lines :: "string \<Rightarrow> string list" where
  "str_lines s =
     (let ls = split_char (CHR 10) s in
      map (\<lambda>l. case strip_suffix [CHR 13] l of Some r \<Rightarrow> r | None \<Rightarrow> l) (butlast ls) @
      (if last ls = [] then [] else [last ls]))"

end
