(* ===== verification/Json.thy ===== *)
theory Json
  imports Rust_Std "HOL-Library.AList"
begin

text \<open>
  \<open>serde_json::Value\<close> as the program uses it: a tree that is built by \<open>json!\<close> and read
  by \<open>get\<close>, \<open>as_str\<close>, \<open>as_u64\<close> and their kin. An object is an association list with
  distinct keys, in the order in which the crate iterates over it (sorted by key). Parsing and printing (\<open>from_slice\<close>, \<open>to_vec\<close>) belong to the crate and are
  parameters where they are used.
\<close>

datatype json = JNull | JBool bool | JInt int | JFloat f64 | JStr string
  | JArr "json list" | JObj "(string \<times> json) list"

fun jget :: "json \<Rightarrow> string \<Rightarrow> json option" where
  "jget (JObj kvs) k = map_of kvs k"
| "jget _ k = None"

fun as_str :: "json \<Rightarrow> string option" where
  "as_str (JStr s) = Some s"
| "as_str _ = None"

fun as_bool :: "json \<Rightarrow> bool option" where
  "as_bool (JBool b) = Some b"
| "as_bool _ = None"

fun as_u64 :: "json \<Rightarrow> nat option" where
  "as_u64 (JInt n) = (if 0 \<le> n \<and> n < 2 ^ 64 then Some (nat n) else None)"
| "as_u64 _ = None"

fun as_i64 :: "json \<Rightarrow> int option" where
  "as_i64 (JInt n) = (if - (2 ^ 63) \<le> n \<and> n < 2 ^ 63 then Some n else None)"
| "as_i64 _ = None"

fun as_f64 :: "json \<Rightarrow> f64 option" where
  "as_f64 (JInt n) = Some (int_as_f64 n)"
| "as_f64 (JFloat x) = Some x"
| "as_f64 _ = None"

fun as_array :: "json \<Rightarrow> json list option" where
  "as_array (JArr xs) = Some xs"
| "as_array _ = None"

fun as_object :: "json \<Rightarrow> (string \<times> json) list option" where
  "as_object (JObj kvs) = Some kvs"
| "as_object _ = None"

definition is_object :: "json \<Rightarrow> bool" where
  "is_object j = (as_object j \<noteq> None)"

text \<open>\<open>json!(option)\<close>: \<open>None\<close> is \<open>null\<close>.\<close>

definition jopt_str :: "string option \<Rightarrow> json" where
  "jopt_str x = (case x of None \<Rightarrow> JNull | Some s \<Rightarrow> JStr s)"

definition jopt :: "json option \<Rightarrow> json" where
  "jopt x = (case x of None \<Rightarrow> JNull | Some s \<Rightarrow> s)"

text \<open>\<open>body[key] = value\<close>: replaces the value of a key of an object or adds it. Indexing
  \<open>null\<close> makes an object; anything else panics in the crate, which the program never does.\<close>

fun jset :: "json \<Rightarrow> string \<Rightarrow> json \<Rightarrow> json" where
  "jset (JObj kvs) k v = JObj (AList.update k v kvs)"
| "jset JNull k v = JObj [(k, v)]"
| "jset j k v = j"

lemma jget_jset_same [simp]: "jget (jset (JObj kvs) k v) k = Some v"
  by (simp add: update_conv)

lemma jget_jset_other [simp]: "k \<noteq> k' \<Longrightarrow> jget (jset (JObj kvs) k v) k' = jget (JObj kvs) k'"
  by (simp add: update_conv)

end
