(* ===== verification/Hex_Codec.thy ===== *)
theory Hex_Codec
  imports Rust_Std
begin

text \<open>
  Hexadecimal: \<open>hex_lower\<close> (the same function in \<open>receipts.rs\<close>, \<open>kbs.rs\<close>,
  \<open>proof.rs\<close> and \<open>handlers.rs\<close>) and the digit decoder \<open>hex_nibble\<close> with the
  loop over digit pairs that \<open>decode_sha256_hex\<close> and \<open>decode_hex_32\<close> share. The
  lemmas show that decoding inverts encoding, in both directions.
\<close>

unbundle bit_operations_syntax

definition HEX :: "string" where
  "HEX = ''0123456789abcdef''"

fun hex_lower :: "bytes \<Rightarrow> string" where
  "hex_lower [] = []"
| "hex_lower (byte # bs) =
     HEX ! unat (drop_bit 4 byte) # HEX ! unat (byte AND 15) # hex_lower bs"

definition hex_nibble :: "u8 \<Rightarrow> u8 option" where
  "hex_nibble byte =
     (if 48 \<le> byte \<and> byte \<le> 57 then Some (byte - 48)
      else if 97 \<le> byte \<and> byte \<le> 102 then Some (byte - 97 + 10)
      else if 65 \<le> byte \<and> byte \<le> 70 then Some (byte - 65 + 10)
      else None)"

text \<open>The loop of the decoders: one output byte per pair of digits.\<close>

fun decode_pairs :: "bytes \<Rightarrow> bytes option" where
  "decode_pairs [] = Some []"
| "decode_pairs [b] = None"
| "decode_pairs (h # l # rest) =
     (case hex_nibble h of None \<Rightarrow> None
      | Some hi \<Rightarrow> (case hex_nibble l of None \<Rightarrow> None
        | Some lo \<Rightarrow> map_option ((#) ((push_bit 4 hi) OR lo)) (decode_pairs rest)))"

section \<open>Bytes of a string\<close>

lemma length_as_bytes [simp]: "length (as_bytes s) = length s"
  by (simp add: as_bytes_def)

lemma length_bytes_to_str [simp]: "length (bytes_to_str s) = length s"
  by (simp add: bytes_to_str_def)

lemma as_bytes_simps [simp]:
  "as_bytes [] = []" "as_bytes (c # s) = word_of_nat (ord c) # as_bytes s"
  "as_bytes (s @ t) = as_bytes s @ as_bytes t"
  by (simp_all add: as_bytes_def)

lemma unat_ord [simp]: "unat (word_of_nat (ord c) :: u8) = ord c"
  by (simp add: unat_of_nat take_bit_eq_mod)

lemma bytes_to_str_as_bytes [simp]: "bytes_to_str (as_bytes s) = s"
  by (induction s) (simp_all add: bytes_to_str_def)

lemma as_bytes_bytes_to_str [simp]: "as_bytes (bytes_to_str bs) = bs"
proof (induction bs)
  case (Cons b bs)
  then show ?case by (simp add: bytes_to_str_def)
qed (simp add: bytes_to_str_def)

lemma as_bytes_inj [simp]: "as_bytes s = as_bytes t \<longleftrightarrow> s = t"
  by (metis bytes_to_str_as_bytes)

section \<open>Round trips\<close>

lemma length_HEX [simp]: "length HEX = 16"
  by (simp add: HEX_def)

lemma length_hex_lower [simp]: "length (hex_lower bs) = 2 * length bs"
  by (induction bs) simp_all

lemma hex_lower_append [simp]: "hex_lower (a @ b) = hex_lower a @ hex_lower b"
  by (induction a) simp_all

lemma high_nibble_less: "unat (drop_bit 4 (b :: u8)) < 16"
proof -
  have "unat b < 256" by simp
  then have "unat b div 16 < 16" by linarith
  then show ?thesis by (simp add: unat_drop_bit_eq drop_bit_eq_div unat_div)
qed

lemma low_nibble_less: "unat ((b :: u8) AND 15) < 16"
proof -
  have "unat (b AND 15) \<le> unat (15 :: u8)"
    by (rule word_and_le1 [THEN word_le_nat_alt [THEN iffD1]])
  then show ?thesis by simp
qed

lemma hex_nibble_HEX_all:
  "list_all (\<lambda>k. hex_nibble (word_of_nat (ord (HEX ! k))) = Some (word_of_nat k)) [0..<16]"
  by code_simp

lemma hex_nibble_HEX:
  assumes "unat (n :: u8) < 16"
  shows "hex_nibble (word_of_nat (ord (HEX ! unat n))) = Some n"
  using hex_nibble_HEX_all assms by (auto simp: list_all_iff dest!: bspec [where x = "unat n"])

lemma nibbles_join: "push_bit 4 (drop_bit 4 (b :: u8)) OR (b AND 15) = b"
proof -
  have "b AND 15 = take_bit 4 b"
    by (simp add: take_bit_eq_mask mask_eq_exp_minus_1)
  then show ?thesis
    by (auto intro!: bit_word_eqI simp: bit_simps)
qed

lemma decode_pairs_hex_lower [simp]: "decode_pairs (as_bytes (hex_lower bs)) = Some bs"
  by (induction bs)
    (simp_all add: hex_nibble_HEX high_nibble_less low_nibble_less nibbles_join)

lemma decode_pairs_length: "decode_pairs bs = Some ds \<Longrightarrow> length bs = 2 * length ds"
  by (induction bs arbitrary: ds rule: decode_pairs.induct) (auto split: option.splits)

lemma hex_lower_inj: "hex_lower a = hex_lower b \<Longrightarrow> a = b"
  by (metis decode_pairs_hex_lower option.inject)

lemma hex_nibble_hexdigit:
  "hex_nibble (word_of_nat (ord c)) = None \<longleftrightarrow> \<not> is_ascii_hexdigit c"
proof -
  have "ord c < 256" by simp
  then show ?thesis
    by (auto simp: hex_nibble_def ascii_defs word_le_nat_alt)
qed

lemma decode_pairs_Some:
  "even (length s) \<Longrightarrow> \<forall>c\<in>set s. is_ascii_hexdigit c \<Longrightarrow> \<exists>ds. decode_pairs (as_bytes s) = Some ds"
proof (induction s rule: induct_list012)
  case (3 a b s)
  then obtain ds where "decode_pairs (as_bytes s) = Some ds" by auto
  moreover have "hex_nibble (word_of_nat (ord a)) \<noteq> None" "hex_nibble (word_of_nat (ord b)) \<noteq> None"
    using "3.prems" by (auto simp: hex_nibble_hexdigit)
  ultimately show ?case by (auto split: option.splits)
qed simp_all

section \<open>Lower-case digits\<close>

lemma HEX_ord: "map ord HEX = [48, 49, 50, 51, 52, 53, 54, 55, 56, 57, 97, 98, 99, 100, 101, 102 :: nat]"
  by (simp add: HEX_def)

lemma HEX_mem: "c \<in> set HEX \<longleftrightarrow> (48 \<le> ord c \<and> ord c \<le> 57) \<or> (97 \<le> ord c \<and> ord c \<le> 102)"
proof -
  have "c \<in> set HEX \<longleftrightarrow> ord c \<in> set (map ord HEX)" by (auto simp: image_iff)
  also have "\<dots> \<longleftrightarrow> (48 \<le> ord c \<and> ord c \<le> 57) \<or> (97 \<le> ord c \<and> ord c \<le> 102)"
    unfolding HEX_ord by (simp only: list.set insert_iff empty_iff) presburger
  finally show ?thesis .
qed

lemma nibbles_split:
  assumes "unat (hi :: u8) < 16" "unat lo < 16"
  shows "drop_bit 4 (push_bit 4 hi OR lo) = hi" "(push_bit 4 hi OR lo) AND 15 = lo"
proof -
  have tb: "take_bit 4 x = x" if "unat x < 16" for x :: u8
  proof -
    have "unat (take_bit 4 x) = unat x" using that
      by (simp add: unsigned_take_bit_eq take_bit_nat_eq_self)
    then show ?thesis by (rule unsigned_word_eqI)
  qed
  have m: "x AND 15 = take_bit 4 x" for x :: u8
    by (simp add: take_bit_eq_mask mask_eq_exp_minus_1)
  have "drop_bit 4 (push_bit 4 (take_bit 4 hi) OR take_bit 4 lo) = take_bit 4 hi"
    by (auto intro!: bit_word_eqI simp: bit_simps)
  then show "drop_bit 4 (push_bit 4 hi OR lo) = hi" using tb assms by simp
  have "take_bit 4 (push_bit 4 hi OR take_bit 4 lo) = take_bit 4 lo"
    by (auto intro!: bit_word_eqI simp: bit_simps)
  then show "(push_bit 4 hi OR lo) AND 15 = lo" using tb assms by (simp add: m)
qed

lemma hex_nibble_digit:
  assumes "c \<in> set HEX"
  obtains n where "hex_nibble (word_of_nat (ord c)) = Some n" "unat n < 16" "HEX ! unat n = c"
proof -
  from assms obtain k where k: "k < 16" "c = HEX ! k" by (auto simp: in_set_conv_nth)
  then have "unat (word_of_nat k :: u8) = k" by (intro word_of_nat_u8) simp
  with hex_nibble_HEX [of "word_of_nat k"] k that show thesis by simp
qed

text \<open>On lower-case digits decoding is injective.\<close>

lemma decode_pairs_lower: "decode_pairs (as_bytes s) = Some d \<Longrightarrow> set s \<subseteq> set HEX \<Longrightarrow> hex_lower d = s"
proof (induction s arbitrary: d rule: induct_list012)
  case (3 a b s)
  obtain m where m: "hex_nibble (word_of_nat (ord a)) = Some m" "unat m < 16" "HEX ! unat m = a"
    using "3.prems"(2) by (auto elim: hex_nibble_digit)
  obtain n where n: "hex_nibble (word_of_nat (ord b)) = Some n" "unat n < 16" "HEX ! unat n = b"
    using "3.prems"(2) by (auto elim: hex_nibble_digit)
  from "3.prems"(1) m n obtain ds where "decode_pairs (as_bytes s) = Some ds" "d = (push_bit 4 m OR n) # ds"
    by auto
  with 3 m n nibbles_split [of m n] show ?case by (simp del: drop_bit_or)
qed simp_all

end
