(* ===== verification/Ce_V1.thy ===== *)
theory Ce_V1
  imports Hex_Codec
begin

text \<open>
  The CE-v1 TLV encoding: \<open>ce_v1_bytes\<close> of \<open>receipts.rs\<close> and its reader, \<open>take\<close> and
  \<open>record\<close> of \<open>proof.rs\<close> (here \<open>take_bytes\<close> and \<open>ce_record\<close>). A label longer than
  \<open>u16::MAX\<close> or a value longer than \<open>u32::MAX\<close> panics, which is \<open>None\<close>. The lemmas
  show that the encoding is unambiguous (injective on record lists) and that the reader
  recovers exactly what was written.
\<close>

type_synonym ce_records = "(string \<times> bytes) list"

datatype proof_error = Malformed | UnexpectedField | TooLarge | InvalidReport

section \<open>Writing\<close>

text \<open>\<open>to_be_bytes\<close> of a \<open>k\<close>-byte unsigned integer: most significant byte first.\<close>

fun be_bytes :: "nat \<Rightarrow> nat \<Rightarrow> bytes" where
  "be_bytes 0 n = []"
| "be_bytes (Suc k) n = be_bytes k (n div 256) @ [word_of_nat (n mod 256)]"

definition u16_to_be_bytes :: "u16 \<Rightarrow> bytes" where
  "u16_to_be_bytes w = be_bytes 2 (unat w)"

definition u32_to_be_bytes :: "u32 \<Rightarrow> bytes" where
  "u32_to_be_bytes w = be_bytes 4 (unat w)"

definition u16_try_from :: "nat \<Rightarrow> u16 option" where
  "u16_try_from n = (if n < 65536 then Some (word_of_nat n) else None)"

definition u32_try_from :: "nat \<Rightarrow> u32 option" where
  "u32_try_from n = (if n < 4294967296 then Some (word_of_nat n) else None)"

fun ce_v1_bytes :: "ce_records \<Rightarrow> bytes option" where
  "ce_v1_bytes [] = Some []"
| "ce_v1_bytes ((label, val) # records) =
     (case u16_try_from (length label) of None \<Rightarrow> None
      | Some label_len \<Rightarrow> (case u32_try_from (length val) of None \<Rightarrow> None
        | Some value_len \<Rightarrow> map_option
            (\<lambda>rest. u16_to_be_bytes label_len @ as_bytes label @ u32_to_be_bytes value_len @ val @ rest)
            (ce_v1_bytes records)))"

text \<open>SHA-256 is a parameter.\<close>

definition ce_v1_hash :: "(bytes \<Rightarrow> bytes) \<Rightarrow> ce_records \<Rightarrow> bytes option" where
  "ce_v1_hash sha256 records = map_option sha256 (ce_v1_bytes records)"

section \<open>Reading\<close>

definition from_be :: "bytes \<Rightarrow> nat" where
  "from_be bs = foldl (\<lambda>acc b. acc * 256 + unat b) 0 bs"

definition u16_from_be_bytes :: "bytes \<Rightarrow> nat" where
  "u16_from_be_bytes bs = from_be bs"

definition u32_from_be_bytes :: "bytes \<Rightarrow> nat" where
  "u32_from_be_bytes bs = from_be bs"

text \<open>A \<open>usize\<close> has 64 bits: \<open>cursor.checked_add(len)\<close> fails on overflow.\<close>

definition take_bytes :: "bytes \<Rightarrow> nat \<Rightarrow> nat \<Rightarrow> proof_error + (bytes \<times> nat)" where
  "take_bytes bs cursor len =
     (if cursor + len < 2 ^ 64 then
        (if cursor + len \<le> length bs then Inr (take len (drop cursor bs), cursor + len)
         else Inl Malformed)
      else Inl Malformed)"

definition ce_record :: "bytes \<Rightarrow> nat \<Rightarrow> proof_error + ((string \<times> bytes) \<times> nat)" where
  "ce_record bs cursor =
     res_bind (take_bytes bs cursor 2) (\<lambda>(label_len, c1).
     res_bind (take_bytes bs c1 (u16_from_be_bytes label_len)) (\<lambda>(label, c2).
     res_bind (ok_or Malformed (from_utf8 label)) (\<lambda>label.
     res_bind (take_bytes bs c2 4) (\<lambda>(value_len, c3).
     res_bind (take_bytes bs c3 (u32_from_be_bytes value_len)) (\<lambda>(val, c4).
     Inr ((label, val), c4))))))"

section \<open>Lengths\<close>

lemma length_be_bytes [simp]: "length (be_bytes k n) = k"
  by (induction k arbitrary: n) simp_all

lemma length_to_be_bytes [simp]:
  "length (u16_to_be_bytes a) = 2" "length (u32_to_be_bytes b) = 4"
  by (simp_all add: u16_to_be_bytes_def u32_to_be_bytes_def)

lemma from_be_snoc: "from_be (bs @ [b]) = from_be bs * 256 + unat b"
  by (simp add: from_be_def)

lemma from_be_be_bytes: "n < 256 ^ k \<Longrightarrow> from_be (be_bytes k n) = n"
proof (induction k arbitrary: n)
  case 0
  then show ?case by (simp add: from_be_def)
next
  case (Suc k)
  then have "n div 256 < 256 ^ k" by (simp add: less_mult_imp_div_less mult.commute)
  then have "from_be (be_bytes k (n div 256)) = n div 256" by (rule Suc.IH)
  then show ?case by (simp add: from_be_snoc word_of_nat_u8)
qed

lemma from_be_less: "from_be bs < 256 ^ length bs"
proof (induction bs rule: rev_induct)
  case (snoc b bs)
  have "from_be bs * 256 + unat b < (from_be bs + 1) * 256" by simp
  also have "\<dots> \<le> 256 ^ length bs * 256" using snoc by (intro mult_right_mono) simp_all
  finally show ?case by (simp add: from_be_snoc mult.commute)
qed (simp add: from_be_def)

lemma be_bytes_from_be: "be_bytes (length bs) (from_be bs) = bs"
  by (induction bs rule: rev_induct) (simp_all add: from_be_snoc)

lemma u16_from_to [simp]: "u16_from_be_bytes (u16_to_be_bytes w) = unat w"
  by (simp add: u16_from_be_bytes_def u16_to_be_bytes_def from_be_be_bytes)

lemma u32_from_to [simp]: "u32_from_be_bytes (u32_to_be_bytes w) = unat w"
  by (simp add: u32_from_be_bytes_def u32_to_be_bytes_def from_be_be_bytes)

lemma u16_to_be_inj [simp]: "u16_to_be_bytes a = u16_to_be_bytes b \<longleftrightarrow> a = b"
  by (metis u16_from_to word_eq_iff_unsigned)

lemma u32_to_be_inj [simp]: "u32_to_be_bytes a = u32_to_be_bytes b \<longleftrightarrow> a = b"
  by (metis u32_from_to word_eq_iff_unsigned)

text \<open>One record as it is written.\<close>

definition ce_enc :: "string \<times> bytes \<Rightarrow> bytes" where
  "ce_enc r = u16_to_be_bytes (word_of_nat (length (fst r))) @ as_bytes (fst r) @
     u32_to_be_bytes (word_of_nat (length (snd r))) @ snd r"

definition ce_fits :: "string \<times> bytes \<Rightarrow> bool" where
  "ce_fits r \<longleftrightarrow> length (fst r) < 65536 \<and> length (snd r) < 4294967296"

lemma length_ce_enc [simp]: "length (ce_enc (l, v)) = 6 + length l + length v"
  by (simp add: ce_enc_def)

lemma ce_v1_bytes_Cons:
  "ce_v1_bytes (r # rs) =
     (if ce_fits r then map_option ((@) (ce_enc r)) (ce_v1_bytes rs) else None)"
  by (cases r; cases "ce_v1_bytes rs")
    (simp_all add: u16_try_from_def u32_try_from_def ce_fits_def ce_enc_def)

lemma ce_v1_bytes_eq:
  "ce_v1_bytes rs = (if list_all ce_fits rs then Some (concat (map ce_enc rs)) else None)"
  by (induction rs) (simp_all add: ce_v1_bytes_Cons del: ce_v1_bytes.simps(2))

lemma ce_enc_prefix_free:
  assumes "ce_fits a" "ce_fits b" "ce_enc a @ x = ce_enc b @ y"
  shows "a = b \<and> x = y"
proof -
  obtain la va where a: "a = (la, va)" by (cases a)
  obtain lb vb where b: "b = (lb, vb)" by (cases b)
  from assms(3) have "u16_to_be_bytes (word_of_nat (length la)) = u16_to_be_bytes (word_of_nat (length lb))"
    and tl: "as_bytes la @ u32_to_be_bytes (word_of_nat (length va)) @ va @ x =
      as_bytes lb @ u32_to_be_bytes (word_of_nat (length vb)) @ vb @ y"
    by (simp_all add: a b ce_enc_def append_eq_append_conv)
  then have "length la = length lb"
    using assms(1,2) by (metis a b ce_fits_def fst_conv u16_to_be_inj word_of_nat_u16)
  with tl have l: "la = lb"
    and tl2: "u32_to_be_bytes (word_of_nat (length va)) @ va @ x =
      u32_to_be_bytes (word_of_nat (length vb)) @ vb @ y"
    by (simp_all add: append_eq_append_conv)
  then have "u32_to_be_bytes (word_of_nat (length va)) = u32_to_be_bytes (word_of_nat (length vb))"
    and tl3: "va @ x = vb @ y"
    by (simp_all add: append_eq_append_conv)
  then have "length va = length vb"
    using assms(1,2) by (metis a b ce_fits_def snd_conv u32_to_be_inj word_of_nat_u32)
  with tl3 l show ?thesis by (simp add: a b append_eq_append_conv)
qed

lemma concat_ce_enc_inj:
  assumes "list_all ce_fits rs" "list_all ce_fits qs" "concat (map ce_enc rs) = concat (map ce_enc qs)"
  shows "rs = qs"
  using assms
proof (induction rs arbitrary: qs)
  case Nil
  then show ?case by (cases qs) (auto simp: ce_enc_def u16_to_be_bytes_def numeral_2_eq_2)
next
  case (Cons r rs)
  show ?case
  proof (cases qs)
    case Nil
    with Cons.prems show ?thesis by (auto simp: ce_enc_def u16_to_be_bytes_def numeral_2_eq_2)
  next
    case (Cons q qs')
    with Cons.prems have "r = q \<and> concat (map ce_enc rs) = concat (map ce_enc qs')"
      by (intro ce_enc_prefix_free) simp_all
    with Cons Cons.IH Cons.prems show ?thesis by simp
  qed
qed

section \<open>The reader\<close>

lemma take_bytes_iff:
  "take_bytes bs c n = Inr (v, c') \<longleftrightarrow>
     c + n < 2 ^ 64 \<and> c + n \<le> length bs \<and> v = take n (drop c bs) \<and> c' = c + n"
  by (auto simp: take_bytes_def)

lemma take_bytes_cursor:
  assumes "take_bytes bs c n = Inr (v, c')"
  shows "length v = n" "c' = c + n" "c' \<le> length bs"
  using assms unfolding take_bytes_iff by auto

lemma take_bytes_split: "take_bytes bs c n = Inr (v, c') \<Longrightarrow> drop c bs = v @ drop c' bs"
proof -
  assume "take_bytes bs c n = Inr (v, c')"
  then have "v = take n (drop c bs)" "drop c' bs = drop n (drop c bs)"
    by (auto simp: take_bytes_iff add.commute)
  then show ?thesis by (simp only: append_take_drop_id)
qed

lemma take_bytes_at:
  "length pre = c \<Longrightarrow> length v = n \<Longrightarrow> c + n < 2 ^ 64 \<Longrightarrow>
     take_bytes (pre @ v @ suf) c n = Inr (v, c + n)"
  by (auto simp: take_bytes_iff)

lemma from_utf8_as_bytes: "utf8_valid (as_bytes l) \<Longrightarrow> from_utf8 (as_bytes l) = Some l"
  by (simp add: from_utf8_def)

lemma ce_record_at:
  assumes "ce_fits (l, v)" "utf8_valid (as_bytes l)"
    and "length pre + length (ce_enc (l, v)) < 2 ^ 64"
  shows "ce_record (pre @ ce_enc (l, v) @ suf) (length pre) =
    Inr ((l, v), length pre + length (ce_enc (l, v)))"
proof -
  let ?a = "u16_to_be_bytes (word_of_nat (length l))" and ?b = "as_bytes l"
  let ?c = "u32_to_be_bytes (word_of_nat (length v))"
  have eq: "pre @ ce_enc (l, v) @ suf = pre @ ?a @ ?b @ ?c @ v @ suf"
    by (simp add: ce_enc_def)
  have un: "unat (word_of_nat (length l) :: u16) = length l" "unat (word_of_nat (length v) :: u32) = length v"
    using assms(1) by (simp_all add: ce_fits_def word_of_nat_u16 word_of_nat_u32)
  define c1 c2 c3 c4 where "c1 = length pre + 2" and "c2 = c1 + length l" and "c3 = c2 + 4"
    and "c4 = c3 + length v"
  note cs = c1_def c2_def c3_def c4_def
  let ?bs = "pre @ ?a @ ?b @ ?c @ v @ suf"
  have t1: "take_bytes ?bs (length pre) 2 = Inr (?a, c1)"
    using assms(3) unfolding cs by (intro take_bytes_at) simp_all
  have t2: "take_bytes ?bs c1 (length l) = Inr (?b, c2)"
    using take_bytes_at [of "pre @ ?a" c1 ?b "length l"] assms(3) by (simp add: cs)
  have t3: "take_bytes ?bs c2 4 = Inr (?c, c3)"
    using take_bytes_at [of "pre @ ?a @ ?b" c2 ?c 4] assms(3) by (simp add: cs)
  have t4: "take_bytes ?bs c3 (length v) = Inr (v, c4)"
    using take_bytes_at [of "pre @ ?a @ ?b @ ?c" c3 v "length v"] assms(3) by (simp add: cs)
  have "c4 = length pre + length (ce_enc (l, v))" by (simp add: cs)
  then show ?thesis
    unfolding eq by (simp add: ce_record_def t1 t2 t3 t4 un from_utf8_as_bytes assms(2))
qed

lemma u16_from_be_take:
  "length bs = 2 \<Longrightarrow> u16_to_be_bytes (word_of_nat (u16_from_be_bytes bs)) = bs \<and> u16_from_be_bytes bs < 65536"
  using from_be_less [of bs] be_bytes_from_be [of bs]
  by (simp add: u16_from_be_bytes_def u16_to_be_bytes_def word_of_nat_u16)

lemma u32_from_be_take:
  "length bs = 4 \<Longrightarrow> u32_to_be_bytes (word_of_nat (u32_from_be_bytes bs)) = bs \<and> u32_from_be_bytes bs < 4294967296"
  using from_be_less [of bs] be_bytes_from_be [of bs]
  by (simp add: u32_from_be_bytes_def u32_to_be_bytes_def word_of_nat_u32)

text \<open>What the reader accepts is the encoding of what it returns.\<close>

lemma ce_record_sound:
  assumes "ce_record bs c = Inr ((l, v), c')"
  shows "ce_fits (l, v) \<and> c' = c + length (ce_enc (l, v)) \<and> c' \<le> length bs \<and>
    take (length (ce_enc (l, v))) (drop c bs) = ce_enc (l, v)"
proof -
  from assms obtain a c1 b c2 d c3 where raw:
      "take_bytes bs c 2 = Inr (a, c1)" "take_bytes bs c1 (u16_from_be_bytes a) = Inr (b, c2)"
      "take_bytes bs c2 4 = Inr (d, c3)" "take_bytes bs c3 (u32_from_be_bytes d) = Inr (v, c')"
    and ut: "from_utf8 b = Some l"
    by (auto simp: ce_record_def result_iffs)
  then have "c1 = c + 2" "c2 = c1 + u16_from_be_bytes a" "c3 = c2 + 4"
    by (simp_all add: take_bytes_iff)
  with raw have t: "take_bytes bs c 2 = Inr (a, c + 2)"
       "take_bytes bs (c + 2) (u16_from_be_bytes a) = Inr (b, c + 2 + u16_from_be_bytes a)"
       "take_bytes bs (c + 2 + u16_from_be_bytes a) 4 = Inr (d, c + 2 + u16_from_be_bytes a + 4)"
       "take_bytes bs (c + 2 + u16_from_be_bytes a + 4) (u32_from_be_bytes d) = Inr (v, c')"
    by simp_all
  define n m where "n = u16_from_be_bytes a" and "m = u32_from_be_bytes d"
  have la: "length a = 2" "length d = 4" "length b = n" "length v = m"
    using t [THEN take_bytes_cursor(1)] by (simp_all only: n_def m_def)
  have l: "l = bytes_to_str b" using ut by (simp add: from_utf8_def split: if_splits)
  have ll: "length l = n" using la by (simp add: l)
  have enc: "ce_enc (l, v) = a @ b @ d @ v"
    using u16_from_be_take [OF la(1)] u32_from_be_take [OF la(2)] la(4) ll
    by (simp add: ce_enc_def l n_def m_def)
  have ds: "drop c bs = a @ drop (c + 2) bs" "drop (c + 2) bs = b @ drop (c + 2 + n) bs"
    "drop (c + 2 + n) bs = d @ drop (c + 2 + n + 4) bs"
    "drop (c + 2 + n + 4) bs = v @ drop c' bs"
    using t [THEN take_bytes_split] by (simp_all only: n_def)
  have "drop c bs = ce_enc (l, v) @ drop c' bs"
    unfolding enc using ds by simp
  moreover have "ce_fits (l, v)"
    using u16_from_be_take [OF la(1)] u32_from_be_take [OF la(2)] ll la(4)
    by (simp add: ce_fits_def n_def m_def)
  moreover have "c' = c + length (ce_enc (l, v))" "c' \<le> length bs"
    using take_bytes_cursor(2,3) [OF t(4)] ll la unfolding enc n_def [symmetric] m_def [symmetric]
    by simp_all
  ultimately show ?thesis by simp
qed

section \<open>Properties of the encoding\<close>

text \<open>The canonical encoding is unambiguous: two record lists with the same bytes are the
  same list of labels and values, in the same order.\<close>

theorem ce_v1_injective:
  assumes "ce_v1_bytes rs = Some bs" "ce_v1_bytes qs = Some bs"
  shows "rs = qs"
  using assms by (auto simp: ce_v1_bytes_eq intro: concat_ce_enc_inj split: if_splits)

definition demo_ce :: ce_records where
  "demo_ce = [(''a'', [1, 2])]"

lemma demo_ce_bytes: "ce_v1_bytes demo_ce = Some [0, 1, 97, 0, 0, 0, 2, 1, 2]"
proof -
  have "ce_enc (''a'', [1, 2]) = [0, 1, 97, 0, 0, 0, 2, 1, 2]" by code_simp
  then show ?thesis by (simp add: demo_ce_def ce_v1_bytes_eq ce_fits_def)
qed

theorem ce_v1_injective_witness: "demo_ce = [(''a'', [1, 2])]"
  by (rule ce_v1_injective [OF demo_ce_bytes demo_ce_bytes [unfolded demo_ce_def]])

text \<open>The reader of the proof module inverts the writer of the receipts module: wherever a
  record with a UTF-8 label stands in a buffer, \<open>record\<close> returns exactly that record and
  moves the cursor to the byte after it.\<close>

theorem ce_record_reads_back:
  assumes "ce_v1_bytes [(l, v)] = Some enc" "utf8_valid (as_bytes l)" "length pre + length enc < 2 ^ 64"
  shows "ce_record (pre @ enc @ suf) (length pre) = Inr ((l, v), length pre + length enc)"
  using assms ce_record_at [of l v pre suf] by (auto simp: ce_v1_bytes_eq split: if_splits)

theorem ce_record_reads_back_witness:
  "ce_record [9, 0, 1, 97, 0, 0, 0, 2, 1, 2, 5] 1 = Inr ((''a'', [1, 2]), 10)"
proof -
  have "utf8_valid (as_bytes ''a'')" by code_simp
  from ce_record_reads_back [OF demo_ce_bytes [unfolded demo_ce_def] this, of "[9]" "[5]"] show ?thesis by simp
qed

end
