(* ===== verification/Civil_Time.thy ===== *)
theory Civil_Time
  imports Hex_Codec
begin

text \<open>
  Calendar arithmetic: \<open>days_to_ymd\<close> and \<open>chrono_timestamp\<close> of \<open>ownership.rs\<close> (used
  for every timestamp the proxy writes) and the deadline validator of \<open>handlers.rs\<close>
  (\<open>is_valid_rfc3339_utc\<close>, \<open>rfc3339_utc_unix_seconds\<close>, \<open>days_from_civil\<close>). The two
  conversions are inverse to each other, and a canonical timestamp survives the round trip.
\<close>

section \<open>Unix days to a civil date (\<open>ownership.rs\<close>)\<close>

definition year_of_era :: "nat \<Rightarrow> nat" where
  "year_of_era doe = (doe - doe div 1460 + doe div 36524 - doe div 146096) div 365"

definition days_to_ymd :: "nat \<Rightarrow> nat \<times> nat \<times> nat" where
  "days_to_ymd days =
     (let days = days + 719468;
          era = days div 146097;
          doe = days - era * 146097;
          yoe = year_of_era doe;
          y = yoe + era * 400;
          doy = doe - (365 * yoe + yoe div 4 - yoe div 100);
          mp = (5 * doy + 2) div 153;
          d = doy - (153 * mp + 2) div 5 + 1;
          m = (if mp < 10 then mp + 3 else mp - 9);
          y = (if m \<le> 2 then y + 1 else y)
      in (y, m, d))"

text \<open>The timestamp of a time since the epoch, in seconds and microseconds.\<close>

definition chrono_timestamp :: "nat \<Rightarrow> nat \<Rightarrow> string" where
  "chrono_timestamp secs micros =
     (let days = secs div 86400;
          time_of_day = secs mod 86400;
          hours = time_of_day div 3600;
          minutes = (time_of_day mod 3600) div 60;
          seconds = time_of_day mod 60;
          (year, month, day) = days_to_ymd days
      in show_padded 4 year @ ''-'' @ show_padded 2 month @ ''-'' @ show_padded 2 day @ ''T'' @
         show_padded 2 hours @ '':'' @ show_padded 2 minutes @ '':'' @ show_padded 2 seconds @ ''.'' @
         show_padded 6 micros @ ''+00:00'')"

section \<open>A civil date to Unix days (\<open>handlers.rs\<close>)\<close>

text \<open>Rust's \<open>/\<close> on \<open>i64\<close> truncates.\<close>

definition i64_div :: "int \<Rightarrow> int \<Rightarrow> int" where
  "i64_div a b = sgn a * sgn b * (\<bar>a\<bar> div \<bar>b\<bar>)"

definition days_from_civil :: "int \<Rightarrow> int \<Rightarrow> int \<Rightarrow> int" where
  "days_from_civil year month day =
     (let y = (if month \<le> 2 then year - 1 else year);
          era = i64_div (if 0 \<le> y then y else y - 399) 400;
          year_of_era = y - era * 400;
          month_shifted = (if 2 < month then month - 3 else month + 9);
          day_of_year = i64_div (153 * month_shifted + 2) 5 + day - 1;
          day_of_era = year_of_era * 365 + i64_div year_of_era 4 - i64_div year_of_era 100 + day_of_year
      in era * 146097 + day_of_era - 719468)"

definition is_leap_year :: "nat \<Rightarrow> bool" where
  "is_leap_year year \<longleftrightarrow> (year mod 4 = 0 \<and> year mod 100 \<noteq> 0) \<or> year mod 400 = 0"

definition days_in_month :: "nat \<Rightarrow> nat \<Rightarrow> nat" where
  "days_in_month year month =
     (if month \<in> {1, 3, 5, 7, 8, 10, 12} then 31
      else if month \<in> {4, 6, 9, 11} then 30
      else if month = 2 then (if is_leap_year year then 29 else 28)
      else 0)"

text \<open>A \<open>u32\<close> accumulator: \<open>checked_mul\<close> and \<open>checked_add\<close> give \<open>None\<close> on overflow.\<close>

fun ascii_digits_from :: "nat \<Rightarrow> bytes \<Rightarrow> nat option" where
  "ascii_digits_from v [] = Some v"
| "ascii_digits_from v (byte # rest) =
     (if \<not> (48 \<le> byte \<and> byte \<le> 57) then None
      else if v * 10 < 2 ^ 32 \<and> v * 10 + unat (byte - 48) < 2 ^ 32
        then ascii_digits_from (v * 10 + unat (byte - 48)) rest
        else None)"

definition ascii_digits :: "bytes \<Rightarrow> nat option" where
  "ascii_digits bs = ascii_digits_from 0 bs"

abbreviation slice :: "'a list \<Rightarrow> nat \<Rightarrow> nat \<Rightarrow> 'a list" where
  "slice xs a b \<equiv> take (b - a) (drop a xs)"

definition is_valid_rfc3339_utc :: "string \<Rightarrow> bool" where
  "is_valid_rfc3339_utc val =
     (let bs = as_bytes val in
      if length bs \<noteq> 20 \<or> bs ! 19 \<noteq> 90 then False
      else if bs ! 4 \<noteq> 45 \<or> bs ! 7 \<noteq> 45 \<or> bs ! 10 \<noteq> 84 \<or> bs ! 13 \<noteq> 58 \<or> bs ! 16 \<noteq> 58 then False
      else case (ascii_digits (slice bs 0 4), ascii_digits (slice bs 5 7), ascii_digits (slice bs 8 10)) of
        (Some year, Some month, Some day) \<Rightarrow>
          (case (ascii_digits (slice bs 11 13), ascii_digits (slice bs 14 16), ascii_digits (slice bs 17 19)) of
             (Some hour, Some minute, Some second) \<Rightarrow>
               (if \<not> (1 \<le> month \<and> month \<le> 12) \<or> day = 0 \<or> days_in_month year month < day then False
                else hour \<le> 23 \<and> minute \<le> 59 \<and> second \<le> 59)
           | _ \<Rightarrow> False)
      | _ \<Rightarrow> False)"

definition rfc3339_utc_unix_seconds :: "string \<Rightarrow> int option" where
  "rfc3339_utc_unix_seconds val =
     (if \<not> is_valid_rfc3339_utc val then None
      else let bs = as_bytes val in
        case (ascii_digits (slice bs 0 4), ascii_digits (slice bs 5 7), ascii_digits (slice bs 8 10),
              ascii_digits (slice bs 11 13), ascii_digits (slice bs 14 16), ascii_digits (slice bs 17 19)) of
          (Some year, Some month, Some day, Some hour, Some minute, Some second) \<Rightarrow>
            Some (days_from_civil (int year) (int month) (int day) * 86400 + int hour * 3600
                  + int minute * 60 + int second)
        | _ \<Rightarrow> None)"

section \<open>The year within an era\<close>

text \<open>Day number, in an era of 400 years that starts on 1 March, of the first and last day of
  year \<open>k\<close>, over the integers; year \<open>k\<close> ends with the February of civil year \<open>k + 1\<close>.\<close>

definition year_start :: "int \<Rightarrow> int" where
  "year_start k = 365 * k + k div 4 - k div 100"

definition year_end :: "int \<Rightarrow> int" where
  "year_end k = (if k = 399 then 146096 else year_start (k + 1) - 1)"

definition day_weight :: "int \<Rightarrow> int" where
  "day_weight d = d - d div 1460 + d div 36524 - d div 146096"

definition leap :: "int \<Rightarrow> bool" where
  "leap y \<longleftrightarrow> (y mod 4 = 0 \<and> y mod 100 \<noteq> 0) \<or> y mod 400 = 0"

lemma year_bounds_all:
  "list_all (\<lambda>k. day_weight (year_start k) div 365 = k \<and> day_weight (year_end k) div 365 = k \<and>
     year_end k = year_start k + (if leap (k + 1) then 365 else 364)) [0..399]"
  by code_simp

lemma year_bounds:
  assumes "0 \<le> k" "k \<le> 399"
  shows "day_weight (year_start k) div 365 = k" "day_weight (year_end k) div 365 = k"
    "year_end k = year_start k + (if leap (k + 1) then 365 else 364)"
proof -
  from assms have "k \<in> set [0..399]" by simp
  with year_bounds_all show "day_weight (year_start k) div 365 = k" "day_weight (year_end k) div 365 = k"
    "year_end k = year_start k + (if leap (k + 1) then 365 else 364)"
    unfolding list_all_iff by blast+
qed

lemma div_succ:
  fixes n d :: int
  assumes "0 < n"
  shows "(d + 1) div n = (if (d + 1) mod n = 0 then d div n + 1 else d div n)"
proof -
  define q r where "q = (d + 1) div n" and "r = (d + 1) mod n"
  have e: "d + 1 = n * q + r" "0 \<le> r" "r < n" using assms by (simp_all add: q_def r_def)
  show ?thesis
  proof (cases "r = 0")
    case True
    then have "d = n * (q - 1) + (n - 1)" using e by (simp add: algebra_simps)
    then have "d div n = q - 1" using assms by simp
    then show ?thesis using True by (simp add: q_def r_def)
  next
    case False
    then have "d = n * q + (r - 1)" using e by simp
    moreover have "(n * q + (r - 1)) div n = q + (r - 1) div n" using assms by simp
    moreover have "(r - 1) div n = 0" using e(2,3) False by (intro div_pos_pos_trivial) auto
    ultimately have "d div n = q" by simp
    then show ?thesis using False by (simp add: q_def r_def)
  qed
qed

lemma day_weight_succ: "day_weight d \<le> day_weight (d + 1)"
proof -
  have "(36524 :: int) dvd 146096" by simp
  then have "(d + 1) mod 146096 = 0 \<Longrightarrow> (d + 1) mod 36524 = 0"
    by (metis dvd_eq_mod_eq_0 dvd_trans)
  then show ?thesis
    by (simp add: day_weight_def div_succ [of 1460] div_succ [of 36524] div_succ [of 146096])
qed

lemma day_weight_mono: "a \<le> b \<Longrightarrow> day_weight a \<le> day_weight b"
proof (induction b rule: int_ge_induct [where k = a])
  case (step b)
  then show ?case using day_weight_succ [of b] by linarith
qed simp

lemma year_of_day:
  assumes "0 \<le> k" "k \<le> 399" "year_start k \<le> d" "d \<le> year_end k"
  shows "day_weight d div 365 = k"
proof -
  have "day_weight (year_start k) \<le> day_weight d" "day_weight d \<le> day_weight (year_end k)"
    using assms by (simp_all add: day_weight_mono)
  then have "day_weight (year_start k) div 365 \<le> day_weight d div 365"
    "day_weight d div 365 \<le> day_weight (year_end k) div 365"
    by (simp_all add: zdiv_mono1)
  with year_bounds [OF assms(1,2)] show ?thesis by simp
qed

text \<open>Every day of an era lies in exactly one of its years.\<close>

lemma year_cover:
  assumes "0 \<le> d" "d \<le> 146096"
  obtains k where "0 \<le> k" "k \<le> 399" "year_start k \<le> d" "d \<le> year_end k"
proof -
  have ex: "\<exists>k. 0 \<le> k \<and> k \<le> int n \<and> year_start k \<le> d \<and> d \<le> year_end k"
    if "n \<le> 399" "d \<le> year_end (int n)" for n :: nat
    using that
  proof (induction n)
    case 0
    then show ?case using assms by (intro exI [of _ 0]) (simp add: year_start_def)
  next
    case (Suc n)
    show ?case
    proof (cases "d \<le> year_end (int n)")
      case True
      with Suc obtain k where "0 \<le> k \<and> k \<le> int n \<and> year_start k \<le> d \<and> d \<le> year_end k" by auto
      then show ?thesis by (intro exI [of _ k]) simp
    next
      case False
      then have "year_start (int (Suc n)) \<le> d"
        using Suc.prems(1) by (simp add: year_end_def add.commute)
      with Suc.prems show ?thesis by (intro exI [of _ "int (Suc n)"]) simp
    qed
  qed
  have "d \<le> year_end (int 399)" using assms by (simp add: year_end_def)
  from ex [OF order_refl this] that show thesis by auto
qed

lemma int_year_of_era:
  assumes "d < 146097"
  shows "int (year_of_era d) = day_weight (int d) div 365"
proof -
  have "d div 1460 \<le> d" by simp
  moreover have "d div 146096 \<le> d div 36524" by (rule div_le_mono2) simp_all
  ultimately show ?thesis
    by (simp add: year_of_era_def day_weight_def of_nat_diff zdiv_int algebra_simps)
qed

lemma year_start_nat: "int (365 * k + k div 4 - k div 100) = year_start (int k)"
proof -
  have "k div 100 \<le> k" by simp
  then have "k div 100 \<le> 365 * k + k div 4" by linarith
  then show ?thesis by (simp add: year_start_def of_nat_diff zdiv_int)
qed

text \<open>The split of a day of an era into year and day of the year.\<close>

lemma era_split:
  assumes "doe < 146097"
  defines "yoe \<equiv> year_of_era doe"
  shows "yoe < 400" "365 * yoe + yoe div 4 - yoe div 100 \<le> doe"
    "doe - (365 * yoe + yoe div 4 - yoe div 100) \<le> (if is_leap_year (yoe + 1) then 365 else 364)"
proof -
  obtain k where k: "0 \<le> k" "k \<le> 399" "year_start k \<le> int doe" "int doe \<le> year_end k"
    using year_cover [of "int doe"] assms by auto
  have yk: "int yoe = k"
    using int_year_of_era [OF assms(1)] year_of_day [OF k] by (simp add: yoe_def)
  then show "yoe < 400" using k by linarith
  have st: "int (365 * yoe + yoe div 4 - yoe div 100) = year_start k"
    by (simp only: year_start_nat yk)
  with k show le: "365 * yoe + yoe div 4 - yoe div 100 \<le> doe" by linarith
  have lp: "leap (k + 1) = is_leap_year (yoe + 1)"
    unfolding leap_def is_leap_year_def yk [symmetric] by presburger
  show "doe - (365 * yoe + yoe div 4 - yoe div 100) \<le> (if is_leap_year (yoe + 1) then 365 else 364)"
    using k st le year_bounds(3) [OF k(1,2)] lp by (auto split: if_splits)
qed

lemma era_join:
  assumes "yoe < 400" "doy \<le> (if is_leap_year (yoe + 1) then 365 else 364)"
  shows "year_of_era (365 * yoe + yoe div 4 - yoe div 100 + doy) = yoe"
    "365 * yoe + yoe div 4 - yoe div 100 + doy < 146097"
proof -
  let ?d = "365 * yoe + yoe div 4 - yoe div 100 + doy"
  have lp: "leap (int yoe + 1) = is_leap_year (yoe + 1)"
    unfolding leap_def is_leap_year_def by presburger
  have d: "int ?d = year_start (int yoe) + int doy"
    by (simp only: of_nat_add year_start_nat)
  have b: "year_end (int yoe) = year_start (int yoe) + (if is_leap_year (yoe + 1) then 365 else 364)"
    using year_bounds(3) [of "int yoe"] assms(1) lp by simp
  have e: "int ?d \<le> year_end (int yoe)"
    using assms(2) unfolding d b by (auto split: if_splits)
  have "year_end (int yoe) \<le> 146096"
  proof (cases "yoe = 399")
    case False
    then have "yoe + 1 \<le> 399" using assms(1) by linarith
    then have "(int yoe + 1) div 4 \<le> 99" "0 \<le> (int yoe + 1) div 100" "int yoe + 1 \<le> 399" by simp_all
    moreover have "b \<le> 99 \<Longrightarrow> 0 \<le> c \<Longrightarrow> a \<le> 399 \<Longrightarrow> 365 * a + b - c \<le> 146096" for a b c :: int
      by linarith
    ultimately have "year_start (int yoe + 1) \<le> 146096" unfolding year_start_def by blast
    then show ?thesis by (simp add: year_end_def)
  qed (simp add: year_end_def)
  with e show lt: "?d < 146097" by linarith
  have "year_start (int yoe) \<le> int ?d" unfolding d by simp
  from year_of_day [OF _ _ this e] have "day_weight (int ?d) div 365 = int yoe"
    using assms(1) by simp
  then show "year_of_era ?d = yoe"
    using int_year_of_era [OF lt] by simp
qed

section \<open>The month within a year\<close>

text \<open>Months are counted from March, so that the leap day is the last day of the year.\<close>

definition month_length :: "bool \<Rightarrow> nat \<Rightarrow> nat" where
  "month_length lp mp = [31, 30, 31, 30, 31, 31, 30, 31, 30, 31, 31, if lp then 29 else 28] ! mp"

lemma month_split_all:
  "list_all (\<lambda>doy. let mp = (5 * doy + 2) div 153 in mp < 12 \<and> (153 * mp + 2) div 5 \<le> doy \<and>
     doy - (153 * mp + 2) div 5 < int (month_length (doy = 365) (nat mp))) [0..365 :: int]"
  by code_simp

lemma month_join_all:
  "list_all (\<lambda>mp. list_all (\<lambda>d. (5 * ((153 * mp + 2) div 5 + d) + 2) div 153 = mp \<and>
      (153 * mp + 2) div 5 + d \<le> 365 \<and> (mp = 11 \<longrightarrow> d < 28 \<longrightarrow> (153 * mp + 2) div 5 + d \<le> 364) \<and>
      (mp < 11 \<longrightarrow> (153 * mp + 2) div 5 + d \<le> 364))
     [0..int (month_length True (nat mp)) - 1]) [0..11 :: int]"
  by code_simp

lemma month_length_leap: "month_length False mp \<le> month_length True mp" if "mp < 12"
  using that by (auto simp: month_length_def less_Suc_eq numeral_nat)

lemma month_split:
  assumes "doy \<le> (if lp then 365 else 364)"
  defines "mp \<equiv> (5 * doy + 2) div 153"
  shows "mp < 12" "(153 * mp + 2) div 5 \<le> doy" "doy - (153 * mp + 2) div 5 < month_length lp mp"
proof -
  have mp: "(5 * int doy + 2) div 153 = int mp"
    by (simp add: mp_def zdiv_int)
  have fst_day: "(153 * int mp + 2) div 5 = int ((153 * mp + 2) div 5)"
    by (simp add: zdiv_int)
  have "int doy \<in> set [0..365]" using assms(1) by (auto split: if_splits)
  with month_split_all have a: "mp < 12" "(153 * mp + 2) div 5 \<le> doy"
      "doy - (153 * mp + 2) div 5 < month_length (doy = 365) mp"
    unfolding list_all_iff Let_def by (fastforce simp: mp fst_day)+
  then show "mp < 12" "(153 * mp + 2) div 5 \<le> doy" by blast+
  show "doy - (153 * mp + 2) div 5 < month_length lp mp"
    using a(3) assms(1) month_length_leap [OF a(1)] by (cases "doy = 365"; cases lp) auto
qed

lemma month_join:
  assumes "mp < 12" "d < month_length lp mp"
  shows "(5 * ((153 * mp + 2) div 5 + d) + 2) div 153 = mp"
    "(153 * mp + 2) div 5 + d \<le> (if lp then 365 else 364)"
proof -
  have d: "d < month_length True mp"
    using assms month_length_leap [OF assms(1)] by (cases lp) auto
  have mem: "int mp \<in> set [0..11]" "int d \<in> set [0..int (month_length True (nat (int mp))) - 1]"
    using assms(1) d by auto
  have fst_day: "(153 * int mp + 2) div 5 = int ((153 * mp + 2) div 5)"
    by (simp add: zdiv_int)
  have b: "(5 * (int ((153 * mp + 2) div 5) + int d) + 2) div 153 = int mp"
      "int ((153 * mp + 2) div 5) + int d \<le> 365"
      "mp = 11 \<longrightarrow> d < 28 \<longrightarrow> int ((153 * mp + 2) div 5) + int d \<le> 364"
      "mp < 11 \<longrightarrow> int ((153 * mp + 2) div 5) + int d \<le> 364"
    using month_join_all [unfolded list_all_iff, rule_format, OF mem]
    by (simp_all add: fst_day)
  have "int ((5 * ((153 * mp + 2) div 5 + d) + 2) div 153) = int mp"
    using b(1) by (simp add: zdiv_int)
  then show "(5 * ((153 * mp + 2) div 5 + d) + 2) div 153 = mp" by linarith
  have "lp \<or> mp < 11 \<or> mp = 11 \<and> d < 28"
    using assms by (cases "mp = 11") (auto simp: month_length_def split: if_splits)
  with b(2-4) show "(153 * mp + 2) div 5 + d \<le> (if lp then 365 else 364)" by (auto split: if_splits)
qed

section \<open>Round trips\<close>

text \<open>The civil date of day \<open>d\<close> (from zero) of month \<open>mp\<close> (from March) of year \<open>yoe\<close> of an
  era, and its Unix day plus the days from 0000-03-01 to the epoch.\<close>

definition civil :: "nat \<Rightarrow> nat \<Rightarrow> nat \<Rightarrow> nat \<Rightarrow> nat \<times> nat \<times> nat" where
  "civil era yoe mp d = (yoe + era * 400 + (if mp < 10 then 0 else 1), if mp < 10 then mp + 3 else mp - 9, d + 1)"

definition day_number :: "nat \<Rightarrow> nat \<Rightarrow> nat \<Rightarrow> nat \<Rightarrow> nat" where
  "day_number era yoe mp d =
     era * 146097 + (365 * yoe + yoe div 4 - yoe div 100 + ((153 * mp + 2) div 5 + d))"

definition in_civil :: "nat \<Rightarrow> nat \<Rightarrow> nat \<Rightarrow> bool" where
  "in_civil yoe mp d \<longleftrightarrow> yoe < 400 \<and> mp < 12 \<and> d < month_length (is_leap_year (yoe + 1)) mp"

lemma days_to_ymd_day_number:
  assumes "in_civil yoe mp d" "n + 719468 = day_number era yoe mp d"
  shows "days_to_ymd n = civil era yoe mp d"
proof -
  let ?doy = "(153 * mp + 2) div 5 + d" and ?st = "365 * yoe + yoe div 4 - yoe div 100"
  have lt: "yoe < 400" and mp: "mp < 12" and d: "d < month_length (is_leap_year (yoe + 1)) mp"
    using assms(1) by (simp_all add: in_civil_def)
  note j = month_join [OF mp d]
  note e = era_join [OF lt j(2)]
  define st doy where "st = ?st" and "doy = ?doy"
  have n: "n + 719468 = era * 146097 + (st + doy)"
    using assms(2) unfolding day_number_def st_def doy_def .
  have lt: "st + doy < 146097" and y: "year_of_era (st + doy) = yoe"
    using e unfolding st_def doy_def by blast+
  have m: "(5 * doy + 2) div 153 = mp" "doy - (153 * mp + 2) div 5 = d"
    using j(1) by (simp_all only: doy_def diff_add_inverse)
  have "(n + 719468) div 146097 = era" using lt by (simp add: n)
  then have "days_to_ymd n =
      (let m' = if mp < 10 then mp + 3 else mp - 9;
           y' = yoe + era * 400 in (if m' \<le> 2 then y' + 1 else y', m', d + 1))"
    unfolding days_to_ymd_def Let_def by (simp only: n diff_add_inverse y st_def [symmetric] m)
  then show ?thesis
    using mp by (auto simp: civil_def Let_def)
qed

lemma i64_div_nonneg: "0 \<le> a \<Longrightarrow> 0 < b \<Longrightarrow> i64_div a b = a div b"
  by (cases "a = 0") (simp_all add: i64_div_def)

lemma days_from_civil_day_number:
  assumes "in_civil yoe mp d"
  shows "(case civil era yoe mp d of (y, m, dd) \<Rightarrow> days_from_civil (int y) (int m) (int dd)) =
    int (day_number era yoe mp d) - 719468"
proof -
  have lt: "yoe < 400" and mp: "mp < 12" using assms by (simp_all add: in_civil_def)
  define st md where "st = 365 * yoe + yoe div 4 - yoe div 100" and "md = (153 * mp + 2) div 5"
  have y: "(int yoe + int era * 400) div 400 = int era" using lt by simp
  have m: "(153 * int mp + 2) div 5 = int md" by (simp add: md_def zdiv_int)
  have s: "int yoe * 365 + int yoe div 4 - int yoe div 100 = int st"
    unfolding st_def by (simp only: year_start_nat) (simp add: year_start_def)
  have shift: "(if 2 < (if mp < 10 then int mp + 3 else int mp - 9)
      then (if mp < 10 then int mp + 3 else int mp - 9) - 3
      else (if mp < 10 then int mp + 3 else int mp - 9) + 9) = int mp"
    "((if mp < 10 then int mp + 3 else int mp - 9) \<le> 2) = (\<not> mp < 10)"
    using mp by auto
  have c: "civil era yoe mp d = (yoe + era * 400 + (if mp < 10 then 0 else 1), if mp < 10 then mp + 3 else mp - 9, d + 1)"
    by (simp add: civil_def)
  have im: "int (if mp < 10 then mp + 3 else mp - 9) = (if mp < 10 then int mp + 3 else int mp - 9)"
    using mp by auto
  have iy: "(if \<not> mp < 10 then int (yoe + era * 400 + (if mp < 10 then 0 else 1)) - 1
      else int (yoe + era * 400 + (if mp < 10 then 0 else 1))) = int yoe + int era * 400" by simp
  have "days_from_civil (int (yoe + era * 400 + (if mp < 10 then 0 else 1)))
      (int (if mp < 10 then mp + 3 else mp - 9)) (int (d + 1)) =
      int era * 146097 + ((int yoe * 365 + int yoe div 4 - int yoe div 100) + (int md + int d)) - 719468"
    unfolding days_from_civil_def Let_def im shift iy
    by (simp add: i64_div_nonneg y m)
  then show ?thesis
    unfolding c day_number_def st_def [symmetric] md_def [symmetric] s by simp
qed

lemma is_leap_year_era: "is_leap_year (yoe + era * 400 + 1) = is_leap_year (yoe + 1)"
proof -
  have "yoe + era * 400 + 1 = yoe + 1 + 4 * (100 * era)" "yoe + era * 400 + 1 = yoe + 1 + 100 * (4 * era)"
    "yoe + era * 400 + 1 = yoe + 1 + 400 * era" by simp_all
  then have "(yoe + era * 400 + 1) mod 4 = (yoe + 1) mod 4" "(yoe + era * 400 + 1) mod 100 = (yoe + 1) mod 100"
    "(yoe + era * 400 + 1) mod 400 = (yoe + 1) mod 400" by (metis mod_mult_self2)+
  then show ?thesis by (simp only: is_leap_year_def)
qed

lemma month_length_days_in_month:
  assumes "mp < 12" "civil era yoe mp d = (y, m, dd)"
  shows "days_in_month y m = month_length (is_leap_year (yoe + 1)) mp"
proof -
  have "mp = 0 \<or> mp = 1 \<or> mp = 2 \<or> mp = 3 \<or> mp = 4 \<or> mp = 5 \<or> mp = 6 \<or> mp = 7 \<or> mp = 8 \<or>
      mp = 9 \<or> mp = 10 \<or> mp = 11"
    using assms(1) by presburger
  moreover have "y = yoe + era * 400 + (if mp < 10 then 0 else 1)" "m = (if mp < 10 then mp + 3 else mp - 9)"
    using assms(2) by (simp_all add: civil_def)
  ultimately show ?thesis
    using is_leap_year_era [of yoe era]
    by (elim disjE) (simp_all add: days_in_month_def month_length_def)
qed

lemma days_in_month_civil:
  "in_civil yoe mp d \<Longrightarrow> civil era yoe mp d = (y, m, dd) \<Longrightarrow>
     1 \<le> m \<and> m \<le> 12 \<and> 1 \<le> dd \<and> dd \<le> days_in_month y m"
  using month_length_days_in_month [of mp era yoe d y m dd]
  by (auto simp: in_civil_def civil_def split: if_splits)

lemma day_number_of:
  obtains era yoe mp d where "in_civil yoe mp d" "n + 719468 = day_number era yoe mp d"
proof -
  define era doe where "era = (n + 719468) div 146097" and "doe = (n + 719468) mod 146097"
  have n: "n + 719468 = era * 146097 + doe" and lt: "doe < 146097"
    unfolding era_def doe_def by (simp_all only: div_mult_mod_eq mod_less_divisor zero_less_numeral)
  note e = era_split [OF lt]
  define yoe where "yoe = year_of_era doe"
  define st where "st = 365 * yoe + yoe div 4 - yoe div 100"
  define mp where "mp = (5 * (doe - st) + 2) div 153"
  have st: "st \<le> doe" and doy: "doe - st \<le> (if is_leap_year (yoe + 1) then 365 else 364)"
    using e(2,3) unfolding st_def yoe_def by blast+
  note m = month_split [OF doy, folded mp_def]
  show thesis
  proof (rule that)
    show "in_civil yoe mp (doe - st - (153 * mp + 2) div 5)"
      using e(1) m by (simp add: in_civil_def yoe_def)
    show "n + 719468 = day_number era yoe mp (doe - st - (153 * mp + 2) div 5)"
      unfolding day_number_def n st_def [symmetric] using st m(2) by simp
  qed
qed

lemma civil_of:
  assumes "1 \<le> m" "m \<le> 12" "1 \<le> dd" "dd \<le> days_in_month y m" "1 \<le> y"
  obtains era yoe mp d where "in_civil yoe mp d" "civil era yoe mp d = (y, m, dd)"
proof -
  define y' mp where "y' = (if m \<le> 2 then y - 1 else y)" and "mp = (if 2 < m then m - 3 else m + 9)"
  have c: "civil (y' div 400) (y' mod 400) mp (dd - 1) = (y, m, dd)" and mp: "mp < 12"
    using assms by (auto simp: civil_def y'_def mp_def)
  show thesis
  proof (rule that [OF _ c])
    show "in_civil (y' mod 400) mp (dd - 1)"
      using assms(3,4) mp month_length_days_in_month [OF mp c] by (simp add: in_civil_def)
  qed
qed

text \<open>From a day number to a date and back, and from a date to a day number and back.\<close>

lemma days_from_civil_days_to_ymd:
  assumes "days_to_ymd n = (y, m, d)"
  shows "days_from_civil (int y) (int m) (int d) = int n" "1 \<le> m" "m \<le> 12" "1 \<le> d" "d \<le> days_in_month y m"
proof -
  obtain era yoe mp dd where c: "in_civil yoe mp dd" and n: "n + 719468 = day_number era yoe mp dd"
    by (rule day_number_of)
  have e: "civil era yoe mp dd = (y, m, d)"
    using days_to_ymd_day_number [OF c n] assms by simp
  show "days_from_civil (int y) (int m) (int d) = int n"
    using days_from_civil_day_number [OF c, of era] by (simp add: e n [symmetric])
  show "1 \<le> m" "m \<le> 12" "1 \<le> d" "d \<le> days_in_month y m"
    using days_in_month_civil [OF c e] by blast+
qed

lemma days_to_ymd_days_from_civil:
  assumes "1 \<le> m" "m \<le> 12" "1 \<le> d" "d \<le> days_in_month y m" "1 \<le> y"
    and "0 \<le> days_from_civil (int y) (int m) (int d)"
  shows "days_to_ymd (nat (days_from_civil (int y) (int m) (int d))) = (y, m, d)"
proof -
  obtain era yoe mp dd where c: "in_civil yoe mp dd" and e: "civil era yoe mp dd = (y, m, d)"
    using civil_of [OF assms(1-5)] .
  have v: "days_from_civil (int y) (int m) (int d) = int (day_number era yoe mp dd) - 719468"
    using days_from_civil_day_number [OF c, of era] by (simp add: e)
  then have "nat (days_from_civil (int y) (int m) (int d)) + 719468 = day_number era yoe mp dd"
    using assms(6) by linarith
  from days_to_ymd_day_number [OF c this] show ?thesis by (simp add: e)
qed

section \<open>Properties of the calendar\<close>

text \<open>C17. The two calendar routines are inverse to each other: the timestamp writer's
  \<open>days_to_ymd\<close> gives a real civil date that the deadline reader's \<open>days_from_civil\<close> maps
  back to the day it came from, and every real date from 1970 on survives the opposite trip.\<close>

theorem calendar_roundtrip:
  assumes "1 \<le> m" "m \<le> 12" "1 \<le> d" "d \<le> days_in_month y m" "1 \<le> y"
    and "0 \<le> days_from_civil (int y) (int m) (int d)"
  shows "days_to_ymd (nat (days_from_civil (int y) (int m) (int d))) = (y, m, d) \<and>
    (case days_to_ymd n of (y', m', d') \<Rightarrow> days_from_civil (int y') (int m') (int d') = int n \<and>
       1 \<le> m' \<and> m' \<le> 12 \<and> 1 \<le> d' \<and> d' \<le> days_in_month y' m')"
  using days_to_ymd_days_from_civil [OF assms] days_from_civil_days_to_ymd [of n]
  by (auto split: prod.split)

theorem calendar_roundtrip_witness: "days_to_ymd 19782 = (2024, 2, 29)"
proof -
  have "days_from_civil 2024 2 29 = 19782" by (simp add: days_from_civil_def i64_div_def)
  then show ?thesis using calendar_roundtrip [of 2 29 2024]
    by (simp add: days_in_month_def is_leap_year_def)
qed

end
