(* ===== verification/Ownership.thy ===== *)
theory Ownership
  imports Json
begin

text \<open>
  The ownership state machine of \<open>ownership.rs\<close>: \<open>OwnershipGuard\<close> holds a mode, the
  signal directory and, behind a mutex, an \<open>OwnershipMachine\<close>. Every method that locks the
  machine is one atomic function on the guard here, with the value of \<open>Instant::now()\<close> as an
  argument, so a run of concurrent requests is a sequence of these functions (theory
  \<open>Ownership_Runs\<close>). The key derivation and the signal files are in \<open>Owner_Crypto\<close> and
  \<open>Handoff\<close>.
\<close>

section \<open>Constants\<close>

definition UNLOCK_MAX_ATTEMPTS :: nat where
  "UNLOCK_MAX_ATTEMPTS = 5"

definition UNLOCK_WINDOW_SECONDS :: nat where
  "UNLOCK_WINDOW_SECONDS = 60"

definition BOOTSTRAP_CHALLENGE_MAX_ACTIVE :: nat where
  "BOOTSTRAP_CHALLENGE_MAX_ACTIVE = 32"

definition SIGNAL_KEY_FILE :: string where
  "SIGNAL_KEY_FILE = ''key''"

definition SIGNAL_UNLOCKED_FILE :: string where
  "SIGNAL_UNLOCKED_FILE = ''unlocked''"

definition SIGNAL_ERROR_FILE :: string where
  "SIGNAL_ERROR_FILE = ''error''"

definition HANDOFF_DEFAULT_TIMEOUT_SECONDS :: nat where
  "HANDOFF_DEFAULT_TIMEOUT_SECONDS = 900"

definition SIGNAL_APP_DATA_SLOT :: string where
  "SIGNAL_APP_DATA_SLOT = ''app-data''"

definition SIGNAL_TLS_DATA_SLOT :: string where
  "SIGNAL_TLS_DATA_SLOT = ''tls-data''"

section \<open>Data\<close>

datatype ownership_mode = Legacy | Level1 | Password | AutoUnlock

definition parse_mode :: "string \<Rightarrow> ownership_mode" where
  "parse_mode mode =
     (if mode = ''level1'' then Level1
      else if mode = ''password'' then Password
      else if mode = ''level2'' \<or> mode = ''auto-unlock'' then AutoUnlock
      else Legacy)"

fun mode_requires_manual_unlock :: "ownership_mode \<Rightarrow> bool" where
  "mode_requires_manual_unlock Level1 = True"
| "mode_requires_manual_unlock Password = True"
| "mode_requires_manual_unlock AutoUnlock = True"
| "mode_requires_manual_unlock Legacy = False"

fun mode_name :: "ownership_mode \<Rightarrow> string" where
  "mode_name Legacy = ''legacy''"
| "mode_name Level1 = ''level1''"
| "mode_name Password = ''password''"
| "mode_name AutoUnlock = ''auto-unlock''"

datatype ownership_state = Unclaimed | Locked | Unlocking | Unlocked | Error

datatype ownership_error = RateLimited | NotLocked | PasswordRequired | WrongPassword
  | InstanceIdMissing | Timeout | UnlockAmbiguous string | Filesystem string | Kdf string
  | Envelope string | OwnerSeedUnavailable string | Store string

fun error_to_string :: "ownership_error \<Rightarrow> string" where
  "error_to_string RateLimited = ''rate_limited''"
| "error_to_string NotLocked = ''not_locked''"
| "error_to_string PasswordRequired = ''password_required''"
| "error_to_string WrongPassword = ''wrong_password''"
| "error_to_string InstanceIdMissing = ''instance_id_missing''"
| "error_to_string Timeout = ''timeout''"
| "error_to_string (UnlockAmbiguous d) = ''unlock_ambiguous: '' @ d"
| "error_to_string (Filesystem d) = ''filesystem_error: '' @ d"
| "error_to_string (Kdf d) = ''kdf_error: '' @ d"
| "error_to_string (Envelope d) = ''envelope_error: '' @ d"
| "error_to_string (OwnerSeedUnavailable d) = ''owner_seed_unavailable: '' @ d"
| "error_to_string (Store d) = ''storage_error: '' @ d"

fun is_reprobeable :: "ownership_error \<Rightarrow> bool" where
  "is_reprobeable (OwnerSeedUnavailable _) = True"
| "is_reprobeable _ = False"

record ownership_observation =
  encrypted_present :: bool
  sealed_present :: bool

datatype recovery_claim = UnlockReservation | ClaimUnclaimed | Conflict

datatype handoff_outcome = HandoffUnlocked | HandoffWrongPassword | HandoffFatal string
  | HandoffTimeout

record ownership_machine =
  m_state :: ownership_state
  m_error :: "string option"
  m_error_reprobeable :: bool
  m_attempts :: "instant list"
  m_unlock_generation :: u64

record ownership_guard =
  g_mode :: ownership_mode
  g_signal_dir :: string
  g_machine :: ownership_machine

abbreviation set_machine :: "ownership_guard \<Rightarrow> ownership_machine \<Rightarrow> ownership_guard" where
  "set_machine g m \<equiv> g\<lparr>g_machine := m\<rparr>"

section \<open>Construction\<close>

definition new_with_signal_dir :: "string \<Rightarrow> string \<Rightarrow> ownership_guard" where
  "new_with_signal_dir mode signal_dir =
     (let md = parse_mode mode;
          initial_state = (if mode_requires_manual_unlock md then Locked else Unlocked)
      in \<lparr>g_mode = md, g_signal_dir = signal_dir,
          g_machine = \<lparr>m_state = initial_state, m_error = None, m_error_reprobeable = False,
            m_attempts = [], m_unlock_generation = 0\<rparr>\<rparr>)"

definition guard_new :: "string \<Rightarrow> ownership_guard" where
  "guard_new mode = new_with_signal_dir mode ''/run/ownership-signal''"

section \<open>The attempt budget\<close>

text \<open>\<open>now.duration_since(front)\<close> saturates at zero, as natural subtraction does.\<close>

definition attempt_expired :: "instant \<Rightarrow> instant \<Rightarrow> bool" where
  "attempt_expired now front \<longleftrightarrow> from_secs UNLOCK_WINDOW_SECONDS \<le> now - front"

definition prune_expired_attempts :: "instant \<Rightarrow> ownership_machine \<Rightarrow> ownership_machine" where
  "prune_expired_attempts now m = m\<lparr>m_attempts := dropWhile (attempt_expired now) (m_attempts m)\<rparr>"

definition begin_secret_operation_attempt ::
  "instant \<Rightarrow> ownership_guard \<Rightarrow> (ownership_error + unit) \<times> ownership_guard" where
  "begin_secret_operation_attempt now g =
     (if \<not> mode_requires_manual_unlock (g_mode g) then (Inr (), g)
      else let m = prune_expired_attempts now (g_machine g) in
        if UNLOCK_MAX_ATTEMPTS \<le> length (m_attempts m) then (Inl RateLimited, set_machine g m)
        else (Inr (), set_machine g (m\<lparr>m_attempts := m_attempts m @ [now], m_error := None\<rparr>)))"

definition begin_unlock_attempt ::
  "instant \<Rightarrow> ownership_guard \<Rightarrow> (ownership_error + unit) \<times> ownership_guard" where
  "begin_unlock_attempt now g =
     (if \<not> mode_requires_manual_unlock (g_mode g) then (Inr (), g)
      else let m = prune_expired_attempts now (g_machine g) in
        if UNLOCK_MAX_ATTEMPTS \<le> length (m_attempts m) then (Inl RateLimited, set_machine g m)
        else if m_state m \<noteq> Locked then (Inl NotLocked, set_machine g m)
        else (Inr (), set_machine g (m\<lparr>m_attempts := m_attempts m @ [now],
               m_unlock_generation := m_unlock_generation m + 1,
               m_state := Unlocking, m_error := None\<rparr>)))"

section \<open>Recovery\<close>

definition claim_recovered_state ::
  "u64 \<Rightarrow> ownership_observation \<Rightarrow> ownership_guard \<Rightarrow> recovery_claim \<times> ownership_guard" where
  "claim_recovered_state generation observation g =
     (let m = g_machine g in
      if encrypted_present observation \<or> sealed_present observation then
        (if m_state m = Locked then
           (UnlockReservation, set_machine g (m\<lparr>m_unlock_generation := m_unlock_generation m + 1,
              m_state := Unlocking, m_error := None\<rparr>))
         else (Conflict, g))
      else if m_state m = Unlocking \<and> m_unlock_generation m = generation then
        (ClaimUnclaimed, set_machine g (m\<lparr>m_state := Unclaimed, m_error := None, m_attempts := []\<rparr>))
      else (Conflict, g))"

definition begin_recovery_from_error ::
  "instant \<Rightarrow> ownership_guard \<Rightarrow> (ownership_error + u64) \<times> ownership_guard" where
  "begin_recovery_from_error now g =
     (let m = prune_expired_attempts now (g_machine g) in
      if UNLOCK_MAX_ATTEMPTS \<le> length (m_attempts m) then (Inl RateLimited, set_machine g m)
      else if m_state m \<noteq> Error \<or> \<not> m_error_reprobeable m then (Inl NotLocked, set_machine g m)
      else let m' = m\<lparr>m_attempts := m_attempts m @ [now],
                      m_unlock_generation := m_unlock_generation m + 1, m_state := Unlocking\<rparr>
           in (Inr (m_unlock_generation m'), set_machine g m'))"

definition begin_recovery_verification ::
  "ownership_guard \<Rightarrow> (ownership_error + unit) \<times> ownership_guard" where
  "begin_recovery_verification g =
     (let m = g_machine g in
      if \<not> (m_state m = Locked \<or> m_state m = Unclaimed) then (Inl NotLocked, g)
      else (Inr (), set_machine g (m\<lparr>m_unlock_generation := m_unlock_generation m + 1,
             m_state := Unlocking, m_error := None\<rparr>)))"

section \<open>State setters\<close>

definition set_locked_after_retry :: "ownership_guard \<Rightarrow> ownership_guard" where
  "set_locked_after_retry g = set_machine g ((g_machine g)\<lparr>m_state := Locked, m_error := None\<rparr>)"

definition set_locked :: "ownership_guard \<Rightarrow> ownership_guard" where
  "set_locked g = set_machine g ((g_machine g)\<lparr>m_state := Locked, m_error := None\<rparr>)"

definition set_unclaimed :: "ownership_guard \<Rightarrow> ownership_guard" where
  "set_unclaimed g =
     set_machine g ((g_machine g)\<lparr>m_state := Unclaimed, m_error := None, m_attempts := []\<rparr>)"

definition set_unclaimed_preserving_attempts :: "ownership_guard \<Rightarrow> ownership_guard" where
  "set_unclaimed_preserving_attempts g =
     set_machine g ((g_machine g)\<lparr>m_state := Unclaimed, m_error := None\<rparr>)"

definition set_unlocking :: "ownership_guard \<Rightarrow> ownership_guard" where
  "set_unlocking g = set_machine g ((g_machine g)\<lparr>
     m_unlock_generation := m_unlock_generation (g_machine g) + 1,
     m_state := Unlocking, m_error := None\<rparr>)"

definition set_unlocked :: "ownership_guard \<Rightarrow> ownership_guard" where
  "set_unlocked g = set_machine g ((g_machine g)\<lparr>m_state := Unlocked, m_error := None\<rparr>)"

definition set_error :: "string \<Rightarrow> ownership_guard \<Rightarrow> ownership_guard" where
  "set_error e g = set_machine g ((g_machine g)\<lparr>m_state := Error, m_error := Some e,
     m_error_reprobeable := False\<rparr>)"

definition set_ownership_error :: "ownership_error \<Rightarrow> ownership_guard \<Rightarrow> ownership_guard" where
  "set_ownership_error e g = set_machine g ((g_machine g)\<lparr>m_state := Error,
     m_error := Some (error_to_string e), m_error_reprobeable := is_reprobeable e\<rparr>)"

definition restore_reprobeable_error_if_unlocking :: "u64 \<Rightarrow> ownership_guard \<Rightarrow> ownership_guard" where
  "restore_reprobeable_error_if_unlocking generation g =
     (let m = g_machine g in
      if m_state m \<noteq> Unlocking \<or> m_unlock_generation m \<noteq> generation then g
      else set_machine g (m\<lparr>m_state := Error,
        m_error := Some (error_to_string (OwnerSeedUnavailable ''recovery_cancelled'')),
        m_error_reprobeable := True\<rparr>))"

section \<open>Observers\<close>

definition current_state :: "ownership_guard \<Rightarrow> ownership_state" where
  "current_state g = m_state (g_machine g)"

definition error_is_reprobeable :: "ownership_guard \<Rightarrow> bool" where
  "error_is_reprobeable g \<longleftrightarrow> m_state (g_machine g) = Error \<and> m_error_reprobeable (g_machine g)"

definition is_level1 :: "ownership_guard \<Rightarrow> bool" where
  "is_level1 g \<longleftrightarrow> g_mode g = Level1"

definition is_password_mode :: "ownership_guard \<Rightarrow> bool" where
  "is_password_mode g \<longleftrightarrow> g_mode g = Password"

definition is_auto_unlock_mode :: "ownership_guard \<Rightarrow> bool" where
  "is_auto_unlock_mode g \<longleftrightarrow> g_mode g = AutoUnlock"

definition requires_manual_unlock :: "ownership_guard \<Rightarrow> bool" where
  "requires_manual_unlock g = mode_requires_manual_unlock (g_mode g)"

definition is_unclaimed :: "ownership_guard \<Rightarrow> bool" where
  "is_unclaimed g \<longleftrightarrow> current_state g = Unclaimed"

definition is_unlocking :: "ownership_guard \<Rightarrow> bool" where
  "is_unlocking g \<longleftrightarrow> current_state g = Unlocking"

definition is_locked :: "ownership_guard \<Rightarrow> bool" where
  "is_locked g \<longleftrightarrow> current_state g = Locked"

definition is_unlocked :: "ownership_guard \<Rightarrow> bool" where
  "is_unlocked g \<longleftrightarrow> current_state g = Unlocked"

fun state_name :: "ownership_state \<Rightarrow> string" where
  "state_name Unclaimed = ''unclaimed''"
| "state_name Locked = ''locked''"
| "state_name Unlocking = ''unlocking''"
| "state_name Unlocked = ''unlocked''"
| "state_name Error = ''error''"

definition state_json :: "ownership_guard \<Rightarrow> json" where
  "state_json g =
     (if \<not> mode_requires_manual_unlock (g_mode g) then JObj [(''error'', JStr ''not_found'')]
      else JObj [(''state'', JStr (state_name (m_state (g_machine g)))),
                 (''mode'', JStr (mode_name (g_mode g))),
                 (''error'', jopt_str (m_error (g_machine g))),
                 (''auto_unlock_enabled'', JBool False)])"

definition health_status :: "string \<Rightarrow> ownership_guard \<Rightarrow> nat \<times> json" where
  "health_status timestamp g =
     (if \<not> mode_requires_manual_unlock (g_mode g) then
        (200, JObj [(''status'', JStr ''ok''), (''service'', JStr ''attestation-proxy''),
                    (''timestamp'', JStr timestamp)])
      else
        let st = m_state (g_machine g);
            (status, code) = (case st of Unlocked \<Rightarrow> (''ok'', 200)
                              | Unclaimed \<Rightarrow> (''unclaimed'', 200) | _ \<Rightarrow> (''locked'', 423))
        in (code, JObj [(''status'', JStr status), (''state'', JStr (state_name st)),
                        (''service'', JStr ''attestation-proxy''), (''timestamp'', JStr timestamp),
                        (''auto_unlock_enabled'', JBool False)]))"

section \<open>The request gate\<close>

definition ALLOWED_PATHS :: "string list" where
  "ALLOWED_PATHS =
    [''/health'', ''/v1/attestation'', ''/.well-known/confidential/attestation'',
     ''/.well-known/confidential/proof-bundle'', ''/unlock'', ''/.well-known/confidential/unlock'',
     ''/change-password'', ''/.well-known/confidential/change-password'', ''/recover'',
     ''/.well-known/confidential/recover'', ''/enable-auto-unlock'',
     ''/.well-known/confidential/enable-auto-unlock'', ''/disable-auto-unlock'',
     ''/.well-known/confidential/disable-auto-unlock'',
     ''/.well-known/confidential/bootstrap/challenge'',
     ''/.well-known/confidential/bootstrap/claim'', ''/.well-known/confidential/logs'',
     ''/status'', ''/.well-known/confidential/status'']"

definition is_tls_seed_cdh_path :: "string \<Rightarrow> bool" where
  "is_tls_seed_cdh_path path \<longleftrightarrow> starts_with ''/cdh/resource/default/'' path \<and>
     ends_with ''-tls/workload-secret-seed'' path \<and> \<not> contains ''/../'' path"

definition should_gate :: "ownership_guard \<Rightarrow> string \<Rightarrow> bool" where
  "should_gate g path =
     (if \<not> mode_requires_manual_unlock (g_mode g) then False
      else if is_tls_seed_cdh_path path then False
      else if current_state g = Unlocked then False
      else path \<notin> set ALLOWED_PATHS)"

lemmas setter_defs [machine_defs] = set_locked_after_retry_def set_locked_def set_unclaimed_def
  set_unclaimed_preserving_attempts_def set_unlocking_def set_unlocked_def set_error_def
  set_ownership_error_def

lemmas begin_defs [machine_defs] = begin_secret_operation_attempt_def begin_unlock_attempt_def
  begin_recovery_from_error_def begin_recovery_verification_def claim_recovered_state_def
  restore_reprobeable_error_if_unlocking_def prune_expired_attempts_def

lemmas observer_defs = current_state_def error_is_reprobeable_def is_level1_def is_password_mode_def
  is_auto_unlock_mode_def requires_manual_unlock_def is_unclaimed_def is_unlocking_def is_locked_def
  is_unlocked_def

section \<open>Frame facts\<close>

lemma prune_frame [simp]:
  "m_state (prune_expired_attempts now m) = m_state m"
  "m_error (prune_expired_attempts now m) = m_error m"
  "m_error_reprobeable (prune_expired_attempts now m) = m_error_reprobeable m"
  "m_unlock_generation (prune_expired_attempts now m) = m_unlock_generation m"
  by (simp_all add: prune_expired_attempts_def)

lemma prune_attempts:
  "m_attempts (prune_expired_attempts now m) = dropWhile (attempt_expired now) (m_attempts m)"
  by (simp add: prune_expired_attempts_def)

lemma setter_mode [simp]:
  "g_mode (set_locked_after_retry g) = g_mode g" "g_mode (set_locked g) = g_mode g"
  "g_mode (set_unclaimed g) = g_mode g" "g_mode (set_unclaimed_preserving_attempts g) = g_mode g"
  "g_mode (set_unlocking g) = g_mode g" "g_mode (set_unlocked g) = g_mode g"
  "g_mode (set_error e g) = g_mode g" "g_mode (set_ownership_error oe g) = g_mode g"
  "g_mode (restore_reprobeable_error_if_unlocking n g) = g_mode g"
  by (simp_all add: machine_defs Let_def)

lemma begin_mode [simp]:
  "g_mode (snd (begin_secret_operation_attempt now g)) = g_mode g"
  "g_mode (snd (begin_unlock_attempt now g)) = g_mode g"
  "g_mode (snd (begin_recovery_from_error now g)) = g_mode g"
  "g_mode (snd (begin_recovery_verification g)) = g_mode g"
  "g_mode (snd (claim_recovered_state n obs g)) = g_mode g"
  by (simp_all add: machine_defs Let_def)

lemma setter_state [simp]:
  "current_state (set_locked_after_retry g) = Locked" "current_state (set_locked g) = Locked"
  "current_state (set_unclaimed g) = Unclaimed"
  "current_state (set_unclaimed_preserving_attempts g) = Unclaimed"
  "current_state (set_unlocking g) = Unlocking" "current_state (set_unlocked g) = Unlocked"
  "current_state (set_error e g) = Error" "current_state (set_ownership_error oe g) = Error"
  by (simp_all add: machine_defs current_state_def)

end
