(* ===== verification/Ownership_Runs.thy ===== *)
theory Ownership_Runs
  imports Ownership
begin

text \<open>
  Concurrent requests on one \<open>OwnershipGuard\<close>. Each method holds the mutex for its whole
  body, so any interleaving of requests is a sequence of \<open>machine_op\<close>s. \<open>apply_op\<close> is one
  such step, \<open>run_ops\<close> a sequence, \<open>machine_step\<close> the step relation with the monotonic
  clock of \<open>Instant\<close>, and \<open>reachable_machine\<close> its reachable states. The lemmas give the
  invariant of the attempt budget, the sliding-window bound on accepted attempts, the
  exclusiveness of the \<open>Unlocking\<close> reservation and the identity of a reservation by its
  generation.
\<close>

section \<open>Operations as steps\<close>

datatype machine_op = SecretAttempt instant | UnlockAttempt instant
  | ClaimRecovered u64 ownership_observation | RecoveryFromError instant | RecoveryVerification
  | SetLockedAfterRetry | SetLocked | SetUnclaimed | SetUnclaimedPreserving | SetUnlocking
  | SetUnlocked | SetError string | SetOwnershipError ownership_error | RestoreReprobeable u64

fun apply_op :: "machine_op \<Rightarrow> ownership_guard \<Rightarrow> ownership_guard" where
  "apply_op (SecretAttempt now) g = snd (begin_secret_operation_attempt now g)"
| "apply_op (UnlockAttempt now) g = snd (begin_unlock_attempt now g)"
| "apply_op (ClaimRecovered n obs) g = snd (claim_recovered_state n obs g)"
| "apply_op (RecoveryFromError now) g = snd (begin_recovery_from_error now g)"
| "apply_op RecoveryVerification g = snd (begin_recovery_verification g)"
| "apply_op SetLockedAfterRetry g = set_locked_after_retry g"
| "apply_op SetLocked g = set_locked g"
| "apply_op SetUnclaimed g = set_unclaimed g"
| "apply_op SetUnclaimedPreserving g = set_unclaimed_preserving_attempts g"
| "apply_op SetUnlocking g = set_unlocking g"
| "apply_op SetUnlocked g = set_unlocked g"
| "apply_op (SetError e) g = set_error e g"
| "apply_op (SetOwnershipError e) g = set_ownership_error e g"
| "apply_op (RestoreReprobeable n) g = restore_reprobeable_error_if_unlocking n g"

fun run_ops :: "machine_op list \<Rightarrow> ownership_guard \<Rightarrow> ownership_guard" where
  "run_ops [] g = g"
| "run_ops (x # xs) g = run_ops xs (apply_op x g)"

text \<open>The clock reading an operation makes.\<close>

fun op_time :: "machine_op \<Rightarrow> instant option" where
  "op_time (SecretAttempt now) = Some now"
| "op_time (UnlockAttempt now) = Some now"
| "op_time (RecoveryFromError now) = Some now"
| "op_time _ = None"

text \<open>Whether an operation charges the attempt budget.\<close>

fun charges :: "machine_op \<Rightarrow> ownership_guard \<Rightarrow> bool" where
  "charges (SecretAttempt now) g =
     (requires_manual_unlock g \<and> is_ok (fst (begin_secret_operation_attempt now g)))"
| "charges (UnlockAttempt now) g =
     (requires_manual_unlock g \<and> is_ok (fst (begin_unlock_attempt now g)))"
| "charges (RecoveryFromError now) g = is_ok (fst (begin_recovery_from_error now g))"
| "charges _ g = False"

text \<open>Whether it empties the budget's window (the two transitions to a fresh unclaimed pod).\<close>

fun clears :: "machine_op \<Rightarrow> ownership_guard \<Rightarrow> bool" where
  "clears SetUnclaimed g = True"
| "clears (ClaimRecovered n obs) g = (fst (claim_recovered_state n obs g) = ClaimUnclaimed)"
| "clears _ g = False"

text \<open>Whether it takes the \<open>Unlocking\<close> reservation.\<close>

fun reserves :: "machine_op \<Rightarrow> ownership_guard \<Rightarrow> bool" where
  "reserves (UnlockAttempt now) g =
     (requires_manual_unlock g \<and> is_ok (fst (begin_unlock_attempt now g)))"
| "reserves (RecoveryFromError now) g = is_ok (fst (begin_recovery_from_error now g))"
| "reserves RecoveryVerification g = is_ok (fst (begin_recovery_verification g))"
| "reserves (ClaimRecovered n obs) g = (fst (claim_recovered_state n obs g) = UnlockReservation)"
| "reserves SetUnlocking g = True"
| "reserves _ g = False"

inductive machine_step ::
  "instant \<times> ownership_guard \<Rightarrow> machine_op \<Rightarrow> instant \<times> ownership_guard \<Rightarrow> bool" where
  timed: "op_time x = Some t \<Longrightarrow> clk \<le> t \<Longrightarrow> machine_step (clk, g) x (t, apply_op x g)"
| untimed: "op_time x = None \<Longrightarrow> machine_step (clk, g) x (clk, apply_op x g)"

inductive_cases machine_stepE: "machine_step (clk, g) x (clk', g')"

inductive reachable_machine :: "ownership_guard \<Rightarrow> instant \<times> ownership_guard \<Rightarrow> bool" for g0 where
  start: "reachable_machine g0 (clk, g0)"
| step: "reachable_machine g0 s \<Longrightarrow> machine_step s x s' \<Longrightarrow> reachable_machine g0 s'"

section \<open>The attempt budget\<close>

definition budget_inv :: "instant \<times> ownership_guard \<Rightarrow> bool" where
  "budget_inv s \<longleftrightarrow> length (m_attempts (g_machine (snd s))) \<le> UNLOCK_MAX_ATTEMPTS \<and>
     sorted (m_attempts (g_machine (snd s))) \<and> (\<forall>t\<in>set (m_attempts (g_machine (snd s))). t \<le> fst s)"

lemma attempt_expired_antimono:
  "attempt_expired now y \<Longrightarrow> x \<le> y \<Longrightarrow> attempt_expired now x"
  by (auto simp: attempt_expired_def)

lemma attempt_expired_mono: "attempt_expired clk x \<Longrightarrow> clk \<le> now \<Longrightarrow> attempt_expired now x"
  by (auto simp: attempt_expired_def)

lemma dropWhile_expired:
  "sorted xs \<Longrightarrow> dropWhile (attempt_expired now) xs = filter (\<lambda>x. \<not> attempt_expired now x) xs"
proof (induction xs)
  case (Cons x xs)
  show ?case
  proof (cases "attempt_expired now x")
    case False
    then have "\<forall>y\<in>set xs. \<not> attempt_expired now y"
      using Cons.prems attempt_expired_antimono by (auto simp del: not_le)
    with False show ?thesis by simp
  qed (use Cons in simp)
qed simp

text \<open>What each operation does to the recorded attempts.\<close>

lemma charges_attempts:
  "charges x g \<Longrightarrow> op_time x = Some now \<Longrightarrow> m_attempts (g_machine (apply_op x g)) =
     dropWhile (attempt_expired now) (m_attempts (g_machine g)) @ [now]"
  by (cases x) (auto simp: machine_defs Let_def requires_manual_unlock_def split: if_splits)

lemma refused_attempts:
  "\<not> charges x g \<Longrightarrow> op_time x = Some now \<Longrightarrow>
     m_attempts (g_machine (apply_op x g)) = m_attempts (g_machine g) \<or>
     m_attempts (g_machine (apply_op x g)) = dropWhile (attempt_expired now) (m_attempts (g_machine g))"
  by (cases x) (auto simp: machine_defs Let_def requires_manual_unlock_def)

lemma untimed_attempts:
  "op_time x = None \<Longrightarrow> m_attempts (g_machine (apply_op x g)) =
     (if clears x g then [] else m_attempts (g_machine g))"
  by (cases x) (auto simp: machine_defs Let_def)

lemma charges_room:
  "charges x g \<Longrightarrow> op_time x = Some now \<Longrightarrow>
     length (dropWhile (attempt_expired now) (m_attempts (g_machine g))) < UNLOCK_MAX_ATTEMPTS"
  by (cases x) (auto simp: machine_defs Let_def requires_manual_unlock_def split: if_splits)

lemma machine_step_budget_inv:
  assumes "machine_step s x s'" "budget_inv s"
  shows "budget_inv s'"
proof -
  obtain clk g where s: "s = (clk, g)" by (cases s)
  let ?a = "m_attempts (g_machine g)"
  have inv: "length ?a \<le> UNLOCK_MAX_ATTEMPTS" "sorted ?a" "\<forall>t\<in>set ?a. t \<le> clk"
    using assms(2) by (simp_all add: s budget_inv_def)
  from assms(1)[unfolded s] show ?thesis
  proof cases
    case (timed t)
    let ?d = "dropWhile (attempt_expired t) ?a"
    have le: "\<forall>u\<in>set ?d. u \<le> t" "\<forall>u\<in>set ?a. u \<le> t"
      using inv(3) timed(3) by (auto dest!: set_dropWhileD)
    have len: "length ?d \<le> length ?a" by (simp add: length_dropWhile_le)
    have srt: "sorted ?d" using inv(2) by (rule sorted_dropWhile)
    show ?thesis
    proof (cases "charges x g")
      case True
      then show ?thesis
        using timed le srt charges_room [OF True timed(2)]
        by (simp add: budget_inv_def charges_attempts [OF True timed(2)] sorted_append)
    next
      case False
      then show ?thesis
        using refused_attempts [OF False timed(2)] timed inv le len srt
        by (auto simp: budget_inv_def)
    qed
  next
    case untimed
    with inv show ?thesis
      by (simp add: budget_inv_def untimed_attempts [OF untimed(2)])
  qed
qed

lemma reachable_budget_inv:
  assumes "reachable_machine g0 s" "m_attempts (g_machine g0) = []"
  shows "budget_inv s"
  using assms(1)
proof (induction rule: reachable_machine.induct)
  case (start clk)
  then show ?case by (simp add: budget_inv_def assms(2))
next
  case (step s x s')
  then show ?case by (blast intro: machine_step_budget_inv)
qed

section \<open>The sliding window\<close>

text \<open>The times at which a run charges the budget, and runs with a monotonic clock that
  never empty the window.\<close>

fun charge_log :: "machine_op list \<Rightarrow> ownership_guard \<Rightarrow> instant list" where
  "charge_log [] g = []"
| "charge_log (x # xs) g =
     (if charges x g then [the (op_time x)] else []) @ charge_log xs (apply_op x g)"

fun clock_ok :: "instant \<Rightarrow> machine_op list \<Rightarrow> bool" where
  "clock_ok clk [] = True"
| "clock_ok clk (x # xs) =
     (case op_time x of None \<Rightarrow> clock_ok clk xs | Some t \<Rightarrow> clk \<le> t \<and> clock_ok t xs)"

fun never_clears :: "machine_op list \<Rightarrow> ownership_guard \<Rightarrow> bool" where
  "never_clears [] g = True"
| "never_clears (x # xs) g = (\<not> clears x g \<and> never_clears xs (apply_op x g))"

definition in_window :: "instant \<Rightarrow> instant \<Rightarrow> bool" where
  "in_window t x \<longleftrightarrow> t \<le> x \<and> x < t + from_secs UNLOCK_WINDOW_SECONDS"

definition window_ok :: "instant list \<Rightarrow> bool" where
  "window_ok lg \<longleftrightarrow> (\<forall>t. length (filter (in_window t) lg) \<le> UNLOCK_MAX_ATTEMPTS)"

text \<open>The attempts on record are the charges of the last window.\<close>

definition tracks :: "instant \<Rightarrow> instant list \<Rightarrow> instant list \<Rightarrow> bool" where
  "tracks clk lg atts \<longleftrightarrow> filter (\<lambda>x. \<not> attempt_expired clk x) lg =
     filter (\<lambda>x. \<not> attempt_expired clk x) atts \<and> (\<forall>x\<in>set lg. x \<le> clk)"

lemma tracks_mono:
  assumes "tracks clk lg atts" "clk \<le> now"
  shows "tracks now lg atts"
proof -
  have "filter (\<lambda>x. \<not> attempt_expired now x) xs =
      filter (\<lambda>x. \<not> attempt_expired now x) (filter (\<lambda>x. \<not> attempt_expired clk x) xs)" for xs
    using attempt_expired_mono [OF _ assms(2)] by (induction xs) auto
  with assms show ?thesis unfolding tracks_def by (metis order_trans)
qed

lemma tracks_prune: "tracks now lg atts \<Longrightarrow> sorted atts \<Longrightarrow>
    tracks now lg (dropWhile (attempt_expired now) atts)"
  by (simp add: tracks_def dropWhile_expired)

lemma window_ok_snoc:
  assumes "window_ok lg" "tracks now lg atts" "sorted atts"
    and "length (dropWhile (attempt_expired now) atts) < UNLOCK_MAX_ATTEMPTS"
  shows "window_ok (lg @ [now])"
  unfolding window_ok_def
proof
  fix t
  show "length (filter (in_window t) (lg @ [now])) \<le> UNLOCK_MAX_ATTEMPTS"
  proof (cases "in_window t now")
    case False
    with assms(1) show ?thesis by (simp add: window_ok_def)
  next
    case True
    then have sub: "in_window t x \<Longrightarrow> x \<le> now \<Longrightarrow> \<not> attempt_expired now x" for x
      by (auto simp: in_window_def attempt_expired_def)
    have "length (filter (in_window t) lg) \<le> length (filter (\<lambda>x. \<not> attempt_expired now x) lg)"
      using assms(2) sub unfolding tracks_def by (intro length_filter_mono) blast
    also have "\<dots> < UNLOCK_MAX_ATTEMPTS"
      using assms(2-4) by (simp add: tracks_def dropWhile_expired)
    finally show ?thesis using True by simp
  qed
qed

lemma tracks_charge: "tracks now lg atts \<Longrightarrow> sorted atts \<Longrightarrow>
    tracks now (lg @ [now]) (dropWhile (attempt_expired now) atts @ [now])"
  by (auto simp: tracks_def dropWhile_expired)

lemma charge_log_window:
  assumes "budget_inv (clk, g)" "tracks clk lg (m_attempts (g_machine g))" "window_ok lg"
    and "clock_ok clk ops" "never_clears ops g"
  shows "window_ok (lg @ charge_log ops g)"
  using assms
proof (induction ops arbitrary: clk g lg)
  case Nil
  then show ?case by simp
next
  case (Cons x ops)
  let ?a = "m_attempts (g_machine g)" and ?g = "apply_op x g"
  have srt: "sorted ?a" using Cons.prems(1) by (simp add: budget_inv_def)
  show ?case
  proof (cases "op_time x")
    case None
    with Cons.prems(5) have "m_attempts (g_machine ?g) = ?a" by (simp add: untimed_attempts)
    moreover have "budget_inv (clk, ?g)"
      using machine_step.untimed [OF None] Cons.prems(1) by (rule machine_step_budget_inv)
    moreover have "\<not> charges x g" using None by (cases x) auto
    ultimately show ?thesis
      using Cons.IH [of clk ?g lg] Cons.prems None by simp
  next
    case (Some now)
    let ?d = "dropWhile (attempt_expired now) ?a"
    from Cons.prems(4) Some have le: "clk \<le> now" and ck: "clock_ok now ops" by simp_all
    have inv: "budget_inv (now, ?g)"
      using machine_step.timed [of x now clk g] Some le machine_step_budget_inv Cons.prems(1) by blast
    have tr: "tracks now lg ?a" using Cons.prems(2) le by (rule tracks_mono)
    show ?thesis
    proof (cases "charges x g")
      case True
      with Some have att: "m_attempts (g_machine ?g) = ?d @ [now]"
        by (simp add: charges_attempts)
      have "window_ok (lg @ [now])"
        using Cons.prems(3) tr srt charges_room [OF True Some] by (rule window_ok_snoc)
      then have "window_ok ((lg @ [now]) @ charge_log ops ?g)"
        using Cons.IH [OF inv, of "lg @ [now]"] tracks_charge [OF tr srt] att ck Cons.prems(5) by simp
      with True Some show ?thesis by simp
    next
      case False
      then have "m_attempts (g_machine ?g) = ?a \<or> m_attempts (g_machine ?g) = ?d"
        using Some by (rule refused_attempts)
      then have "tracks now lg (m_attempts (g_machine ?g))"
        using tr tracks_prune [OF tr srt] by auto
      with Cons.IH [OF inv] False Cons.prems(3,5) ck show ?thesis by simp
    qed
  qed
qed

section \<open>Reservations\<close>

lemma apply_op_generation:
  "m_unlock_generation (g_machine (apply_op x g)) =
     m_unlock_generation (g_machine g) + (if reserves x g then 1 else 0)"
  by (cases x) (simp_all add: machine_defs Let_def requires_manual_unlock_def)

fun reservations :: "machine_op list \<Rightarrow> ownership_guard \<Rightarrow> nat" where
  "reservations [] g = 0"
| "reservations (x # xs) g = (if reserves x g then 1 else 0) + reservations xs (apply_op x g)"

lemma run_ops_generation:
  "m_unlock_generation (g_machine (run_ops ops g)) =
     m_unlock_generation (g_machine g) + of_nat (reservations ops g)"
  by (induction ops arbitrary: g) (simp_all add: apply_op_generation algebra_simps)

lemma reservations_le: "reservations ops g \<le> length ops"
  by (induction ops arbitrary: g) (auto simp: le_SucI)

lemma reservations_0:
  "reservations ops g = 0 \<Longrightarrow> ops = pre @ x # post \<Longrightarrow> \<not> reserves x (run_ops pre g)"
  by (induction pre arbitrary: ops g) (auto split: if_splits)

lemma same_generation_no_reservation:
  assumes "length ops < 2 ^ 64"
    and "m_unlock_generation (g_machine (run_ops ops g)) = m_unlock_generation (g_machine g)"
  shows "reservations ops g = 0"
proof -
  have "reservations ops g < 2 ^ 64"
    using reservations_le [of ops g] assms(1) by linarith
  moreover have "(of_nat (reservations ops g) :: u64) = 0"
    using assms(2) by (simp add: run_ops_generation)
  ultimately show ?thesis
    using word_of_nat_u64 [of "reservations ops g"] by simp
qed

lemma run_ops_append: "run_ops (xs @ ys) g = run_ops ys (run_ops xs g)"
  by (induction xs arbitrary: g) simp_all

lemma apply_op_Unlocked:
  "current_state (apply_op x g) = Unlocked \<Longrightarrow> x = SetUnlocked \<or> current_state g = Unlocked"
  by (cases x) (auto simp: machine_defs Let_def current_state_def split: if_splits)

lemma run_ops_Unlocked:
  "current_state g \<noteq> Unlocked \<Longrightarrow> current_state (run_ops ops g) = Unlocked \<Longrightarrow> SetUnlocked \<in> set ops"
proof (induction ops arbitrary: g)
  case (Cons x ops)
  then show ?case using apply_op_Unlocked [of x g] by (cases "x = SetUnlocked") auto
qed simp

lemma apply_op_Unclaimed:
  "current_state (apply_op x g) = Unclaimed \<Longrightarrow> current_state g \<noteq> Unclaimed \<Longrightarrow>
     x = SetUnclaimed \<or> x = SetUnclaimedPreserving \<or>
     (\<exists>n obs. x = ClaimRecovered n obs \<and> \<not> encrypted_present obs \<and> \<not> sealed_present obs \<and>
        current_state g = Unlocking \<and> m_unlock_generation (g_machine g) = n)"
  by (cases x) (auto simp: machine_defs Let_def current_state_def split: if_splits)

lemma apply_op_mode [simp]: "g_mode (apply_op x g) = g_mode g"
  by (cases x) simp_all

lemma run_ops_mode [simp]: "g_mode (run_ops ops g) = g_mode g"
  by (induction ops arbitrary: g) simp_all

lemma reserves_needs_free:
  "reserves x g \<Longrightarrow> x \<noteq> SetUnlocking \<Longrightarrow> current_state g \<noteq> Unlocking"
  by (cases x) (auto simp: machine_defs Let_def current_state_def requires_manual_unlock_def split: if_splits)

lemma reserves_state: "reserves x g \<Longrightarrow> current_state (apply_op x g) = Unlocking"
  by (cases x) (auto simp: machine_defs Let_def current_state_def requires_manual_unlock_def split: if_splits)

lemma run_ops_leaves:
  "current_state g = Unlocking \<Longrightarrow> current_state (run_ops ops g) \<noteq> Unlocking \<Longrightarrow>
     \<exists>pre x post. ops = pre @ x # post \<and> current_state (run_ops pre g) = Unlocking \<and>
       current_state (apply_op x (run_ops pre g)) \<noteq> Unlocking"
proof (induction ops arbitrary: g)
  case (Cons y ops)
  show ?case
  proof (cases "current_state (apply_op y g) = Unlocking")
    case True
    with Cons obtain pre x post where "ops = pre @ x # post"
        "current_state (run_ops pre (apply_op y g)) = Unlocking"
        "current_state (apply_op x (run_ops pre (apply_op y g))) \<noteq> Unlocking" by fastforce
    then show ?thesis by (intro exI [of _ "y # pre"] exI [of _ x] exI [of _ post]) simp
  next
    case False
    with Cons.prems show ?thesis by (intro exI [of _ "[]"] exI [of _ y] exI [of _ ops]) simp
  qed
qed simp

section \<open>Properties of the ownership machine\<close>

text \<open>What evaluates a run on concrete values.\<close>

lemmas machine_eval = machine_defs Let_def guard_new_def new_with_signal_dir_def parse_mode_def
  current_state_def requires_manual_unlock_def attempt_expired_def UNLOCK_MAX_ATTEMPTS_def
  UNLOCK_WINDOW_SECONDS_def



text \<open>C2. In the modes that need an owner's secret the proxy never counts as unlocked unless a
  handler called \<open>set_unlocked\<close>: no other sequence of machine operations, whatever requests,
  recoveries and errors it stems from, reaches the \<open>Unlocked\<close> state from start-up.\<close>

theorem unlocked_only_by_set_unlocked:
  assumes "mode_requires_manual_unlock (parse_mode mode)"
    and "current_state (run_ops ops (new_with_signal_dir mode dir)) = Unlocked"
  shows "SetUnlocked \<in> set ops"
  using assms
  by (intro run_ops_Unlocked [of "new_with_signal_dir mode dir"])
    (simp_all add: new_with_signal_dir_def Let_def current_state_def)

theorem unlocked_only_by_set_unlocked_witness:
  "SetUnlocked \<in> set [UnlockAttempt 7, SetUnlocked]"
  by (rule unlocked_only_by_set_unlocked [of "''level2''" _ "''d''"]) (simp_all add: machine_eval)

text \<open>C10. The \<open>Unlocking\<close> reservation is exclusive: if an operation takes the reservation and a
  later one takes it again (other than the unguarded \<open>set_unlocking\<close>), some operation between
  them released it, i.e. took the machine out of \<open>Unlocking\<close>.\<close>

theorem reservation_exclusive:
  assumes "reserves x g" "reserves y (run_ops mid (apply_op x g))" "y \<noteq> SetUnlocking"
  shows "\<exists>pre z post. mid = pre @ z # post \<and> current_state (run_ops pre (apply_op x g)) = Unlocking \<and>
    current_state (apply_op z (run_ops pre (apply_op x g))) \<noteq> Unlocking"
  using run_ops_leaves [OF reserves_state [OF assms(1)] reserves_needs_free [OF assms(2,3)]] .

theorem reservation_exclusive_witness:
  "\<exists>pre z post. [SecretAttempt 2, SetLockedAfterRetry] = pre @ z # post \<and>
     current_state (run_ops pre (apply_op (UnlockAttempt 1) (guard_new ''password''))) = Unlocking \<and>
     current_state (apply_op z (run_ops pre (apply_op (UnlockAttempt 1) (guard_new ''password'')))) \<noteq> Unlocking"
  by (rule reservation_exclusive [where y = "UnlockAttempt 3"]) (simp_all add: machine_eval)

text \<open>C11. A recovery's cancel guard only ever undoes its own reservation. If a recovery reserved
  the machine at generation \<open>n\<close> and, after fewer than \<open>2 ^ 64\<close> machine operations of any
  requests, \<open>restore_reprobeable_error_if_unlocking n\<close> changes the machine, then the machine
  is still unlocking and no other operation took a reservation in between.\<close>

theorem cancel_guard_own_reservation:
  assumes "begin_recovery_from_error now g = (Inr n, g')" "length ops < 2 ^ 64"
    and "restore_reprobeable_error_if_unlocking n (run_ops ops g') \<noteq> run_ops ops g'"
  shows "current_state (run_ops ops g') = Unlocking \<and>
    (\<forall>pre x post. ops = pre @ x # post \<longrightarrow> \<not> reserves x (run_ops pre g'))"
proof -
  have n: "m_unlock_generation (g_machine g') = n"
    using assms(1) by (auto simp: begin_recovery_from_error_def Let_def split: if_splits)
  have r: "m_state (g_machine (run_ops ops g')) = Unlocking" "m_unlock_generation (g_machine (run_ops ops g')) = n"
    using assms(3) by (auto simp: restore_reprobeable_error_if_unlocking_def Let_def split: if_splits)
  have "reservations ops g' = 0"
    using same_generation_no_reservation [OF assms(2)] n r(2) by simp
  then show ?thesis using r(1) by (auto simp: current_state_def dest: reservations_0)
qed

definition reprobeable_guard :: ownership_guard where
  "reprobeable_guard = set_ownership_error (OwnerSeedUnavailable ''kbs'') (guard_new ''password'')"

theorem cancel_guard_own_reservation_witness:
  "current_state (run_ops [SecretAttempt 9] (snd (begin_recovery_from_error 5 reprobeable_guard))) = Unlocking \<and>
    \<not> reserves (SecretAttempt 9) (snd (begin_recovery_from_error 5 reprobeable_guard))"
proof -
  let ?g = "snd (begin_recovery_from_error 5 reprobeable_guard)"
  have "begin_recovery_from_error 5 reprobeable_guard = (Inr 1, ?g)"
    "restore_reprobeable_error_if_unlocking 1 (run_ops [SecretAttempt 9] ?g) \<noteq> run_ops [SecretAttempt 9] ?g"
    by (simp_all add: machine_eval reprobeable_guard_def)
  from cancel_guard_own_reservation [OF this(1) _ this(2)] have
    c: "current_state (run_ops [SecretAttempt 9] ?g) = Unlocking \<and>
      (\<forall>pre x post. [SecretAttempt 9] = pre @ x # post \<longrightarrow> \<not> reserves x (run_ops pre ?g))"
    by simp
  then have "\<not> reserves (SecretAttempt 9) (run_ops [] ?g)" by blast
  with c show ?thesis by simp
qed

end
