(* ===== verification/Externals.thy ===== *)
theory Externals
  imports Json Hex_Codec
begin

text \<open>
  What the program calls and does not define: hashes, signatures, key derivation and
  authenticated encryption (crates \<open>sha2\<close>, \<open>ed25519-dalek\<close>, \<open>argon2\<close>, \<open>hkdf\<close>,
  \<open>aes-gcm\<close>), text codecs (\<open>base64\<close>, \<open>bip39\<close>, \<open>uuid\<close>), the \<open>serde\<close> readers and
  printers, \<open>jsonwebtoken\<close> (header, key and decoding), the Unicode tables of
  \<open>to_lowercase\<close>, the printed form of a status and the parts of an authority (\<open>http\<close>), the
  text and the announced length of a response body, certificates, client construction and URLs of
  \<open>reqwest\<close>, self-signed certificates (\<open>rcgen\<close>),
  \<open>IpAddr\<close> parsing, percent decoding, and what is read from an X.509 certificate
  (\<open>x509-cert\<close>). They are the fields of one record, an argument of every definition that uses
  them. A field that can fail gives the error's text on the left. The predicates at the end
  name the documented facts that some theorems assume, and \<open>demo_externals\<close> is a
  concrete record that satisfies all of them.
\<close>

record api_token_claims =
  org_id :: string
  app_id :: string
  instance_id :: string
  scopes :: "string list"
  iat :: nat
  exp :: nat

record owner_seed_envelope =
  ev_version :: string
  ev_nonce :: string
  ev_ciphertext :: string

text \<open>\<open>SecretObject\<close> of \<open>escrow.rs\<close>, its metadata flattened.\<close>

record secret_object =
  so_api_version :: string
  so_kind :: string
  so_name :: string
  so_namespace :: string
  so_resource_version :: "string option"
  so_data :: "(string \<times> string) list"
  so_type :: string

record externals =
  x_sha256 :: "bytes \<Rightarrow> bytes"
  x_ed_public :: "bytes \<Rightarrow> bytes"
  x_ed_sign :: "bytes \<Rightarrow> bytes \<Rightarrow> bytes"
  x_ed_key :: "bytes \<Rightarrow> string + unit"
  x_ed_signature :: "bytes \<Rightarrow> string + unit"
  x_ed_verify :: "bytes \<Rightarrow> bytes \<Rightarrow> bytes \<Rightarrow> bool"
  x_b64_encode :: "bytes \<Rightarrow> string"
  x_b64_decode :: "string \<Rightarrow> string + bytes"
  x_b64url_encode :: "bytes \<Rightarrow> string"
  x_b64url_decode :: "string \<Rightarrow> string + bytes"
  x_b64url_pad_decode :: "string \<Rightarrow> string + bytes"
  x_uuid_parse :: "string \<Rightarrow> bytes option"
  x_argon2id :: "bytes \<Rightarrow> bytes \<Rightarrow> string + bytes"
  x_hkdf_sha256 :: "bytes option \<Rightarrow> bytes \<Rightarrow> bytes \<Rightarrow> string + bytes"
  x_gcm_encrypt :: "bytes \<Rightarrow> bytes \<Rightarrow> bytes \<Rightarrow> string + bytes"
  x_gcm_decrypt :: "bytes \<Rightarrow> bytes \<Rightarrow> bytes \<Rightarrow> bytes option"
  x_mnemonic_encode :: "bytes \<Rightarrow> string + string"
  x_mnemonic_parse :: "string \<Rightarrow> string + bytes"
  x_json_parse :: "bytes \<Rightarrow> string + json"
  x_json_print :: "json \<Rightarrow> bytes"
  x_envelope_parse :: "bytes \<Rightarrow> string + owner_seed_envelope"
  x_claims_parse :: "bytes \<Rightarrow> string + api_token_claims"
  x_jwt_header :: "string \<Rightarrow> string + (string \<times> json option)"
  x_jwt_key :: "json \<Rightarrow> string + bytes"
  x_jwt_decode :: "string \<Rightarrow> bytes \<Rightarrow> string \<Rightarrow> string + json"
  x_to_lowercase :: "string \<Rightarrow> string"
  x_status_text :: "nat \<Rightarrow> string"
  x_body_text :: "bytes \<Rightarrow> string"
  x_secret_parse :: "bytes \<Rightarrow> string + secret_object"
  x_pem_certificate :: "bytes \<Rightarrow> string + unit"
  x_client_build :: "bytes list \<Rightarrow> string + unit"
  x_url_parse :: "string \<Rightarrow> string + unit"
  x_authority_parse :: "string \<Rightarrow> (string \<times> nat option) option"
  x_ip_parse :: "string \<Rightarrow> string option"
  x_percent_decode :: "string \<Rightarrow> bytes"
  x_x509_dns_names :: "bytes \<Rightarrow> string list option"
  x_x509_spki :: "bytes \<Rightarrow> bytes option"
  x_self_signed :: "string list \<Rightarrow> string + (bytes \<times> bytes)"
  x_content_length :: "(string \<times> string) list \<Rightarrow> nat option"

section \<open>Documented facts\<close>

text \<open>Decoding what the same alphabet encoded gives the bytes back.\<close>

definition b64_law :: "externals \<Rightarrow> bool" where
  "b64_law X \<longleftrightarrow> (\<forall>bs. x_b64_decode X (x_b64_encode X bs) = Inr bs) \<and>
     (\<forall>bs. x_b64url_decode X (x_b64url_encode X bs) = Inr bs)"

text \<open>AES-256-GCM decrypts what it encrypted under the same key and nonce.\<close>

definition gcm_law :: "externals \<Rightarrow> bool" where
  "gcm_law X \<longleftrightarrow> (\<forall>k n p c. x_gcm_encrypt X k n p = Inr c \<longrightarrow> x_gcm_decrypt X k n c = Some p)"

text \<open>The derived reader of \<open>OwnerSeedEnvelope\<close> reads a printed object that has the three
  string fields.\<close>

definition envelope_law :: "externals \<Rightarrow> bool" where
  "envelope_law X \<longleftrightarrow> (\<forall>v n c. x_envelope_parse X (x_json_print X
       (JObj [(''version'', JStr v), (''nonce'', JStr n), (''ciphertext'', JStr c)])) =
     Inr \<lparr>ev_version = v, ev_nonce = n, ev_ciphertext = c\<rparr>)"

text \<open>A 32-byte entropy survives the trip through its phrase.\<close>

definition mnemonic_law :: "externals \<Rightarrow> bool" where
  "mnemonic_law X \<longleftrightarrow> (\<forall>e m. length e = 32 \<longrightarrow> x_mnemonic_encode X e = Inr m \<longrightarrow>
     x_mnemonic_parse X m = Inr e)"

text \<open>A signature verifies under the public key of the seed that made it.\<close>

definition ed_law :: "externals \<Rightarrow> bool" where
  "ed_law X \<longleftrightarrow> (\<forall>sk m. x_ed_verify X (x_ed_public X sk) m (x_ed_sign X sk m))"

definition sha_law :: "externals \<Rightarrow> bool" where
  "sha_law X \<longleftrightarrow> (\<forall>bs. length (x_sha256 X bs) = 32)"

section \<open>A codec of bytes as text\<close>

text \<open>The contract of a textual encoding, and what follows from it; hexadecimal is the
  program's own instance.\<close>

locale byte_codec =
  fixes enc :: "bytes \<Rightarrow> string" and dec :: "string \<Rightarrow> bytes option"
  assumes dec_enc: "dec (enc bs) = Some bs"
begin

lemma enc_inj: "enc a = enc b \<longleftrightarrow> a = b"
  by (metis dec_enc option.inject)

lemma dec_determines: "dec s = Some a \<Longrightarrow> s = enc b \<Longrightarrow> a = b"
  by (simp add: dec_enc)

end

interpretation hex: byte_codec hex_lower "\<lambda>s. decode_pairs (as_bytes s)"
  by unfold_locales (rule decode_pairs_hex_lower)

section \<open>A concrete record\<close>

text \<open>Not the real algorithms: simple functions with the documented properties, used to
  evaluate the model on concrete inputs. Texts are hexadecimal, a signature is the key and
  the message, a ciphertext is the key, the nonce and the plaintext.\<close>

definition hex_decode :: "string \<Rightarrow> string + bytes" where
  "hex_decode s = (case decode_pairs (as_bytes s) of None \<Rightarrow> Inl ''invalid'' | Some bs \<Rightarrow> Inr bs)"

text \<open>A printer for the objects of string fields that the envelope uses: each field as a
  hexadecimal word, the fields separated by blanks.\<close>

fun demo_print :: "json \<Rightarrow> bytes" where
  "demo_print (JObj kvs) = concat (map (\<lambda>kv. as_bytes (hex_lower (case snd kv of JStr s \<Rightarrow> as_bytes s | _ \<Rightarrow> [])) @ [32]) kvs)"
| "demo_print _ = []"

definition demo_envelope_parse :: "bytes \<Rightarrow> string + owner_seed_envelope" where
  "demo_envelope_parse bs =
     (case map decode_pairs (split_char 32 bs) of
        [Some v, Some n, Some c, _] \<Rightarrow>
          Inr \<lparr>ev_version = bytes_to_str v, ev_nonce = bytes_to_str n, ev_ciphertext = bytes_to_str c\<rparr>
      | _ \<Rightarrow> Inl ''invalid'')"

definition demo_externals :: externals where
  "demo_externals =
     \<lparr>x_sha256 = (\<lambda>bs. take 32 (bs @ replicate 32 0)),
      x_ed_public = (\<lambda>sk. sk), x_ed_sign = (\<lambda>sk m. sk @ m), x_ed_key = (\<lambda>_. Inr ()),
      x_ed_signature = (\<lambda>_. Inr ()), x_ed_verify = (\<lambda>pk m sig. sig = pk @ m),
      x_b64_encode = hex_lower, x_b64_decode = hex_decode, x_b64url_encode = hex_lower,
      x_b64url_decode = hex_decode, x_b64url_pad_decode = hex_decode,
      x_uuid_parse = (\<lambda>s. if length s = 36 then Some (as_bytes (take 16 s)) else None),
      x_argon2id = (\<lambda>pw salt. Inr (take 32 (pw @ salt @ replicate 32 0))),
      x_hkdf_sha256 = (\<lambda>salt ikm info. Inr (take 32 (ikm @ info @ replicate 32 0))),
      x_gcm_encrypt = (\<lambda>k n p. Inr (k @ n @ p)),
      x_gcm_decrypt = (\<lambda>k n c. strip_prefix (k @ n) c),
      x_mnemonic_encode = (\<lambda>e. Inr (hex_lower e)), x_mnemonic_parse = hex_decode,
      x_json_parse = (\<lambda>bs. if bs = [] then Inl ''invalid'' else Inr (JObj [(''token'', JStr (bytes_to_str bs))])), x_json_print = demo_print,
      x_envelope_parse = demo_envelope_parse,
      x_claims_parse = (\<lambda>bs. if bs = [] then Inl ''invalid'' else
         Inr \<lparr>org_id = ''org'', app_id = ''app'', instance_id = ''inst'',
           scopes = [''config:write''], iat = 0, exp = 100\<rparr>),
      x_jwt_header = (\<lambda>_. Inr (''ES256'', Some JNull)), x_jwt_key = (\<lambda>_. Inr []),
      x_jwt_decode = (\<lambda>_ _ _. Inr (JObj [])), x_to_lowercase = to_ascii_lowercase,
      x_status_text = show_nat, x_body_text = bytes_to_str,
      x_secret_parse = (\<lambda>_. Inl ''invalid''), x_pem_certificate = (\<lambda>_. Inr ()),
      x_client_build = (\<lambda>_. Inr ()), x_url_parse = (\<lambda>_. Inr ()),
      x_authority_parse = (\<lambda>h. Some (h, None)), x_ip_parse = Some, x_percent_decode = as_bytes,
      x_x509_dns_names = (\<lambda>der. Some [bytes_to_str der]), x_x509_spki = Some,
      x_self_signed = (\<lambda>names. Inr (as_bytes (concat names), [1])), x_content_length = (\<lambda>_. None)\<rparr>"

lemma hex_decode_hex_lower [simp]: "hex_decode (hex_lower bs) = Inr bs"
  by (simp add: hex_decode_def)

lemma split_char_append:
  "c \<notin> set a \<Longrightarrow> split_char c (a @ c # b) = a # split_char c b"
  by (induction a) (auto split: list.splits)

lemma hex_lower_no_blank: "(32 :: u8) \<notin> set (as_bytes (hex_lower bs))"
proof -
  have "(32 :: u8) \<noteq> word_of_nat (ord (HEX ! unat n))" if "unat (n :: u8) < 16" for n
  proof
    assume "(32 :: u8) = word_of_nat (ord (HEX ! unat n))"
    with hex_nibble_HEX [OF that] show False by (simp add: hex_nibble_def)
  qed
  then show ?thesis
    by (induction bs) (simp_all add: high_nibble_less low_nibble_less)
qed

lemma demo_envelope:
  "demo_envelope_parse (demo_print
     (JObj [(''version'', JStr v), (''nonce'', JStr n), (''ciphertext'', JStr c)])) =
   Inr \<lparr>ev_version = v, ev_nonce = n, ev_ciphertext = c\<rparr>"
  by (simp add: demo_envelope_parse_def split_char_append hex_lower_no_blank)

lemma demo_laws:
  "b64_law demo_externals" "gcm_law demo_externals" "envelope_law demo_externals"
  "mnemonic_law demo_externals" "ed_law demo_externals" "sha_law demo_externals"
  by (auto simp: b64_law_def gcm_law_def envelope_law_def mnemonic_law_def ed_law_def sha_law_def
      demo_externals_def demo_envelope strip_prefix_iff simp del: demo_print.simps)

end
