(* ===== verification/Receipts.thy ===== *)
theory Receipts
  imports Externals Ce_V1 Civil_Time
begin

text \<open>
  In-TEE receipt signing, \<open>receipts.rs\<close>: the request's validators, the record list each
  receipt type signs, and \<open>sign\<close>. A result of \<open>None\<close> is a panic (an overlong record of
  the encoder); the lemmas show it never happens, that a receipt is issued exactly for the
  requests that pass every check, and that the signed bytes determine what was signed.
\<close>

section \<open>Data\<close>

datatype receipt_type = Rekey | Teardown | UnlockModeTransition | Unsupported string

fun receipt_type_as_str :: "receipt_type \<Rightarrow> string" where
  "receipt_type_as_str Rekey = ''rekey''"
| "receipt_type_as_str Teardown = ''teardown''"
| "receipt_type_as_str UnlockModeTransition = ''unlock_mode_transition''"
| "receipt_type_as_str (Unsupported v) = v"

datatype receipt_error = UnsupportedType | InvalidAppId | InvalidResourcePath
  | NewValueHashRequired | NewValueHashInvalid | InvalidTimestamp | InvalidUnlockTransitionFields

fun receipt_error_to_string :: "receipt_error \<Rightarrow> string" where
  "receipt_error_to_string UnsupportedType = ''unsupported_receipt_type''"
| "receipt_error_to_string InvalidAppId = ''app_id_invalid''"
| "receipt_error_to_string InvalidResourcePath = ''resource_path_invalid''"
| "receipt_error_to_string NewValueHashRequired = ''new_value_sha256_required''"
| "receipt_error_to_string NewValueHashInvalid = ''new_value_sha256_invalid''"
| "receipt_error_to_string InvalidTimestamp = ''timestamp_invalid''"
| "receipt_error_to_string InvalidUnlockTransitionFields = ''unlock_transition_fields_invalid''"

fun receipt_purpose :: "receipt_type \<Rightarrow> receipt_error + string" where
  "receipt_purpose Rekey = Inr ''enclava-rekey-v1''"
| "receipt_purpose Teardown = Inr ''enclava-teardown-v1''"
| "receipt_purpose UnlockModeTransition = Inr ''enclava-unlock-receipt-v1''"
| "receipt_purpose (Unsupported _) = Inl UnsupportedType"

definition receipt_type_deserialize :: "string \<Rightarrow> receipt_type" where
  "receipt_type_deserialize val =
     (let t = trim val in
      if t = ''rekey'' then Rekey else if t = ''teardown'' then Teardown
      else if t = ''unlock_mode_transition'' then UnlockModeTransition else Unsupported t)"

record sign_receipt_request =
  rq_receipt_type :: receipt_type
  rq_app_id :: string
  rq_resource_path :: "string option"
  rq_from_mode :: "string option"
  rq_to_mode :: "string option"
  rq_attestation_quote_sha256 :: "string option"
  rq_new_value_sha256 :: "string option"
  rq_timestamp :: "string option"

record receipt_payload_view =
  pv_purpose :: string
  pv_app_id :: string
  pv_resource_path :: "string option"
  pv_from_mode :: "string option"
  pv_to_mode :: "string option"
  pv_attestation_quote_sha256 :: "string option"
  pv_new_value_sha256 :: "string option"
  pv_timestamp :: string

record receipt_envelope =
  re_pubkey :: string
  re_pubkey_sha256 :: string
  re_payload_canonical_bytes :: string
  re_signature :: string

record sign_receipt_response =
  rs_operation :: string
  rs_payload :: receipt_payload_view
  rs_receipt :: receipt_envelope

section \<open>Validators\<close>

definition validate_unlock_mode :: "string \<Rightarrow> receipt_error + string" where
  "validate_unlock_mode val =
     (let t = trim val in
      if t = ''auto'' \<or> t = ''auto-unlock'' then Inr ''auto''
      else if t = ''password'' then Inr ''password''
      else Inl InvalidUnlockTransitionFields)"

definition atom_char :: "char \<Rightarrow> bool" where
  "atom_char c \<longleftrightarrow> is_ascii_alphanumeric c \<or> c \<in> set ''-_.:''"

definition validate_atom :: "string \<Rightarrow> string \<Rightarrow> receipt_error + string" where
  "validate_atom field val =
     (let trimmed = trim val in
      if trimmed \<noteq> [] \<and> length trimmed \<le> 128 \<and> list_all atom_char trimmed then Inr trimmed
      else if field = ''app_id'' then Inl InvalidAppId
      else Inl InvalidResourcePath)"

definition path_char :: "char \<Rightarrow> bool" where
  "path_char c \<longleftrightarrow> is_ascii_alphanumeric c \<or> c \<in> set ''-_./:''"

definition validate_resource_path :: "string \<Rightarrow> receipt_error + string" where
  "validate_resource_path val =
     (let trimmed = trim val in
      if trimmed \<noteq> [] \<and> length trimmed \<le> 256 \<and> \<not> contains ''..'' trimmed \<and> list_all path_char trimmed
      then Inr trimmed else Inl InvalidResourcePath)"

definition timestamp_char :: "char \<Rightarrow> bool" where
  "timestamp_char c \<longleftrightarrow> is_ascii_digit c \<or> c \<in> set ''-:.TZ''"

definition validate_timestamp :: "string \<Rightarrow> receipt_error + string" where
  "validate_timestamp val =
     (let trimmed = trim val in
      if 20 \<le> length trimmed \<and> length trimmed \<le> 40 \<and> ends_with ''Z'' trimmed \<and>
         list_all timestamp_char trimmed
      then Inr trimmed else Inl InvalidTimestamp)"

definition validate_sha256_hex :: "string \<Rightarrow> receipt_error + string" where
  "validate_sha256_hex val =
     (let trimmed = trim val in
      if length trimmed = 64 \<and> list_all is_ascii_hexdigit trimmed then Inr (to_ascii_lowercase trimmed)
      else Inl NewValueHashInvalid)"

definition decode_sha256_hex :: "string \<Rightarrow> receipt_error + bytes" where
  "decode_sha256_hex val =
     (if length (as_bytes val) \<noteq> 64 then Inl NewValueHashInvalid
      else ok_or NewValueHashInvalid (decode_pairs (as_bytes val)))"

section \<open>Signing\<close>

text \<open>\<open>opt.map(f).transpose()?\<close>.\<close>

definition traverse_opt :: "('a \<Rightarrow> 'e + 'b) \<Rightarrow> 'a option \<Rightarrow> 'e + 'b option" where
  "traverse_opt f x =
     (case x of None \<Rightarrow> Inr None | Some v \<Rightarrow> res_bind (f v) (\<lambda>w. Inr (Some w)))"

text \<open>The fields a receipt type requires, validated in the order of the code: resource path,
  modes, quote hash, new value hash.\<close>

record receipt_fields =
  rf_resource_path :: "string option"
  rf_from_mode :: "string option"
  rf_to_mode :: "string option"
  rf_quote :: "string option"
  rf_new_value :: "string option"

definition validate_fields :: "sign_receipt_request \<Rightarrow> receipt_error + receipt_fields" where
  "validate_fields rq =
     (case rq_receipt_type rq of
        Rekey \<Rightarrow>
          res_bind (ok_or InvalidResourcePath (rq_resource_path rq)) (\<lambda>p.
          res_bind (validate_resource_path p) (\<lambda>path.
          res_bind (ok_or NewValueHashRequired (rq_new_value_sha256 rq)) (\<lambda>h.
          res_bind (validate_sha256_hex h) (\<lambda>hash.
          Inr \<lparr>rf_resource_path = Some path, rf_from_mode = None, rf_to_mode = None,
               rf_quote = None, rf_new_value = Some hash\<rparr>))))
      | Teardown \<Rightarrow>
          res_bind (ok_or InvalidResourcePath (rq_resource_path rq)) (\<lambda>p.
          res_bind (validate_resource_path p) (\<lambda>path.
          res_bind (traverse_opt validate_sha256_hex (rq_new_value_sha256 rq)) (\<lambda>hash.
          Inr \<lparr>rf_resource_path = Some path, rf_from_mode = None, rf_to_mode = None,
               rf_quote = None, rf_new_value = hash\<rparr>)))
      | UnlockModeTransition \<Rightarrow>
          res_bind (ok_or InvalidUnlockTransitionFields (rq_from_mode rq)) (\<lambda>f.
          res_bind (validate_unlock_mode f) (\<lambda>from_mode.
          res_bind (ok_or InvalidUnlockTransitionFields (rq_to_mode rq)) (\<lambda>t.
          res_bind (validate_unlock_mode t) (\<lambda>to_mode.
          res_bind (ok_or InvalidUnlockTransitionFields (rq_attestation_quote_sha256 rq)) (\<lambda>q.
          res_bind (validate_sha256_hex q) (\<lambda>quote.
          if is_some (rq_new_value_sha256 rq) \<or> is_some (rq_resource_path rq)
          then Inl InvalidUnlockTransitionFields
          else Inr \<lparr>rf_resource_path = None, rf_from_mode = Some from_mode, rf_to_mode = Some to_mode,
                    rf_quote = Some quote, rf_new_value = None\<rparr>))))))
      | Unsupported _ \<Rightarrow> Inl UnsupportedType)"

definition opt_record :: "string \<Rightarrow> bytes option \<Rightarrow> ce_records" where
  "opt_record label val = (case val of None \<Rightarrow> [] | Some v \<Rightarrow> [(label, v)])"

definition receipt_records ::
  "string \<Rightarrow> bytes \<Rightarrow> receipt_fields \<Rightarrow> bytes option \<Rightarrow> bytes option \<Rightarrow> string \<Rightarrow> ce_records" where
  "receipt_records purpose app_id_bytes rf new_value quote timestamp =
     [(''purpose'', as_bytes purpose), (''app_id'', app_id_bytes)] @
     opt_record ''resource_path'' (map_option as_bytes (rf_resource_path rf)) @
     opt_record ''from_mode'' (map_option as_bytes (rf_from_mode rf)) @
     opt_record ''to_mode'' (map_option as_bytes (rf_to_mode rf)) @
     opt_record ''new_value_sha256'' new_value @
     opt_record ''attestation_quote_sha256'' quote @
     [(''timestamp'', as_bytes timestamp)]"

text \<open>The record list and the view of a request; \<open>now\<close> is the value of \<open>utc_now()\<close>.\<close>

definition receipt_payload ::
  "externals \<Rightarrow> string \<Rightarrow> sign_receipt_request \<Rightarrow> receipt_error + (ce_records \<times> receipt_payload_view)" where
  "receipt_payload X now rq =
     res_bind (receipt_purpose (rq_receipt_type rq)) (\<lambda>purpose.
     res_bind (validate_atom ''app_id'' (rq_app_id rq)) (\<lambda>app.
     res_bind (case rq_timestamp rq of Some ts \<Rightarrow> validate_timestamp ts | None \<Rightarrow> Inr now) (\<lambda>timestamp.
     res_bind (validate_fields rq) (\<lambda>rf.
     res_bind (if rq_receipt_type rq = UnlockModeTransition
               then ok_or InvalidAppId (x_uuid_parse X app) else Inr (as_bytes app)) (\<lambda>app_bytes.
     res_bind (traverse_opt decode_sha256_hex (rf_new_value rf)) (\<lambda>nv.
     res_bind (traverse_opt decode_sha256_hex (rf_quote rf)) (\<lambda>quote.
     Inr (receipt_records purpose app_bytes rf nv quote timestamp,
          \<lparr>pv_purpose = purpose, pv_app_id = app, pv_resource_path = rf_resource_path rf,
           pv_from_mode = rf_from_mode rf, pv_to_mode = rf_to_mode rf,
           pv_attestation_quote_sha256 = rf_quote rf, pv_new_value_sha256 = rf_new_value rf,
           pv_timestamp = timestamp\<rparr>))))))))"

text \<open>\<open>ReceiptSigner::sign\<close> with the signer's seed.\<close>

definition sign_receipt ::
  "externals \<Rightarrow> bytes \<Rightarrow> string \<Rightarrow> sign_receipt_request \<Rightarrow> (receipt_error + sign_receipt_response) option" where
  "sign_receipt X seed now rq =
     (case receipt_payload X now rq of
        Inl e \<Rightarrow> Some (Inl e)
      | Inr (records, view) \<Rightarrow>
          map_option (\<lambda>canonical.
            let pubkey = x_ed_public X seed in
            Inr \<lparr>rs_operation = receipt_type_as_str (rq_receipt_type rq), rs_payload = view,
                 rs_receipt = \<lparr>re_pubkey = x_b64_encode X pubkey,
                   re_pubkey_sha256 = hex_lower (x_sha256 X pubkey),
                   re_payload_canonical_bytes = x_b64_encode X canonical,
                   re_signature = x_b64_encode X (x_ed_sign X seed canonical)\<rparr>\<rparr>)
            (ce_v1_bytes records))"

text \<open>\<open>public_key_sha256\<close>, the value bound into the attestation report.\<close>

definition public_key_sha256 :: "externals \<Rightarrow> bytes \<Rightarrow> bytes" where
  "public_key_sha256 X seed = x_sha256 X (x_ed_public X seed)"

section \<open>Validated fields\<close>

lemma traverse_opt_Inr:
  "traverse_opt f x = Inr y \<longleftrightarrow> (x = None \<and> y = None) \<or> (\<exists>v w. x = Some v \<and> f v = Inr w \<and> y = Some w)"
  by (cases x) (auto simp: traverse_opt_def result_iffs)

lemma validate_atom_Inr:
  "validate_atom field v = Inr s \<longleftrightarrow> s = trim v \<and> s \<noteq> [] \<and> length s \<le> 128 \<and> list_all atom_char s"
  by (auto simp: validate_atom_def Let_def)

lemma validate_resource_path_Inr:
  "validate_resource_path v = Inr s \<longleftrightarrow>
     s = trim v \<and> s \<noteq> [] \<and> length s \<le> 256 \<and> \<not> contains ''..'' s \<and> list_all path_char s"
  by (auto simp: validate_resource_path_def Let_def)

lemma validate_timestamp_Inr:
  "validate_timestamp v = Inr s \<longleftrightarrow> s = trim v \<and> 20 \<le> length s \<and> length s \<le> 40 \<and> ends_with ''Z'' s \<and>
     list_all timestamp_char s"
  by (auto simp: validate_timestamp_def Let_def)

lemma validate_unlock_mode_Inr: "validate_unlock_mode v = Inr s \<Longrightarrow> s = ''auto'' \<or> s = ''password''"
  by (auto simp: validate_unlock_mode_def Let_def split: if_splits)

lemma lower_hexdigit: "is_ascii_hexdigit c \<Longrightarrow> char_to_ascii_lowercase c \<in> set HEX"
  by (auto simp: HEX_mem char_to_ascii_lowercase_def ascii_defs)

lemma validate_sha256_hex_Inr:
  "validate_sha256_hex v = Inr s \<Longrightarrow> length s = 64 \<and> set s \<subseteq> set HEX"
  by (auto simp: validate_sha256_hex_def Let_def to_ascii_lowercase_def list_all_iff lower_hexdigit
      split: if_splits)

lemma decode_sha256_hex_lower:
  "validate_sha256_hex v = Inr s \<Longrightarrow> decode_sha256_hex s = Inr d \<Longrightarrow> s = hex_lower d \<and> length d = 32"
  using validate_sha256_hex_Inr [of v s] decode_pairs_lower [of s d] decode_pairs_length [of "as_bytes s" d]
  by (auto simp: decode_sha256_hex_def result_iffs split: if_splits)

text \<open>What \<open>validate_fields\<close> guarantees of every field it returns.\<close>

definition fields_ok :: "receipt_type \<Rightarrow> receipt_fields \<Rightarrow> bool" where
  "fields_ok ty rf \<longleftrightarrow>
     (case ty of
        Rekey \<Rightarrow> rf_resource_path rf \<noteq> None \<and> rf_new_value rf \<noteq> None \<and> rf_from_mode rf = None \<and>
          rf_to_mode rf = None \<and> rf_quote rf = None
      | Teardown \<Rightarrow> rf_resource_path rf \<noteq> None \<and> rf_from_mode rf = None \<and> rf_to_mode rf = None \<and>
          rf_quote rf = None
      | UnlockModeTransition \<Rightarrow> rf_resource_path rf = None \<and> rf_new_value rf = None \<and>
          rf_from_mode rf \<noteq> None \<and> rf_to_mode rf \<noteq> None \<and> rf_quote rf \<noteq> None
      | Unsupported _ \<Rightarrow> False) \<and>
     pred_option (\<lambda>p. p \<noteq> [] \<and> length p \<le> 256 \<and> \<not> contains ''..'' p \<and> list_all path_char p) (rf_resource_path rf) \<and>
     pred_option (\<lambda>m. m = ''auto'' \<or> m = ''password'') (rf_from_mode rf) \<and>
     pred_option (\<lambda>m. m = ''auto'' \<or> m = ''password'') (rf_to_mode rf) \<and>
     pred_option (\<lambda>h. \<exists>v. validate_sha256_hex v = Inr h) (rf_quote rf) \<and>
     pred_option (\<lambda>h. \<exists>v. validate_sha256_hex v = Inr h) (rf_new_value rf)"

lemma validate_fields_ok: "validate_fields rq = Inr rf \<Longrightarrow> fields_ok (rq_receipt_type rq) rf"
  by (cases "rq_receipt_type rq")
    (auto simp: validate_fields_def fields_ok_def result_iffs traverse_opt_Inr validate_resource_path_Inr
      dest: validate_unlock_mode_Inr split: if_splits)

section \<open>The signed bytes\<close>

text \<open>What a successful validation has established.\<close>

definition payload_shape ::
  "externals \<Rightarrow> string \<Rightarrow> receipt_type \<Rightarrow> ce_records \<Rightarrow> receipt_payload_view \<Rightarrow> receipt_fields \<Rightarrow>
     bytes \<Rightarrow> bytes option \<Rightarrow> bytes option \<Rightarrow> bool" where
  "payload_shape X now ty records view rf app_bytes nv quote \<longleftrightarrow>
     receipt_purpose ty = Inr (pv_purpose view) \<and> fields_ok ty rf \<and> length (pv_app_id view) \<le> 128 \<and>
     (if ty = UnlockModeTransition then x_uuid_parse X (pv_app_id view) = Some app_bytes
      else app_bytes = as_bytes (pv_app_id view)) \<and>
     traverse_opt decode_sha256_hex (rf_new_value rf) = Inr nv \<and>
     traverse_opt decode_sha256_hex (rf_quote rf) = Inr quote \<and>
     records = receipt_records (pv_purpose view) app_bytes rf nv quote (pv_timestamp view) \<and>
     pv_resource_path view = rf_resource_path rf \<and> pv_from_mode view = rf_from_mode rf \<and>
     pv_to_mode view = rf_to_mode rf \<and> pv_attestation_quote_sha256 view = rf_quote rf \<and>
     pv_new_value_sha256 view = rf_new_value rf \<and>
     (pv_timestamp view = now \<or> length (pv_timestamp view) \<le> 40)"

lemma receipt_payload_shape:
  assumes "receipt_payload X now rq = Inr (records, view)"
  shows "\<exists>rf app_bytes nv quote. payload_shape X now (rq_receipt_type rq) records view rf app_bytes nv quote"
proof -
  from assms obtain purpose app ts rf app_bytes nv quote where
    p: "receipt_purpose (rq_receipt_type rq) = Inr purpose"
    and a: "validate_atom ''app_id'' (rq_app_id rq) = Inr app"
    and t: "(case rq_timestamp rq of Some ts \<Rightarrow> validate_timestamp ts | None \<Rightarrow> Inr now) = Inr ts"
    and f: "validate_fields rq = Inr rf"
    and b: "(if rq_receipt_type rq = UnlockModeTransition
               then ok_or InvalidAppId (x_uuid_parse X app) else Inr (as_bytes app)) = Inr app_bytes"
    and h: "traverse_opt decode_sha256_hex (rf_new_value rf) = Inr nv"
      "traverse_opt decode_sha256_hex (rf_quote rf) = Inr quote"
    and r: "records = receipt_records purpose app_bytes rf nv quote ts"
      "view = \<lparr>pv_purpose = purpose, pv_app_id = app, pv_resource_path = rf_resource_path rf,
           pv_from_mode = rf_from_mode rf, pv_to_mode = rf_to_mode rf,
           pv_attestation_quote_sha256 = rf_quote rf, pv_new_value_sha256 = rf_new_value rf,
           pv_timestamp = ts\<rparr>"
    unfolding receipt_payload_def res_bind_Inr by (elim exE conjE) (drule Inr_inject, elim Pair_inject, hypsubst, blast)
  have "ts = now \<or> length ts \<le> 40"
    using t by (auto simp: validate_timestamp_Inr split: option.splits)
  moreover have "length app \<le> 128" using a unfolding validate_atom_Inr by blast
  moreover have "if rq_receipt_type rq = UnlockModeTransition then x_uuid_parse X app = Some app_bytes
      else app_bytes = as_bytes app" using b by (auto simp: result_iffs split: if_splits)
  ultimately have "payload_shape X now (rq_receipt_type rq) records view rf app_bytes nv quote"
    unfolding payload_shape_def using p h r validate_fields_ok [OF f] by simp
  then show ?thesis by blast
qed

text \<open>A hash field and its bytes determine each other.\<close>

lemma hash_field:
  assumes "pred_option (\<lambda>h. \<exists>v. validate_sha256_hex v = Inr h) f" "traverse_opt decode_sha256_hex f = Inr b"
  shows "f = map_option hex_lower b" "pred_option (\<lambda>d. length d = 32) b"
  using assms decode_sha256_hex_lower by (auto simp: traverse_opt_Inr)

lemma hash_field_exists:
  assumes "validate_sha256_hex v = Inr h"
  shows "\<exists>d. decode_sha256_hex h = Inr d"
proof -
  have "length h = 64" "\<forall>c\<in>set h. is_ascii_hexdigit c"
    using validate_sha256_hex_Inr [OF assms] by (auto simp: HEX_mem ascii_defs dest!: subsetD)
  then show ?thesis
    using decode_pairs_Some [of h] by (auto simp: decode_sha256_hex_def)
qed

lemma payload_shapeD:
  assumes "payload_shape X now ty records view rf app_bytes nv quote"
  shows "receipt_purpose ty = Inr (pv_purpose view)" "fields_ok ty rf"
    "if ty = UnlockModeTransition then x_uuid_parse X (pv_app_id view) = Some app_bytes
     else app_bytes = as_bytes (pv_app_id view)"
    "records = receipt_records (pv_purpose view) app_bytes rf nv quote (pv_timestamp view)"
    "pv_resource_path view = rf_resource_path rf" "pv_from_mode view = rf_from_mode rf"
    "pv_to_mode view = rf_to_mode rf" "pv_attestation_quote_sha256 view = rf_quote rf"
    "pv_new_value_sha256 view = rf_new_value rf"
    "traverse_opt decode_sha256_hex (rf_new_value rf) = Inr nv"
    "traverse_opt decode_sha256_hex (rf_quote rf) = Inr quote"
  using assms unfolding payload_shape_def by blast+

lemma payload_shape_hash:
  assumes "payload_shape X now ty records view rf app_bytes nv quote"
  shows "rf_new_value rf = map_option hex_lower nv" "rf_quote rf = map_option hex_lower quote"
proof -
  have "pred_option (\<lambda>h. \<exists>v. validate_sha256_hex v = Inr h) (rf_quote rf)"
    "pred_option (\<lambda>h. \<exists>v. validate_sha256_hex v = Inr h) (rf_new_value rf)"
    using payload_shapeD(2) [OF assms] unfolding fields_ok_def by blast+
  with payload_shapeD(10,11) [OF assms] hash_field(1)
  show "rf_new_value rf = map_option hex_lower nv" "rf_quote rf = map_option hex_lower quote" by blast+
qed

definition uuid_law :: "externals \<Rightarrow> bool" where
  "uuid_law X \<longleftrightarrow> (\<forall>s b. x_uuid_parse X s = Some b \<longrightarrow> length b = 16)"

lemma purpose_length: "receipt_purpose ty = Inr p \<Longrightarrow> length p \<le> 25"
  by (cases ty) auto

lemma receipt_records_fit:
  assumes "payload_shape X now ty records view rf app_bytes nv quote" "uuid_law X" "length now < 4294967296"
  shows "list_all ce_fits records"
proof -
  note sh = assms(1)[unfolded payload_shape_def]
  have fo: "pred_option (\<lambda>p. p \<noteq> [] \<and> length p \<le> 256 \<and> \<not> contains ''..'' p \<and> list_all path_char p) (rf_resource_path rf)"
      "pred_option (\<lambda>m. m = ''auto'' \<or> m = ''password'') (rf_from_mode rf)"
      "pred_option (\<lambda>m. m = ''auto'' \<or> m = ''password'') (rf_to_mode rf)"
    using sh unfolding fields_ok_def by blast+
  have app: "length app_bytes < 4294967296"
    using sh assms(2) by (auto simp: uuid_law_def split: if_splits)
  have pur: "length (pv_purpose view) < 4294967296"
    using sh purpose_length [of ty "pv_purpose view"] by linarith
  have hs: "pred_option (\<lambda>d. length d = 32) nv" "pred_option (\<lambda>d. length d = 32) quote"
    using sh hash_field(2) [of "rf_new_value rf" nv] hash_field(2) [of "rf_quote rf" quote]
    by (simp_all add: fields_ok_def)
  have ts: "length (pv_timestamp view) < 4294967296" using sh assms(3) by auto
  have ps: "pred_option (\<lambda>p. length p \<le> 256) (rf_resource_path rf)"
      "pred_option (\<lambda>p. length p \<le> 256) (rf_from_mode rf)" "pred_option (\<lambda>p. length p \<le> 256) (rf_to_mode rf)"
    using fo by (auto intro: option.pred_mono_strong)
  have str: "list_all ce_fits (opt_record l (map_option as_bytes v))"
    if "pred_option (\<lambda>p. length p \<le> 256) v" "length l < 65536" for l v
    using that by (cases v) (simp_all add: opt_record_def ce_fits_def)
  have hash: "list_all ce_fits (opt_record l v)"
    if "pred_option (\<lambda>d. length d = 32) v" "length l < 65536" for l and v :: "bytes option"
    using that by (cases v) (simp_all add: opt_record_def ce_fits_def)
  have rec: "ce_fits (l, v)" if "length v < 4294967296" "length l < 65536" for l v
    using that by (simp add: ce_fits_def)
  have "records = receipt_records (pv_purpose view) app_bytes rf nv quote (pv_timestamp view)"
    using sh by blast
  then show ?thesis
    by (simp add: receipt_records_def str hash rec app pur hs ts ps)
qed

lemma map_of_opt_record [simp]:
  "map_of (opt_record l v @ rest) k = (if k = l \<and> v \<noteq> None then v else map_of rest k)"
  by (cases v) (auto simp: opt_record_def)

lemma map_as_bytes_inj [simp]: "map_option as_bytes a = map_option as_bytes b \<longleftrightarrow> a = b"
  by (cases a; cases b) simp_all

lemma receipt_records_lookup:
  "map_of (receipt_records p a rf nv q t) ''purpose'' = Some (as_bytes p)"
  "map_of (receipt_records p a rf nv q t) ''app_id'' = Some a"
  "map_of (receipt_records p a rf nv q t) ''resource_path'' = map_option as_bytes (rf_resource_path rf)"
  "map_of (receipt_records p a rf nv q t) ''from_mode'' = map_option as_bytes (rf_from_mode rf)"
  "map_of (receipt_records p a rf nv q t) ''to_mode'' = map_option as_bytes (rf_to_mode rf)"
  "map_of (receipt_records p a rf nv q t) ''new_value_sha256'' = nv"
  "map_of (receipt_records p a rf nv q t) ''attestation_quote_sha256'' = q"
  "map_of (receipt_records p a rf nv q t) ''timestamp'' = Some (as_bytes t)"
  by (simp_all add: receipt_records_def del: map_of_append)

lemma receipt_records_inj:
  assumes "receipt_records p a rf nv q t = receipt_records p' a' rf' nv' q' t'"
  shows "p = p' \<and> a = a' \<and> rf_resource_path rf = rf_resource_path rf' \<and> rf_from_mode rf = rf_from_mode rf' \<and>
    rf_to_mode rf = rf_to_mode rf' \<and> nv = nv' \<and> q = q' \<and> t = t'"
proof -
  have "map_of (receipt_records p a rf nv q t) = map_of (receipt_records p' a' rf' nv' q' t')"
    using assms by simp
  from this [THEN fun_cong] receipt_records_lookup show ?thesis
    by (metis as_bytes_inj map_as_bytes_inj option.inject)
qed

lemma purpose_inj: "receipt_purpose a = Inr p \<Longrightarrow> receipt_purpose b = Inr p \<Longrightarrow> a = b"
  by (cases a; cases b) auto

section \<open>Properties of receipts\<close>

lemma sign_receipt_signed:
  assumes "receipt_payload X now rq = Inr rv" "uuid_law X" "length now < 4294967296"
  shows "\<exists>r. sign_receipt X seed now rq = Some (Inr r) \<and>
    re_pubkey_sha256 (rs_receipt r) = hex_lower (public_key_sha256 X seed)"
proof -
  obtain records view where rv: "rv = (records, view)" by (cases rv)
  from receipt_payload_shape [of X now rq records view] rv assms receipt_records_fit
  have "list_all ce_fits records" by blast
  then show ?thesis by (simp add: sign_receipt_def assms(1) rv ce_v1_bytes_eq Let_def public_key_sha256_def)
qed

text \<open>Signing never panics: with a UUID parser that returns 16 bytes and a clock text of
  sane length, \<open>sign\<close> answers every request, with a receipt exactly when validation
  succeeds, and otherwise with the validation error.\<close>

theorem sign_receipt_total:
  assumes "uuid_law X" "length now < 4294967296"
  shows "\<exists>r. sign_receipt X seed now rq = Some r \<and> is_ok r = is_ok (receipt_payload X now rq)"
proof (cases "receipt_payload X now rq")
  case (Inr rv)
  then show ?thesis using sign_receipt_signed [OF Inr assms, of seed] by auto
qed (simp add: sign_receipt_def)

definition demo_request :: sign_receipt_request where
  "demo_request = \<lparr>rq_receipt_type = Teardown, rq_app_id = '' app-1 '', rq_resource_path = Some ''default/a/seed'',
     rq_from_mode = None, rq_to_mode = None, rq_attestation_quote_sha256 = None,
     rq_new_value_sha256 = None, rq_timestamp = None\<rparr>"

definition demo_records :: ce_records where
  "demo_records = [(''purpose'', as_bytes ''enclava-teardown-v1''), (''app_id'', as_bytes ''app-1''),
     (''resource_path'', as_bytes ''default/a/seed''), (''timestamp'', as_bytes ''2024'')]"

definition demo_view :: receipt_payload_view where
  "demo_view = \<lparr>pv_purpose = ''enclava-teardown-v1'', pv_app_id = ''app-1'',
     pv_resource_path = Some ''default/a/seed'', pv_from_mode = None, pv_to_mode = None,
     pv_attestation_quote_sha256 = None, pv_new_value_sha256 = None, pv_timestamp = ''2024''\<rparr>"

lemma demo_payload: "receipt_payload demo_externals ''2024'' demo_request = Inr (demo_records, demo_view)"
  by code_simp

lemma demo_payload':
  "receipt_payload demo_externals ''2024'' (demo_request\<lparr>rq_app_id := ''app-1''\<rparr>) = Inr (demo_records, demo_view)"
  by code_simp

lemma demo_uuid_law: "uuid_law demo_externals"
  by (auto simp: uuid_law_def demo_externals_def split: if_splits)

theorem sign_receipt_total_witness:
  "\<exists>r. sign_receipt demo_externals [] ''2024'' demo_request = Some r \<and>
     is_ok r = is_ok (receipt_payload demo_externals ''2024'' demo_request)"
  by (rule sign_receipt_total [OF demo_uuid_law]) simp



text \<open>A receipt verifies on its own and names the attested key: its signature field decodes
  to a signature that the key in its key field accepts for the canonical bytes it carries, and
  its key hash decodes to the hash that is bound into the attestation report.\<close>

theorem receipt_verifies:
  assumes "b64_law X" "ed_law X" "sign_receipt X seed now rq = Some (Inr r)"
  shows "\<exists>pk canonical sig. x_b64_decode X (re_pubkey (rs_receipt r)) = Inr pk \<and>
    x_b64_decode X (re_payload_canonical_bytes (rs_receipt r)) = Inr canonical \<and>
    x_b64_decode X (re_signature (rs_receipt r)) = Inr sig \<and> x_ed_verify X pk canonical sig \<and>
    decode_pairs (as_bytes (re_pubkey_sha256 (rs_receipt r))) = Some (public_key_sha256 X seed)"
  using assms
  by (auto simp: sign_receipt_def b64_law_def ed_law_def public_key_sha256_def Let_def
      split: sum.splits prod.splits)

theorem receipt_verifies_witness:
  "\<exists>r pk canonical sig. sign_receipt demo_externals [7] ''2024'' demo_request = Some (Inr r) \<and>
    x_b64_decode demo_externals (re_pubkey (rs_receipt r)) = Inr pk \<and>
    x_b64_decode demo_externals (re_payload_canonical_bytes (rs_receipt r)) = Inr canonical \<and>
    x_b64_decode demo_externals (re_signature (rs_receipt r)) = Inr sig \<and>
    x_ed_verify demo_externals pk canonical sig"
proof -
  obtain r where r: "sign_receipt demo_externals [7] ''2024'' demo_request = Some (Inr r)"
    by (simp add: sign_receipt_def demo_payload demo_records_def ce_v1_bytes_eq ce_fits_def Let_def)
  from receipt_verifies [OF demo_laws(1,5) r] r show ?thesis by blast
qed

end
