(* ===== verification/Http.thy ===== *)
theory Http
  imports Externals
begin

text \<open>
  Requests and responses: what the proxy sends upstream through \<open>reqwest\<close>, what comes
  back, and what its own handlers answer. Responses are built by \<open>json_response\<close>,
  \<open>bytes_response\<close> and \<open>proof_json_response\<close> of \<open>handlers.rs\<close>.
\<close>

record http_request =
  hq_method :: string
  hq_url :: string
  hq_headers :: "(string \<times> string) list"
  hq_json :: "json option"
  hq_timeout :: "duration option"

text \<open>A transport error with the predicates \<open>reqwest::Error\<close> offers and its text.\<close>

record http_error =
  he_timeout :: bool
  he_connect :: bool
  he_redirect :: bool
  he_builder :: bool
  he_status :: "nat option"
  he_text :: string

text \<open>A response whose status line and headers arrived; reading the body can still fail.\<close>

record http_response =
  hr_status :: nat
  hr_headers :: "(string \<times> string) list"
  hr_body :: "http_error + bytes"

definition is_success :: "nat \<Rightarrow> bool" where
  "is_success status \<longleftrightarrow> 200 \<le> status \<and> status < 300"

definition classify_reqwest_error :: "http_error \<Rightarrow> string" where
  "classify_reqwest_error e =
     (if he_timeout e then ''request_timeout''
      else if he_connect e then ''connect_failed''
      else if he_redirect e then ''redirect_rejected''
      else if he_builder e then ''request_build_failed''
      else ''transport_failed'')"

section \<open>The proxy's own responses\<close>

datatype response_body = JsonBody json | BytesBody bytes | StreamBody

record response =
  rp_status :: nat
  rp_headers :: "(string \<times> string) list"
  rp_body :: response_body

definition json_response :: "nat \<Rightarrow> json \<Rightarrow> response" where
  "json_response status body =
     \<lparr>rp_status = status,
      rp_headers = [(''content-type'', ''application/json''), (''cache-control'', ''no-store'')],
      rp_body = JsonBody body\<rparr>"

definition bytes_response :: "nat \<Rightarrow> bytes \<Rightarrow> string \<Rightarrow> response" where
  "bytes_response status body content_type =
     \<lparr>rp_status = status,
      rp_headers = [(''content-type'', content_type), (''cache-control'', ''no-store'')],
      rp_body = BytesBody body\<rparr>"

definition proof_json_response :: "nat \<Rightarrow> string \<Rightarrow> response" where
  "proof_json_response status err =
     \<lparr>rp_status = status,
      rp_headers = [(''content-type'', ''application/json''), (''cache-control'', ''no-store''),
        (''access-control-allow-origin'', ''*'')] @
        (if status = 429 then [(''retry-after'', ''60'')] else []),
      rp_body = JsonBody (JObj [(''error'', JStr err)])\<rparr>"

lemma json_response_sel [simp]:
  "rp_status (json_response st b) = st" "rp_body (json_response st b) = JsonBody b"
  by (simp_all add: json_response_def)

lemma json_response_eq [simp]: "json_response st b = json_response st' b' \<longleftrightarrow> st = st' \<and> b = b'"
  by (auto simp: json_response_def)

end
