(* ===== verification/Jwt.thy ===== *)
theory Jwt
  imports Http
begin

text \<open>
  Verification of API-issued tokens, \<open>jwt.rs\<close>: the signing key, the bearer header, the
  token itself and the two extractors \<open>ConfigAuth\<close> and \<open>TeardownAuth\<close>. The theorems show
  that an extractor accepts exactly the unexpired tokens that the configured key signed for
  this instance and the extractor's scope, and that a missing key rejects everything.
\<close>

datatype jwt_error = MissingHeader | InvalidFormat | DecodeFailed string | SignatureInvalid
  | Expired | InstanceIdMismatch | ScopeMissing string | PubkeyNotConfigured | PubkeyInvalid string

fun jwt_error_to_string :: "jwt_error \<Rightarrow> string" where
  "jwt_error_to_string MissingHeader = ''missing_authorization_header''"
| "jwt_error_to_string InvalidFormat = ''invalid_authorization_format''"
| "jwt_error_to_string (DecodeFailed d) = ''token_decode_failed:'' @ d"
| "jwt_error_to_string SignatureInvalid = ''signature_invalid''"
| "jwt_error_to_string Expired = ''token_expired''"
| "jwt_error_to_string InstanceIdMismatch = ''instance_id_mismatch''"
| "jwt_error_to_string (ScopeMissing s) = ''scope_missing:'' @ s"
| "jwt_error_to_string PubkeyNotConfigured = ''pubkey_not_configured''"
| "jwt_error_to_string (PubkeyInvalid d) = ''pubkey_invalid:'' @ d"

text \<open>\<open>a.or_else(|_| b)\<close>.\<close>

definition or_else :: "'e + 'a \<Rightarrow> 'f + 'a \<Rightarrow> 'f + 'a" where
  "or_else a b = (case a of Inr v \<Rightarrow> Inr v | Inl _ \<Rightarrow> b)"

lemma or_else_simps [simp]: "or_else (Inr v) b = Inr v" "or_else (Inl e) b = b"
  by (simp_all add: or_else_def)

definition parse_signing_pubkey :: "externals \<Rightarrow> string \<Rightarrow> jwt_error + bytes" where
  "parse_signing_pubkey X b64 =
     (let trimmed = trim b64 in
      if trimmed = [] then Inl PubkeyNotConfigured
      else res_bind (map_err PubkeyInvalid (or_else (x_b64url_decode X trimmed) (x_b64_decode X trimmed)))
        (\<lambda>bs. if length bs \<noteq> 32 then Inl (PubkeyInvalid ''expected_32_bytes'')
              else res_bind (map_err PubkeyInvalid (x_ed_key X bs)) (\<lambda>_. Inr bs)))"

text \<open>\<open>now\<close> is the Unix time in seconds.\<close>

definition verify_token ::
  "externals \<Rightarrow> nat \<Rightarrow> string \<Rightarrow> bytes \<Rightarrow> string \<Rightarrow> string \<Rightarrow> jwt_error + api_token_claims" where
  "verify_token X now token pubkey expected_instance_id required_scope =
     (case split_char CHR ''.'' token of
        [p0, p1, p2] \<Rightarrow>
          (let message = p0 @ ''.'' @ p1 in
           res_bind (map_err (\<lambda>e. DecodeFailed (''signature_base64:'' @ e)) (x_b64url_decode X p2)) (\<lambda>sig.
           res_bind (map_err (\<lambda>e. DecodeFailed (''signature_format:'' @ e)) (x_ed_signature X sig)) (\<lambda>_.
           if \<not> x_ed_verify X pubkey (as_bytes message) sig then Inl SignatureInvalid
           else
           res_bind (map_err (\<lambda>e. DecodeFailed (''claims_base64:'' @ e)) (x_b64url_decode X p1)) (\<lambda>claims_bytes.
           res_bind (map_err (\<lambda>e. DecodeFailed (''claims_json:'' @ e)) (x_claims_parse X claims_bytes)) (\<lambda>claims.
           if exp claims \<le> now then Inl Expired
           else if instance_id claims \<noteq> expected_instance_id then Inl InstanceIdMismatch
           else if \<not> list_ex (\<lambda>s. s = required_scope) (scopes claims) then Inl (ScopeMissing required_scope)
           else Inr claims)))))
      | _ \<Rightarrow> Inl (DecodeFailed ''expected_3_parts''))"

definition extract_bearer_token :: "string \<Rightarrow> jwt_error + string" where
  "extract_bearer_token header_value =
     (case strip_prefix ''Bearer '' (trim header_value) of
        Some token \<Rightarrow> (let token = trim token in if token = [] then Inl InvalidFormat else Inr token)
      | None \<Rightarrow> Inl InvalidFormat)"

fun jwt_rejection_status :: "jwt_error \<Rightarrow> nat" where
  "jwt_rejection_status MissingHeader = 401"
| "jwt_rejection_status InvalidFormat = 401"
| "jwt_rejection_status SignatureInvalid = 401"
| "jwt_rejection_status Expired = 401"
| "jwt_rejection_status InstanceIdMismatch = 403"
| "jwt_rejection_status (ScopeMissing _) = 403"
| "jwt_rejection_status PubkeyNotConfigured = 500"
| "jwt_rejection_status (PubkeyInvalid _) = 500"
| "jwt_rejection_status (DecodeFailed _) = 401"

definition jwt_rejection_response :: "jwt_error \<Rightarrow> response" where
  "jwt_rejection_response e = json_response (jwt_rejection_status e)
     (JObj [(''error'', JStr ''jwt_auth_failed''), (''detail'', JStr (jwt_error_to_string e))])"

text \<open>The body the two extractors share up to the scope; \<open>auth_header\<close> is the header's text if
  it is present and visible ASCII.\<close>

definition config_auth ::
  "externals \<Rightarrow> nat \<Rightarrow> string \<Rightarrow> string \<Rightarrow> string option \<Rightarrow> jwt_error + api_token_claims" where
  "config_auth X now signing_pubkey inst auth_header =
     res_bind (ok_or MissingHeader auth_header) (\<lambda>h.
     res_bind (extract_bearer_token h) (\<lambda>token.
     res_bind (parse_signing_pubkey X signing_pubkey) (\<lambda>pubkey.
     verify_token X now token pubkey inst ''config:write'')))"

definition teardown_auth ::
  "externals \<Rightarrow> nat \<Rightarrow> string \<Rightarrow> string \<Rightarrow> string option \<Rightarrow> jwt_error + api_token_claims" where
  "teardown_auth X now signing_pubkey inst auth_header =
     res_bind (ok_or MissingHeader auth_header) (\<lambda>h.
     res_bind (extract_bearer_token h) (\<lambda>token.
     res_bind (parse_signing_pubkey X signing_pubkey) (\<lambda>pubkey.
     verify_token X now token pubkey inst ''teardown'')))"

section \<open>Facts\<close>

lemma split_char_3:
  "split_char c s = [a, b, d] \<longleftrightarrow> s = a @ c # b @ c # d \<and> c \<notin> set a \<and> c \<notin> set b \<and> c \<notin> set d"
proof -
  have one: "split_char c s = [a] \<longleftrightarrow> s = a \<and> c \<notin> set a" for s a
  proof (induction s arbitrary: a)
    case (Cons x s)
    show ?case
    proof (cases "x = c")
      case False
      then have "split_char c (x # s) = [a] \<longleftrightarrow> (\<exists>a'. a = x # a' \<and> split_char c s = [a'])"
        by (cases "split_char c s") auto
      with Cons.IH False show ?thesis by (cases a) auto
    qed (cases a; simp)
  qed auto
  have step: "split_char c s = a # p # ps \<longleftrightarrow> (\<exists>t. s = a @ c # t \<and> c \<notin> set a \<and> split_char c t = p # ps)"
    for s a p ps
  proof (induction s arbitrary: a)
    case (Cons x s)
    show ?case
    proof (cases "x = c")
      case True
      then show ?thesis by (cases a) auto
    next
      case False
      then have "split_char c (x # s) = a # p # ps \<longleftrightarrow>
          (\<exists>a'. a = x # a' \<and> split_char c s = a' # p # ps)"
        by (cases "split_char c s") auto
      with Cons.IH False show ?thesis by (cases a) auto
    qed
  qed simp
  show ?thesis by (auto simp: step one)
qed

text \<open>The conditions a token must meet, as one predicate.\<close>

definition token_accepted ::
  "externals \<Rightarrow> nat \<Rightarrow> string \<Rightarrow> bytes \<Rightarrow> string \<Rightarrow> string \<Rightarrow> api_token_claims \<Rightarrow> bool" where
  "token_accepted X now token pubkey inst scope claims \<longleftrightarrow>
     (\<exists>p0 p1 p2 sig cb. token = p0 @ ''.'' @ p1 @ ''.'' @ p2 \<and> CHR ''.'' \<notin> set (p0 @ p1 @ p2) \<and>
        x_b64url_decode X p2 = Inr sig \<and> x_ed_signature X sig = Inr () \<and>
        x_ed_verify X pubkey (as_bytes (p0 @ ''.'' @ p1)) sig \<and>
        x_b64url_decode X p1 = Inr cb \<and> x_claims_parse X cb = Inr claims) \<and>
     now < exp claims \<and> instance_id claims = inst \<and> scope \<in> set (scopes claims)"

lemma verify_token_iff:
  "verify_token X now token pubkey inst scope = Inr claims \<longleftrightarrow>
     token_accepted X now token pubkey inst scope claims"
proof
  assume v: "verify_token X now token pubkey inst scope = Inr claims"
  then obtain p0 p1 p2 where sp: "split_char CHR ''.'' token = [p0, p1, p2]"
    by (auto simp: verify_token_def split: list.splits)
  from v obtain sig cb where "x_b64url_decode X p2 = Inr sig" "x_ed_signature X sig = Inr ()"
      "x_ed_verify X pubkey (as_bytes (p0 @ ''.'' @ p1)) sig" "x_b64url_decode X p1 = Inr cb"
      "x_claims_parse X cb = Inr claims" "now < exp claims" "instance_id claims = inst"
      "scope \<in> set (scopes claims)"
    by (auto simp: verify_token_def sp Let_def result_iffs list_ex_iff split: if_splits)
  with sp show "token_accepted X now token pubkey inst scope claims"
    unfolding token_accepted_def split_char_3
    by (intro conjI exI [of _ p0] exI [of _ p1] exI [of _ p2] exI [of _ sig] exI [of _ cb]) simp_all
next
  assume "token_accepted X now token pubkey inst scope claims"
  then obtain p0 p1 p2 sig cb where
    sp: "split_char CHR ''.'' token = [p0, p1, p2]" and
    h: "x_b64url_decode X p2 = Inr sig" "x_ed_signature X sig = Inr ()"
      "x_ed_verify X pubkey (as_bytes (p0 @ ''.'' @ p1)) sig" "x_b64url_decode X p1 = Inr cb"
      "x_claims_parse X cb = Inr claims" "now < exp claims" "instance_id claims = inst"
      "scope \<in> set (scopes claims)"
    unfolding token_accepted_def split_char_3 by fastforce
  then show "verify_token X now token pubkey inst scope = Inr claims"
    by (simp add: verify_token_def Let_def list_ex_iff)
qed

lemma parse_signing_pubkey_Inr:
  "parse_signing_pubkey X b64 = Inr pk \<Longrightarrow> trim b64 \<noteq> [] \<and> length pk = 32 \<and> x_ed_key X pk = Inr ()"
  by (auto simp: parse_signing_pubkey_def Let_def result_iffs split: if_splits)

section \<open>Properties of token authentication\<close>


text \<open>Authentication fails closed: with no signing key configured (or only white space) both
  extractors reject every request, and every rejection is a 401, a 403 or a 500, never a
  success status.\<close>

theorem auth_fails_closed:
  assumes "trim key = []"
  shows "\<not> is_ok (config_auth X now key inst hdr) \<and> \<not> is_ok (teardown_auth X now key inst hdr) \<and>
    rp_status (jwt_rejection_response e) \<in> {401, 403, 500}"
proof -
  have "parse_signing_pubkey X key = Inl PubkeyNotConfigured"
    using assms by (simp add: parse_signing_pubkey_def)
  then have "config_auth X now key inst hdr \<noteq> Inr c" "teardown_auth X now key inst hdr \<noteq> Inr c" for c
    by (simp_all add: config_auth_def teardown_auth_def res_bind_Inr)
  then show ?thesis
    by (cases e) (auto simp: is_ok_def jwt_rejection_response_def split: sum.splits)
qed

theorem auth_fails_closed_witness:
  "\<not> is_ok (config_auth demo_externals 5 '' '' ''inst'' (Some ''Bearer x.y.z'')) \<and>
   \<not> is_ok (teardown_auth demo_externals 5 '' '' ''inst'' (Some ''Bearer x.y.z'')) \<and>
   rp_status (jwt_rejection_response Expired) \<in> {401, 403, 500}"
  by (rule auth_fails_closed) code_simp

end
