(* ===== verification/Fs.thy ===== *)
theory Fs
  imports Externals
begin

text \<open>
  The part of \<open>std::fs\<close> the program uses. A file system is a list of paths with their
  nodes, a path is its text, and every call can fail in a way the caller does not control:
  \<open>io_faults\<close> says which calls fail, with what text, and how much of a failed write
  reaches the disk; \<open>NotFound\<close> is only reported for a path that is missing.
  Opening for writing needs the parent directory, truncates an existing file and keeps its
  mode, \<open>rename\<close> replaces its target, and removing or reading a missing path is
  \<open>NotFound\<close>, as on Linux.
\<close>

section \<open>Nodes, paths and faults\<close>

record file_node =
  fn_mode :: nat
  fn_gid :: "nat option"
  fn_data :: bytes

datatype node = Dir | File file_node

type_synonym fs = "(string \<times> node) list"

datatype io_error = NotFound string | OtherIo string

fun io_text :: "io_error \<Rightarrow> string" where
  "io_text (NotFound t) = t"
| "io_text (OtherIo t) = t"

datatype fs_call = Stat string | CreateDir string | OpenWrite string | CreateNew string
  | WriteData string | SyncFile string | RenameTo string string | RemoveFile string
  | ReadFile string | ReadDir string | Chown string | Chmod string

record io_faults =
  io_fails :: "fs_call \<Rightarrow> string option"
  io_written :: "string \<Rightarrow> nat"

definition no_faults :: io_faults where
  "no_faults = \<lparr>io_fails = (\<lambda>_. None), io_written = (\<lambda>_. 0)\<rparr>"

text \<open>\<open>Path::join\<close>; joining the empty name only adds a trailing slash, which names the same node.\<close>

definition path_join :: "string \<Rightarrow> string \<Rightarrow> string" where
  "path_join dir name =
     (if starts_with ''/'' name then name
      else if name = [] then dir
      else if dir = [] \<or> last dir = CHR ''/'' then dir @ name
      else dir @ ''/'' @ name)"

text \<open>\<open>Path::parent\<close> of a path without a trailing slash: the part before the last slash.\<close>

definition path_parent :: "string \<Rightarrow> string option" where
  "path_parent p =
     (let before = rev (dropWhile (\<lambda>c. c \<noteq> CHR ''/'') (rev p)) in
      if p = [] \<or> p = ''/'' then None
      else if before = [] then Some []
      else if before = ''/'' then Some ''/'' else Some (butlast before))"

text \<open>\<open>set_extension\<close>: the extension starts at the last dot of the file name, unless that is
  its first character.\<close>

definition path_set_extension :: "string \<Rightarrow> string \<Rightarrow> string" where
  "path_set_extension p ext =
     (let before = rev (dropWhile (\<lambda>c. c \<noteq> CHR ''/'') (rev p));
          name = drop (length before) p;
          stem = rev (drop 1 (dropWhile (\<lambda>c. c \<noteq> CHR ''.'') (rev name)))
      in if name = [] \<or> name = ''..'' then p
         else before @ (if stem = [] then name else stem) @ ''.'' @ ext)"

text \<open>The directories a path passes through, itself included.\<close>

definition path_chain :: "string \<Rightarrow> string list" where
  "path_chain p = filter (\<lambda>q. q \<noteq> [])
     (map (\<lambda>n. take n p) (filter (\<lambda>n. n = length p \<or> p ! n = CHR ''/'') [1..<Suc (length p)]))"

section \<open>Calls\<close>

definition fs_lookup :: "fs \<Rightarrow> string \<Rightarrow> node option" where
  "fs_lookup fs p = map_of fs p"

definition fs_set :: "string \<Rightarrow> node \<Rightarrow> fs \<Rightarrow> fs" where
  "fs_set p n fs = AList.update p n fs"

definition fs_del :: "string \<Rightarrow> fs \<Rightarrow> fs" where
  "fs_del p fs = AList.delete p fs"

text \<open>\<open>Path::exists\<close>: an error counts as absent.\<close>

definition fs_exists :: "io_faults \<Rightarrow> string \<Rightarrow> fs \<Rightarrow> bool" where
  "fs_exists F p fs = (if is_some (io_fails F (Stat p)) then False else is_some (fs_lookup fs p))"

text \<open>\<open>fs::metadata\<close>: the node itself.\<close>

definition fs_metadata :: "io_faults \<Rightarrow> string \<Rightarrow> fs \<Rightarrow> io_error + node" where
  "fs_metadata F p fs =
     (case io_fails F (Stat p) of
        Some t \<Rightarrow> Inl (OtherIo t)
      | None \<Rightarrow> ok_or (NotFound ''no such file or directory'') (fs_lookup fs p))"

definition fs_create_dir_all :: "io_faults \<Rightarrow> string \<Rightarrow> fs \<Rightarrow> (io_error + unit) \<times> fs" where
  "fs_create_dir_all F p fs =
     (case io_fails F (CreateDir p) of
        Some t \<Rightarrow> (Inl (OtherIo t), fs)
      | None \<Rightarrow>
          (if list_ex (\<lambda>q. case fs_lookup fs q of Some (File _) \<Rightarrow> True | _ \<Rightarrow> False) (path_chain p)
           then (Inl (OtherIo ''not a directory''), fs)
           else (Inr (), foldr (\<lambda>q. fs_set q Dir) (path_chain p) fs)))"

definition parent_is_dir :: "string \<Rightarrow> fs \<Rightarrow> bool" where
  "parent_is_dir p fs =
     (case path_parent p of None \<Rightarrow> False
      | Some d \<Rightarrow> d = [] \<or> d = ''/'' \<or> fs_lookup fs d = Some Dir)"

definition fs_open_write :: "io_faults \<Rightarrow> nat \<Rightarrow> string \<Rightarrow> fs \<Rightarrow> (io_error + unit) \<times> fs" where
  "fs_open_write F mode p fs =
     (case io_fails F (OpenWrite p) of
        Some t \<Rightarrow> (Inl (OtherIo t), fs)
      | None \<Rightarrow>
          (case fs_lookup fs p of
             Some Dir \<Rightarrow> (Inl (OtherIo ''is a directory''), fs)
           | Some (File f) \<Rightarrow> (Inr (), fs_set p (File (f\<lparr>fn_data := []\<rparr>)) fs)
           | None \<Rightarrow>
               (if parent_is_dir p fs
                then (Inr (), fs_set p (File \<lparr>fn_mode = mode, fn_gid = None, fn_data = []\<rparr>) fs)
                else (Inl (NotFound ''no such file or directory''), fs))))"

definition fs_create_new :: "io_faults \<Rightarrow> nat \<Rightarrow> string \<Rightarrow> fs \<Rightarrow> (io_error + unit) \<times> fs" where
  "fs_create_new F mode p fs =
     (case io_fails F (CreateNew p) of
        Some t \<Rightarrow> (Inl (OtherIo t), fs)
      | None \<Rightarrow>
          (case fs_lookup fs p of
             Some _ \<Rightarrow> (Inl (OtherIo ''file exists''), fs)
           | None \<Rightarrow>
               (if parent_is_dir p fs
                then (Inr (), fs_set p (File \<lparr>fn_mode = mode, fn_gid = None, fn_data = []\<rparr>) fs)
                else (Inl (NotFound ''no such file or directory''), fs))))"

text \<open>\<open>write_all\<close> to a file just opened; a failed write leaves a prefix.\<close>

definition fs_write_all :: "io_faults \<Rightarrow> string \<Rightarrow> bytes \<Rightarrow> fs \<Rightarrow> (io_error + unit) \<times> fs" where
  "fs_write_all F p bs fs =
     (case fs_lookup fs p of
        Some (File f) \<Rightarrow>
          (case io_fails F (WriteData p) of
             Some t \<Rightarrow> (Inl (OtherIo t), fs_set p (File (f\<lparr>fn_data := take (io_written F p) bs\<rparr>)) fs)
           | None \<Rightarrow> (Inr (), fs_set p (File (f\<lparr>fn_data := bs\<rparr>)) fs))
      | _ \<Rightarrow> (Inl (OtherIo ''bad file descriptor''), fs))"

definition fs_sync :: "io_faults \<Rightarrow> string \<Rightarrow> fs \<Rightarrow> (io_error + unit) \<times> fs" where
  "fs_sync F p fs = (case io_fails F (SyncFile p) of Some t \<Rightarrow> (Inl (OtherIo t), fs) | None \<Rightarrow> (Inr (), fs))"

text \<open>Opening a directory and syncing it; both steps share one fault.\<close>

definition fs_sync_dir :: "io_faults \<Rightarrow> string \<Rightarrow> fs \<Rightarrow> (io_error + unit) \<times> fs" where
  "fs_sync_dir F p fs =
     (case io_fails F (SyncFile p) of
        Some t \<Rightarrow> (Inl (OtherIo t), fs)
      | None \<Rightarrow> (if fs_lookup fs p = None then (Inl (NotFound ''no such file or directory''), fs) else (Inr (), fs)))"

definition fs_chown :: "io_faults \<Rightarrow> string \<Rightarrow> nat \<Rightarrow> fs \<Rightarrow> (io_error + unit) \<times> fs" where
  "fs_chown F p gid fs =
     (case io_fails F (Chown p) of
        Some t \<Rightarrow> (Inl (OtherIo t), fs)
      | None \<Rightarrow>
          (case fs_lookup fs p of
             None \<Rightarrow> (Inl (NotFound ''no such file or directory''), fs)
           | Some Dir \<Rightarrow> (Inr (), fs)
           | Some (File f) \<Rightarrow> (Inr (), fs_set p (File (f\<lparr>fn_gid := Some gid\<rparr>)) fs)))"

definition fs_set_permissions :: "io_faults \<Rightarrow> string \<Rightarrow> nat \<Rightarrow> fs \<Rightarrow> (io_error + unit) \<times> fs" where
  "fs_set_permissions F p mode fs =
     (case io_fails F (Chmod p) of
        Some t \<Rightarrow> (Inl (OtherIo t), fs)
      | None \<Rightarrow>
          (case fs_lookup fs p of
             None \<Rightarrow> (Inl (NotFound ''no such file or directory''), fs)
           | Some Dir \<Rightarrow> (Inr (), fs)
           | Some (File f) \<Rightarrow> (Inr (), fs_set p (File (f\<lparr>fn_mode := mode\<rparr>)) fs)))"

definition fs_rename :: "io_faults \<Rightarrow> string \<Rightarrow> string \<Rightarrow> fs \<Rightarrow> (io_error + unit) \<times> fs" where
  "fs_rename F p q fs =
     (case io_fails F (RenameTo p q) of
        Some t \<Rightarrow> (Inl (OtherIo t), fs)
      | None \<Rightarrow>
          (case (fs_lookup fs p, fs_lookup fs q) of
             (None, _) \<Rightarrow> (Inl (NotFound ''no such file or directory''), fs)
           | (Some _, Some Dir) \<Rightarrow> (Inl (OtherIo ''is a directory''), fs)
           | (Some n, _) \<Rightarrow> (Inr (), fs_set q n (fs_del p fs))))"

definition fs_remove_file :: "io_faults \<Rightarrow> string \<Rightarrow> fs \<Rightarrow> (io_error + unit) \<times> fs" where
  "fs_remove_file F p fs =
     (case io_fails F (RemoveFile p) of
        Some t \<Rightarrow> (Inl (OtherIo t), fs)
      | None \<Rightarrow>
          (case fs_lookup fs p of
             None \<Rightarrow> (Inl (NotFound ''no such file or directory''), fs)
           | Some Dir \<Rightarrow> (Inl (OtherIo ''is a directory''), fs)
           | Some (File _) \<Rightarrow> (Inr (), fs_del p fs)))"

definition fs_read :: "io_faults \<Rightarrow> string \<Rightarrow> fs \<Rightarrow> io_error + bytes" where
  "fs_read F p fs =
     (case io_fails F (ReadFile p) of
        Some t \<Rightarrow> Inl (OtherIo t)
      | None \<Rightarrow>
          (case fs_lookup fs p of
             None \<Rightarrow> Inl (NotFound ''no such file or directory'')
           | Some Dir \<Rightarrow> Inl (OtherIo ''is a directory'')
           | Some (File f) \<Rightarrow> Inr (fn_data f)))"

text \<open>\<open>read_to_string\<close> also fails on bytes that are not UTF-8.\<close>

definition fs_read_to_string :: "io_faults \<Rightarrow> string \<Rightarrow> fs \<Rightarrow> io_error + string" where
  "fs_read_to_string F p fs =
     res_bind (fs_read F p fs)
       (\<lambda>bs. ok_or (OtherIo ''stream did not contain valid UTF-8'') (from_utf8 bs))"

text \<open>The entries of a directory: the names below it and whether each is a regular file.\<close>

definition dir_entry :: "string \<Rightarrow> string \<times> node \<Rightarrow> (string \<times> bool) list" where
  "dir_entry dir pn =
     (let pre = (if dir = [] \<or> last dir = CHR ''/'' then dir else dir @ ''/'') in
      case strip_prefix pre (fst pn) of
        None \<Rightarrow> []
      | Some name \<Rightarrow> (if name = [] \<or> CHR ''/'' \<in> set name then []
          else [(name, case snd pn of File _ \<Rightarrow> True | Dir \<Rightarrow> False)]))"

definition fs_read_dir :: "io_faults \<Rightarrow> string \<Rightarrow> fs \<Rightarrow> io_error + (string \<times> bool) list" where
  "fs_read_dir F dir fs =
     (case io_fails F (ReadDir dir) of
        Some t \<Rightarrow> Inl (OtherIo t)
      | None \<Rightarrow>
          (case fs_lookup fs dir of
             Some Dir \<Rightarrow> Inr (concat (map (dir_entry dir) fs))
           | Some (File _) \<Rightarrow> Inl (OtherIo ''not a directory'')
           | None \<Rightarrow> Inl (NotFound ''no such file or directory'')))"

section \<open>Composition\<close>

text \<open>The \<open>?\<close> operator for calls that change the file system, with the error mapped.\<close>

definition io_then ::
  "(io_error + 'a) \<times> fs \<Rightarrow> (io_error \<Rightarrow> 'e) \<Rightarrow> ('a \<Rightarrow> fs \<Rightarrow> ('e + 'b) \<times> fs) \<Rightarrow> ('e + 'b) \<times> fs" where
  "io_then r f k = (case r of (Inl e, fs) \<Rightarrow> (Inl (f e), fs) | (Inr v, fs) \<Rightarrow> k v fs)"

lemma io_then_simps [simp]:
  "io_then (Inl e, fs) f k = (Inl (f e), fs)" "io_then (Inr v, fs) f k = k v fs"
  by (simp_all add: io_then_def)

section \<open>Lookups after updates\<close>

lemma fs_lookup_set [simp]: "fs_lookup (fs_set p n fs) q = (if q = p then Some n else fs_lookup fs q)"
  by (simp add: fs_lookup_def fs_set_def update_conv')

lemma fs_lookup_del [simp]: "fs_lookup (fs_del p fs) q = (if q = p then None else fs_lookup fs q)"
  by (simp add: fs_lookup_def fs_del_def delete_conv')

text \<open>A call that touches one path leaves every other path alone.\<close>

lemma fs_frame:
  "q \<noteq> p \<Longrightarrow> fs_lookup (snd (fs_open_write F mode p fs)) q = fs_lookup fs q"
  "q \<noteq> p \<Longrightarrow> fs_lookup (snd (fs_create_new F mode p fs)) q = fs_lookup fs q"
  "q \<noteq> p \<Longrightarrow> fs_lookup (snd (fs_write_all F p bs fs)) q = fs_lookup fs q"
  "fs_lookup (snd (fs_sync F p fs)) q = fs_lookup fs q"
  "q \<noteq> p \<Longrightarrow> fs_lookup (snd (fs_chown F p gid fs)) q = fs_lookup fs q"
  "q \<noteq> p \<Longrightarrow> fs_lookup (snd (fs_set_permissions F p mode fs)) q = fs_lookup fs q"
  "q \<noteq> p \<Longrightarrow> fs_lookup (snd (fs_remove_file F p fs)) q = fs_lookup fs q"
  by (auto simp: fs_open_write_def fs_create_new_def fs_write_all_def fs_sync_def fs_chown_def
      fs_set_permissions_def fs_remove_file_def split: option.splits node.splits)

lemma fs_rename_frame:
  "r \<noteq> p \<Longrightarrow> r \<noteq> q \<Longrightarrow> fs_lookup (snd (fs_rename F p q fs)) r = fs_lookup fs r"
  by (auto simp: fs_rename_def split: option.splits node.splits)

lemma fs_rename_fail: "fst (fs_rename F p q fs) = Inl e \<Longrightarrow> snd (fs_rename F p q fs) = fs"
  by (auto simp: fs_rename_def split: option.splits node.splits)

lemma fs_create_dir_frame:
  "q \<notin> set (path_chain p) \<Longrightarrow> fs_lookup (snd (fs_create_dir_all F p fs)) q = fs_lookup fs q"
proof -
  have "q \<notin> set ps \<Longrightarrow> fs_lookup (foldr (\<lambda>q. fs_set q Dir) ps fs) q = fs_lookup fs q" for ps
    by (induction ps) auto
  then show "q \<notin> set (path_chain p) \<Longrightarrow> fs_lookup (snd (fs_create_dir_all F p fs)) q = fs_lookup fs q"
    by (auto simp: fs_create_dir_all_def split: option.splits)
qed

lemma fs_sync_dir_same [simp]: "snd (fs_sync_dir F p fs) = fs"
  by (simp add: fs_sync_dir_def split: option.split)

section \<open>Calls that succeed\<close>

lemma io_then_Inr:
  "io_then r f k = (Inr v, fs') \<longleftrightarrow> (\<exists>x fs. r = (Inr x, fs) \<and> k x fs = (Inr v, fs'))"
  by (auto simp: io_then_def split: prod.splits sum.splits)

lemma io_then_frame:
  assumes "fs_lookup (snd r) q = x" "\<And>v fs. fs_lookup fs q = x \<Longrightarrow> fs_lookup (snd (k v fs)) q = x"
  shows "fs_lookup (snd (io_then r f k)) q = x"
  using assms by (auto simp: io_then_def split: prod.splits sum.splits)

lemma fs_open_write_ok:
  "fs_open_write F mode p fs = (Inr u, fs') \<Longrightarrow> \<exists>f. fs_lookup fs' p = Some (File f)"
  by (auto simp: fs_open_write_def split: option.splits node.splits if_splits)

lemma fs_write_all_ok:
  "fs_write_all F p bs fs = (Inr u, fs') \<Longrightarrow> \<exists>f. fs_lookup fs' p = Some (File f) \<and> fn_data f = bs"
  by (auto simp: fs_write_all_def split: option.splits node.splits)

lemma fs_rename_ok:
  "fs_rename F p q fs = (Inr u, fs') \<Longrightarrow> p \<noteq> q \<Longrightarrow> fs_lookup fs' q = fs_lookup fs p"
  by (auto simp: fs_rename_def split: option.splits node.splits)

end
