(* ===== verification/Kv_Store.thy ===== *)
theory Kv_Store
  imports Prelude
begin

text \<open>
  The contract of a store of named values whose operations may fail. An operation reports
  whether it took effect; the laws say what a lookup returns after an operation that did
  and after one that did not. The one consequence every client needs is proved here once: a
  run of operations behaves like the run of the operations that reported success on a map,
  so a failed operation leaves no trace. The configuration directory is an interpretation.
\<close>

datatype ('k, 'v) kv_op = KvPut 'k 'v | KvDel 'k

fun kv_key :: "('k, 'v) kv_op \<Rightarrow> 'k" where
  "kv_key (KvPut k v) = k"
| "kv_key (KvDel k) = k"

text \<open>The effect of an operation on a map, and of a run of those that succeeded.\<close>

fun kv_apply :: "('k, 'v) kv_op \<Rightarrow> ('k \<rightharpoonup> 'v) \<Rightarrow> ('k \<rightharpoonup> 'v)" where
  "kv_apply (KvPut k v) m = m(k \<mapsto> v)"
| "kv_apply (KvDel k) m = m(k := None)"

fun kv_run :: "(('k, 'v) kv_op \<Rightarrow> 's \<Rightarrow> bool \<times> 's) \<Rightarrow> ('k, 'v) kv_op list \<Rightarrow> 's \<Rightarrow> bool list \<times> 's" where
  "kv_run exec [] s = ([], s)"
| "kv_run exec (x # xs) s =
     (case exec x s of (ok, s1) \<Rightarrow> (case kv_run exec xs s1 of (oks, s2) \<Rightarrow> (ok # oks, s2)))"

fun kv_spec :: "('k, 'v) kv_op list \<Rightarrow> bool list \<Rightarrow> ('k \<rightharpoonup> 'v) \<Rightarrow> ('k \<rightharpoonup> 'v)" where
  "kv_spec (x # xs) (ok # oks) m = kv_spec xs oks (if ok then kv_apply x m else m)"
| "kv_spec _ _ m = m"

locale kv_store =
  fixes valid :: "'k \<Rightarrow> bool"
    and get :: "'s \<Rightarrow> 'k \<Rightarrow> 'v option"
    and exec :: "('k, 'v) kv_op \<Rightarrow> 's \<Rightarrow> bool \<times> 's"
  assumes exec_own: "exec x s = (ok, s') \<Longrightarrow> valid (kv_key x) \<Longrightarrow>
      get s' (kv_key x) = (if ok then kv_apply x (get s) (kv_key x) else get s (kv_key x))"
    and exec_other: "exec x s = (ok, s') \<Longrightarrow> valid k \<Longrightarrow> k \<noteq> kv_key x \<Longrightarrow> get s' k = get s k"
begin

lemma exec_refines:
  "exec x s = (ok, s') \<Longrightarrow> valid k \<Longrightarrow> get s' k = (if ok then kv_apply x (get s) else get s) k"
proof (cases "k = kv_key x")
  case False
  assume "exec x s = (ok, s')" "valid k"
  then have "get s' k = get s k" using False exec_other by blast
  with False show ?thesis by (cases x) auto
qed (use exec_own in fastforce)

lemma kv_spec_cong: "(\<And>k. valid k \<Longrightarrow> m k = m' k) \<Longrightarrow> valid k \<Longrightarrow> kv_spec xs oks m k = kv_spec xs oks m' k"
proof (induction xs oks m arbitrary: m' rule: kv_spec.induct)
  case (1 x xs ok oks m)
  have "kv_spec xs oks (if ok then kv_apply x m else m) k = kv_spec xs oks (if ok then kv_apply x m' else m') k"
    using 1(3) by (intro 1(1)) (cases x; auto simp: 1(2))+
  then show ?case by simp
qed auto

theorem run_refines:
  "kv_run exec xs s = (oks, s') \<Longrightarrow> valid k \<Longrightarrow> get s' k = kv_spec xs oks (get s) k"
proof (induction xs arbitrary: s oks)
  case (Cons x xs)
  obtain ok s1 where x: "exec x s = (ok, s1)" by (cases "exec x s")
  obtain oks2 where r: "kv_run exec xs s1 = (oks2, s')" "oks = ok # oks2"
    using Cons.prems(1) x by (auto split: prod.splits)
  have "get s' k = kv_spec xs oks2 (get s1) k" using Cons.IH r(1) Cons.prems(2) by blast
  also have "\<dots> = kv_spec xs oks2 (if ok then kv_apply x (get s) else get s) k"
    using exec_refines [OF x] Cons.prems(2) by (intro kv_spec_cong)
  finally show ?case by (simp add: r(2))
qed simp

end

end
