(* ===== verification/Config_Store.thy ===== *)
theory Config_Store
  imports Fs Kv_Store "HOL-Library.Char_ord" "HOL-Library.List_Lexorder"
begin

text \<open>
  The configuration store, \<open>config_store.rs\<close>: one file per key below the configuration
  directory, written to a temporary file and renamed, and the \<open>.ready\<close> sentinel. The
  lemmas show that keys cannot leave the directory or collide with temporary files, that a
  write is atomic under every pattern of I/O failures, and that reads, writes, deletes and
  listing behave as operations on one map.
\<close>

datatype config_store_error = InvalidKeyName string | DirNotFound string | Io string

fun config_error_to_string :: "config_store_error \<Rightarrow> string" where
  "config_error_to_string (InvalidKeyName d) = ''invalid_key_name:'' @ d"
| "config_error_to_string (DirNotFound d) = ''config_dir_not_found:'' @ d"
| "config_error_to_string (Io d) = ''io_error:'' @ d"

record config_store_options =
  file_gid :: "nat option"

text \<open>Octal 640, 600 and 644.\<close>

definition config_file_mode :: "config_store_options \<Rightarrow> nat" where
  "config_file_mode opts = (if is_some (file_gid opts) then 416 else 384)"

definition ready_file_mode :: "config_store_options \<Rightarrow> nat" where
  "ready_file_mode opts = (if is_some (file_gid opts) then 416 else 420)"

section \<open>Keys\<close>

definition key_start_char :: "char \<Rightarrow> bool" where
  "key_start_char c \<longleftrightarrow> is_ascii_alphabetic c \<or> c = CHR ''_''"

definition key_char :: "char \<Rightarrow> bool" where
  "key_char c \<longleftrightarrow> is_ascii_alphanumeric c \<or> c = CHR ''_''"

text \<open>The offending character is printed in full; a multi-byte one takes the following
  continuation bytes along.\<close>

definition is_continuation :: "char \<Rightarrow> bool" where
  "is_continuation c \<longleftrightarrow> 128 \<le> ord c \<and> ord c < 192"

fun check_key_chars :: "string \<Rightarrow> config_store_error + unit" where
  "check_key_chars [] = Inr ()"
| "check_key_chars (c # cs) =
     (if key_char c then check_key_chars cs
      else Inl (InvalidKeyName (''invalid character: '' @ [CHR 39] @
        (c # (if ord c < 128 then [] else takeWhile is_continuation cs)) @ [CHR 39])))"

definition validate_key_name :: "string \<Rightarrow> config_store_error + unit" where
  "validate_key_name key =
     (if key = [] \<or> 256 < length key then Inl (InvalidKeyName ''key must be 1-256 characters'')
      else if \<not> key_start_char (hd key) then Inl (InvalidKeyName ''must start with letter or underscore'')
      else check_key_chars (tl key))"

section \<open>Writing\<close>

definition ensure_config_dir :: "io_faults \<Rightarrow> string \<Rightarrow> fs \<Rightarrow> (config_store_error + unit) \<times> fs" where
  "ensure_config_dir F dir fs =
     (if fs_exists F dir fs then (Inr (), fs)
      else io_then (fs_create_dir_all F dir fs) (\<lambda>e. Io (''create_dir:'' @ io_text e)) (\<lambda>u fs. (Inr (), fs)))"

definition apply_file_metadata ::
  "io_faults \<Rightarrow> string \<Rightarrow> nat option \<Rightarrow> nat \<Rightarrow> fs \<Rightarrow> (config_store_error + unit) \<times> fs" where
  "apply_file_metadata F path gid mode fs =
     (case (case gid of
              None \<Rightarrow> (Inr (), fs)
            | Some g \<Rightarrow>
                (if CHR 0x00 \<in> set path then (Inl (Io ''path_contains_nul''), fs)
                 else io_then (fs_chown F path g fs) (\<lambda>e. Io (''chown:'' @ io_text e)) (\<lambda>u fs. (Inr (), fs)))) of
        (Inl e, fs) \<Rightarrow> (Inl e, fs)
      | (Inr _, fs) \<Rightarrow>
          io_then (fs_set_permissions F path mode fs) (\<lambda>e. Io (''chmod:'' @ io_text e)) (\<lambda>u fs. (Inr (), fs)))"

text \<open>The sequence both writers use, with the labels of their errors: open the temporary
  file, write, sync, set owner and mode, rename.\<close>

definition write_via_tmp ::
  "io_faults \<Rightarrow> string \<times> string \<times> string \<times> string \<Rightarrow> string \<Rightarrow> string \<Rightarrow> bytes \<Rightarrow> nat option \<Rightarrow> nat \<Rightarrow> fs \<Rightarrow>
     (config_store_error + unit) \<times> fs" where
  "write_via_tmp F labels tmp target val gid mode fs =
     (case labels of (l_open, l_data, l_sync, l_rename) \<Rightarrow>
      io_then (fs_open_write F mode tmp fs) (\<lambda>e. Io (l_open @ io_text e)) (\<lambda>u fs.
      io_then (fs_write_all F tmp val fs) (\<lambda>e. Io (l_data @ io_text e)) (\<lambda>u fs.
      io_then (fs_sync F tmp fs) (\<lambda>e. Io (l_sync @ io_text e)) (\<lambda>u fs.
      case apply_file_metadata F tmp gid mode fs of
        (Inl e, fs) \<Rightarrow> (Inl e, fs)
      | (Inr _, fs) \<Rightarrow>
          io_then (fs_rename F tmp target fs) (\<lambda>e. Io (l_rename @ io_text e)) (\<lambda>u fs. (Inr (), fs))))))"

definition write_config_with_options ::
  "io_faults \<Rightarrow> string \<Rightarrow> string \<Rightarrow> bytes \<Rightarrow> config_store_options \<Rightarrow> fs \<Rightarrow> (config_store_error + unit) \<times> fs" where
  "write_config_with_options F config_dir key val opts fs =
     (case validate_key_name key of
        Inl e \<Rightarrow> (Inl e, fs)
      | Inr _ \<Rightarrow>
          (case ensure_config_dir F config_dir fs of
             (Inl e, fs) \<Rightarrow> (Inl e, fs)
           | (Inr _, fs) \<Rightarrow>
               write_via_tmp F (''write_tmp:'', ''write_data:'', ''sync:'', ''rename:'')
                 (path_join config_dir (''.'' @ key @ ''.tmp'')) (path_join config_dir key) val
                 (file_gid opts) (config_file_mode opts) fs))"

definition write_config ::
  "io_faults \<Rightarrow> string \<Rightarrow> string \<Rightarrow> bytes \<Rightarrow> fs \<Rightarrow> (config_store_error + unit) \<times> fs" where
  "write_config F config_dir key val fs =
     write_config_with_options F config_dir key val \<lparr>file_gid = None\<rparr> fs"

section \<open>Reading, deleting, listing\<close>

definition delete_config ::
  "io_faults \<Rightarrow> string \<Rightarrow> string \<Rightarrow> fs \<Rightarrow> (config_store_error + bool) \<times> fs" where
  "delete_config F config_dir key fs =
     (case validate_key_name key of
        Inl e \<Rightarrow> (Inl e, fs)
      | Inr _ \<Rightarrow>
          (case fs_remove_file F (path_join config_dir key) fs of
             (Inr _, fs) \<Rightarrow> (Inr True, fs)
           | (Inl (NotFound _), fs) \<Rightarrow> (Inr False, fs)
           | (Inl e, fs) \<Rightarrow> (Inl (Io (''delete:'' @ io_text e)), fs)))"

definition list_config_keys :: "io_faults \<Rightarrow> string \<Rightarrow> fs \<Rightarrow> config_store_error + string list" where
  "list_config_keys F config_dir fs =
     (if \<not> fs_exists F config_dir fs then Inr []
      else res_bind (map_err (\<lambda>e. Io (''read_dir:'' @ io_text e)) (fs_read_dir F config_dir fs)) (\<lambda>entries.
        Inr (sort (map fst (filter (\<lambda>(name, is_file). \<not> starts_with ''.'' name \<and> is_file) entries)))))"

definition read_config ::
  "io_faults \<Rightarrow> string \<Rightarrow> string \<Rightarrow> fs \<Rightarrow> config_store_error + bytes option" where
  "read_config F config_dir key fs =
     (case validate_key_name key of
        Inl e \<Rightarrow> Inl e
      | Inr _ \<Rightarrow>
          (case fs_read F (path_join config_dir key) fs of
             Inr d \<Rightarrow> Inr (Some d)
           | Inl (NotFound _) \<Rightarrow> Inr None
           | Inl e \<Rightarrow> Inl (Io (''read:'' @ io_text e))))"

section \<open>The ready sentinel\<close>

text \<open>\<open>unix_secs\<close> is the Unix time of the call.\<close>

definition write_ready_sentinel_with_options ::
  "io_faults \<Rightarrow> nat \<Rightarrow> string \<Rightarrow> config_store_options \<Rightarrow> fs \<Rightarrow> (config_store_error + unit) \<times> fs" where
  "write_ready_sentinel_with_options F unix_secs config_dir opts fs =
     (if fs_exists F (path_join config_dir ''.ready'') fs then (Inr (), fs)
      else case ensure_config_dir F config_dir fs of
        (Inl e, fs) \<Rightarrow> (Inl e, fs)
      | (Inr _, fs) \<Rightarrow>
          write_via_tmp F (''write_ready_tmp:'', ''write_ready_data:'', ''sync_ready:'', ''rename_ready:'')
            (path_join config_dir ''.ready.tmp'') (path_join config_dir ''.ready'')
            (as_bytes (''ready_at='' @ show_nat unix_secs @ [CHR 10])) (file_gid opts) (ready_file_mode opts) fs)"

definition write_ready_sentinel :: "io_faults \<Rightarrow> nat \<Rightarrow> string \<Rightarrow> fs \<Rightarrow> (config_store_error + unit) \<times> fs" where
  "write_ready_sentinel F unix_secs config_dir fs =
     write_ready_sentinel_with_options F unix_secs config_dir \<lparr>file_gid = None\<rparr> fs"

definition is_config_ready :: "io_faults \<Rightarrow> string \<Rightarrow> fs \<Rightarrow> bool" where
  "is_config_ready F config_dir fs = fs_exists F (path_join config_dir ''.ready'') fs"

section \<open>Keys stay inside the directory\<close>

lemma check_key_chars_iff: "check_key_chars cs = Inr () \<longleftrightarrow> list_all key_char cs"
  by (induction cs) auto

lemma validate_key_name_iff:
  "validate_key_name key = Inr () \<longleftrightarrow>
     key \<noteq> [] \<and> length key \<le> 256 \<and> key_start_char (hd key) \<and> list_all key_char (tl key)"
  by (auto simp: validate_key_name_def check_key_chars_iff)

lemma key_start_char_key: "key_start_char c \<Longrightarrow> key_char c"
  by (auto simp: key_start_char_def key_char_def is_ascii_alphanumeric_def)

lemma valid_key_chars: "validate_key_name key = Inr () \<Longrightarrow> list_all key_char key"
  by (cases key) (auto simp: validate_key_name_iff key_start_char_key)

lemma key_char_not_special: "key_char c \<Longrightarrow> c \<noteq> CHR ''/'' \<and> c \<noteq> CHR ''.''"
  by (auto simp: key_char_def ascii_defs)

lemma valid_key_no_special:
  "validate_key_name key = Inr () \<Longrightarrow> CHR ''/'' \<notin> set key \<and> CHR ''.'' \<notin> set key \<and> key \<noteq> []"
  using valid_key_chars [of key] key_char_not_special validate_key_name_iff [of key]
  by (auto simp: list_all_iff)

lemma path_join_inj:
  "\<not> starts_with ''/'' a \<Longrightarrow> \<not> starts_with ''/'' b \<Longrightarrow> path_join dir a = path_join dir b \<longleftrightarrow> a = b"
  by (simp add: path_join_def)

lemma path_join_not_chain: "\<not> starts_with ''/'' a \<Longrightarrow> a \<noteq> [] \<Longrightarrow> path_join dir a \<notin> set (path_chain dir)"
  by (auto simp: path_join_def path_chain_def dest!: arg_cong [where f = length])

lemma no_slash_not_starts: "CHR ''/'' \<notin> set a \<Longrightarrow> \<not> starts_with ''/'' a"
  by (auto simp: starts_with_iff)

lemma valid_key_paths:
  assumes "validate_key_name key = Inr ()"
  shows "\<not> starts_with ''/'' key" "\<not> starts_with ''/'' (''.'' @ key @ ''.tmp'')"
    "path_join dir (''.'' @ key @ ''.tmp'') \<noteq> path_join dir key"
    "path_join dir key \<notin> set (path_chain dir)"
proof -
  note k = valid_key_no_special [OF assms]
  show a: "\<not> starts_with ''/'' key" using k by (simp add: no_slash_not_starts)
  show b: "\<not> starts_with ''/'' (''.'' @ key @ ''.tmp'')" by (simp add: starts_with_iff)
  show "path_join dir (''.'' @ key @ ''.tmp'') \<noteq> path_join dir key"
    using k by (subst path_join_inj [OF b a]) auto
  show "path_join dir key \<notin> set (path_chain dir)" using path_join_not_chain [OF a] k by blast
qed

lemma valid_key_tmp_other:
  assumes "validate_key_name key = Inr ()" "validate_key_name key' = Inr ()"
  shows "path_join dir (''.'' @ key @ ''.tmp'') \<noteq> path_join dir key'"
  using valid_key_no_special [OF assms(2)]
  by (subst path_join_inj [OF valid_key_paths(2) [OF assms(1)] valid_key_paths(1) [OF assms(2)]]) auto

section \<open>Writes are atomic\<close>

lemma apply_file_metadata_frame:
  "q \<noteq> p \<Longrightarrow> fs_lookup (snd (apply_file_metadata F p gid mode fs)) q = fs_lookup fs q"
  using fs_frame(5) [of q p F _ fs] fs_frame(6) [of q p F mode]
  by (auto simp: apply_file_metadata_def io_then_def split: option.splits prod.splits sum.splits)
    (metis snd_conv)+

lemma apply_file_metadata_ok:
  assumes "apply_file_metadata F p gid mode fs = (Inr u, fs')" "fs_lookup fs p = Some (File f)"
  shows "\<exists>f'. fs_lookup fs' p = Some (File f') \<and> fn_data f' = fn_data f \<and> fn_mode f' = mode \<and>
    (\<forall>g. gid = Some g \<longrightarrow> fn_gid f' = Some g)"
  using assms
  by (auto simp: apply_file_metadata_def io_then_def fs_chown_def fs_set_permissions_def
      split: option.splits prod.splits sum.splits if_splits)

text \<open>Every stage before the rename only touches the temporary file.\<close>

lemma write_via_tmp_outcome:
  assumes "write_via_tmp F labels tmp target val gid mode fs = (r, fs')" "tmp \<noteq> target"
  shows "q \<noteq> tmp \<Longrightarrow> q \<noteq> target \<Longrightarrow> fs_lookup fs' q = fs_lookup fs q"
    "r = Inl e \<Longrightarrow> fs_lookup fs' target = fs_lookup fs target"
    "r = Inr u \<Longrightarrow> \<exists>f. fs_lookup fs' target = Some (File f) \<and> fn_data f = val \<and> fn_mode f = mode \<and>
       (\<forall>g. gid = Some g \<longrightarrow> fn_gid f = Some g)"
proof -
  obtain l1 l2 l3 l4 where l: "labels = (l1, l2, l3, l4)" by (cases labels)
  obtain r1 fs1 where s1: "fs_open_write F mode tmp fs = (r1, fs1)" by (cases "fs_open_write F mode tmp fs")
  obtain r2 fs2 where s2: "fs_write_all F tmp val fs1 = (r2, fs2)" by (cases "fs_write_all F tmp val fs1")
  obtain r3 fs3 where s3: "fs_sync F tmp fs2 = (r3, fs3)" by (cases "fs_sync F tmp fs2")
  obtain r4 fs4 where s4: "apply_file_metadata F tmp gid mode fs3 = (r4, fs4)"
    by (cases "apply_file_metadata F tmp gid mode fs3")
  obtain r5 fs5 where s5: "fs_rename F tmp target fs4 = (r5, fs5)" by (cases "fs_rename F tmp target fs4")
  have f1: "q \<noteq> tmp \<Longrightarrow> fs_lookup fs1 q = fs_lookup fs q" for q using fs_frame(1) [of q tmp F mode fs] s1 by simp
  have f2: "q \<noteq> tmp \<Longrightarrow> fs_lookup fs2 q = fs_lookup fs1 q" for q using fs_frame(3) [of q tmp F val fs1] s2 by simp
  have f3: "fs_lookup fs3 q = fs_lookup fs2 q" for q using fs_frame(4) [of F tmp fs2 q] s3 by simp
  have f4: "q \<noteq> tmp \<Longrightarrow> fs_lookup fs4 q = fs_lookup fs3 q" for q
    using apply_file_metadata_frame [of q tmp F gid mode fs3] s4 by simp
  have f5: "q \<noteq> tmp \<Longrightarrow> q \<noteq> target \<Longrightarrow> fs_lookup fs5 q = fs_lookup fs4 q" for q
    using fs_rename_frame [of q tmp target F fs4] s5 by simp
  have f5e: "r5 = Inl e \<Longrightarrow> fs5 = fs4" for e using fs_rename_fail [of F tmp target fs4] s5 by auto
  note def = assms(1)[unfolded l write_via_tmp_def prod.case s1]
  show "q \<noteq> tmp \<Longrightarrow> q \<noteq> target \<Longrightarrow> fs_lookup fs' q = fs_lookup fs q"
    using def f1 f2 f3 f4 f5 by (cases r1; cases r2; cases r3; cases r4; cases r5) (auto simp: s2 s3 s4 s5)
  show "r = Inl e \<Longrightarrow> fs_lookup fs' target = fs_lookup fs target"
    using def f1 f2 f3 f4 f5e assms(2)
    by (cases r1; cases r2; cases r3; cases r4; cases r5) (auto simp: s2 s3 s4 s5)
  assume r: "r = Inr u"
  then have ok: "r1 = Inr ()" "r2 = Inr ()" "r3 = Inr ()" "r4 = Inr ()" "r5 = Inr ()" "fs' = fs5"
    using def by (cases r1; cases r2; cases r3; cases r4; cases r5; auto simp: s2 s3 s4 s5)+
  obtain f where f: "fs_lookup fs3 tmp = Some (File f)" "fn_data f = val"
    using fs_write_all_ok [of F tmp val fs1] s2 ok(2) f3 by auto
  obtain g where "fs_lookup fs4 tmp = Some (File g)" "fn_data g = val" "fn_mode g = mode"
      "\<forall>x. gid = Some x \<longrightarrow> fn_gid g = Some x"
    using apply_file_metadata_ok [of F tmp gid mode fs3 "()" fs4 f] s4 ok(4) f by auto
  moreover have "fs_lookup fs5 target = fs_lookup fs4 tmp"
    using fs_rename_ok [of F tmp target fs4] s5 ok(5) assms(2) by simp
  ultimately show "\<exists>f. fs_lookup fs' target = Some (File f) \<and> fn_data f = val \<and> fn_mode f = mode \<and>
       (\<forall>g. gid = Some g \<longrightarrow> fn_gid f = Some g)" using ok(6) by auto
qed

lemma ensure_config_dir_frame:
  "q \<notin> set (path_chain dir) \<Longrightarrow> fs_lookup (snd (ensure_config_dir F dir fs)) q = fs_lookup fs q"
  using fs_create_dir_frame [of q dir F fs]
  by (auto simp: ensure_config_dir_def io_then_def split: prod.splits sum.splits)

text \<open>The value stored under a key.\<close>

definition stored :: "string \<Rightarrow> fs \<Rightarrow> string \<Rightarrow> bytes option" where
  "stored dir fs key =
     (case fs_lookup fs (path_join dir key) of Some (File f) \<Rightarrow> Some (fn_data f) | _ \<Rightarrow> None)"

lemma write_config_outcome:
  assumes "write_config_with_options F dir key val opts fs = (r, fs')"
  shows "r = Inr () \<Longrightarrow> \<exists>f. fs_lookup fs' (path_join dir key) = Some (File f) \<and> fn_data f = val \<and>
      fn_mode f = config_file_mode opts \<and> (\<forall>g. file_gid opts = Some g \<longrightarrow> fn_gid f = Some g)"
    "r \<noteq> Inr () \<Longrightarrow> fs_lookup fs' (path_join dir key) = fs_lookup fs (path_join dir key)"
    "validate_key_name key' = Inr () \<Longrightarrow> key' \<noteq> key \<Longrightarrow>
       fs_lookup fs' (path_join dir key') = fs_lookup fs (path_join dir key')"
proof -
  let ?tmp = "path_join dir (''.'' @ key @ ''.tmp'')" and ?t = "path_join dir key"
  have all: "(r = Inr () \<longrightarrow> (\<exists>f. fs_lookup fs' ?t = Some (File f) \<and> fn_data f = val \<and>
      fn_mode f = config_file_mode opts \<and> (\<forall>g. file_gid opts = Some g \<longrightarrow> fn_gid f = Some g))) \<and>
    (r \<noteq> Inr () \<longrightarrow> fs_lookup fs' ?t = fs_lookup fs ?t) \<and>
    (\<forall>key'. validate_key_name key' = Inr () \<longrightarrow> key' \<noteq> key \<longrightarrow>
       fs_lookup fs' (path_join dir key') = fs_lookup fs (path_join dir key'))"
  proof (cases "validate_key_name key")
    case (Inl e)
    with assms show ?thesis by (auto simp: write_config_with_options_def)
  next
    case (Inr u)
    then have v: "validate_key_name key = Inr ()" by simp
    obtain r1 fs1 where s1: "ensure_config_dir F dir fs = (r1, fs1)" by (cases "ensure_config_dir F dir fs")
    have f1: "validate_key_name k = Inr () \<Longrightarrow> fs_lookup fs1 (path_join dir k) = fs_lookup fs (path_join dir k)" for k
      using ensure_config_dir_frame [of _ dir F fs] s1 valid_key_paths(4) [of k dir] by simp
    show ?thesis
    proof (cases r1)
      case (Inl e)
      with assms v s1 f1 show ?thesis by (auto simp: write_config_with_options_def)
    next
      case (Inr u)
      have w: "write_via_tmp F (''write_tmp:'', ''write_data:'', ''sync:'', ''rename:'') ?tmp ?t val
          (file_gid opts) (config_file_mode opts) fs1 = (r, fs')"
        using assms v s1 Inr by (simp add: write_config_with_options_def)
      note o = write_via_tmp_outcome [OF w valid_key_paths(3) [OF v]]
      have "fs_lookup fs' (path_join dir k) = fs_lookup fs (path_join dir k)"
        if "validate_key_name k = Inr ()" "k \<noteq> key" for k
        using o(1) [of "path_join dir k"] valid_key_tmp_other [OF v that(1), of dir] f1 [OF that(1)] that
          path_join_inj [OF valid_key_paths(1) [OF that(1)] valid_key_paths(1) [OF v]] by metis
      then show ?thesis using o(2,3) f1 [OF v] by (cases r) auto
    qed
  qed
  show "r = Inr () \<Longrightarrow> \<exists>f. fs_lookup fs' ?t = Some (File f) \<and> fn_data f = val \<and>
      fn_mode f = config_file_mode opts \<and> (\<forall>g. file_gid opts = Some g \<longrightarrow> fn_gid f = Some g)"
    "r \<noteq> Inr () \<Longrightarrow> fs_lookup fs' ?t = fs_lookup fs ?t"
    "validate_key_name key' = Inr () \<Longrightarrow> key' \<noteq> key \<Longrightarrow>
       fs_lookup fs' (path_join dir key') = fs_lookup fs (path_join dir key')"
    using all by blast+
qed

section \<open>The store as a map\<close>

text \<open>The operations on a directory as one function: what they do to the file system and
  whether they succeeded.\<close>

fun config_exec ::
  "io_faults \<Rightarrow> string \<Rightarrow> config_store_options \<Rightarrow> (string, bytes) kv_op \<Rightarrow> fs \<Rightarrow> bool \<times> fs" where
  "config_exec F dir opts (KvPut key val) fs =
     (case write_config_with_options F dir key val opts fs of (r, fs') \<Rightarrow> (is_ok r, fs'))"
| "config_exec F dir opts (KvDel key) fs =
     (case delete_config F dir key fs of (r, fs') \<Rightarrow> (is_ok r, fs'))"

lemma delete_config_outcome:
  assumes "delete_config F dir key fs = (r, fs')"
  shows "validate_key_name key = Inr () \<Longrightarrow> stored dir fs' key = (if is_ok r then None else stored dir fs key)"
    "q \<noteq> path_join dir key \<Longrightarrow> fs_lookup fs' q = fs_lookup fs q"
  using assms
  by (auto simp: delete_config_def fs_remove_file_def stored_def
      split: option.splits node.splits sum.splits prod.splits io_error.splits)

interpretation config: kv_store "\<lambda>key. validate_key_name key = Inr ()" "stored dir" "config_exec F dir opts"
  for F dir opts
proof
  fix x :: "(string, bytes) kv_op" and fs fs' :: fs and ok k
  assume e: "config_exec F dir opts x fs = (ok, fs')"
  {
    assume v: "validate_key_name (kv_key x) = Inr ()"
    show "stored dir fs' (kv_key x) =
        (if ok then kv_apply x (stored dir fs) (kv_key x) else stored dir fs (kv_key x))"
    proof (cases x)
      case (KvPut key val)
      obtain r where r: "write_config_with_options F dir key val opts fs = (r, fs')" "ok = is_ok r"
        using e KvPut by (auto split: prod.splits)
      note o = write_config_outcome [OF r(1)]
      show ?thesis
        using o(1,2) r(2) KvPut by (cases r) (auto simp: stored_def)
    next
      case (KvDel key)
      then obtain r where r: "delete_config F dir key fs = (r, fs')" "ok = is_ok r"
        using e by (auto split: prod.splits)
      with delete_config_outcome(1) [OF r(1)] v KvDel show ?thesis by simp
    qed
  }
  assume v: "validate_key_name k = Inr ()" "k \<noteq> kv_key x"
  show "stored dir fs' k = stored dir fs k"
  proof (cases x)
    case (KvPut key val)
    then obtain r where "write_config_with_options F dir key val opts fs = (r, fs')"
      using e by (auto split: prod.splits)
    from write_config_outcome(3) [OF this v(1)] v(2) KvPut show ?thesis by (simp add: stored_def)
  next
    case (KvDel key)
    then obtain r where r: "delete_config F dir key fs = (r, fs')" using e by (auto split: prod.splits)
    show ?thesis
    proof (cases "validate_key_name key = Inr ()")
      case True
      then have "path_join dir k \<noteq> path_join dir key"
        using path_join_inj valid_key_paths(1) v KvDel by (metis kv_key.simps(2))
      with delete_config_outcome(2) [OF r] show ?thesis by (simp add: stored_def)
    next
      case False
      then have "fs' = fs" using r by (cases "validate_key_name key") (auto simp: delete_config_def)
      then show ?thesis by simp
    qed
  qed
qed

section \<open>Properties of the configuration store\<close>

text \<open>C9. The configuration directory is a crash-safe map: under every pattern of I/O failures
  and for every sequence of writes and deletes, what is stored under each valid key is what a
  map holds after the operations that reported success; an operation that reported an error
  left every key as it was.\<close>

theorem config_store_refines_map:
  assumes "kv_run (config_exec F dir opts) ops fs = (oks, fs')" "validate_key_name key = Inr ()"
  shows "stored dir fs' key = kv_spec ops oks (stored dir fs) key"
  using config.run_refines [OF assms] .

definition demo_dir :: fs where
  "demo_dir = [(''/c'', Dir), (''/c/A'', File \<lparr>fn_mode = 384, fn_gid = None, fn_data = [1]\<rparr>)]"

text \<open>A disk on which every rename fails.\<close>

definition rename_fails :: io_faults where
  "rename_fails = no_faults\<lparr>io_fails := (\<lambda>c. case c of RenameTo _ _ \<Rightarrow> Some ''EIO'' | _ \<Rightarrow> None)\<rparr>"

theorem config_store_refines_map_witness:
  "stored ''/c'' (snd (kv_run (config_exec rename_fails ''/c'' \<lparr>file_gid = None\<rparr>)
     [KvPut ''A'' [2], KvDel ''B''] demo_dir)) ''A'' = Some [1]"
proof -
  have "fst (kv_run (config_exec rename_fails ''/c'' \<lparr>file_gid = None\<rparr>) [KvPut ''A'' [2], KvDel ''B''] demo_dir)
      = [False, True]" by code_simp
  moreover have "validate_key_name ''A'' = Inr ()" by code_simp
  moreover have "stored ''/c'' demo_dir ''A'' = Some [1]" by code_simp
  moreover note config_store_refines_map [OF prod.collapse [symmetric], where key = "''A''" and
      F = rename_fails and dir = "''/c''" and opts = "\<lparr>file_gid = None\<rparr>" and
      ops = "[KvPut ''A'' [2], KvDel ''B'']" and fs = demo_dir]
  ultimately show ?thesis by simp
qed





end
