(* ===== verification/Owner_Crypto.thy ===== *)
theory Owner_Crypto
  imports Externals Ownership Civil_Time
begin

text \<open>
  The owner's secrets, second part of \<open>ownership.rs\<close>: keys derived from a password, the
  encrypted envelope of the owner seed, the volume and signing keys derived from the seed,
  the recovery phrase and the signed audit event. The lemmas show the round trips (envelope,
  phrase), that a password never survives its derivation, and that what the code accepts as
  a seed has 32 bytes.
\<close>

definition OWNER_SEED_ENVELOPE_VERSION :: string where
  "OWNER_SEED_ENVELOPE_VERSION = ''enclava-owner-seed-wrap-v1''"

definition OWNER_SEED_WRAP_INFO :: bytes where
  "OWNER_SEED_WRAP_INFO = as_bytes ''enclava-owner-seed-wrap-v1''"

definition OWNER_LUKS_APP_DATA_INFO :: bytes where
  "OWNER_LUKS_APP_DATA_INFO = as_bytes ''enclava-luks-app-data-v1''"

definition OWNER_LUKS_TLS_DATA_INFO :: bytes where
  "OWNER_LUKS_TLS_DATA_INFO = as_bytes ''enclava-luks-tls-data-v1''"

definition OWNER_ED25519_SEED_INFO :: bytes where
  "OWNER_ED25519_SEED_INFO = as_bytes ''enclava-owner-ed25519-seed-v1''"

definition OWNER_AUDIT_EVENT_VERSION :: string where
  "OWNER_AUDIT_EVENT_VERSION = ''enclava-owner-audit-v1''"

record owner_volume_keys =
  vk_app_data :: bytes
  vk_tls_data :: bytes

section \<open>Keys from a password\<close>

text \<open>The password is a mutable buffer: the second component is what is left in it. The
  Argon2id parameters are the constants 65536, 3, 1 and 32 of the source.\<close>

definition derive_hkdf_key ::
  "externals \<Rightarrow> bytes \<Rightarrow> string \<Rightarrow> bytes \<Rightarrow> (ownership_error + bytes) \<times> bytes" where
  "derive_hkdf_key X password inst info =
     (if password = [] then (Inl PasswordRequired, [])
      else if inst = [] then (Inl InstanceIdMissing, [])
      else
        (let salt = as_bytes inst in
         (res_bind (map_err Kdf (x_argon2id X password salt)) (\<lambda>stretched.
          map_err Kdf (x_hkdf_sha256 X (Some salt) stretched info)), [])))"

definition derive_luks_key :: "externals \<Rightarrow> bytes \<Rightarrow> string \<Rightarrow> (ownership_error + bytes) \<times> bytes" where
  "derive_luks_key X password inst = derive_hkdf_key X password inst (as_bytes ''enclava-storage-v1'')"

definition derive_password_wrap_key ::
  "externals \<Rightarrow> bytes \<Rightarrow> string \<Rightarrow> (ownership_error + bytes) \<times> bytes" where
  "derive_password_wrap_key X password inst = derive_hkdf_key X password inst OWNER_SEED_WRAP_INFO"

section \<open>The envelope\<close>

definition decrypt_owner_seed :: "externals \<Rightarrow> bytes \<Rightarrow> bytes \<Rightarrow> ownership_error + bytes" where
  "decrypt_owner_seed X envelope_bytes wrap_key =
     res_bind (map_err Envelope (x_envelope_parse X envelope_bytes)) (\<lambda>ev.
     if ev_version ev \<noteq> OWNER_SEED_ENVELOPE_VERSION
     then Inl (Envelope (''unsupported_owner_seed_version:'' @ ev_version ev))
     else
     res_bind (map_err Envelope (x_b64_decode X (ev_nonce ev))) (\<lambda>nonce.
     if length nonce \<noteq> 12 then Inl (Envelope (''owner_seed_nonce_length_invalid:'' @ show_nat (length nonce)))
     else
     res_bind (map_err Envelope (x_b64_decode X (ev_ciphertext ev))) (\<lambda>ciphertext.
     res_bind (ok_or WrongPassword (x_gcm_decrypt X wrap_key nonce ciphertext)) (\<lambda>plaintext.
     if length plaintext \<noteq> 32
     then Inl (Envelope (''owner_seed_length_invalid:'' @ show_nat (length plaintext)))
     else Inr plaintext))))"

text \<open>\<open>entropy\<close> is what the system's generator returns for the 12-byte nonce.\<close>

definition encrypt_owner_seed ::
  "externals \<Rightarrow> string + bytes \<Rightarrow> bytes \<Rightarrow> bytes \<Rightarrow> ownership_error + bytes" where
  "encrypt_owner_seed X entropy owner_seed wrap_key =
     res_bind (map_err (\<lambda>e. Envelope (''owner_seed_nonce_entropy_unavailable:'' @ e)) entropy) (\<lambda>nonce.
     res_bind (map_err Envelope (x_gcm_encrypt X wrap_key nonce owner_seed)) (\<lambda>ciphertext.
     Inr (x_json_print X (JObj [(''version'', JStr OWNER_SEED_ENVELOPE_VERSION),
       (''nonce'', JStr (x_b64_encode X nonce)), (''ciphertext'', JStr (x_b64_encode X ciphertext))]))))"

section \<open>Keys from the seed\<close>

definition derive_owner_volume_keys :: "externals \<Rightarrow> bytes \<Rightarrow> ownership_error + owner_volume_keys" where
  "derive_owner_volume_keys X owner_seed =
     res_bind (map_err Kdf (x_hkdf_sha256 X None owner_seed OWNER_LUKS_APP_DATA_INFO)) (\<lambda>app_data.
     res_bind (map_err Kdf (x_hkdf_sha256 X None owner_seed OWNER_LUKS_TLS_DATA_INFO)) (\<lambda>tls_data.
     Inr \<lparr>vk_app_data = app_data, vk_tls_data = tls_data\<rparr>))"

text \<open>A signing key is its 32-byte seed.\<close>

definition derive_owner_signing_key :: "externals \<Rightarrow> bytes \<Rightarrow> ownership_error + bytes" where
  "derive_owner_signing_key X owner_seed =
     map_err Kdf (x_hkdf_sha256 X None owner_seed OWNER_ED25519_SEED_INFO)"

definition owner_public_key_b64url :: "externals \<Rightarrow> bytes \<Rightarrow> ownership_error + string" where
  "owner_public_key_b64url X owner_seed =
     res_bind (derive_owner_signing_key X owner_seed) (\<lambda>sk. Inr (x_b64url_encode X (x_ed_public X sk)))"

definition owner_seed_mnemonic :: "externals \<Rightarrow> bytes \<Rightarrow> ownership_error + string" where
  "owner_seed_mnemonic X owner_seed =
     map_err (\<lambda>e. Envelope (''mnemonic_encode_failed:'' @ e)) (x_mnemonic_encode X owner_seed)"

definition owner_seed_from_mnemonic :: "externals \<Rightarrow> string \<Rightarrow> ownership_error + bytes" where
  "owner_seed_from_mnemonic X mnemonic =
     res_bind (map_err (\<lambda>e. Envelope (''mnemonic_parse_failed:'' @ e)) (x_mnemonic_parse X mnemonic)) (\<lambda>entropy.
     if length entropy \<noteq> 32
     then Inl (Envelope (''mnemonic_entropy_length_invalid:'' @ show_nat (length entropy)))
     else Inr entropy)"

section \<open>The audit event\<close>

definition audit_payload :: "string \<Rightarrow> string \<Rightarrow> string \<Rightarrow> string \<Rightarrow> json \<Rightarrow> json" where
  "audit_payload now inst mode action details =
     JObj [(''kind'', JStr ''owner_seed_audit''), (''version'', JStr OWNER_AUDIT_EVENT_VERSION),
       (''timestamp'', JStr now), (''instance_id'', JStr inst), (''ownership_mode'', JStr mode),
       (''action'', JStr action), (''details'', details)]"

definition signed_owner_audit_event ::
  "externals \<Rightarrow> string \<Rightarrow> bytes \<Rightarrow> string \<Rightarrow> string \<Rightarrow> string \<Rightarrow> json \<Rightarrow> ownership_error + json" where
  "signed_owner_audit_event X now owner_seed inst mode action details =
     res_bind (derive_owner_signing_key X owner_seed) (\<lambda>sk.
     let payload = audit_payload now inst mode action details;
         signature = x_ed_sign X sk (x_json_print X payload)
     in Inr (JObj [(''payload'', payload), (''signing_alg'', JStr ''ed25519''),
          (''owner_public_key'', JStr (x_b64url_encode X (x_ed_public X sk))),
          (''signature'', JStr (x_b64url_encode X signature))]))"

section \<open>Facts\<close>

lemma decrypt_owner_seed_Inr: "decrypt_owner_seed X env key = Inr seed \<Longrightarrow> length seed = 32"
  by (auto simp: decrypt_owner_seed_def result_iffs split: if_splits)

lemma decrypt_encrypt:
  assumes "b64_law X" "gcm_law X" "envelope_law X" "length nonce = 12" "length seed = 32"
    and "encrypt_owner_seed X (Inr nonce) seed key = Inr env"
  shows "decrypt_owner_seed X env key = Inr seed"
proof -
  from assms(6) obtain c where c: "x_gcm_encrypt X key nonce seed = Inr c"
      and e: "env = x_json_print X (JObj [(''version'', JStr OWNER_SEED_ENVELOPE_VERSION),
        (''nonce'', JStr (x_b64_encode X nonce)), (''ciphertext'', JStr (x_b64_encode X c))])"
    by (auto simp: encrypt_owner_seed_def result_iffs)
  have "x_envelope_parse X env = Inr \<lparr>ev_version = OWNER_SEED_ENVELOPE_VERSION,
      ev_nonce = x_b64_encode X nonce, ev_ciphertext = x_b64_encode X c\<rparr>"
    using assms(3) unfolding envelope_law_def e by blast
  moreover have "x_gcm_decrypt X key nonce c = Some seed"
    using assms(2) c unfolding gcm_law_def by blast
  ultimately show ?thesis
    using assms(1,4,5) by (simp add: decrypt_owner_seed_def b64_law_def)
qed

section \<open>Properties of the owner's secrets\<close>

text \<open>C12. The password envelope round trip: a seed encrypted under the wrap key of a password
  and an instance is recovered by decrypting with the wrap key of the same password and
  instance, for every 12-byte nonce and 32-byte seed.\<close>

theorem password_envelope_roundtrip:
  assumes "b64_law X" "gcm_law X" "envelope_law X" "length nonce = 12" "length seed = 32"
    and "derive_password_wrap_key X password inst = (Inr key, rest)"
    and "encrypt_owner_seed X (Inr nonce) seed key = Inr env"
  shows "\<exists>key'. fst (derive_password_wrap_key X password inst) = Inr key' \<and>
    decrypt_owner_seed X env key' = Inr seed"
  using assms decrypt_encrypt [OF assms(1-5,7)] by simp

theorem password_envelope_roundtrip_witness:
  "\<exists>env key'. encrypt_owner_seed demo_externals (Inr (replicate 12 1)) (replicate 32 2)
       (replicate 4 5 @ as_bytes ''inst'' @ replicate 24 0) = Inr env \<and>
     fst (derive_password_wrap_key demo_externals (replicate 4 5) ''inst'') = Inr key' \<and>
     decrypt_owner_seed demo_externals env key' = Inr (replicate 32 2)"
proof -
  let ?k = "replicate 4 5 @ as_bytes ''inst'' @ replicate 24 0"
  obtain env where env: "encrypt_owner_seed demo_externals (Inr (replicate 12 1)) (replicate 32 2) ?k = Inr env"
    by (simp add: encrypt_owner_seed_def demo_externals_def)
  have key: "derive_password_wrap_key demo_externals (replicate 4 5) ''inst'' = (Inr ?k, [])"
    by (simp add: derive_password_wrap_key_def derive_hkdf_key_def demo_externals_def numeral_nat)
  from password_envelope_roundtrip [OF demo_laws(1,2,3) _ _ key env] env show ?thesis by simp
qed

text \<open>Deriving a key consumes the password: on every path, the error paths included, the
  password buffer is empty afterwards, and a key is only derived from a non-empty password
  and a non-empty instance id.\<close>

theorem password_zeroized:
  "snd (derive_luks_key X pw inst) = [] \<and> snd (derive_password_wrap_key X pw inst) = [] \<and>
   (is_ok (fst (derive_luks_key X pw inst)) \<longrightarrow> pw \<noteq> [] \<and> inst \<noteq> []) \<and>
   (is_ok (fst (derive_password_wrap_key X pw inst)) \<longrightarrow> pw \<noteq> [] \<and> inst \<noteq> [])"
  by (simp add: derive_luks_key_def derive_password_wrap_key_def derive_hkdf_key_def Let_def)

theorem password_zeroized_witness:
  "snd (derive_luks_key demo_externals [1] ''i'') = [] \<and> snd (derive_password_wrap_key demo_externals [1] ''i'') = []"
  using password_zeroized [of demo_externals "[1]" "''i''"] by simp

text \<open>The recovery phrase of a 32-byte seed gives the seed back, and whatever phrase is
  accepted yields exactly 32 bytes.\<close>

theorem mnemonic_roundtrip:
  assumes "mnemonic_law X" "length seed = 32" "owner_seed_mnemonic X seed = Inr phrase"
  shows "owner_seed_from_mnemonic X phrase = Inr seed \<and>
    (\<forall>p s. owner_seed_from_mnemonic X p = Inr s \<longrightarrow> length s = 32)"
  using assms
  by (auto simp: owner_seed_mnemonic_def owner_seed_from_mnemonic_def mnemonic_law_def result_iffs
      split: if_splits)

theorem mnemonic_roundtrip_witness:
  "owner_seed_from_mnemonic demo_externals (hex_lower (replicate 32 7)) = Inr (replicate 32 7)"
proof -
  have "owner_seed_mnemonic demo_externals (replicate 32 7) = Inr (hex_lower (replicate 32 7))"
    by (simp add: owner_seed_mnemonic_def demo_externals_def)
  from mnemonic_roundtrip [OF demo_laws(4) _ this] show ?thesis by simp
qed

text \<open>An audit event is verifiable from its own fields: its signature field decodes to a
  signature over the printed payload that verifies under its public key field, and that key is
  the one \<open>owner_public_key_b64url\<close> reports for the seed.\<close>

theorem audit_event_verifies:
  assumes "b64_law X" "ed_law X" "signed_owner_audit_event X now seed inst mode action details = Inr ev"
  shows "\<exists>payload pks sigs pk sig. jget ev ''payload'' = Some payload \<and>
    jget ev ''owner_public_key'' = Some (JStr pks) \<and> jget ev ''signature'' = Some (JStr sigs) \<and>
    x_b64url_decode X pks = Inr pk \<and> x_b64url_decode X sigs = Inr sig \<and>
    x_ed_verify X pk (x_json_print X payload) sig \<and> owner_public_key_b64url X seed = Inr pks \<and>
    jget payload ''action'' = Some (JStr action) \<and> jget payload ''instance_id'' = Some (JStr inst)"
  using assms
  by (auto simp: signed_owner_audit_event_def owner_public_key_b64url_def b64_law_def ed_law_def
      audit_payload_def result_iffs Let_def)

theorem audit_event_verifies_witness:
  "\<exists>ev payload. signed_owner_audit_event demo_externals ''t'' [1] ''i'' ''password'' ''unlock'' JNull = Inr ev \<and>
     jget ev ''payload'' = Some payload \<and> jget payload ''action'' = Some (JStr ''unlock'')"
proof -
  obtain ev where ev: "signed_owner_audit_event demo_externals ''t'' [1] ''i'' ''password'' ''unlock'' JNull = Inr ev"
    by (simp add: signed_owner_audit_event_def derive_owner_signing_key_def demo_externals_def Let_def)
  from audit_event_verifies [OF demo_laws(1,5) ev] ev show ?thesis by blast
qed

end
