(* ===== verification/Config.thy ===== *)
theory Config
  imports Rust_Std
begin

text \<open>
  The configuration, \<open>config.rs\<close>: the record and \<open>from_env\<close>. The environment is a map
  from names to values. Reading a floating-point number (\<open>str::parse::<f64>\<close>) is a
  parameter; reading an unsigned integer is defined here.
\<close>

record config =
  c_listen_host :: string
  c_listen_tls_host :: string
  c_listen_port :: nat
  c_listen_tls_port :: nat
  c_tee_domain :: string
  c_aa_evidence_url :: string
  c_aa_token_url :: string
  c_aa_token_timeout_seconds :: f64
  c_aa_token_cache_seconds :: f64
  c_aa_token_failure_cache_seconds :: f64
  c_aa_token_refresh_skew_seconds :: f64
  c_aa_token_fetch_attempts :: nat
  c_aa_token_fetch_retry_sleep_seconds :: f64
  c_kbs_resource_url :: string
  c_kbs_resource_ca_cert_pem :: string
  c_kbs_resource_ca_cert_path :: string
  c_kbs_resource_cache_seconds :: f64
  c_kbs_resource_failure_cache_seconds :: f64
  c_attestation_profile :: string
  c_attestation_runtime_class :: string
  c_attestation_workload_image :: string
  c_attestation_workload_container :: string
  c_attestation_pod_name :: string
  c_attestation_pod_namespace :: string
  c_attestation_policy_url :: string
  c_attestation_policy_sha256 :: string
  c_attestation_policy_signature_url :: string
  c_attestation_cert_chain_url :: string
  c_attestation_tcb_info_url :: string
  c_attestation_enable_k8s_pod_lookup :: bool
  c_attestation_k8s_api_timeout_seconds :: f64
  c_storage_ownership_mode :: string
  c_instance_id :: string
  c_owner_ciphertext_backend :: string
  c_owner_seed_encrypted_kbs_path :: string
  c_owner_seed_sealed_kbs_path :: string
  c_owner_seed_handoff_slots :: "string list"
  c_enclava_init_unlock_socket :: string
  c_enclava_init_ready_file :: string
  c_enclava_init_error_file :: string
  c_enclava_init_acme_cooldown_file :: string
  c_ownership_challenge_ttl_seconds :: f64
  c_k8s_api_url :: string
  c_k8s_ca_cert_path :: string
  c_k8s_service_account_token_path :: string
  c_owner_escrow_secret_name :: string
  c_owner_escrow_encrypted_key :: string
  c_owner_escrow_sealed_key :: string
  c_owner_escrow_dir :: string
  c_cap_api_signing_pubkey :: string
  c_cap_api_url :: string
  c_cap_config_dir :: string
  c_cap_config_file_gid :: "nat option"
  c_log_relay_url :: string

section \<open>Integers\<close>

text \<open>\<open>str::parse\<close> for an unsigned integer below a bound: an optional plus sign and at least one
  decimal digit.\<close>

definition digits_value :: "string \<Rightarrow> nat" where
  "digits_value s = foldl (\<lambda>acc c. acc * 10 + (ord c - 48)) 0 s"

definition parse_unsigned :: "nat \<Rightarrow> string \<Rightarrow> nat option" where
  "parse_unsigned bound s =
     (let ds = (case s of c # cs \<Rightarrow> if c = CHR ''+'' then cs else s | [] \<Rightarrow> s) in
      if ds = [] \<or> \<not> list_all is_ascii_digit ds then None
      else if digits_value ds < bound then Some (digits_value ds) else None)"

text \<open>\<open>replace\<close> of a pattern string.\<close>

function replace_str :: "string \<Rightarrow> string \<Rightarrow> string \<Rightarrow> string" where
  "replace_str p r s =
     (if p = [] then s
      else case s of [] \<Rightarrow> []
        | c # cs \<Rightarrow> (case strip_prefix p s of Some rest \<Rightarrow> r @ replace_str p r rest
                    | None \<Rightarrow> c # replace_str p r cs))"
  by pat_completeness auto
termination
  by (relation "measure (\<lambda>(p, r, s). length s)") (auto simp: strip_prefix_iff split: list.splits)

declare replace_str.simps [simp del]

section \<open>Reading the environment\<close>

type_synonym environment = "string \<Rightarrow> string option"

definition env_or :: "environment \<Rightarrow> string \<Rightarrow> string \<Rightarrow> string" where
  "env_or env key dflt = (case env key of Some v \<Rightarrow> v | None \<Rightarrow> dflt)"

definition env_f64 :: "(string \<Rightarrow> f64 option) \<Rightarrow> environment \<Rightarrow> string \<Rightarrow> rat \<Rightarrow> f64" where
  "env_f64 parse_f64 env key dflt =
     (case Option.bind (env key) parse_f64 of Some v \<Rightarrow> v | None \<Rightarrow> Finite dflt)"

definition env_u32 :: "environment \<Rightarrow> string \<Rightarrow> nat \<Rightarrow> nat" where
  "env_u32 env key dflt =
     (case Option.bind (env key) (parse_unsigned (2 ^ 32)) of Some v \<Rightarrow> v | None \<Rightarrow> dflt)"

definition env_optional_u32 :: "environment \<Rightarrow> string \<Rightarrow> nat option" where
  "env_optional_u32 env key = Option.bind (env key) (\<lambda>v. parse_unsigned (2 ^ 32) (trim v))"

text \<open>Only ASCII letters can lower-case to the accepted words.\<close>

definition env_bool :: "environment \<Rightarrow> string \<Rightarrow> bool \<Rightarrow> bool" where
  "env_bool env key dflt =
     (case env key of
        Some v \<Rightarrow> to_ascii_lowercase (trim v) \<in> {''1'', ''true'', ''yes''}
      | None \<Rightarrow> dflt)"

definition env_u16_or :: "environment \<Rightarrow> string \<Rightarrow> string \<Rightarrow> nat \<Rightarrow> nat" where
  "env_u16_or env key dflt fallback =
     (case parse_unsigned (2 ^ 16) (env_or env key dflt) of Some v \<Rightarrow> v | None \<Rightarrow> fallback)"

definition env_handoff_slots :: "environment \<Rightarrow> string list" where
  "env_handoff_slots env =
     (let raw = env_or env ''OWNER_SEED_HANDOFF_SLOTS'' ''app-data,tls-data'';
          slots = filter (\<lambda>slot. slot = ''app-data'' \<or> slot = ''tls-data'')
            (filter (\<lambda>slot. slot \<noteq> []) (map trim (split_char CHR '','' raw)))
      in if slots = [] then [''app-data'', ''tls-data''] else slots)"

text \<open>The default path of an owner seed resource.\<close>

definition owner_seed_path :: "environment \<Rightarrow> string \<Rightarrow> string \<Rightarrow> string" where
  "owner_seed_path env key kind =
     (case env key of Some v \<Rightarrow> v
      | None \<Rightarrow> (let id = env_or env ''INSTANCE_ID'' [] in
          if id = [] then [] else ''default/'' @ id @ ''-owner/'' @ kind))"

definition from_env :: "(string \<Rightarrow> f64 option) \<Rightarrow> environment \<Rightarrow> config" where
  "from_env parse_f64 env =
     \<lparr>c_listen_host = env_or env ''ATTESTATION_BIND'' ''127.0.0.1'',
      c_listen_tls_host = env_or env ''ATTESTATION_TLS_BIND'' ''0.0.0.0'',
      c_listen_port = env_u16_or env ''ATTESTATION_PORT'' ''8081'' 8081,
      c_listen_tls_port = env_u16_or env ''ATTESTATION_TLS_PORT'' ''8443'' 8443,
      c_tee_domain = env_or env ''TEE_DOMAIN'' ''localhost'',
      c_aa_evidence_url = env_or env ''AA_EVIDENCE_URL'' ''http://127.0.0.1:8006/aa/evidence'',
      c_aa_token_url = env_or env ''AA_TOKEN_URL'' ''http://127.0.0.1:8006/aa/token?token_type=kbs'',
      c_aa_token_timeout_seconds = env_f64 parse_f64 env ''AA_TOKEN_TIMEOUT_SECONDS'' 10,
      c_aa_token_cache_seconds = env_f64 parse_f64 env ''AA_TOKEN_CACHE_SECONDS'' 30,
      c_aa_token_failure_cache_seconds = env_f64 parse_f64 env ''AA_TOKEN_FAILURE_CACHE_SECONDS'' 2,
      c_aa_token_refresh_skew_seconds = env_f64 parse_f64 env ''AA_TOKEN_REFRESH_SKEW_SECONDS'' 5,
      c_aa_token_fetch_attempts = env_u32 env ''AA_TOKEN_FETCH_ATTEMPTS'' 3,
      c_aa_token_fetch_retry_sleep_seconds = env_f64 parse_f64 env ''AA_TOKEN_FETCH_RETRY_SLEEP_SECONDS'' 1,
      c_kbs_resource_url = env_or env ''KBS_RESOURCE_URL'' ''http://kbs-service.trustee-operator-system.svc.cluster.local:8080/kbs/v0/resource'',
      c_kbs_resource_ca_cert_pem = replace_str [CHR 92, CHR ''n''] [CHR 10] (env_or env ''KBS_RESOURCE_CA_CERT_PEM'' []),
      c_kbs_resource_ca_cert_path = env_or env ''KBS_RESOURCE_CA_CERT_PATH'' [],
      c_kbs_resource_cache_seconds = env_f64 parse_f64 env ''KBS_RESOURCE_CACHE_SECONDS'' 300,
      c_kbs_resource_failure_cache_seconds = env_f64 parse_f64 env ''KBS_RESOURCE_FAILURE_CACHE_SECONDS'' 30,
      c_attestation_profile = env_or env ''ATTESTATION_PROFILE'' ''coco-sev-snp'',
      c_attestation_runtime_class = env_or env ''ATTESTATION_RUNTIME_CLASS'' ''kata-qemu-snp'',
      c_attestation_workload_image = env_or env ''ATTESTATION_WORKLOAD_IMAGE'' [],
      c_attestation_workload_container = env_or env ''ATTESTATION_WORKLOAD_CONTAINER'' ''enclava'',
      c_attestation_pod_name = (case env ''ATTESTATION_POD_NAME'' of Some v \<Rightarrow> v | None \<Rightarrow> env_or env ''HOSTNAME'' []),
      c_attestation_pod_namespace = env_or env ''ATTESTATION_POD_NAMESPACE'' [],
      c_attestation_policy_url = env_or env ''ATTESTATION_POLICY_URL'' [],
      c_attestation_policy_sha256 = env_or env ''ATTESTATION_POLICY_SHA256'' [],
      c_attestation_policy_signature_url = env_or env ''ATTESTATION_POLICY_SIGNATURE_URL'' [],
      c_attestation_cert_chain_url = env_or env ''ATTESTATION_CERT_CHAIN_URL'' [],
      c_attestation_tcb_info_url = env_or env ''ATTESTATION_TCB_INFO_URL'' [],
      c_attestation_enable_k8s_pod_lookup = env_bool env ''ATTESTATION_ENABLE_K8S_POD_LOOKUP'' False,
      c_attestation_k8s_api_timeout_seconds = env_f64 parse_f64 env ''ATTESTATION_K8S_API_TIMEOUT_SECONDS'' 6,
      c_storage_ownership_mode = env_or env ''STORAGE_OWNERSHIP_MODE'' ''legacy'',
      c_instance_id = env_or env ''INSTANCE_ID'' [],
      c_owner_ciphertext_backend = env_or env ''OWNER_CIPHERTEXT_BACKEND'' ''kbs-resource'',
      c_owner_seed_encrypted_kbs_path = owner_seed_path env ''OWNER_SEED_ENCRYPTED_KBS_PATH'' ''seed-encrypted'',
      c_owner_seed_sealed_kbs_path = owner_seed_path env ''OWNER_SEED_SEALED_KBS_PATH'' ''seed-sealed'',
      c_owner_seed_handoff_slots = env_handoff_slots env,
      c_enclava_init_unlock_socket = env_or env ''ENCLAVA_INIT_UNLOCK_SOCKET'' [],
      c_enclava_init_ready_file = env_or env ''ENCLAVA_INIT_READY_FILE'' ''/run/enclava/init-ready'',
      c_enclava_init_error_file = env_or env ''ENCLAVA_INIT_ERROR_FILE'' ''/run/enclava/init-error'',
      c_enclava_init_acme_cooldown_file = env_or env ''ENCLAVA_INIT_ACME_COOLDOWN_FILE'' ''/run/enclava/init-acme-cooldown'',
      c_ownership_challenge_ttl_seconds = env_f64 parse_f64 env ''OWNERSHIP_CHALLENGE_TTL_SECONDS'' 300,
      c_k8s_api_url = env_or env ''K8S_API_URL'' ''https://kubernetes.default.svc'',
      c_k8s_ca_cert_path = env_or env ''K8S_CA_CERT_PATH'' ''/var/run/secrets/kubernetes.io/serviceaccount/ca.crt'',
      c_k8s_service_account_token_path = env_or env ''K8S_SERVICE_ACCOUNT_TOKEN_PATH'' ''/var/run/secrets/kubernetes.io/serviceaccount/token'',
      c_owner_escrow_secret_name = env_or env ''OWNER_ESCROW_SECRET_NAME'' [],
      c_owner_escrow_encrypted_key = env_or env ''OWNER_ESCROW_ENCRYPTED_KEY'' ''seed-encrypted'',
      c_owner_escrow_sealed_key = env_or env ''OWNER_ESCROW_SEALED_KEY'' ''seed-sealed'',
      c_owner_escrow_dir = env_or env ''OWNER_ESCROW_DIR'' ''/run/owner-escrow'',
      c_cap_api_signing_pubkey = env_or env ''CAP_API_SIGNING_PUBKEY'' [],
      c_cap_api_url = env_or env ''CAP_API_URL'' [],
      c_cap_config_dir = env_or env ''CAP_CONFIG_DIR'' ''/data/.enclava/config'',
      c_cap_config_file_gid = env_optional_u32 env ''CAP_CONFIG_FILE_GID'',
      c_log_relay_url = env_or env ''ENCLAVA_LOG_RELAY_URL'' ''http://127.0.0.1:8082/.well-known/confidential/logs''\<rparr>"

section \<open>Parsing digit by digit\<close>

lemma digits_grow: "acc \<le> foldl (\<lambda>acc c. acc * 10 + (ord c - 48)) acc ds" for acc :: nat
proof (induction ds arbitrary: acc)
  case (Cons c cs)
  have "acc \<le> acc * 10 + (ord c - 48)" by simp
  also have "\<dots> \<le> foldl (\<lambda>acc c. acc * 10 + (ord c - 48)) acc (c # cs)" using Cons [of "acc * 10 + (ord c - 48)"] by simp
  finally show ?case .
qed simp

lemma parse_digits_Inr:
  "acc < bound \<Longrightarrow> parse_digits bound acc ds = Inr n \<longleftrightarrow>
     list_all is_ascii_digit ds \<and> n = foldl (\<lambda>acc c. acc * 10 + (ord c - 48)) acc ds \<and> n < bound"
proof (induction bound acc ds rule: parse_digits.induct)
  case (2 bound acc c cs)
  then show ?case
    using digits_grow [of "acc * 10 + (ord c - 48)" cs] by (auto simp: not_le)
qed auto

text \<open>The two readings of a number agree: giving up at the first digit that leaves the type refuses exactly the
  texts whose value does not fit.\<close>

lemma parse_uint_unsigned: "0 < bound \<Longrightarrow> parse_uint bound s = Inr n \<longleftrightarrow> parse_unsigned bound s = Some n"
proof -
  have "\<not> is_ascii_digit (CHR ''+'')" "\<not> is_ascii_digit (CHR ''-'')" by code_simp+
  moreover assume "0 < bound"
  ultimately show ?thesis
    by (cases s) (auto simp: parse_uint_def parse_unsigned_def parse_digits_Inr digits_value_def Let_def simp del: parse_digits.simps split: if_splits)
qed

end
