(* ===== verification/Process.thy ===== *)
theory Process
  imports Ownership_Runs Http Fs Config
begin

text \<open>
  The running process: \<open>AppState\<close> of \<open>lib.rs\<close> as a record of the shared state, the
  outside world, and procedures on them. A procedure is a state transformer that returns a
  value, or nothing when it panics. Everything outside the process (the network, the clock,
  the entropy source, other tasks) is the record \<open>env\<close> of state transformers on the whole
  state: an upstream request, a sleep or a file access may change any part of the state, which
  is what concurrent requests do while this one waits. A lock held across a request is
  modelled by putting the locked cache back as it was taken.
\<close>

section \<open>Shared state\<close>

record kbs_cache_entry =
  ke_body :: bytes
  ke_content_type :: string
  ke_status :: nat
  ke_expires_at :: instant
  ke_error :: "json option"
  ke_error_until :: instant

type_synonym kbs_cache = "(string \<times> kbs_cache_entry) list"

record aa_token_cache =
  aa_payload :: "json option"
  aa_claims :: "json option"
  aa_expires_at :: instant
  aa_error :: "string option"
  aa_error_until :: instant

record bootstrap_challenge =
  challenge_b64 :: string
  expires_at :: instant

text \<open>The three statics of \<open>handlers.rs\<close> and \<open>proof.rs\<close>: the request windows of the proof
  endpoint, its quote slot and the cache of AMD endorsements.\<close>

record proof_rate =
  pr_global :: "instant list"
  pr_sources :: "(string \<times> instant list) list"

record cached_body =
  cb_expires_at :: instant
  cb_body :: bytes

text \<open>Background tasks that handlers spawn, and lines of the process's log.\<close>

datatype task = UnlockPasswordTask bytes | UnlockLevel1Task bytes | ReadyWatchTask duration
  | RecoveryWatchTask duration | MetadataSyncTask string json

datatype log_entry = LogJson json | LogText string

record 'w sys =
  s_guard :: ownership_guard
  s_challenges :: "bootstrap_challenge list"
  s_aa_cache :: aa_token_cache
  s_kbs_cache :: kbs_cache
  s_proof_rate :: proof_rate
  s_quote_busy :: bool
  s_kds_cache :: "(string \<times> cached_body) list"
  s_files :: fs
  s_tasks :: "task list"
  s_log :: "log_entry list"
  s_world :: 'w

type_synonym ('w, 'a) proc = "('w sys, 'a option) state"

text \<open>What the process asks of the outside. \<open>e_unix\<close> is the time since the epoch (which is past) in seconds
  and nanoseconds, \<open>e_receipt_seed\<close> the key of the process's receipt signer,
  \<open>e_tls_leaf_spki\<close> the hash of its TLS key, \<open>e_vars\<close> the environment variables read per
  request. \<open>e_yield\<close> is what other threads do before a lock is taken; \<open>e_expired\<close> says
  whether a deadline passed before an operation under a timeout finished, and if so has done
  what the cancelled operation did up to then. The last three are a client of a Unix socket:
  connect, write, and read a line within a time (\<open>None\<close> when the time is over).\<close>

record 'w env =
  e_ext :: externals
  e_config :: config
  e_receipt_seed :: bytes
  e_tls_leaf_spki :: bytes
  e_vars :: "string \<Rightarrow> string option"
  e_http :: "http_request \<Rightarrow> ('w sys, http_error + http_response) state"
  e_sleep :: "duration \<Rightarrow> ('w sys, unit) state"
  e_now :: "('w sys, instant) state"
  e_unix :: "('w sys, nat \<times> nat) state"
  e_random :: "nat \<Rightarrow> ('w sys, string + bytes) state"
  e_io :: "('w sys, io_faults) state"
  e_yield :: "('w sys, unit) state"
  e_expired :: "instant \<Rightarrow> ('w sys, bool) state"
  e_connect :: "string \<Rightarrow> ('w sys, string + unit) state"
  e_socket_write :: "bytes \<Rightarrow> ('w sys, string + unit) state"
  e_socket_line :: "duration \<Rightarrow> ('w sys, (string + string) option) state"

section \<open>Procedures\<close>

definition ret :: "'a \<Rightarrow> ('s, 'a option) state" where
  "ret x = State_Monad.return (Some x)"

definition panic :: "('s, 'a option) state" where
  "panic = State_Monad.return None"

text \<open>Sequencing: after a transformer that cannot panic, after a procedure, and after a
  procedure with a result whose error is returned early (\<open>?\<close>).\<close>

definition call :: "('s, 'a) state \<Rightarrow> ('a \<Rightarrow> ('s, 'b option) state) \<Rightarrow> ('s, 'b option) state" where
  "call m f = State_Monad.bind m f"

definition pbind :: "('s, 'a option) state \<Rightarrow> ('a \<Rightarrow> ('s, 'b option) state) \<Rightarrow> ('s, 'b option) state" where
  "pbind m f = State_Monad.bind m (\<lambda>r. case r of None \<Rightarrow> State_Monad.return None | Some x \<Rightarrow> f x)"

definition pthen ::
  "('s, ('e + 'a) option) state \<Rightarrow> ('a \<Rightarrow> ('s, ('e + 'b) option) state) \<Rightarrow> ('s, ('e + 'b) option) state" where
  "pthen m f = pbind m (\<lambda>r. case r of Inl e \<Rightarrow> ret (Inl e) | Inr x \<Rightarrow> f x)"

text \<open>The \<open>?\<close> operator with \<open>map_err\<close> on a value, and \<open>expect\<close> on an option.\<close>

definition attempt :: "'e + 'a \<Rightarrow> ('a \<Rightarrow> ('s, ('e + 'b) option) state) \<Rightarrow> ('s, ('e + 'b) option) state" where
  "attempt r f = (case r of Inl e \<Rightarrow> ret (Inl e) | Inr x \<Rightarrow> f x)"

definition or_panic :: "'a option \<Rightarrow> ('a \<Rightarrow> ('s, 'b option) state) \<Rightarrow> ('s, 'b option) state" where
  "or_panic x f = (case x of None \<Rightarrow> panic | Some v \<Rightarrow> f v)"

text \<open>Reading and writing the parts of the state: a lock is taken after other threads ran.\<close>

definition get_guard :: "'w env \<Rightarrow> ('w sys, ownership_guard) state" where
  "get_guard E = State_Monad.bind (e_yield E) (\<lambda>_. gets s_guard)"

definition on_guard :: "'w env \<Rightarrow> (ownership_guard \<Rightarrow> ownership_guard) \<Rightarrow> ('w sys, unit) state" where
  "on_guard E f = State_Monad.bind (e_yield E) (\<lambda>_. modify (\<lambda>s. s\<lparr>s_guard := f (s_guard s)\<rparr>))"

definition guard_call :: "'w env \<Rightarrow> (ownership_guard \<Rightarrow> 'a \<times> ownership_guard) \<Rightarrow> ('w sys, 'a) state" where
  "guard_call E f = State_Monad.bind (e_yield E) (\<lambda>_.
     State (\<lambda>s. case f (s_guard s) of (x, g) \<Rightarrow> (x, s\<lparr>s_guard := g\<rparr>)))"

text \<open>The same with the clock read while the lock is held.\<close>

definition guard_call_at ::
  "'w env \<Rightarrow> (instant \<Rightarrow> ownership_guard \<Rightarrow> 'a \<times> ownership_guard) \<Rightarrow> ('w sys, 'a) state" where
  "guard_call_at E f = State_Monad.bind (e_yield E) (\<lambda>_. State_Monad.bind (e_now E) (\<lambda>now.
     State (\<lambda>s. case f now (s_guard s) of (x, g) \<Rightarrow> (x, s\<lparr>s_guard := g\<rparr>))))"

definition log_line :: "log_entry \<Rightarrow> ('w sys, unit) state" where
  "log_line l = modify (\<lambda>s. s\<lparr>s_log := s_log s @ [l]\<rparr>)"

definition spawn :: "task \<Rightarrow> ('w sys, unit) state" where
  "spawn t = modify (\<lambda>s. s\<lparr>s_tasks := s_tasks s @ [t]\<rparr>)"

text \<open>A file-system call with the faults of the moment.\<close>

definition io_call :: "'w env \<Rightarrow> (io_faults \<Rightarrow> fs \<Rightarrow> 'a \<times> fs) \<Rightarrow> ('w sys, 'a) state" where
  "io_call E f = State_Monad.bind (e_io E) (\<lambda>F.
     State (\<lambda>s. case f F (s_files s) of (x, fs) \<Rightarrow> (x, s\<lparr>s_files := fs\<rparr>)))"

definition io_read :: "'w env \<Rightarrow> (io_faults \<Rightarrow> fs \<Rightarrow> 'a) \<Rightarrow> ('w sys, 'a) state" where
  "io_read E f = State_Monad.bind (e_io E) (\<lambda>F. gets (\<lambda>s. f F (s_files s)))"

lemmas proc_defs = ret_def panic_def call_def pbind_def pthen_def attempt_def or_panic_def

section \<open>Running procedures\<close>

lemma run_ret [simp]: "run_state (ret x) s = (Some x, s)"
  by (simp add: ret_def)

lemma run_panic [simp]: "run_state panic s = (None, s)"
  by (simp add: panic_def)

lemma run_call [simp]: "run_state (call m f) s = (case run_state m s of (x, t) \<Rightarrow> run_state (f x) t)"
  by (simp add: call_def)

lemma run_pbind [simp]:
  "run_state (pbind m f) s =
     (case run_state m s of (None, t) \<Rightarrow> (None, t) | (Some x, t) \<Rightarrow> run_state (f x) t)"
  by (auto simp: pbind_def split: prod.splits option.splits)

lemma run_pthen [simp]:
  "run_state (pthen m f) s =
     (case run_state m s of (None, t) \<Rightarrow> (None, t) | (Some (Inl e), t) \<Rightarrow> (Some (Inl e), t)
      | (Some (Inr x), t) \<Rightarrow> run_state (f x) t)"
  by (auto simp: pthen_def split: prod.splits option.splits sum.splits)

lemma run_attempt [simp]:
  "run_state (attempt r f) s = (case r of Inl e \<Rightarrow> (Some (Inl e), s) | Inr x \<Rightarrow> run_state (f x) s)"
  by (auto simp: attempt_def split: sum.splits)

lemma run_or_panic [simp]:
  "run_state (or_panic x f) s = (case x of None \<Rightarrow> (None, s) | Some v \<Rightarrow> run_state (f v) s)"
  by (auto simp: or_panic_def split: option.splits)

lemma run_get_guard [simp]:
  "run_state (get_guard E) s = (case run_state (e_yield E) s of (_, t) \<Rightarrow> (s_guard t, t))"
  by (simp add: get_guard_def split: prod.split)

lemma run_on_guard [simp]:
  "run_state (on_guard E f) s = (case run_state (e_yield E) s of (_, t) \<Rightarrow> ((), t\<lparr>s_guard := f (s_guard t)\<rparr>))"
  by (simp add: on_guard_def split: prod.split)

lemma run_guard_call [simp]:
  "run_state (guard_call E f) s = (case run_state (e_yield E) s of (_, t) \<Rightarrow>
     (case f (s_guard t) of (x, g) \<Rightarrow> (x, t\<lparr>s_guard := g\<rparr>)))"
  by (simp add: guard_call_def split: prod.split)

lemma run_guard_call_at [simp]:
  "run_state (guard_call_at E f) s = (case run_state (e_yield E) s of (_, t) \<Rightarrow>
     (case run_state (e_now E) t of (now, u) \<Rightarrow>
        (case f now (s_guard u) of (x, g) \<Rightarrow> (x, u\<lparr>s_guard := g\<rparr>))))"
  by (simp add: guard_call_at_def split: prod.split)

lemma run_log_line [simp]: "run_state (log_line l) s = ((), s\<lparr>s_log := s_log s @ [l]\<rparr>)"
  by (simp add: log_line_def)

lemma run_spawn [simp]: "run_state (spawn t) s = ((), s\<lparr>s_tasks := s_tasks s @ [t]\<rparr>)"
  by (simp add: spawn_def)

section \<open>Weakest preconditions of procedures\<close>

lemma wp_ret [wp_simps]: "wp (ret x) Q s = Q (Some x) s"
  by (simp add: wp_def)

lemma wp_panic [wp_simps]: "wp panic Q s = Q None s"
  by (simp add: wp_def)

lemma wp_call [wp_simps]: "wp (call m f) Q s = wp m (\<lambda>x. wp (f x) Q) s"
  by (simp add: wp_def split: prod.splits)

lemma wp_pbind [wp_simps]:
  "wp (pbind m f) Q s = wp m (\<lambda>r. case r of None \<Rightarrow> Q None | Some x \<Rightarrow> wp (f x) Q) s"
  by (auto simp: wp_def split: prod.splits option.splits)

lemma wp_pthen [wp_simps]:
  "wp (pthen m f) Q s =
     wp m (\<lambda>r. case r of None \<Rightarrow> Q None | Some (Inl e) \<Rightarrow> Q (Some (Inl e)) | Some (Inr x) \<Rightarrow> wp (f x) Q) s"
  by (auto simp: wp_def split: prod.splits option.splits sum.splits)

lemma wp_attempt [wp_simps]:
  "wp (attempt r f) Q s = (case r of Inl e \<Rightarrow> Q (Some (Inl e)) s | Inr x \<Rightarrow> wp (f x) Q s)"
  by (auto simp: wp_def split: sum.splits)

lemma wp_or_panic [wp_simps]:
  "wp (or_panic x f) Q s = (case x of None \<Rightarrow> Q None s | Some v \<Rightarrow> wp (f v) Q s)"
  by (auto simp: wp_def split: option.splits)

lemma wp_get_guard [wp_simps]: "wp (get_guard E) Q s = wp (e_yield E) (\<lambda>_ t. Q (s_guard t) t) s"
  by (simp add: wp_def split: prod.split)

lemma wp_on_guard [wp_simps]:
  "wp (on_guard E f) Q s = wp (e_yield E) (\<lambda>_ t. Q () (t\<lparr>s_guard := f (s_guard t)\<rparr>)) s"
  by (simp add: wp_def split: prod.split)

lemma wp_guard_call [wp_simps]:
  "wp (guard_call E f) Q s = wp (e_yield E) (\<lambda>_ t. case f (s_guard t) of (x, g) \<Rightarrow> Q x (t\<lparr>s_guard := g\<rparr>)) s"
  by (simp add: wp_def split: prod.splits)

lemma wp_guard_call_at [wp_simps]:
  "wp (guard_call_at E f) Q s = wp (e_yield E) (\<lambda>_. wp (e_now E) (\<lambda>now t.
     case f now (s_guard t) of (x, g) \<Rightarrow> Q x (t\<lparr>s_guard := g\<rparr>))) s"
  by (simp add: wp_def split: prod.splits)

lemma wp_log_line [wp_simps]: "wp (log_line l) Q s = Q () (s\<lparr>s_log := s_log s @ [l]\<rparr>)"
  by (simp add: wp_def)

lemma wp_spawn [wp_simps]: "wp (spawn t) Q s = Q () (s\<lparr>s_tasks := s_tasks s @ [t]\<rparr>)"
  by (simp add: wp_def)

end
