(* ===== verification/Traces.thy ===== *)
theory Traces
  imports Process "HOL-Library.Sublist"
begin

text \<open>
  What can be said of a procedure whatever the other tasks do. \<open>advances R\<close> says that a
  procedure moves the shared state and the outside world only forward in a preorder
  \<open>R\<close>; it holds of a procedure as soon as it holds of the environment and of what the
  procedure itself does to the machine, construct by construct. Three preorders are used. The
  first is a log of the HTTP exchanges and pauses: an environment is \<open>observed\<close> by a log
  when the log only grows and every exchange and pause of this process ends with its own
  entry, the entries in between belonging to other tasks; \<open>happened\<close> then says that a request
  was really sent and how it was answered. The second is a clock (\<open>timed\<close>): time does not run
  backwards and a pause lasts at least as long as asked for, from which loops with a deadline
  are shown to return. The third (\<open>undisturbed\<close>) says that the machine stays as it is, for
  what a request does when no other request touches the machine.
\<close>

section \<open>Moving forward\<close>

text \<open>\<open>R s t\<close> relates the state before with the state after. What a relation can speak of is the ownership
  machine, the outstanding challenges, the windows of the proof limiter, the cached endorsements and the world:
  states that agree on these are related. The other caches, the files, the log and the spawned tasks may change at any time.\<close>

type_synonym 'w motion = "'w sys \<Rightarrow> 'w sys \<Rightarrow> bool"

abbreviation same_core :: "'w sys \<Rightarrow> 'w sys \<Rightarrow> bool" where
  "same_core s t \<equiv> s_guard t = s_guard s \<and> s_challenges t = s_challenges s \<and> s_proof_rate t = s_proof_rate s \<and>
     s_kds_cache t = s_kds_cache s \<and> s_world t = s_world s"

definition progress :: "'w motion \<Rightarrow> bool" where
  "progress R \<longleftrightarrow> (\<forall>s t. same_core s t \<longrightarrow> R s t) \<and> (\<forall>s t u. R s t \<longrightarrow> R t u \<longrightarrow> R s u)"

definition advances :: "'w motion \<Rightarrow> ('w sys, 'a) state \<Rightarrow> bool" where
  "advances R m \<longleftrightarrow> (\<forall>s. R s (snd (run_state m s)))"

definition env_advances :: "'w motion \<Rightarrow> 'w env \<Rightarrow> bool" where
  "env_advances R E \<longleftrightarrow> progress R \<and> (\<forall>q. advances R (e_http E q)) \<and> (\<forall>d. advances R (e_sleep E d)) \<and>
     advances R (e_now E) \<and> advances R (e_unix E) \<and> (\<forall>n. advances R (e_random E n)) \<and> advances R (e_io E) \<and>
     advances R (e_yield E) \<and> (\<forall>d. advances R (e_expired E d)) \<and> (\<forall>p. advances R (e_connect E p)) \<and>
     (\<forall>b. advances R (e_socket_write E b)) \<and> (\<forall>d. advances R (e_socket_line E d))"

lemma advancesD: "advances R m \<Longrightarrow> run_state m s = (x, t) \<Longrightarrow> R s t"
  unfolding advances_def by (metis snd_conv)

lemma advancesI: "(\<And>s x t. run_state m s = (x, t) \<Longrightarrow> R s t) \<Longrightarrow> advances R m"
  unfolding advances_def by (metis prod.collapse)

lemma progress_same: "progress R \<Longrightarrow> same_core s t \<Longrightarrow> R s t"
  by (simp add: progress_def)

lemma progress_refl: "progress R \<Longrightarrow> R s s"
  by (simp add: progress_same)

lemma progress_trans: "progress R \<Longrightarrow> R s t \<Longrightarrow> R t u \<Longrightarrow> R s u"
  unfolding progress_def by blast

lemma advances_trans:
  "progress R \<Longrightarrow> R s t \<Longrightarrow> advances R m \<Longrightarrow> run_state m t = (x, u) \<Longrightarrow> R s u"
  by (blast dest: advancesD intro: progress_trans)

lemma env_advances_progress [advance_rules]: "env_advances R E \<Longrightarrow> progress R"
  by (simp add: env_advances_def)

lemma advances_env [advance_rules]:
  "env_advances R E \<Longrightarrow> advances R (e_http E q)" "env_advances R E \<Longrightarrow> advances R (e_sleep E d)"
  "env_advances R E \<Longrightarrow> advances R (e_now E)" "env_advances R E \<Longrightarrow> advances R (e_unix E)"
  "env_advances R E \<Longrightarrow> advances R (e_random E n)" "env_advances R E \<Longrightarrow> advances R (e_io E)"
  "env_advances R E \<Longrightarrow> advances R (e_yield E)" "env_advances R E \<Longrightarrow> advances R (e_expired E i)"
  "env_advances R E \<Longrightarrow> advances R (e_connect E p)" "env_advances R E \<Longrightarrow> advances R (e_socket_write E b)"
  "env_advances R E \<Longrightarrow> advances R (e_socket_line E d)"
  by (auto simp: env_advances_def)

lemma advances_ret [advance_rules]: "progress R \<Longrightarrow> advances R (ret x)"
  by (simp add: advances_def progress_refl)

lemma advances_panic [advance_rules]: "progress R \<Longrightarrow> advances R panic"
  by (simp add: advances_def progress_refl)

lemma advances_return [advance_rules]: "progress R \<Longrightarrow> advances R (State_Monad.return x)"
  by (simp add: advances_def progress_refl)

lemma advances_gets [advance_rules]: "progress R \<Longrightarrow> advances R (gets f)"
  by (simp add: advances_def progress_refl)

lemma advances_modify [advance_rules]: "progress R \<Longrightarrow> (\<And>s. same_core s (f s)) \<Longrightarrow> advances R (modify f)"
  by (simp add: advances_def progress_same)

lemma advances_State [advance_rules]: "progress R \<Longrightarrow> (\<And>s. same_core s (snd (f s))) \<Longrightarrow> advances R (State f)"
  by (simp add: advances_def progress_same)

lemma advances_bind [advance_rules]:
  "progress R \<Longrightarrow> advances R m \<Longrightarrow> (\<And>x. advances R (f x)) \<Longrightarrow> advances R (State_Monad.bind m f)"
  by (rule advancesI) (auto split: prod.splits dest!: advancesD intro: progress_trans)

lemma advances_call [advance_rules]:
  "progress R \<Longrightarrow> advances R m \<Longrightarrow> (\<And>x. advances R (f x)) \<Longrightarrow> advances R (call m f)"
  by (simp add: call_def advances_bind)

lemma advances_pbind [advance_rules]:
  "progress R \<Longrightarrow> advances R m \<Longrightarrow> (\<And>x. advances R (f x)) \<Longrightarrow> advances R (pbind m f)"
  by (auto simp: pbind_def intro!: advances_bind advances_return split: option.split)

lemma advances_pthen [advance_rules]:
  "progress R \<Longrightarrow> advances R m \<Longrightarrow> (\<And>x. advances R (f x)) \<Longrightarrow> advances R (pthen m f)"
  by (auto simp: pthen_def intro!: advances_pbind advances_ret split: sum.split)

lemma advances_attempt [advance_rules]: "progress R \<Longrightarrow> (\<And>x. advances R (f x)) \<Longrightarrow> advances R (attempt r f)"
  by (auto simp: attempt_def intro!: advances_ret split: sum.split)

lemma advances_or_panic [advance_rules]: "progress R \<Longrightarrow> (\<And>x. advances R (f x)) \<Longrightarrow> advances R (or_panic x f)"
  by (auto simp: or_panic_def intro!: advances_panic split: option.split)

lemma advances_if [advance_rules]:
  "(b \<Longrightarrow> advances R m) \<Longrightarrow> (\<not> b \<Longrightarrow> advances R n) \<Longrightarrow> advances R (if b then m else n)"
  by simp

lemma advances_let [advance_rules]: "advances R (m v) \<Longrightarrow> advances R (let x = v in m x)"
  by simp

lemma advances_option [advance_rules]:
  "advances R m \<Longrightarrow> (\<And>x. advances R (f x)) \<Longrightarrow> advances R (case r of None \<Rightarrow> m | Some x \<Rightarrow> f x)"
  by (cases r) auto

lemma advances_sum [advance_rules]:
  "(\<And>x. advances R (f x)) \<Longrightarrow> (\<And>x. advances R (g x)) \<Longrightarrow> advances R (case r of Inl x \<Rightarrow> f x | Inr x \<Rightarrow> g x)"
  by (cases r) auto

lemma advances_prod [advance_rules]: "(\<And>x y. advances R (f x y)) \<Longrightarrow> advances R (case r of (x, y) \<Rightarrow> f x y)"
  by (cases r) auto

lemma advances_get_guard [advance_rules]: "env_advances R E \<Longrightarrow> advances R (get_guard E)"
  unfolding get_guard_def by (intro advance_rules) (assumption+)

text \<open>A change of the machine that is a step of the motion in every state.\<close>

definition allows :: "'w motion \<Rightarrow> (ownership_guard \<Rightarrow> ownership_guard) \<Rightarrow> bool" where
  "allows R f \<longleftrightarrow> (\<forall>s. R s (s\<lparr>s_guard := f (s_guard s)\<rparr>))"

declare allows_def [simp]

lemma advances_on_guard [advance_rules]: "env_advances R E \<Longrightarrow> allows R f \<Longrightarrow> advances R (on_guard E f)"
  by (rule advancesI)
    (auto simp: env_advances_def split: prod.splits dest!: advancesD intro: progress_trans)

lemma advances_guard_call [advance_rules]:
  assumes "env_advances R E" "allows R (\<lambda>g. snd (f g))"
  shows "advances R (guard_call E f)"
proof (rule advancesI)
  fix s x t
  assume a: "run_state (guard_call E f) s = (x, t)"
  obtain u s1 where y: "run_state (e_yield E) s = (u, s1)" by (rule prod.exhaust)
  have "R s s1" using assms(1) y by (auto simp: env_advances_def dest: advancesD)
  moreover have "R s1 t" using a y spec [OF assms(2) [simplified], of s1] by (auto split: prod.splits)
  ultimately show "R s t" by (rule progress_trans [OF env_advances_progress [OF assms(1)]])
qed

lemma advances_guard_call_at [advance_rules]:
  assumes "env_advances R E" "\<And>now. allows R (\<lambda>g. snd (f now g))"
  shows "advances R (guard_call_at E f)"
proof (rule advancesI)
  fix s x t
  assume a: "run_state (guard_call_at E f) s = (x, t)"
  obtain u s1 where y: "run_state (e_yield E) s = (u, s1)" by (rule prod.exhaust)
  obtain now s2 where n: "run_state (e_now E) s1 = (now, s2)" by (rule prod.exhaust)
  have R: "progress R" by (rule env_advances_progress [OF assms(1)])
  have "R s s2"
    by (rule progress_trans [OF R advancesD [OF advances_env(7) [OF assms(1)] y] advancesD [OF advances_env(3) [OF assms(1)] n]])
  moreover have "R s2 t" using a y n spec [OF assms(2) [of now, simplified], of s2] by (auto split: prod.splits)
  ultimately show "R s t" by (rule progress_trans [OF R])
qed

lemma advances_log_line [advance_rules]: "progress R \<Longrightarrow> advances R (log_line l)"
  by (simp add: advances_def progress_same)

lemma advances_spawn [advance_rules]: "progress R \<Longrightarrow> advances R (spawn t)"
  by (simp add: advances_def progress_same)

lemma advances_io_call [advance_rules]: "env_advances R E \<Longrightarrow> advances R (io_call E f)"
  unfolding io_call_def by (intro advance_rules; (assumption | simp split: prod.split))

lemma advances_io_read [advance_rules]: "env_advances R E \<Longrightarrow> advances R (io_read E f)"
  unfolding io_read_def by (intro advance_rules) (assumption+)

section \<open>The log of exchanges\<close>

datatype event = Exchange http_request "http_error + http_response" | Slept duration

type_synonym 'w trace = "'w \<Rightarrow> event list"

abbreviation log_grows :: "'w trace \<Rightarrow> 'w motion" where
  "log_grows tr \<equiv> \<lambda>s t. prefix (tr (s_world s)) (tr (s_world t))"

definition happened :: "'w trace \<Rightarrow> 'w sys \<Rightarrow> 'w sys \<Rightarrow> event \<Rightarrow> bool" where
  "happened tr s s' ev \<longleftrightarrow> (\<exists>a b. tr (s_world s') = tr (s_world s) @ a @ ev # b)"

definition observed :: "'w env \<Rightarrow> 'w trace \<Rightarrow> bool" where
  "observed E tr \<longleftrightarrow> env_advances (log_grows tr) E \<and>
     (\<forall>q s. \<exists>mid. tr (s_world (snd (run_state (e_http E q) s))) =
        tr (s_world s) @ mid @ [Exchange q (fst (run_state (e_http E q) s))]) \<and>
     (\<forall>d s. \<exists>mid. tr (s_world (snd (run_state (e_sleep E d) s))) = tr (s_world s) @ mid @ [Slept d])"

lemma progress_log: "progress (log_grows tr)"
  by (auto simp: progress_def intro: prefix_order.trans)

lemma observed_advances: "observed E tr \<Longrightarrow> env_advances (log_grows tr) E"
  by (simp add: observed_def)

lemma observed_http:
  "observed E tr \<Longrightarrow> run_state (e_http E q) s = (r, t) \<Longrightarrow> happened tr s t (Exchange q r)"
  unfolding observed_def happened_def by (metis fst_conv snd_conv)

lemma observed_sleep:
  "observed E tr \<Longrightarrow> run_state (e_sleep E d) s = (r, t) \<Longrightarrow> happened tr s t (Slept d)"
  unfolding observed_def happened_def by (metis snd_conv)

lemma happened_grows: "happened tr s t ev \<Longrightarrow> prefix (tr (s_world s)) (tr (s_world t))"
  by (auto simp: happened_def)

lemma happened_later:
  "happened tr s t ev \<Longrightarrow> prefix (tr (s_world t)) (tr (s_world u)) \<Longrightarrow> happened tr s u ev"
  by (fastforce simp: happened_def prefix_def)

lemma happened_earlier:
  assumes "prefix (tr (s_world s)) (tr (s_world t))" "happened tr t u ev"
  shows "happened tr s u ev"
proof -
  from assms obtain a b c where "tr (s_world t) = tr (s_world s) @ a" "tr (s_world u) = tr (s_world t) @ b @ ev # c"
    by (auto simp: happened_def prefix_def)
  then have "tr (s_world u) = tr (s_world s) @ (a @ b) @ ev # c" by simp
  then show ?thesis unfolding happened_def by blast
qed

section \<open>The clock\<close>

abbreviation clock_runs :: "('w \<Rightarrow> instant) \<Rightarrow> 'w motion" where
  "clock_runs clk \<equiv> \<lambda>s t. clk (s_world s) \<le> clk (s_world t)"

definition timed :: "'w env \<Rightarrow> ('w \<Rightarrow> instant) \<Rightarrow> bool" where
  "timed E clk \<longleftrightarrow> env_advances (clock_runs clk) E \<and>
     (\<forall>s. fst (run_state (e_now E) s) = clk (s_world (snd (run_state (e_now E) s)))) \<and>
     (\<forall>d s. clk (s_world s) + d \<le> clk (s_world (snd (run_state (e_sleep E d) s))))"

lemma timed_advances: "timed E clk \<Longrightarrow> env_advances (clock_runs clk) E"
  by (simp add: timed_def)

lemma timed_now: "timed E clk \<Longrightarrow> run_state (e_now E) s = (now, t) \<Longrightarrow> now = clk (s_world t) \<and> clk (s_world s) \<le> now"
  unfolding timed_def env_advances_def by (metis advancesD fst_conv snd_conv)

lemma timed_sleep: "timed E clk \<Longrightarrow> run_state (e_sleep E d) s = (r, t) \<Longrightarrow> clk (s_world s) + d \<le> clk (s_world t)"
  unfolding timed_def by (metis snd_conv)

section \<open>No interference with the machine\<close>

definition undisturbed :: "'w env \<Rightarrow> bool" where
  "undisturbed E \<longleftrightarrow> env_advances (\<lambda>s t. s_guard t = s_guard s) E"

lemma undisturbedD:
  "undisturbed E \<Longrightarrow> (env_advances (\<lambda>s t. s_guard t = s_guard s) E \<Longrightarrow> advances (\<lambda>s t. s_guard t = s_guard s) m) \<Longrightarrow>
     run_state m s = (x, t) \<Longrightarrow> s_guard t = s_guard s"
  unfolding undisturbed_def by (blast dest: advancesD)

section \<open>A concrete environment\<close>

text \<open>A world that is its own log, with a token in the cache: no other task, a clock that stands still, a file system
  without faults, and requests answered by \<open>answer\<close>.\<close>

definition demo_env :: "(http_request \<Rightarrow> http_error + http_response) \<Rightarrow> config \<Rightarrow> event list env" where
  "demo_env answer cfg =
     \<lparr>e_ext = demo_externals, e_config = cfg, e_receipt_seed = [7], e_tls_leaf_spki = replicate 32 0, e_vars = (\<lambda>_. None),
      e_http = (\<lambda>q. State (\<lambda>s. (answer q, s\<lparr>s_world := s_world s @ [Exchange q (answer q)]\<rparr>))),
      e_sleep = (\<lambda>d. State (\<lambda>s. ((), s\<lparr>s_world := s_world s @ [Slept d]\<rparr>))),
      e_now = State_Monad.return 0, e_unix = State_Monad.return (0, 0),
      e_random = (\<lambda>n. State_Monad.return (Inr (replicate n 1))), e_io = State_Monad.return no_faults,
      e_yield = State_Monad.return (), e_expired = (\<lambda>_. State_Monad.return False),
      e_connect = (\<lambda>_. State_Monad.return (Inr ())), e_socket_write = (\<lambda>_. State_Monad.return (Inr ())),
      e_socket_line = (\<lambda>_. State_Monad.return (Some (Inr ''OK'')))\<rparr>"

definition demo_config :: config where
  "demo_config = from_env (\<lambda>_. Some (Finite 0)) (\<lambda>k. if k = ''INSTANCE_ID'' then Some ''inst-1''
     else if k = ''STORAGE_OWNERSHIP_MODE'' then Some ''password''
     else None)"

definition demo_sys :: "event list sys" where
  "demo_sys = \<lparr>s_guard = guard_new ''password'', s_challenges = [],
     s_aa_cache = \<lparr>aa_payload = Some (JObj [(''token'', JStr ''t'')]), aa_claims = None, aa_expires_at = 1,
       aa_error = None, aa_error_until = 0\<rparr>,
     s_kbs_cache = [], s_proof_rate = \<lparr>pr_global = [], pr_sources = []\<rparr>, s_quote_busy = False, s_kds_cache = [],
     s_files = [], s_tasks = [], s_log = [], s_world = []\<rparr>"

definition ok_response :: "nat \<Rightarrow> bytes \<Rightarrow> http_error + http_response" where
  "ok_response status body = Inr \<lparr>hr_status = status, hr_headers = [], hr_body = Inr body\<rparr>"

lemma demo_config_sel [simp]:
  "c_instance_id demo_config = ''inst-1''"
  "c_aa_evidence_url demo_config = ''http://127.0.0.1:8006/aa/evidence''"
  "c_storage_ownership_mode demo_config = ''password''"
  by (simp_all add: demo_config_def from_env_def env_or_def)

lemma demo_observed: "observed (demo_env answer cfg) id"
  by (simp add: observed_def demo_env_def env_advances_def advances_def progress_log del: id_apply)
    (simp add: progress_log [of id, simplified])

lemma demo_undisturbed: "undisturbed (demo_env answer cfg)"
  by (simp add: undisturbed_def demo_env_def env_advances_def advances_def progress_def)

lemma demo_env_sel [simp]:
  "e_ext (demo_env answer cfg) = demo_externals" "e_config (demo_env answer cfg) = cfg"
  "e_receipt_seed (demo_env answer cfg) = [7]"
  "run_state (e_http (demo_env answer cfg) q) s = (answer q, s\<lparr>s_world := s_world s @ [Exchange q (answer q)]\<rparr>)"
  "run_state (e_sleep (demo_env answer cfg) d) s = ((), s\<lparr>s_world := s_world s @ [Slept d]\<rparr>)"
  "run_state (e_now (demo_env answer cfg)) s = (0, s)"
  "run_state (e_unix (demo_env answer cfg)) s = ((0, 0), s)"
  "run_state (e_random (demo_env answer cfg) n) s = (Inr (replicate n 1), s)"
  "e_io (demo_env answer cfg) = State_Monad.return no_faults"
  "e_yield (demo_env answer cfg) = State_Monad.return ()"
  "e_expired (demo_env answer cfg) d = State_Monad.return False"
  "e_connect (demo_env answer cfg) p = State_Monad.return (Inr ())"
  "e_socket_write (demo_env answer cfg) b = State_Monad.return (Inr ())"
  "e_socket_line (demo_env answer cfg) d = State_Monad.return (Some (Inr ''OK''))"
  by (simp_all add: demo_env_def)

section \<open>A concrete clock\<close>

text \<open>A world that is a clock: a pause of length \<open>d\<close> takes \<open>d\<close>, everything else no time.\<close>

definition clock_env :: "(http_request \<Rightarrow> http_error + http_response) \<Rightarrow> config \<Rightarrow> instant env" where
  "clock_env answer cfg =
     \<lparr>e_ext = demo_externals, e_config = cfg, e_receipt_seed = [7], e_tls_leaf_spki = replicate 32 0, e_vars = (\<lambda>_. None),
      e_http = (\<lambda>q. State_Monad.return (answer q)),
      e_sleep = (\<lambda>d. State (\<lambda>s. ((), s\<lparr>s_world := s_world s + d\<rparr>))),
      e_now = gets s_world, e_unix = State_Monad.return (0, 0),
      e_random = (\<lambda>n. State_Monad.return (Inr (replicate n 1))), e_io = State_Monad.return no_faults,
      e_yield = State_Monad.return (), e_expired = (\<lambda>_. State_Monad.return False),
      e_connect = (\<lambda>_. State_Monad.return (Inr ())), e_socket_write = (\<lambda>_. State_Monad.return (Inr ())),
      e_socket_line = (\<lambda>_. State_Monad.return (Some (Inr ''OK'')))\<rparr>"

definition no_answer :: "http_request \<Rightarrow> http_error + http_response" where
  "no_answer q = Inl \<lparr>he_timeout = True, he_connect = False, he_redirect = False, he_builder = False,
     he_status = None, he_text = ''timeout''\<rparr>"

definition demo_clock_sys :: "instant sys" where
  "demo_clock_sys = \<lparr>s_guard = s_guard demo_sys, s_challenges = [], s_aa_cache = s_aa_cache demo_sys,
     s_kbs_cache = [], s_proof_rate = s_proof_rate demo_sys, s_quote_busy = False, s_kds_cache = [],
     s_files = [], s_tasks = [], s_log = [], s_world = 0\<rparr>"

lemma clock_env_timed: "timed (clock_env answer cfg) id"
  by (simp add: timed_def clock_env_def env_advances_def advances_def progress_def)

end
