(* ===== verification/Claims.thy ===== *)
theory Claims
  imports Externals
begin

text \<open>
  Claim extraction, second half of \<open>attestation.rs\<close>: walking a claims document by path,
  the places where the identity fields, the init-data hash, the containers and the
  measurement may stand, and the choice of the claims root.
\<close>

section \<open>Patterns\<close>

text \<open>The three regular expressions.\<close>

definition token_char :: "char \<Rightarrow> bool" where
  "token_char c \<longleftrightarrow> is_ascii_alphanumeric c \<or> c = CHR ''_'' \<or> c = CHR ''-''"

definition jwt_re_match :: "string \<Rightarrow> bool" where
  "jwt_re_match s = (case split_char CHR ''.'' s of
     [a, b, c] \<Rightarrow> list_all (\<lambda>p. p \<noteq> [] \<and> list_all token_char p) [a, b, c] | _ \<Rightarrow> False)"

definition sha256_prefix :: "string \<Rightarrow> string option" where
  "sha256_prefix s =
     (case strip_prefix ''sha256:'' s of
        Some rest \<Rightarrow> (if 64 \<le> length rest \<and> list_all is_ascii_hexdigit (take 64 rest)
          then Some (''sha256:'' @ take 64 rest) else None)
      | None \<Rightarrow> None)"

fun sha256_re_find :: "string \<Rightarrow> string option" where
  "sha256_re_find [] = None"
| "sha256_re_find (c # cs) =
     (case sha256_prefix (c # cs) of Some m \<Rightarrow> Some m | None \<Rightarrow> sha256_re_find cs)"

definition lower_hexdigit_char :: "char \<Rightarrow> bool" where
  "lower_hexdigit_char c \<longleftrightarrow> is_ascii_digit c \<or> (97 \<le> ord c \<and> ord c \<le> 102)"

definition hex_re_match :: "string \<Rightarrow> bool" where
  "hex_re_match s \<longleftrightarrow> s \<noteq> [] \<and> list_all lower_hexdigit_char s"

definition normalize_sha256 :: "string \<Rightarrow> string option" where
  "normalize_sha256 val = map_option to_ascii_lowercase (sha256_re_find val)"

definition digest_from_image_ref :: "string \<Rightarrow> string option" where
  "digest_from_image_ref image_ref = (if image_ref = [] then None else normalize_sha256 image_ref)"

definition pad_b64 :: "string \<Rightarrow> string" where
  "pad_b64 s = s @ replicate ((4 - length s mod 4) mod 4) CHR ''=''"

definition nonce_is_valid_b64 :: "externals \<Rightarrow> string \<Rightarrow> bool" where
  "nonce_is_valid_b64 X nonce =
     (if nonce = [] \<or> 4096 < length nonce then False else is_ok (x_b64url_pad_decode X (pad_b64 nonce)))"

definition parse_jwt_payload :: "externals \<Rightarrow> string \<Rightarrow> json option" where
  "parse_jwt_payload X token =
     (if \<not> jwt_re_match token then None
      else case split_char CHR ''.'' token of
        [p0, p1, p2] \<Rightarrow>
          (case (case x_b64url_decode X p1 of Inr d \<Rightarrow> Inr d | Inl _ \<Rightarrow> x_b64url_pad_decode X (pad_b64 p1)) of
             Inl _ \<Rightarrow> None
           | Inr decoded \<Rightarrow>
               (if \<not> utf8_valid decoded then None
                else case x_json_parse X decoded of
                  Inl _ \<Rightarrow> None
                | Inr parsed \<Rightarrow> (if is_object parsed then Some parsed else None)))
      | _ \<Rightarrow> None)"

definition verify_jwt_claims :: "externals \<Rightarrow> string \<Rightarrow> string + json" where
  "verify_jwt_claims X token =
     (if \<not> jwt_re_match token then Inl ''invalid_jwt_format''
      else
      res_bind (map_err (\<lambda>e. ''jwt_header_decode_failed:'' @ e) (x_jwt_header X token)) (\<lambda>(alg, jwk).
      res_bind (ok_or ''jwt_jwk_missing'' jwk) (\<lambda>jwk.
      res_bind (map_err (\<lambda>e. ''jwt_decoding_key_failed:'' @ e) (x_jwt_key X jwk)) (\<lambda>key.
      res_bind (map_err (\<lambda>e. ''jwt_verify_failed:'' @ e) (x_jwt_decode X token key alg)) (\<lambda>claims.
      if is_object claims then Inr claims else Inl ''jwt_claims_not_object'')))))"

section \<open>Walking claims\<close>

fun find_jwt_candidates :: "json \<Rightarrow> string list" where
  "find_jwt_candidates (JObj kvs) = concat (map (\<lambda>kv. find_jwt_candidates (snd kv)) kvs)"
| "find_jwt_candidates (JArr xs) = concat (map find_jwt_candidates xs)"
| "find_jwt_candidates (JStr s) = (if jwt_re_match s then [s] else [])"
| "find_jwt_candidates _ = []"

fun join_dots :: "string list \<Rightarrow> string" where
  "join_dots [] = []"
| "join_dots [p] = p"
| "join_dots (p # ps) = p @ ''.'' @ join_dots ps"

fun path_get :: "json \<Rightarrow> string list \<Rightarrow> json option" where
  "path_get cur [] = Some cur"
| "path_get cur (part # parts) =
     (case as_object cur of
        None \<Rightarrow> None
      | Some kvs \<Rightarrow>
          (case map_of kvs part of
             Some nxt \<Rightarrow> path_get nxt parts
           | None \<Rightarrow> map_of kvs (join_dots (part # parts))))"

text \<open>\<open>(n & 0xFF) as u8\<close> of a signed or unsigned number.\<close>

definition json_byte :: "json \<Rightarrow> u8 option" where
  "json_byte v =
     (case as_i64 v of Some n \<Rightarrow> Some (word_of_int n)
      | None \<Rightarrow> map_option (\<lambda>n. word_of_nat n) (as_u64 v))"

fun collect_bytes :: "json list \<Rightarrow> bytes option" where
  "collect_bytes [] = Some []"
| "collect_bytes (v # vs) =
     (case json_byte v of None \<Rightarrow> None | Some b \<Rightarrow> map_option ((#) b) (collect_bytes vs))"

fun to_hex_bytes :: "json \<Rightarrow> string option" where
  "to_hex_bytes (JArr vs) = map_option hex_lower (collect_bytes vs)"
| "to_hex_bytes (JStr s) =
     (let stripped = to_ascii_lowercase (trim s) in if hex_re_match stripped then Some stripped else None)"
| "to_hex_bytes _ = None"

definition nonempty_str :: "json option \<Rightarrow> string option" where
  "nonempty_str v = (case Option.bind v as_str of Some s \<Rightarrow> (if s = [] then None else Some s) | None \<Rightarrow> None)"

definition container_annotation :: "json \<Rightarrow> string \<Rightarrow> string option" where
  "container_annotation container key =
     Option.bind (jget container ''OCI'') (\<lambda>oci.
     Option.bind (jget oci ''Annotations'') (\<lambda>ann. nonempty_str (jget ann key)))"

definition container_image_name :: "json \<Rightarrow> string option" where
  "container_image_name container =
     (if \<not> is_object container then None
      else case container_annotation container ''io.kubernetes.cri.image-name'' of
        Some img \<Rightarrow> Some img
      | None \<Rightarrow> nonempty_str (jget container ''image_name''))"

section \<open>Where the fields stand\<close>

abbreviation EVIDENCE :: "string list" where
  "EVIDENCE \<equiv> [''submods'', ''cpu0'', ''ear.veraison.annotated-evidence'']"

definition container_paths :: "string list list" where
  "container_paths =
     [[''init_data_claims'', ''agent_policy_claims'', ''containers''],
      EVIDENCE @ [''init_data_claims'', ''agent_policy_claims'', ''containers''],
      [''submods'', ''cpu0'', ''ear.veraison.annotated-evidence.init_data_claims'',
       ''agent_policy_claims'', ''containers'']]"

fun first_array :: "json \<Rightarrow> string list list \<Rightarrow> json list" where
  "first_array claims [] = []"
| "first_array claims (p # ps) =
     (case Option.bind (path_get claims p) as_array of
        Some arr \<Rightarrow> (if arr \<noteq> [] then arr else first_array claims ps)
      | None \<Rightarrow> first_array claims ps)"

definition extract_attested_containers :: "json \<Rightarrow> json list" where
  "extract_attested_containers claims = first_array claims container_paths"

definition init_data_paths :: "string list list" where
  "init_data_paths =
     [[''init_data''], EVIDENCE @ [''init_data''],
      [''submods'', ''cpu0'', ''ear.veraison.annotated-evidence.init_data'']]"

fun first_string :: "(string \<Rightarrow> string option) \<Rightarrow> json \<Rightarrow> string list list \<Rightarrow> string option" where
  "first_string f claims [] = None"
| "first_string f claims (p # ps) =
     (case Option.bind (Option.bind (path_get claims p) as_str) f of
        Some s \<Rightarrow> Some s
      | None \<Rightarrow> first_string f claims ps)"

definition extract_init_data_hash :: "externals \<Rightarrow> json \<Rightarrow> string option" where
  "extract_init_data_hash X claims =
     first_string (\<lambda>s. if s = [] then None else Some (x_to_lowercase X s)) claims init_data_paths"

definition measurement_paths :: "string list list" where
  "measurement_paths =
     [[''snp'', ''measurement''], EVIDENCE @ [''snp'', ''measurement''],
      [''submods'', ''cpu0'', ''ear.veraison.annotated-evidence.snp'', ''measurement'']]"

definition extract_measurement_from_claims :: "json \<Rightarrow> string option" where
  "extract_measurement_from_claims claims =
     first_string (\<lambda>s. if s = [] then None
       else let lowered = to_ascii_lowercase (trim s) in if hex_re_match lowered then Some lowered else None)
       claims measurement_paths"

section \<open>Identity fields\<close>

definition dynamic_paths :: "string \<Rightarrow> string list list" where
  "dynamic_paths field =
     [[''identity'', field],
      [''init_data'', ''identity'', field],
      [''init_data_claims'', ''identity'', field],
      [''init_data'', field],
      [''init_data_claims'', field],
      EVIDENCE @ [''identity'', field],
      EVIDENCE @ [''init_data'', ''identity'', field],
      EVIDENCE @ [''init_data_claims'', ''identity'', field],
      EVIDENCE @ [''init_data_claims'', field],
      [''submods'', ''cpu0'', ''ear.veraison.annotated-evidence.init_data_claims'', ''identity'', field],
      [''submods'', ''cpu0'', ''ear.veraison.annotated-evidence.init_data_claims'', field],
      [''submods'', ''cpu0'', ''ear.veraison.annotated-evidence.init_data'', ''identity'', field],
      [''submods'', ''cpu0'', ''ear.veraison.annotated-evidence.init_data'', field]]"

definition document_paths :: "string list list" where
  "document_paths =
     [[''identity.toml''],
      [''init_data'', ''identity.toml''],
      [''init_data_claims'', ''identity.toml''],
      EVIDENCE @ [''identity.toml''],
      EVIDENCE @ [''init_data'', ''identity.toml''],
      EVIDENCE @ [''init_data_claims'', ''identity.toml''],
      [''submods'', ''cpu0'', ''ear.veraison.annotated-evidence.init_data'', ''identity.toml''],
      [''submods'', ''cpu0'', ''ear.veraison.annotated-evidence.init_data_claims'', ''identity.toml'']]"

text \<open>The \<open>?\<close> on \<open>split_once\<close> ends the whole search at a line without an equals sign.\<close>

fun identity_lines :: "string list \<Rightarrow> string \<Rightarrow> string option" where
  "identity_lines [] field = None"
| "identity_lines (line # rest) field =
     (let trimmed = trim line in
      if trimmed = [] \<or> starts_with ''#'' trimmed then identity_lines rest field
      else case split_once ''='' trimmed of
        None \<Rightarrow> None
      | Some (key, val) \<Rightarrow>
          (if trim key \<noteq> field then identity_lines rest field
           else let v = trim (trim_matches (CHR 39) (trim_matches (CHR 34) (trim val))) in
             if v \<noteq> [] then Some v else identity_lines rest field))"

definition extract_field_from_identity_document :: "string \<Rightarrow> string \<Rightarrow> string option" where
  "extract_field_from_identity_document document field = identity_lines (str_lines document) field"

definition extract_init_data_claim_field :: "json \<Rightarrow> string \<Rightarrow> string option" where
  "extract_init_data_claim_field claims field =
     (case first_string (\<lambda>s. if trim s = [] then None else Some (trim s)) claims (dynamic_paths field) of
        Some v \<Rightarrow> Some v
      | None \<Rightarrow> first_string (\<lambda>doc. extract_field_from_identity_document doc field) claims document_paths)"

definition extract_bootstrap_owner_pubkey_hash :: "json \<Rightarrow> string option" where
  "extract_bootstrap_owner_pubkey_hash claims = extract_init_data_claim_field claims ''bootstrap_owner_pubkey_hash''"

definition extract_tenant_instance_identity_hash :: "json \<Rightarrow> string option" where
  "extract_tenant_instance_identity_hash claims =
     extract_init_data_claim_field claims ''tenant_instance_identity_hash''"

definition extract_tenant_id :: "json \<Rightarrow> string option" where
  "extract_tenant_id claims = extract_init_data_claim_field claims ''tenant_id''"

definition extract_instance_id :: "json \<Rightarrow> string option" where
  "extract_instance_id claims = extract_init_data_claim_field claims ''instance_id''"

section \<open>Workload and claims root\<close>

definition select_container :: "json list \<Rightarrow> string \<Rightarrow> json option" where
  "select_container containers name =
     (case find (\<lambda>c. container_annotation c ''io.kubernetes.container.name'' = Some name) containers of
        Some c \<Rightarrow> Some c
      | None \<Rightarrow> (case containers of [] \<Rightarrow> None | c # _ \<Rightarrow> Some c))"

definition extract_attested_workload :: "json \<Rightarrow> string \<Rightarrow> json" where
  "extract_attested_workload claims workload_container =
     (let selected = select_container (extract_attested_containers claims) workload_container;
          image_ref = Option.bind selected container_image_name;
          image_digest = Option.bind image_ref digest_from_image_ref;
          annotation = (\<lambda>key. Option.bind selected (\<lambda>c. container_annotation c key))
      in JObj [(''container_name'', jopt_str (annotation ''io.kubernetes.container.name'')),
               (''image_reference_attested'', jopt_str image_ref),
               (''image_digest_attested'', jopt_str image_digest),
               (''namespace'', jopt_str (annotation ''io.kubernetes.pod.namespace'')),
               (''service_account'', jopt_str (annotation ''io.kubernetes.pod.service-account.name''))])"

definition has_attestation_keys :: "json \<Rightarrow> bool" where
  "has_attestation_keys j = list_ex (\<lambda>k. jget j k \<noteq> None)
     [''snp'', ''submods'', ''init_data_claims'', ''init_data'']"

fun scan_tokens :: "externals \<Rightarrow> string list \<Rightarrow> json \<times> string \<Rightarrow> json \<times> string" where
  "scan_tokens X [] acc = acc"
| "scan_tokens X (token # rest) acc =
     (case parse_jwt_payload X token of
        None \<Rightarrow> scan_tokens X rest acc
      | Some parsed \<Rightarrow>
          (if has_attestation_keys parsed then (parsed, ''evidence_jwt'')
           else scan_tokens X rest (parsed, ''evidence_jwt'')))"

definition select_claims_root :: "externals \<Rightarrow> json \<Rightarrow> json option \<Rightarrow> json \<times> string" where
  "select_claims_root X evidence_json supplemental_claims =
     (let (root, source) = scan_tokens X (find_jwt_candidates evidence_json) (JObj [], ''none'')
      in if \<not> has_attestation_keys root \<or> as_object root = None \<or> as_object root = Some [] then
           (case supplemental_claims of
              Some sc \<Rightarrow> (if is_object sc then (sc, ''aa_token'') else (root, source))
            | None \<Rightarrow> (root, source))
         else (root, source))"

definition extract_claims :: "externals \<Rightarrow> json \<Rightarrow> json option \<Rightarrow> string \<Rightarrow> string \<Rightarrow> json" where
  "extract_claims X evidence_json supplemental_claims attestation_profile workload_container =
     (let (root, source) = select_claims_root X evidence_json supplemental_claims;
          report = Option.bind (jget evidence_json ''attestation_report'') (\<lambda>v. if is_object v then Some v else None);
          tcb = Option.bind (Option.bind report (\<lambda>r. jget r ''reported_tcb'')) (\<lambda>v. if is_object v then Some v else None);
          workload = extract_attested_workload root workload_container;
          init_data_hash = extract_init_data_hash X root;
          measurement = Option.bind (Option.bind report (\<lambda>r. jget r ''measurement'')) to_hex_bytes;
          tee = (if contains ''sev-snp'' (x_to_lowercase X attestation_profile) then ''sev-snp''
                 else attestation_profile);
          t = (\<lambda>key. jopt (Option.bind tcb (\<lambda>v. jget v key)));
          w = (\<lambda>key. jopt (jget workload key))
      in JObj [(''tee'', JStr tee), (''measurement'', jopt_str measurement),
           (''tcb'', JObj [(''bootloader'', t ''bootloader''), (''snp'', t ''snp''),
              (''microcode'', t ''microcode''), (''tee'', t ''tee''), (''fmc'', t ''fmc'')]),
           (''workload'', JObj [(''container_name'', w ''container_name''),
              (''image_reference_attested'', w ''image_reference_attested''),
              (''image_digest_attested'', w ''image_digest_attested''),
              (''namespace'', w ''namespace''), (''service_account'', w ''service_account''),
              (''init_data_hash'', jopt_str init_data_hash)]),
           (''source'', JStr source)])"

end
