(* ===== verification/Aa_Token.thy ===== *)
theory Aa_Token
  imports Traces Claims Receipts
begin

text \<open>
  The attestation-agent token, first half of \<open>attestation.rs\<close>: the cache of the token
  payload with its time to live, the fetch with retries, and the bearer token and claims
  derived from it. The cache's lock is held across the whole fetch, so the cache that is
  stored back is computed from the one that was read.
\<close>

section \<open>The cache\<close>

definition aa_cache_new :: "instant \<Rightarrow> instant \<Rightarrow> aa_token_cache" where
  "aa_cache_new now1 now2 = \<lparr>aa_payload = None, aa_claims = None, aa_expires_at = now1,
     aa_error = None, aa_error_until = now2\<rparr>"

definition cached_payload :: "instant \<Rightarrow> aa_token_cache \<Rightarrow> json option \<times> string option" where
  "cached_payload now c =
     (if is_some (aa_payload c) \<and> now < aa_expires_at c then (aa_payload c, None)
      else if is_some (aa_error c) \<and> now < aa_error_until c then (None, aa_error c)
      else (None, None))"

definition aa_invalidate :: "instant \<Rightarrow> instant \<Rightarrow> aa_token_cache \<Rightarrow> aa_token_cache" where
  "aa_invalidate now1 now2 c = c\<lparr>aa_payload := None, aa_claims := None, aa_error := None,
     aa_expires_at := now1, aa_error_until := now2\<rparr>"

text \<open>The time to live; \<open>now_epoch\<close> is the Unix time in seconds.\<close>

definition token_cache_ttl_seconds :: "f64 \<Rightarrow> json option \<Rightarrow> config \<Rightarrow> f64" where
  "token_cache_ttl_seconds now_epoch claims cfg =
     (let ttl = f64_max (c_aa_token_cache_seconds cfg) (Finite 0);
          ttl = (case Option.bind claims (\<lambda>c. Option.bind (jget c ''exp'') as_f64) of
                   None \<Rightarrow> ttl
                 | Some ex \<Rightarrow>
                     (let remaining = f64_sub (f64_sub ex now_epoch) (c_aa_token_refresh_skew_seconds cfg)
                      in if f64_lt (Finite 0) ttl then f64_min ttl remaining else remaining))
      in f64_max ttl (Finite 0))"

text \<open>\<open>payload.as_object().get("token").as_str()\<close>.\<close>

definition payload_token :: "json \<Rightarrow> string option" where
  "payload_token payload = Option.bind (jget payload ''token'') as_str"

text \<open>\<open>store_payload\<close>: \<open>now1\<close> and \<open>now2\<close> are the two readings of the clock. A time to live
  that cannot be represented or added to the clock panics (\<open>None\<close>).\<close>

definition store_payload ::
  "externals \<Rightarrow> config \<Rightarrow> f64 \<Rightarrow> instant \<Rightarrow> instant \<Rightarrow> json \<Rightarrow> aa_token_cache \<Rightarrow> aa_token_cache option" where
  "store_payload X cfg now_epoch now1 now2 payload c =
     (let claims = (case payload_token payload of
                      Some t \<Rightarrow> (if t = [] then None else res_ok (verify_jwt_claims X t))
                    | None \<Rightarrow> None);
          ttl = token_cache_ttl_seconds now_epoch claims cfg
      in if f64_lt (Finite 0) ttl then
           map_option (\<lambda>deadline. c\<lparr>aa_payload := Some payload, aa_claims := claims, aa_expires_at := deadline,
             aa_error := None, aa_error_until := now2\<rparr>) (after_secs_f64 now1 ttl)
         else Some (c\<lparr>aa_payload := None, aa_claims := None, aa_expires_at := now1,
             aa_error := None, aa_error_until := now2\<rparr>))"

definition aa_store_error :: "config \<Rightarrow> instant \<Rightarrow> string \<Rightarrow> aa_token_cache \<Rightarrow> aa_token_cache option" where
  "aa_store_error cfg now message c =
     map_option (\<lambda>deadline. c\<lparr>aa_error := Some message, aa_error_until := deadline\<rparr>)
       (after_secs_f64 now (f64_max (c_aa_token_failure_cache_seconds cfg) (Finite 0)))"

section \<open>Fetching\<close>

definition get_request :: "string \<Rightarrow> (string \<times> string) list \<Rightarrow> duration option \<Rightarrow> http_request" where
  "get_request url hdrs tmo =
     \<lparr>hq_method = ''GET'', hq_url = url, hq_headers = hdrs, hq_json = None, hq_timeout = tmo\<rparr>"

text \<open>What one attempt of the loop concludes: a final answer, or the text of the last error.\<close>

definition aa_attempt_outcome ::
  "externals \<Rightarrow> http_error + http_response \<Rightarrow> (json option \<times> string option) + string" where
  "aa_attempt_outcome X result =
     (case result of
        Inr resp \<Rightarrow>
          (if \<not> is_success (hr_status resp) then Inr (''http_status_'' @ show_nat (hr_status resp))
           else case hr_body resp of
             Inr body \<Rightarrow>
               (case x_json_parse X body of
                  Inr payload \<Rightarrow>
                    (case payload_token payload of
                       Some t \<Rightarrow> (if t \<noteq> [] then Inl (Some payload, None)
                                  else Inl (None, Some ''aa_token_invalid_response''))
                     | None \<Rightarrow> Inl (None, Some ''aa_token_invalid_response''))
                | Inl _ \<Rightarrow> Inr ''invalid_json'')
           | Inl err \<Rightarrow> Inr (classify_reqwest_error err))
      | Inl e \<Rightarrow> Inr (classify_reqwest_error e))"

text \<open>\<open>fetch_aa_token_payload_from_url\<close> with \<open>remaining\<close> attempts to go.\<close>

fun fetch_aa_token_payload_from_url ::
  "'w env \<Rightarrow> string \<Rightarrow> duration \<Rightarrow> duration \<Rightarrow> nat \<Rightarrow> string \<Rightarrow> ('w, json option \<times> string option) proc" where
  "fetch_aa_token_payload_from_url E url timeout retry_sleep 0 last_error =
     ret (None, Some (''aa_token_fetch_failed:'' @ last_error))"
| "fetch_aa_token_payload_from_url E url timeout retry_sleep (Suc remaining) last_error =
     call (e_http E (get_request url [(''Accept'', ''application/json'')] (Some timeout))) (\<lambda>result.
     case aa_attempt_outcome (e_ext E) result of
       Inl answer \<Rightarrow> ret answer
     | Inr err \<Rightarrow>
         (if remaining = 0 then fetch_aa_token_payload_from_url E url timeout retry_sleep remaining err
          else call (e_sleep E retry_sleep) (\<lambda>_.
            fetch_aa_token_payload_from_url E url timeout retry_sleep remaining err)))"

definition fetch_aa_token_payload :: "'w env \<Rightarrow> ('w, json option \<times> string option) proc" where
  "fetch_aa_token_payload E =
     call (gets s_aa_cache) (\<lambda>cache.
     call (e_now E) (\<lambda>now.
     case cached_payload now cache of
       (Some p, _) \<Rightarrow> ret (Some p, None)
     | (None, Some e) \<Rightarrow> ret (None, Some e)
     | (None, None) \<Rightarrow>
         or_panic (from_secs_f64 (c_aa_token_timeout_seconds (e_config E))) (\<lambda>timeout.
         or_panic (from_secs_f64 (c_aa_token_fetch_retry_sleep_seconds (e_config E))) (\<lambda>retry_sleep.
         pbind (fetch_aa_token_payload_from_url E (c_aa_token_url (e_config E)) timeout retry_sleep
                  (max (c_aa_token_fetch_attempts (e_config E)) 1) []) (\<lambda>(payload, err).
         case payload of
           Some payload \<Rightarrow>
             call (e_unix E) (\<lambda>(secs, nanos).
             call (e_now E) (\<lambda>now1.
             call (e_now E) (\<lambda>now2.
             or_panic (store_payload (e_ext E) (e_config E) (as_secs_f64 secs nanos) now1 now2 payload cache) (\<lambda>c.
             call (modify (\<lambda>s. s\<lparr>s_aa_cache := c\<rparr>)) (\<lambda>_.
             ret (Some payload, None))))))
         | None \<Rightarrow>
             (let e = (case err of Some e \<Rightarrow> e | None \<Rightarrow> ''aa_token_invalid_response'') in
              call (e_now E) (\<lambda>now1.
              or_panic (aa_store_error (e_config E) now1 e cache) (\<lambda>c.
              call (modify (\<lambda>s. s\<lparr>s_aa_cache := c\<rparr>)) (\<lambda>_.
              ret (None, Some e))))))))))"

definition fetch_kbs_bearer_token :: "'w env \<Rightarrow> ('w, string + string) proc" where
  "fetch_kbs_bearer_token E =
     pbind (fetch_aa_token_payload E) (\<lambda>(payload, err).
     case err of
       Some e \<Rightarrow> ret (Inl e)
     | None \<Rightarrow>
         (case payload of
            None \<Rightarrow> ret (Inl ''aa_token_invalid_response'')
          | Some p \<Rightarrow>
              (case payload_token p of
                 Some t \<Rightarrow> (if t \<noteq> [] then ret (Inr t) else ret (Inl ''aa_token_missing''))
               | None \<Rightarrow> ret (Inl ''aa_token_missing''))))"

definition fetch_kbs_token_claims :: "'w env \<Rightarrow> ('w, json) proc" where
  "fetch_kbs_token_claims E =
     (let result = JObj [(''claims_root'', JNull), (''measurement'', JNull), (''error'', JNull),
                         (''verified'', JBool False)] in
      pbind (fetch_aa_token_payload E) (\<lambda>(payload, payload_error).
      case payload_error of
        Some e \<Rightarrow> ret (jset result ''error'' (JStr e))
      | None \<Rightarrow>
          (case payload of
             None \<Rightarrow> ret (jset result ''error'' (JStr ''aa_token_invalid_response''))
           | Some p \<Rightarrow>
               (let token = (case payload_token p of Some t \<Rightarrow> t | None \<Rightarrow> []) in
                case verify_jwt_claims (e_ext E) token of
                  Inr claims \<Rightarrow>
                    (let r = jset (jset result ''claims_root'' claims) ''verified'' (JBool True) in
                     ret (case extract_measurement_from_claims claims of
                            Some m \<Rightarrow> jset r ''measurement'' (JStr m) | None \<Rightarrow> r))
                | Inl err \<Rightarrow> ret (jset result ''error'' (JStr err))))))"

definition invalidate_aa_cache :: "'w env \<Rightarrow> ('w sys, unit) state" where
  "invalidate_aa_cache E =
     State_Monad.bind (e_now E) (\<lambda>now1. State_Monad.bind (e_now E) (\<lambda>now2.
       modify (\<lambda>s. s\<lparr>s_aa_cache := aa_invalidate now1 now2 (s_aa_cache s)\<rparr>)))"

section \<open>What an observer sees\<close>

lemma advances_fetch_aa_token_payload_from_url [advance_rules]:
  "env_advances R E \<Longrightarrow> advances R (fetch_aa_token_payload_from_url E url timeout retry_sleep n last_error)"
  by (induction n arbitrary: last_error) (auto intro!: advance_rules)

lemma advances_fetch_aa_token_payload [advance_rules]: "env_advances R E \<Longrightarrow> advances R (fetch_aa_token_payload E)"
  unfolding fetch_aa_token_payload_def by (intro advance_rules; (assumption | simp))

lemma advances_fetch_kbs_bearer_token [advance_rules]: "env_advances R E \<Longrightarrow> advances R (fetch_kbs_bearer_token E)"
  unfolding fetch_kbs_bearer_token_def by (intro advance_rules; (assumption | simp))

lemma advances_fetch_kbs_token_claims [advance_rules]: "env_advances R E \<Longrightarrow> advances R (fetch_kbs_token_claims E)"
  unfolding fetch_kbs_token_claims_def by (intro advance_rules; (assumption | simp))

lemma advances_invalidate_aa_cache [advance_rules]: "env_advances R E \<Longrightarrow> advances R (invalidate_aa_cache E)"
  unfolding invalidate_aa_cache_def by (intro advance_rules; (assumption | simp))

end
