(* ===== verification/Ttl_Cache.thy ===== *)
theory Ttl_Cache
  imports Prelude
begin

text \<open>
  The contract of a cache whose entries live for a time that depends on what is stored: what a
  lookup finds after a store, after an eviction and after an earlier lookup, which may drop
  what has expired. A store may be one the cache does not take, and a lookup may show only a
  part of what was stored. From it, once: whatever a lookup finds is the last value stored
  under the key, less than its time to live ago; in a cache that evicts, not evicted since.
\<close>

datatype ('k, 'v) cache_op = CacheStore instant 'k 'v | CacheEvict 'k | CacheLookup instant 'k

fun cache_key :: "('k, 'v) cache_op \<Rightarrow> 'k" where
  "cache_key (CacheStore t k v) = k"
| "cache_key (CacheEvict k) = k"
| "cache_key (CacheLookup t k) = k"

text \<open>An operation that stores under a key, of the values the cache takes.\<close>

fun cache_stores :: "('v \<Rightarrow> bool) \<Rightarrow> 'k \<Rightarrow> ('k, 'v) cache_op \<Rightarrow> bool" where
  "cache_stores takes k (CacheStore t k' v) \<longleftrightarrow> k' = k \<and> takes v"
| "cache_stores takes k _ \<longleftrightarrow> False"

text \<open>An operation that determines what is stored under its key.\<close>

definition cache_writes :: "'k \<Rightarrow> ('k, 'v) cache_op \<Rightarrow> bool" where
  "cache_writes k x \<longleftrightarrow> cache_stores (\<lambda>_. True) k x \<or> x = CacheEvict k"

fun lookup_by :: "instant \<Rightarrow> ('k, 'v) cache_op \<Rightarrow> bool" where
  "lookup_by now (CacheLookup t k) \<longleftrightarrow> t \<le> now"
| "lookup_by now _ \<longleftrightarrow> True"

locale ttl_cache =
  fixes find :: "'c \<Rightarrow> instant \<Rightarrow> 'k \<Rightarrow> 'r option"
    and exec :: "('k, 'v) cache_op \<Rightarrow> 'c \<Rightarrow> 'c"
    and view :: "'v \<Rightarrow> 'r"
    and ttl :: "'v \<Rightarrow> duration"
    and kept :: "instant \<Rightarrow> 'v \<Rightarrow> bool"
    and takes :: "'v \<Rightarrow> bool"
  assumes find_store: "takes v \<Longrightarrow> find (exec (CacheStore t k v) c) now k =
      (if kept t v \<and> now < t + ttl v then Some (view v) else None)"
    and find_refused: "\<not> takes v \<Longrightarrow> find (exec (CacheStore t k v) c) now k = find c now k"
    and find_evict: "find (exec (CacheEvict k) c) now k = Some r \<Longrightarrow> find c now k = Some r"
    and find_lookup: "t \<le> now \<Longrightarrow> find (exec (CacheLookup t k) c) now k = find c now k"
    and find_other: "cache_key x \<noteq> k \<Longrightarrow> find (exec x c) now k = find c now k"
begin

lemma find_no_store:
  assumes "\<not> cache_stores takes k x" "lookup_by now x" "find (exec x c) now k = Some r"
  shows "find c now k = Some r"
  using assms find_evict [of k c now r]
  by (cases x; cases "cache_key x = k") (auto simp: find_refused find_lookup find_other)

text \<open>A hit after a history is the hit after its last store under the key.\<close>

lemma find_history:
  assumes "\<And>now. find c now k = None" "list_all (lookup_by now) ops"
    "find (fold exec ops c) now k = Some r"
  shows "\<exists>pre t v post. ops = pre @ CacheStore t k v # post \<and> view v = r \<and> kept t v \<and> now < t + ttl v \<and>
    \<not> list_ex (cache_stores takes k) post \<and> takes v"
  using assms(2,3)
proof (induction ops rule: rev_induct)
  case Nil
  then show ?case using assms(1) by simp
next
  case (snoc x ops)
  show ?case
  proof (cases "cache_stores takes k x")
    case True
    with snoc.prems obtain t v where "x = CacheStore t k v" "now < t + ttl v" "kept t v" "view v = r" "takes v"
      by (cases x) (auto simp: find_store split: if_splits)
    then show ?thesis by (intro exI [of _ ops] exI [of _ t] exI [of _ v] exI [of _ "[]"]) simp
  next
    case False
    from snoc.prems have "list_all (lookup_by now) ops" "lookup_by now x" "find (exec x (fold exec ops c)) now k = Some r"
      by simp_all
    note this(1) find_no_store [OF False this(2,3)]
    from snoc.IH [OF this] obtain pre t v post where "ops = pre @ CacheStore t k v # post" "view v = r" "kept t v" "now < t + ttl v"
        "\<not> list_ex (cache_stores takes k) post" "takes v" by blast
    with False have "ops @ [x] = pre @ CacheStore t k v # (post @ [x])" "\<not> list_ex (cache_stores takes k) (post @ [x])"
      by simp_all
    with \<open>view v = r\<close> \<open>kept t v\<close> \<open>now < t + ttl v\<close> \<open>takes v\<close> show ?thesis by blast
  qed
qed

text \<open>What is not found stays so until something is stored under the key.\<close>

lemma find_later:
  assumes "\<not> list_ex (cache_stores takes k) ops" "list_all (lookup_by now) ops" "find (fold exec ops c) now k = Some r"
  shows "find c now k = Some r"
  using assms by (induction ops arbitrary: c) (auto dest: find_no_store)

end

locale evicting_cache = ttl_cache +
  assumes evicted: "find (exec (CacheEvict k) c) now k = None"
begin

lemma not_evicted:
  assumes "list_all (lookup_by now) ops" "\<not> list_ex (cache_stores takes k) ops" "find (fold exec ops c) now k = Some r"
  shows "CacheEvict k \<notin> set ops"
proof
  assume "CacheEvict k \<in> set ops"
  then obtain a b where "ops = a @ CacheEvict k # b" by (auto simp: in_set_conv_decomp)
  with assms have "find (exec (CacheEvict k) (fold exec a c)) now k = Some r"
    using find_later [of k b now "exec (CacheEvict k) (fold exec a c)" r] by simp
  then show False by (simp add: evicted)
qed

lemma find_history_evicting:
  assumes "\<And>now. find c now k = None" "list_all (lookup_by now) ops" "find (fold exec ops c) now k = Some r"
  shows "\<exists>pre t v post. ops = pre @ CacheStore t k v # post \<and> view v = r \<and> kept t v \<and> now < t + ttl v \<and>
    \<not> list_ex (cache_stores takes k) post \<and> CacheEvict k \<notin> set post"
proof -
  from find_history [OF assms] obtain pre t v post where h: "ops = pre @ CacheStore t k v # post" "view v = r" "kept t v"
      "now < t + ttl v" "\<not> list_ex (cache_stores takes k) post" "takes v" by blast
  then have "CacheEvict k \<notin> set post"
    using assms(2,3) not_evicted [of now post k "exec (CacheStore t k v) (fold exec pre c)" r] by simp
  with h show ?thesis by blast
qed

end

end
