(* ===== verification/Kbs.thy ===== *)
theory Kbs
  imports Aa_Token Ttl_Cache
begin

text \<open>
  Key-broker resources, \<open>kbs.rs\<close>: the per-path cache with separate times to live for bodies
  and errors, reads through the local CDH, the direct status probe with one session refresh,
  and the receipt-carrying writes and deletes with their two retry budgets.
\<close>

section \<open>The cache\<close>

definition ke_is_valid :: "instant \<Rightarrow> kbs_cache_entry \<Rightarrow> bool" where
  "ke_is_valid now e \<longleftrightarrow> now < ke_expires_at e \<and> ke_body e \<noteq> []"

definition ke_has_valid_error :: "instant \<Rightarrow> kbs_cache_entry \<Rightarrow> bool" where
  "ke_has_valid_error now e \<longleftrightarrow> is_some (ke_error e) \<and> now < ke_error_until e"

definition cdh_resource_base :: "string \<Rightarrow> string \<Rightarrow> string" where
  "cdh_resource_base aa_token_url aa_evidence_url =
     (case split_once ''/aa/token'' aa_token_url of
        Some (base, _) \<Rightarrow> trim_end_matches CHR ''/'' base @ ''/cdh/resource''
      | None \<Rightarrow>
          (case split_once ''/aa/evidence'' aa_evidence_url of
             Some (base, _) \<Rightarrow> trim_end_matches CHR ''/'' base @ ''/cdh/resource''
           | None \<Rightarrow> ''http://127.0.0.1:8006/cdh/resource''))"

text \<open>\<open>now1\<close> and \<open>now2\<close> are the clock readings of the two validity checks.\<close>

definition cached_resource_entry ::
  "instant \<Rightarrow> instant \<Rightarrow> kbs_cache \<Rightarrow> string \<Rightarrow> ((bytes \<times> string \<times> nat) option \<times> json option) \<times> kbs_cache" where
  "cached_resource_entry now1 now2 cache key =
     (case map_of cache key of
        None \<Rightarrow> ((None, None), cache)
      | Some e \<Rightarrow>
          (if ke_is_valid now1 e then ((Some (ke_body e, ke_content_type e, ke_status e), None), cache)
           else if ke_has_valid_error now2 e then ((None, ke_error e), cache)
           else ((None, None), AList.delete key cache)))"

definition store_resource_success ::
  "instant \<Rightarrow> instant \<Rightarrow> kbs_cache \<Rightarrow> string \<Rightarrow> bytes \<Rightarrow> string \<Rightarrow> nat \<Rightarrow> f64 \<Rightarrow> kbs_cache option" where
  "store_resource_success now1 now2 cache key body content_type status cache_seconds =
     (let ttl = f64_max cache_seconds (Finite 0) in
      if f64_le ttl (Finite 0) then Some (AList.delete key cache)
      else map_option (\<lambda>deadline. AList.update key \<lparr>ke_body = body, ke_content_type = content_type,
             ke_status = status, ke_expires_at = deadline, ke_error = None, ke_error_until = now2\<rparr> cache)
           (after_secs_f64 now1 ttl))"

definition store_resource_error ::
  "instant \<Rightarrow> instant \<Rightarrow> kbs_cache \<Rightarrow> string \<Rightarrow> json \<Rightarrow> f64 \<Rightarrow> kbs_cache option" where
  "store_resource_error now1 now2 cache key error_payload failure_cache_seconds =
     (let ttl = f64_max failure_cache_seconds (Finite 0) in
      if f64_le ttl (Finite 0) then Some (AList.delete key cache)
      else map_option (\<lambda>deadline. AList.update key \<lparr>ke_body = [], ke_content_type = [], ke_status = 0,
             ke_expires_at = now1, ke_error = Some error_payload, ke_error_until = deadline\<rparr> cache)
           (after_secs_f64 now2 ttl))"

section \<open>Reading a resource\<close>

definition utc_now :: "'w env \<Rightarrow> ('w sys, string) state" where
  "utc_now E = State_Monad.bind (e_unix E) (\<lambda>(secs, nanos).
     State_Monad.return (chrono_timestamp secs (nanos div 1000)))"

text \<open>\<open>resp.headers().get("content-type")\<close>, when it is visible ASCII.\<close>

definition header_text :: "string \<Rightarrow> (string \<times> string) list \<Rightarrow> string option" where
  "header_text name hdrs =
     (case map_of hdrs name of
        Some v \<Rightarrow> (if list_all (\<lambda>c. 32 \<le> ord c \<and> ord c < 127 \<or> ord c = 9) v then Some v else None)
      | None \<Rightarrow> None)"

text \<open>\<open>resp.text().await.unwrap_or_default()\<close>.\<close>

definition body_text :: "externals \<Rightarrow> http_response \<Rightarrow> string" where
  "body_text X resp = (case hr_body resp of Inr b \<Rightarrow> x_body_text X b | Inl _ \<Rightarrow> [])"

definition cache_put :: "kbs_cache \<Rightarrow> ('w sys, unit) state" where
  "cache_put c = modify (\<lambda>s. s\<lparr>s_kbs_cache := c\<rparr>)"

definition fail_resource ::
  "'w env \<Rightarrow> kbs_cache \<Rightarrow> string \<Rightarrow> json \<Rightarrow> ('w, (nat \<times> json) + (bytes \<times> string \<times> nat)) proc" where
  "fail_resource E cache key error_payload =
     call (e_now E) (\<lambda>now1. call (e_now E) (\<lambda>now2.
     or_panic (store_resource_error now1 now2 cache key error_payload
                 (c_kbs_resource_failure_cache_seconds (e_config E))) (\<lambda>c.
     call (cache_put c) (\<lambda>_. ret (Inl (502, error_payload))))))"

definition resource_url :: "config \<Rightarrow> string \<Rightarrow> string" where
  "resource_url cfg key =
     trim_end_matches CHR ''/'' (cdh_resource_base (c_aa_token_url cfg) (c_aa_evidence_url cfg)) @ ''/'' @ key"

definition resource_error_payload :: "string \<Rightarrow> string \<Rightarrow> http_error \<Rightarrow> json" where
  "resource_error_payload url now e =
     (let base = (\<lambda>ty. JObj [(''error'', JStr ty), (''detail'', JStr (he_text e)),
                        (''resource_url'', JStr url), (''timestamp'', JStr now)])
      in case he_status e of
           Some status \<Rightarrow> jset (jset (base ''kbs_resource_http_error'') ''upstream_status'' (JInt (int status)))
                            ''upstream_body'' (JStr (he_text e))
         | None \<Rightarrow> base ''kbs_resource_unreachable'')"

definition fetch_kbs_resource ::
  "'w env \<Rightarrow> string \<Rightarrow> ('w, (nat \<times> json) + (bytes \<times> string \<times> nat)) proc" where
  "fetch_kbs_resource E key =
     call (gets s_kbs_cache) (\<lambda>cache0.
     call (e_now E) (\<lambda>now1. call (e_now E) (\<lambda>now2.
     case cached_resource_entry now1 now2 cache0 key of
       ((Some hit, _), _) \<Rightarrow> ret (Inr hit)
     | ((None, Some err), _) \<Rightarrow> ret (Inl (502, err))
     | ((None, None), cache) \<Rightarrow>
         (let url = resource_url (e_config E) key in
          call (e_http E (get_request url [(''Accept'', ''application/octet-stream'')] (Some (from_secs 20)))) (\<lambda>result.
          case result of
            Inr resp \<Rightarrow>
              (let content_type = (case header_text ''content-type'' (hr_headers resp) of
                                     Some v \<Rightarrow> v | None \<Rightarrow> ''application/octet-stream'') in
               if hr_status resp \<noteq> 200 then
                 call (utc_now E) (\<lambda>now.
                 fail_resource E cache key
                   (JObj [(''error'', JStr ''kbs_resource_non_200''),
                      (''upstream_status'', JInt (int (hr_status resp))),
                      (''upstream_body'', JStr (body_text (e_ext E) resp)),
                      (''resource_url'', JStr url), (''timestamp'', JStr now)]))
               else
                 (case hr_body resp of
                    Inr body \<Rightarrow>
                      call (e_now E) (\<lambda>now3. call (e_now E) (\<lambda>now4.
                      or_panic (store_resource_success now3 now4 cache key body content_type 200
                                  (c_kbs_resource_cache_seconds (e_config E))) (\<lambda>c.
                      call (cache_put c) (\<lambda>_. ret (Inr (body, content_type, 200))))))
                  | Inl e \<Rightarrow>
                      call (utc_now E) (\<lambda>now.
                      fail_resource E cache key
                        (JObj [(''error'', JStr ''kbs_resource_http_error''), (''detail'', JStr (he_text e)),
                           (''resource_url'', JStr url), (''timestamp'', JStr now)]))))
          | Inl e \<Rightarrow>
              call (utc_now E) (\<lambda>now. fail_resource E cache key (resource_error_payload url now e)))))))"

section \<open>The direct probe\<close>

definition probe_direct_kbs_resource_status :: "'w env \<Rightarrow> string \<Rightarrow> ('w, ownership_error + nat) proc" where
  "probe_direct_kbs_resource_status E resource_path =
     pbind (fetch_kbs_bearer_token E) (\<lambda>tok.
     attempt (map_err (\<lambda>e. Store (''kbs_token_unavailable:'' @ e)) tok) (\<lambda>token.
     call (e_http E (get_request
        (trim_end_matches CHR ''/'' (c_kbs_resource_url (e_config E)) @ ''/'' @
           trim_start_matches CHR ''/'' resource_path)
        [(''Authorization'', ''Bearer '' @ token), (''Accept'', ''application/octet-stream'')]
        (Some (from_secs 20)))) (\<lambda>result.
     attempt (map_err (\<lambda>e. Store (''kbs_resource_probe_failed:'' @ he_text e)) result) (\<lambda>resp.
     ret (Inr (hr_status resp))))))"

definition probe_direct_kbs_resource_status_with_session_refresh ::
  "'w env \<Rightarrow> string \<Rightarrow> ('w, ownership_error + nat) proc" where
  "probe_direct_kbs_resource_status_with_session_refresh E resource_path =
     pthen (probe_direct_kbs_resource_status E resource_path) (\<lambda>status.
     if status \<noteq> 401 then ret (Inr status)
     else call (invalidate_aa_cache E) (\<lambda>_. probe_direct_kbs_resource_status E resource_path))"

definition evict_kbs_cache_entry :: "string \<Rightarrow> ('w sys, unit) state" where
  "evict_kbs_cache_entry key = modify (\<lambda>s. s\<lparr>s_kbs_cache := AList.delete key (s_kbs_cache s)\<rparr>)"

section \<open>Receipt-carrying requests\<close>

definition workload_resource_base :: "string \<Rightarrow> string" where
  "workload_resource_base kbs_resource_url =
     (let base = trim_end_matches CHR ''/'' kbs_resource_url in
      case strip_suffix ''/resource'' base of
        Some stripped \<Rightarrow> stripped @ ''/workload-resource''
      | None \<Rightarrow> base @ ''/workload-resource'')"

datatype workload_resource_write_mode = Create | Replace
datatype workload_resource_outcome = Applied | WasNotFound

definition decode_hex_32 :: "string \<Rightarrow> ownership_error + bytes" where
  "decode_hex_32 val =
     (if length val \<noteq> 64 then Inl (Store ''receipt_pubkey_sha256_invalid_length'')
      else ok_or (Store ''receipt_pubkey_sha256_invalid'') (decode_pairs (as_bytes val)))"

text \<open>\<open>serde_json::to_value\<close> of a signing response; absent optional fields are skipped.\<close>

definition opt_field :: "string \<Rightarrow> string option \<Rightarrow> (string \<times> json) list" where
  "opt_field k v = (case v of None \<Rightarrow> [] | Some s \<Rightarrow> [(k, JStr s)])"

definition response_to_json :: "sign_receipt_response \<Rightarrow> json" where
  "response_to_json r =
     (let p = rs_payload r; e = rs_receipt r in
      JObj [(''operation'', JStr (rs_operation r)),
        (''payload'', JObj ([(''purpose'', JStr (pv_purpose p)), (''app_id'', JStr (pv_app_id p))] @
           opt_field ''resource_path'' (pv_resource_path p) @ opt_field ''from_mode'' (pv_from_mode p) @
           opt_field ''to_mode'' (pv_to_mode p) @
           opt_field ''attestation_quote_sha256'' (pv_attestation_quote_sha256 p) @
           opt_field ''new_value_sha256'' (pv_new_value_sha256 p) @
           [(''timestamp'', JStr (pv_timestamp p))])),
        (''receipt'', JObj [(''pubkey'', JStr (re_pubkey e)), (''pubkey_sha256'', JStr (re_pubkey_sha256 e)),
           (''payload_canonical_bytes'', JStr (re_payload_canonical_bytes e)),
           (''signature'', JStr (re_signature e))])])"

definition sign_workload_receipt ::
  "'w env \<Rightarrow> receipt_type \<Rightarrow> string \<Rightarrow> bytes option \<Rightarrow> ('w, ownership_error + json) proc" where
  "sign_workload_receipt E ty resource_path val =
     call (utc_now E) (\<lambda>now.
     or_panic (sign_receipt (e_ext E) (e_receipt_seed E) now
       \<lparr>rq_receipt_type = ty, rq_app_id = c_instance_id (e_config E),
        rq_resource_path = Some resource_path, rq_from_mode = None, rq_to_mode = None,
        rq_attestation_quote_sha256 = None,
        rq_new_value_sha256 = map_option (\<lambda>bs. hex_lower (x_sha256 (e_ext E) bs)) val,
        rq_timestamp = None\<rparr>) (\<lambda>signed.
     attempt (map_err (\<lambda>err. Store (''receipt_sign_failed:'' @ receipt_error_to_string err)) signed) (\<lambda>response.
     let envelope = response_to_json response in
     ret (Inr (case val of
                 Some bs \<Rightarrow> jset envelope ''value'' (JStr (x_b64_encode (e_ext E) bs))
               | None \<Rightarrow> envelope)))))"

definition receipt_attestation_runtime_data :: "json \<Rightarrow> ownership_error + string" where
  "receipt_attestation_runtime_data envelope =
     res_bind (ok_or (Store ''receipt_pubkey_sha256_missing'')
       (Option.bind (Option.bind (jget envelope ''receipt'') (\<lambda>r. jget r ''pubkey_sha256'')) as_str)) (\<lambda>h.
     res_bind (decode_hex_32 h) (\<lambda>_. Inr (to_ascii_lowercase h)))"

definition receipt_attestation_tee :: "string \<Rightarrow> string" where
  "receipt_attestation_tee profile =
     (let profile = to_ascii_lowercase profile in
      if contains ''snp'' profile then ''snp''
      else if contains ''tdx'' profile then ''tdx''
      else if contains ''sgx'' profile then ''sgx''
      else ''snp'')"

definition attach_receipt_attestation ::
  "'w env \<Rightarrow> json \<Rightarrow> ('w, ownership_error + json) proc" where
  "attach_receipt_attestation E envelope =
     attempt (receipt_attestation_runtime_data envelope) (\<lambda>runtime_data.
     call (e_http E (get_request (c_aa_evidence_url (e_config E) @ ''?runtime_data='' @ runtime_data)
             [(''Accept'', ''application/json'')] (Some (from_secs 20)))) (\<lambda>result.
     attempt (map_err (\<lambda>e. Store (''receipt_attestation_fetch_failed:'' @ he_text e)) result) (\<lambda>resp.
     attempt (map_err (\<lambda>e. Store (''receipt_attestation_decode_failed:'' @ x_status_text (e_ext E) (hr_status resp) @ '':'' @ e))
       (case hr_body resp of Inl e \<Rightarrow> Inl (he_text e) | Inr b \<Rightarrow> x_json_parse (e_ext E) b)) (\<lambda>evidence.
     if \<not> is_success (hr_status resp)
     then ret (Inl (Store (''receipt_attestation_non_200:'' @ show_nat (hr_status resp) @ '':'' @
            bytes_to_str (x_json_print (e_ext E) evidence))))
     else ret (Inr (jset envelope ''receipt_attestation''
            (JObj [(''tee'', JStr (receipt_attestation_tee (c_attestation_profile (e_config E)))),
                   (''runtime_data'', JStr runtime_data), (''evidence'', evidence)])))))))"

definition stale_session_401 :: "externals \<Rightarrow> http_response \<Rightarrow> bool" where
  "stale_session_401 X resp =
     (case Option.bind (res_ok (case hr_body resp of Inl e \<Rightarrow> Inl (he_text e) | Inr b \<Rightarrow> x_json_parse X b))
             (\<lambda>body. Option.bind (jget body ''error_type'') as_str) of
        Some error_type \<Rightarrow> contains ''Token'' error_type \<or> contains ''Session'' error_type
      | None \<Rightarrow> False)"

definition MAX_ATTEMPTS :: nat where
  "MAX_ATTEMPTS = 3"

text \<open>The retry loop: \<open>retries\<close> availability retries were made and \<open>refreshed\<close> says whether the
  session was refreshed.\<close>

function send_workload_resource_request ::
  "'w env \<Rightarrow> string \<Rightarrow> (string \<Rightarrow> http_request) \<Rightarrow> nat \<Rightarrow> bool \<Rightarrow>
     ('w, ownership_error + workload_resource_outcome) proc" where
  "send_workload_resource_request E operation build_request retries refreshed =
     pbind (fetch_kbs_bearer_token E) (\<lambda>tok.
     attempt (map_err (\<lambda>e. Store (''kbs_token_unavailable:'' @ e)) tok) (\<lambda>token.
     call (e_http E (build_request token)) (\<lambda>result.
     attempt (map_err (\<lambda>e. Store (''kbs_workload_'' @ operation @ ''_failed:'' @ he_text e)) result) (\<lambda>resp.
     let status = hr_status resp in
     if is_success status then ret (Inr Applied)
     else if status = 404 \<or> (operation = ''delete'' \<and> status = 412) then ret (Inr WasNotFound)
     else if status = 401 then
       (if \<not> refreshed \<and> stale_session_401 (e_ext E) resp then
          call (invalidate_aa_cache E) (\<lambda>_.
          send_workload_resource_request E operation build_request retries True)
        else ret (Inl (Store (''kbs_workload_'' @ operation @ ''_non_200:401:''))))
     else if status \<noteq> 503 \<or> MAX_ATTEMPTS \<le> retries + 1 then
       ret (Inl (Store (''kbs_workload_'' @ operation @ ''_non_200:'' @ show_nat status @ '':'')))
     else call (e_sleep E (from_secs 1)) (\<lambda>_.
       send_workload_resource_request E operation build_request (retries + 1) refreshed)))))"
  by pat_completeness auto
termination
  by (relation "measure (\<lambda>(E, operation, build, retries, refreshed).
        2 * (MAX_ATTEMPTS - retries) + (if refreshed then 0 else 1))")
    (auto simp: MAX_ATTEMPTS_def)

declare send_workload_resource_request.simps [simp del]

definition workload_url :: "config \<Rightarrow> string \<Rightarrow> string" where
  "workload_url cfg resource_path = workload_resource_base (c_kbs_resource_url cfg) @ ''/'' @ resource_path"

definition put_request :: "config \<Rightarrow> string \<Rightarrow> json \<Rightarrow> workload_resource_write_mode \<Rightarrow> string \<Rightarrow> http_request" where
  "put_request cfg resource_path envelope mode token =
     \<lparr>hq_method = ''PUT'', hq_url = workload_url cfg resource_path,
      hq_headers = [(''Authorization'', ''Bearer '' @ token),
        (case mode of Create \<Rightarrow> (''If-None-Match'', ''*'') | Replace \<Rightarrow> (''If-Match'', ''*''))],
      hq_json = Some envelope, hq_timeout = Some (from_secs 20)\<rparr>"

definition delete_request :: "config \<Rightarrow> string \<Rightarrow> json \<Rightarrow> string \<Rightarrow> http_request" where
  "delete_request cfg resource_path envelope token =
     \<lparr>hq_method = ''DELETE'', hq_url = workload_url cfg resource_path,
      hq_headers = [(''Authorization'', ''Bearer '' @ token), (''If-Match'', ''*'')],
      hq_json = Some envelope, hq_timeout = Some (from_secs 20)\<rparr>"

definition put_kbs_workload_resource ::
  "'w env \<Rightarrow> string \<Rightarrow> bytes \<Rightarrow> workload_resource_write_mode \<Rightarrow> ('w, ownership_error + unit) proc" where
  "put_kbs_workload_resource E resource_path body mode =
     pthen (sign_workload_receipt E Rekey resource_path (Some body)) (\<lambda>envelope.
     pthen (attach_receipt_attestation E envelope) (\<lambda>envelope.
     pthen (send_workload_resource_request E ''put''
              (put_request (e_config E) resource_path envelope mode) 0 False) (\<lambda>outcome.
     if outcome = WasNotFound then ret (Inl (Store ''kbs_workload_put_non_200:404:''))
     else call (evict_kbs_cache_entry resource_path) (\<lambda>_. ret (Inr ())))))"

definition delete_kbs_workload_resource ::
  "'w env \<Rightarrow> string \<Rightarrow> ('w, ownership_error + bool) proc" where
  "delete_kbs_workload_resource E resource_path =
     pthen (sign_workload_receipt E Teardown resource_path None) (\<lambda>envelope.
     pthen (attach_receipt_attestation E envelope) (\<lambda>envelope.
     pthen (send_workload_resource_request E ''delete''
              (delete_request (e_config E) resource_path envelope) 0 False) (\<lambda>outcome.
     call (evict_kbs_cache_entry resource_path) (\<lambda>_. ret (Inr (outcome = Applied))))))"

section \<open>The cache meets the contract of a timed cache\<close>

type_synonym cached_resource = "json + (bytes \<times> string \<times> nat)"

definition cache_find :: "kbs_cache \<Rightarrow> instant \<Rightarrow> string \<Rightarrow> cached_resource option" where
  "cache_find c now key =
     (case fst (cached_resource_entry now now c key) of
        (Some hit, _) \<Rightarrow> Some (Inr hit) | (None, Some err) \<Rightarrow> Some (Inl err) | (None, None) \<Rightarrow> None)"

definition resource_seconds :: "config \<Rightarrow> cached_resource \<Rightarrow> f64" where
  "resource_seconds cfg v = f64_max (case v of Inl _ \<Rightarrow> c_kbs_resource_failure_cache_seconds cfg
     | Inr _ \<Rightarrow> c_kbs_resource_cache_seconds cfg) (Finite 0)"

definition resource_ttl :: "config \<Rightarrow> cached_resource \<Rightarrow> duration" where
  "resource_ttl cfg v = (case from_secs_f64 (resource_seconds cfg v) of Some d \<Rightarrow> d | None \<Rightarrow> 0)"

definition resource_cacheable :: "config \<Rightarrow> instant \<Rightarrow> cached_resource \<Rightarrow> bool" where
  "resource_cacheable cfg t v \<longleftrightarrow> (case v of Inl _ \<Rightarrow> True | Inr (b, _, _) \<Rightarrow> b \<noteq> []) \<and>
     \<not> f64_le (resource_seconds cfg v) (Finite 0) \<and> is_some (after_secs_f64 t (resource_seconds cfg v))"

text \<open>One operation of the cache; a panic leaves nothing to find.\<close>

fun cache_exec :: "config \<Rightarrow> (string, cached_resource) cache_op \<Rightarrow> kbs_cache \<Rightarrow> kbs_cache" where
  "cache_exec cfg (CacheStore t key (Inr (body, content_type, status))) c =
     (case store_resource_success t t c key body content_type status (c_kbs_resource_cache_seconds cfg) of
        Some c' \<Rightarrow> c' | None \<Rightarrow> AList.delete key c)"
| "cache_exec cfg (CacheStore t key (Inl err)) c =
     (case store_resource_error t t c key err (c_kbs_resource_failure_cache_seconds cfg) of
        Some c' \<Rightarrow> c' | None \<Rightarrow> AList.delete key c)"
| "cache_exec cfg (CacheEvict key) c = AList.delete key c"
| "cache_exec cfg (CacheLookup t key) c = snd (cached_resource_entry t t c key)"

lemma cache_find_delete: "cache_find (AList.delete k c) now key = (if key = k then None else cache_find c now key)"
  by (simp add: cache_find_def cached_resource_entry_def delete_conv' split: option.split)

lemma cache_find_update_other:
  "key \<noteq> k \<Longrightarrow> cache_find (AList.update k e c) now key = cache_find c now key"
  by (simp add: cache_find_def cached_resource_entry_def update_conv' split: option.split)

lemma cache_find_update:
  "cache_find (AList.update key e c) now key =
     (if ke_is_valid now e then Some (Inr (ke_body e, ke_content_type e, ke_status e))
      else if ke_has_valid_error now e then map_option Inl (ke_error e) else None)"
  by (auto simp: cache_find_def cached_resource_entry_def update_conv' ke_has_valid_error_def split: option.split)

lemma cache_find_exec_store:
  "cache_find (cache_exec cfg (CacheStore t key v) c) now key =
     (if resource_cacheable cfg t v \<and> now < t + resource_ttl cfg v then Some v else None)"
  by (cases v; cases "f64_le (resource_seconds cfg v) (Finite 0)";
      cases "from_secs_f64 (resource_seconds cfg v)")
    (auto simp: store_resource_success_def store_resource_error_def resource_seconds_def
      resource_ttl_def resource_cacheable_def ke_is_valid_def ke_has_valid_error_def
      after_secs_f64_def instant_plus_def cache_find_update cache_find_delete)

text \<open>A configured time that is infinite, or of \<open>2 ^ 63\<close> seconds and more, is accepted from the environment and
  makes every store of a fetched body panic.\<close>

lemma round_half_even_ge: "of_int k \<le> x \<Longrightarrow> k \<le> round_half_even x"
proof -
  assume "of_int k \<le> x"
  then have "k \<le> \<lfloor>x\<rfloor>" by (simp add: le_floor_iff)
  then show ?thesis by (simp add: round_half_even_def Let_def)
qed

lemma unrepresentable_cache_time:
  "store_resource_success now1 now2 cache key body content_type code PosInf = None"
  "2 ^ 63 \<le> a \<Longrightarrow> store_resource_success now1 now2 cache key body content_type code (Finite a) = None"
proof -
  show "store_resource_success now1 now2 cache key body content_type code PosInf = None"
    by (simp add: store_resource_success_def after_secs_f64_def from_secs_f64_def)
  assume a: "2 ^ 63 \<le> a"
  then have "of_int (2 ^ 63 * 1000000000) \<le> a * 1000000000" by simp
  from round_half_even_ge [OF this] have "2 ^ 63 * 1000000000 \<le> nat (round_half_even (a * 1000000000))" by simp
  then have "2 ^ 63 \<le> (now1 + nat (round_half_even (a * 1000000000))) div 10 ^ 9"
    by (subst less_eq_div_iff_mult_less_eq) auto
  then have "instant_plus now1 (nat (round_half_even (a * 1000000000))) = None"
    by (simp add: instant_plus_def)
  moreover have "0 < a" using a by (rule less_le_trans [rotated]) simp
  ultimately show "store_resource_success now1 now2 cache key body content_type code (Finite a) = None"
    by (simp add: store_resource_success_def after_secs_f64_def from_secs_f64_def Let_def split: if_splits)
qed

lemma cached_resource_entry_cache:
  "snd (cached_resource_entry t1 t2 c key) = c \<or> snd (cached_resource_entry t1 t2 c key) = AList.delete key c"
  by (simp add: cached_resource_entry_def split: option.split)

lemma cache_find_exec_other: "cache_key x \<noteq> key \<Longrightarrow> cache_find (cache_exec cfg x c) now key = cache_find c now key"
proof (cases x)
  case (CacheStore t k v)
  assume "cache_key x \<noteq> key"
  with CacheStore show ?thesis
    by (cases v) (auto simp: store_resource_success_def store_resource_error_def Let_def
        cache_find_delete cache_find_update_other split: option.splits)
next
  case (CacheLookup t k)
  assume "cache_key x \<noteq> key"
  with CacheLookup show ?thesis
    using cached_resource_entry_cache [of t t c k] by (auto simp: cache_find_delete)
qed (simp add: cache_find_delete)

lemma cache_find_exec_lookup:
  "t \<le> now \<Longrightarrow> cache_find (cache_exec cfg (CacheLookup t key) c) now key = cache_find c now key"
  by (auto simp: cache_find_def cached_resource_entry_def ke_is_valid_def ke_has_valid_error_def
      delete_conv' split: option.splits)

interpretation kbs_cache: evicting_cache cache_find "cache_exec cfg" "\<lambda>v. v" "resource_ttl cfg" "resource_cacheable cfg" "\<lambda>_. True" for cfg
  by unfold_locales
    (simp_all add: cache_find_exec_store cache_find_exec_other cache_find_delete cache_find_exec_lookup
      del: cache_exec.simps(1,2,4))

lemma cache_find_empty: "cache_find [] now key = None"
  by (simp add: cache_find_def cached_resource_entry_def)

text \<open>C14. After any history of stores (of fetched bodies and of failures), evictions and
  lookups on an empty cache, a lookup that serves a body serves the last one stored under that
  very path, less than the configured time ago, with no later store or eviction of the path.\<close>

theorem kbs_cache_fresh:
  assumes "list_all (lookup_by now) ops"
    and "fst (cached_resource_entry now now (fold (cache_exec cfg) ops []) key) = (Some (body, content_type, status), e)"
  shows "body \<noteq> [] \<and> (\<exists>pre t post. ops = pre @ CacheStore t key (Inr (body, content_type, status)) # post \<and>
    now < t + resource_ttl cfg (Inr (body, content_type, status)) \<and> \<not> list_ex (cache_writes key) post)"
proof -
  have "cache_find (fold (cache_exec cfg) ops []) now key = Some (Inr (body, content_type, status))"
    using assms(2) by (simp add: cache_find_def)
  from kbs_cache.find_history_evicting [OF cache_find_empty assms(1) this]
  show ?thesis by (fastforce simp: resource_cacheable_def cache_writes_def list_ex_iff)
qed

section \<open>What an observer sees\<close>

lemma advances_utc_now [advance_rules]: "env_advances R E \<Longrightarrow> advances R (utc_now E)"
  unfolding utc_now_def by (intro advance_rules; (assumption | simp))

lemma advances_cache_put [advance_rules]: "progress R \<Longrightarrow> advances R (cache_put c)"
  by (simp add: cache_put_def advances_modify)

lemma advances_fail_resource [advance_rules]: "env_advances R E \<Longrightarrow> advances R (fail_resource E cache key payload)"
  unfolding fail_resource_def by (intro advance_rules; (assumption | simp))

lemma advances_fetch_kbs_resource [advance_rules]: "env_advances R E \<Longrightarrow> advances R (fetch_kbs_resource E key)"
  unfolding fetch_kbs_resource_def by (intro advance_rules; (assumption | simp))

lemma advances_probe [advance_rules]: "env_advances R E \<Longrightarrow> advances R (probe_direct_kbs_resource_status E path)"
  unfolding probe_direct_kbs_resource_status_def by (intro advance_rules; (assumption | simp))

lemma advances_probe_refresh [advance_rules]:
  "env_advances R E \<Longrightarrow> advances R (probe_direct_kbs_resource_status_with_session_refresh E path)"
  unfolding probe_direct_kbs_resource_status_with_session_refresh_def by (intro advance_rules; (assumption | simp))

lemma advances_evict [advance_rules]: "progress R \<Longrightarrow> advances R (evict_kbs_cache_entry key)"
  by (simp add: evict_kbs_cache_entry_def advances_modify)

lemma advances_sign_workload_receipt [advance_rules]: "env_advances R E \<Longrightarrow> advances R (sign_workload_receipt E ty path val)"
  unfolding sign_workload_receipt_def by (intro advance_rules; (assumption | simp))

lemma advances_attach_receipt_attestation [advance_rules]: "env_advances R E \<Longrightarrow> advances R (attach_receipt_attestation E envelope)"
  unfolding attach_receipt_attestation_def by (intro advance_rules; (assumption | simp))

lemma advances_send_workload_resource_request [advance_rules]:
  "env_advances R E \<Longrightarrow> advances R (send_workload_resource_request E operation build_request retries refreshed)"
  by (induction E operation build_request retries refreshed rule: send_workload_resource_request.induct)
    (subst send_workload_resource_request.simps, intro advance_rules; (assumption | simp; fail | fastforce))

text \<open>The answer that justifies an outcome of a write or a delete.\<close>

definition outcome_shown :: "string \<Rightarrow> http_response \<Rightarrow> workload_resource_outcome \<Rightarrow> bool" where
  "outcome_shown operation resp outcome =
     (case outcome of Applied \<Rightarrow> is_success (hr_status resp)
      | WasNotFound \<Rightarrow> hr_status resp = 404 \<or> operation = ''delete'' \<and> hr_status resp = 412)"

lemma not_WasNotFound: "outcome \<noteq> WasNotFound \<longleftrightarrow> outcome = Applied"
  by (cases outcome) simp_all

lemma send_own_response:
  assumes "observed E tr"
    and "run_state (send_workload_resource_request E operation build_request retries refreshed) s = (Some (Inr outcome), t)"
  shows "\<exists>token resp. happened tr s t (Exchange (build_request token) (Inr resp)) \<and> outcome_shown operation resp outcome"
  using assms
proof (induction E operation build_request retries refreshed arbitrary: s rule: send_workload_resource_request.induct)
  case (1 E operation build_request retries refreshed)
  obtain token resp s1 s2 where steps: "run_state (fetch_kbs_bearer_token E) s = (Some (Inr token), s1)"
      "run_state (e_http E (build_request token)) s1 = (Inr resp, s2)"
    using "1.prems"(2) by (subst (asm) send_workload_resource_request.simps)
      (auto simp: map_err_def split: prod.splits option.splits sum.splits)
  have here: "happened tr s s2 (Exchange (build_request token) (Inr resp))"
    by (rule happened_earlier [OF advancesD [OF advances_fetch_kbs_bearer_token [OF observed_advances] steps(1)]
          observed_http [OF _ steps(2)]]) fact+
  consider (final) "t = s2" "outcome_shown operation resp outcome"
    | (refresh) s3 where "hr_status resp = 401" "\<not> refreshed \<and> stale_session_401 (e_ext E) resp"
        "\<not> is_success (hr_status resp)" "run_state (invalidate_aa_cache E) s2 = ((), s3)"
        "run_state (send_workload_resource_request E operation build_request retries True) s3 = (Some (Inr outcome), t)"
    | (retry) s3 where "hr_status resp = 503" "\<not> MAX_ATTEMPTS \<le> retries + 1"
        "\<not> is_success (hr_status resp)" "run_state (e_sleep E (from_secs 1)) s2 = ((), s3)"
        "run_state (send_workload_resource_request E operation build_request (retries + 1) refreshed) s3 = (Some (Inr outcome), t)"
    using "1.prems"(2) steps by (subst (asm) send_workload_resource_request.simps)
      (auto simp: outcome_shown_def map_err_def Let_def split: prod.splits if_splits)
  then show ?case
  proof cases
    case final
    then show ?thesis using here by blast
  next
    case refresh
    have "prefix (tr (s_world s)) (tr (s_world s3))"
      by (rule advances_trans [OF progress_log happened_grows [OF here] advances_invalidate_aa_cache refresh(4)])
        (rule observed_advances, fact)
    moreover have "\<exists>token resp. happened tr s3 t (Exchange (build_request token) (Inr resp)) \<and>
        outcome_shown operation resp outcome"
      by (rule "1.IH"(1) [OF refl, of resp]) (use refresh "1.prems"(1) in simp_all)
    ultimately show ?thesis by (blast intro: happened_earlier)
  next
    case retry
    have "prefix (tr (s_world s)) (tr (s_world s3))"
      by (rule advances_trans [OF progress_log happened_grows [OF here] advances_env(2) retry(4)])
        (rule observed_advances, fact)
    moreover have "\<exists>token resp. happened tr s3 t (Exchange (build_request token) (Inr resp)) \<and>
        outcome_shown operation resp outcome"
      by (rule "1.IH"(2) [OF refl, of resp]) (use retry "1.prems"(1) in simp_all)
    ultimately show ?thesis by (blast intro: happened_earlier)
  qed
qed

lemma delete_acknowledged:
  assumes "observed E tr"
    and "run_state (delete_kbs_workload_resource E resource_path) s = (Some (Inr erased), t)"
  shows "(\<exists>envelope token resp.
      happened tr s t (Exchange (delete_request (e_config E) resource_path envelope token) (Inr resp)) \<and>
      (if erased then is_success (hr_status resp) else hr_status resp = 404 \<or> hr_status resp = 412)) \<and>
    map_of (s_kbs_cache t) resource_path = None"
proof -
  from assms(2) obtain e1 s1 e2 s2 outcome s3 where steps:
      "run_state (sign_workload_receipt E Teardown resource_path None) s = (Some (Inr e1), s1)"
      "run_state (attach_receipt_attestation E e1) s1 = (Some (Inr e2), s2)"
      "run_state (send_workload_resource_request E ''delete''
         (delete_request (e_config E) resource_path e2) 0 False) s2 = (Some (Inr outcome), s3)"
      "erased = (outcome = Applied)"
      "t = s3\<lparr>s_kbs_cache := AList.delete resource_path (s_kbs_cache s3)\<rparr>"
    by (auto simp: delete_kbs_workload_resource_def evict_kbs_cache_entry_def
        split: prod.splits option.splits sum.splits)
  have "prefix (tr (s_world s)) (tr (s_world s2))"
    by (rule advances_trans [OF progress_log advancesD [OF advances_sign_workload_receipt steps(1)] advances_attach_receipt_attestation steps(2)])
      (rule observed_advances, fact)+
  moreover obtain token resp where
      "happened tr s2 s3 (Exchange (delete_request (e_config E) resource_path e2 token) (Inr resp))"
      "outcome_shown ''delete'' resp outcome"
    using send_own_response [OF assms(1) steps(3)] by blast
  ultimately have "happened tr s t (Exchange (delete_request (e_config E) resource_path e2 token) (Inr resp))"
      "if erased then is_success (hr_status resp) else hr_status resp = 404 \<or> hr_status resp = 412"
    using happened_earlier [of tr s s2 s3] steps(4,5)
    by (simp_all add: happened_def outcome_shown_def split: workload_resource_outcome.splits)
  moreover have "map_of (s_kbs_cache t) resource_path = None" using steps(5) by (simp add: delete_conv')
  ultimately show ?thesis by blast
qed

text \<open>A teardown reports that the resource was erased, or that it was already gone, only
  when a \<open>DELETE\<close> for exactly that path was sent and the broker's own answer to it says so:
  a success status for erased, a 404 or a 412 for already gone. In both cases no cached copy
  of the resource is left. Whatever other tasks do meanwhile makes no difference.\<close>

theorem delete_only_by_own_response:
  assumes "observed E tr"
    and "run_state (delete_kbs_workload_resource E resource_path) s = (Some (Inr erased), t)"
  shows "(\<exists>envelope token resp.
      happened tr s t (Exchange (delete_request (e_config E) resource_path envelope token) (Inr resp)) \<and>
      (if erased then is_success (hr_status resp) else hr_status resp = 404 \<or> hr_status resp = 412)) \<and>
    map_of (s_kbs_cache t) resource_path = None"
  using delete_acknowledged [OF assms] .

lemma put_acknowledged:
  assumes "observed E tr"
    and "run_state (put_kbs_workload_resource E resource_path body mode) s = (Some (Inr ()), t)"
  shows "(\<exists>envelope token resp.
      happened tr s t (Exchange (put_request (e_config E) resource_path envelope mode token) (Inr resp)) \<and>
      is_success (hr_status resp)) \<and>
    map_of (s_kbs_cache t) resource_path = None"
proof -
  from assms(2) obtain e1 s1 e2 s2 s3 where steps:
      "run_state (sign_workload_receipt E Rekey resource_path (Some body)) s = (Some (Inr e1), s1)"
      "run_state (attach_receipt_attestation E e1) s1 = (Some (Inr e2), s2)"
      "run_state (send_workload_resource_request E ''put''
         (put_request (e_config E) resource_path e2 mode) 0 False) s2 = (Some (Inr Applied), s3)"
      "t = s3\<lparr>s_kbs_cache := AList.delete resource_path (s_kbs_cache s3)\<rparr>"
    by (auto simp: put_kbs_workload_resource_def evict_kbs_cache_entry_def not_WasNotFound
        split: prod.splits option.splits sum.splits if_splits)
  have "prefix (tr (s_world s)) (tr (s_world s2))"
    by (rule advances_trans [OF progress_log advancesD [OF advances_sign_workload_receipt steps(1)] advances_attach_receipt_attestation steps(2)])
      (rule observed_advances, fact)+
  moreover obtain token resp where
      "happened tr s2 s3 (Exchange (put_request (e_config E) resource_path e2 mode token) (Inr resp))"
      "outcome_shown ''put'' resp Applied"
    using send_own_response [OF assms(1) steps(3)] by blast
  ultimately have "happened tr s t (Exchange (put_request (e_config E) resource_path e2 mode token) (Inr resp))"
      "is_success (hr_status resp)"
    using happened_earlier [of tr s s2 s3] steps(4)
    by (simp_all add: happened_def outcome_shown_def)
  moreover have "map_of (s_kbs_cache t) resource_path = None" using steps(4) by (simp add: delete_conv')
  ultimately show ?thesis by blast
qed

text \<open>A write of owner-seed ciphertext succeeds only when a \<open>PUT\<close> of the envelope for
  exactly that path was answered with a success status, and afterwards no stale copy of the
  resource is cached.\<close>

theorem put_only_by_own_response:
  assumes "observed E tr"
    and "run_state (put_kbs_workload_resource E resource_path body mode) s = (Some (Inr ()), t)"
  shows "(\<exists>envelope token resp.
      happened tr s t (Exchange (put_request (e_config E) resource_path envelope mode token) (Inr resp)) \<and>
      is_success (hr_status resp)) \<and>
    map_of (s_kbs_cache t) resource_path = None"
  using put_acknowledged [OF assms] .

section \<open>Concrete runs\<close>

definition demo_answer :: "nat \<Rightarrow> http_request \<Rightarrow> http_error + http_response" where
  "demo_answer status q = (if hq_method q = ''GET'' then ok_response 200 [116] else ok_response status [])"

lemma demo_bearer_token [simp]:
  "s_aa_cache s = s_aa_cache demo_sys \<Longrightarrow>
    run_state (fetch_kbs_bearer_token (demo_env answer cfg)) s = (Some (Inr ''t''), s)"
  by (simp add: fetch_kbs_bearer_token_def fetch_aa_token_payload_def demo_sys_def cached_payload_def
      payload_token_def)

definition demo_workload_request :: "receipt_type \<Rightarrow> bytes option \<Rightarrow> sign_receipt_request" where
  "demo_workload_request ty val = \<lparr>rq_receipt_type = ty, rq_app_id = ''inst-1'',
     rq_resource_path = Some ''default/a/seed'', rq_from_mode = None, rq_to_mode = None,
     rq_attestation_quote_sha256 = None,
     rq_new_value_sha256 = map_option (\<lambda>bs. hex_lower (x_sha256 demo_externals bs)) val, rq_timestamp = None\<rparr>"

lemma demo_timestamp: "utc_now (demo_env answer cfg) = State_Monad.return ''1970-01-01T00:00:00.000000+00:00''"
proof -
  have "year_of_era 135080 = 369" by (simp add: year_of_era_def)
  then have "days_to_ymd 0 = (1970, 1, 1)" by (simp add: days_to_ymd_def Let_def)
  moreover have "show_padded 4 1970 = ''1970''" "show_padded 2 1 = ''01''" "show_padded 2 0 = ''00''"
      "show_padded 6 0 = ''000000''"
    by code_simp+
  ultimately have "chrono_timestamp 0 0 = ''1970-01-01T00:00:00.000000+00:00''"
    by (simp add: chrono_timestamp_def)
  then show ?thesis by (simp add: utc_now_def demo_env_def)
qed

lemma demo_payload_ok:
  "is_ok (receipt_payload demo_externals ''1970-01-01T00:00:00.000000+00:00'' (demo_workload_request Teardown None))"
  "is_ok (receipt_payload demo_externals ''1970-01-01T00:00:00.000000+00:00'' (demo_workload_request Rekey (Some [1])))"
  by code_simp+

lemma runtime_data_response:
  "receipt_attestation_runtime_data (response_to_json r) =
     res_bind (decode_hex_32 (re_pubkey_sha256 (rs_receipt r))) (\<lambda>_. Inr (to_ascii_lowercase (re_pubkey_sha256 (rs_receipt r))))"
  "receipt_attestation_runtime_data (jset (response_to_json r) ''value'' v) =
     receipt_attestation_runtime_data (response_to_json r)"
  by (simp_all add: receipt_attestation_runtime_data_def response_to_json_def Let_def)

lemma decode_hex_32_lower: "length bs = 32 \<Longrightarrow> decode_hex_32 (hex_lower bs) = Inr bs"
  by (simp add: decode_hex_32_def)

lemma demo_receipt:
  assumes "c_instance_id cfg = ''inst-1''"
    "is_ok (receipt_payload demo_externals ''1970-01-01T00:00:00.000000+00:00'' (demo_workload_request ty val))"
  shows "\<exists>e. run_state (sign_workload_receipt (demo_env answer cfg) ty ''default/a/seed'' val) s =
     (Some (Inr e), s) \<and> is_ok (receipt_attestation_runtime_data e)"
proof -
  have "length (public_key_sha256 demo_externals [7]) = 32"
    using demo_laws(6) by (simp add: sha_law_def public_key_sha256_def)
  moreover obtain r where "sign_receipt demo_externals [7] ''1970-01-01T00:00:00.000000+00:00'' (demo_workload_request ty val) = Some (Inr r)"
      "re_pubkey_sha256 (rs_receipt r) = hex_lower (public_key_sha256 demo_externals [7])"
    using sign_receipt_signed [OF _ demo_uuid_law] assms(2) by (force simp: is_ok_def split: sum.splits)
  ultimately show ?thesis
    using assms(1) by (auto simp: sign_workload_receipt_def demo_timestamp demo_workload_request_def Let_def
        runtime_data_response decode_hex_32_lower split: option.splits)
qed

lemma demo_json: "x_json_parse demo_externals [116] = Inr (JObj [(''token'', JStr ''t'')])"
proof -
  have "bytes_to_str [116] = ''t''" by code_simp
  then show ?thesis by (simp add: demo_externals_def)
qed

lemma demo_attach:
  assumes "is_ok (receipt_attestation_runtime_data e)"
  shows "\<exists>e' w. run_state (attach_receipt_attestation (demo_env (demo_answer st) cfg) e) s =
     (Some (Inr e'), s\<lparr>s_world := w\<rparr>)"
  using assms by (auto simp: attach_receipt_attestation_def demo_answer_def get_request_def ok_response_def
      is_success_def is_ok_def demo_json split: sum.splits)

lemma demo_sends:
  assumes "s_aa_cache s = s_aa_cache demo_sys" "hq_method (build_request ''t'') \<noteq> ''GET''"
  shows "\<exists>w. run_state (send_workload_resource_request (demo_env (demo_answer 200) cfg) operation
     build_request 0 False) s = (Some (Inr Applied), s\<lparr>s_world := w\<rparr>)"
  using assms by (subst send_workload_resource_request.simps)
    (auto simp: demo_answer_def ok_response_def is_success_def)

lemma demo_deletes:
  assumes "c_instance_id cfg = ''inst-1''" "s_aa_cache s = s_aa_cache demo_sys"
  shows "\<exists>t. run_state (delete_kbs_workload_resource (demo_env (demo_answer 200) cfg) ''default/a/seed'') s =
     (Some (Inr True), t) \<and> s_aa_cache t = s_aa_cache s"
proof -
  let ?E = "demo_env (demo_answer 200) cfg"
  obtain e where e: "run_state (sign_workload_receipt ?E Teardown ''default/a/seed'' None) s = (Some (Inr e), s)"
      "is_ok (receipt_attestation_runtime_data e)"
    using demo_receipt [OF assms(1) demo_payload_ok(1)] by blast
  obtain e' w where e': "run_state (attach_receipt_attestation ?E e) s = (Some (Inr e'), s\<lparr>s_world := w\<rparr>)"
    using demo_attach [OF e(2)] by blast
  obtain w' where "run_state (send_workload_resource_request ?E ''delete''
      (delete_request cfg ''default/a/seed'' e') 0 False) (s\<lparr>s_world := w\<rparr>) =
      (Some (Inr Applied), s\<lparr>s_world := w'\<rparr>)"
    using demo_sends [of "s\<lparr>s_world := w\<rparr>" "delete_request cfg ''default/a/seed'' e'" cfg "''delete''"]
    assms(2) by (auto simp: delete_request_def)
  then show ?thesis using e(1) e' by (simp add: delete_kbs_workload_resource_def evict_kbs_cache_entry_def)
qed

lemma demo_puts:
  assumes "c_instance_id cfg = ''inst-1''" "s_aa_cache s = s_aa_cache demo_sys"
  shows "\<exists>t. run_state (put_kbs_workload_resource (demo_env (demo_answer 200) cfg) ''default/a/seed'' [1] mode) s =
     (Some (Inr ()), t)"
proof -
  let ?E = "demo_env (demo_answer 200) cfg"
  obtain e where e: "run_state (sign_workload_receipt ?E Rekey ''default/a/seed'' (Some [1])) s = (Some (Inr e), s)"
      "is_ok (receipt_attestation_runtime_data e)"
    using demo_receipt [OF assms(1) demo_payload_ok(2)] by blast
  obtain e' w where e': "run_state (attach_receipt_attestation ?E e) s = (Some (Inr e'), s\<lparr>s_world := w\<rparr>)"
    using demo_attach [OF e(2)] by blast
  obtain w' where "run_state (send_workload_resource_request ?E ''put''
      (put_request cfg ''default/a/seed'' e' mode) 0 False) (s\<lparr>s_world := w\<rparr>) =
      (Some (Inr Applied), s\<lparr>s_world := w'\<rparr>)"
    using demo_sends [of "s\<lparr>s_world := w\<rparr>" "put_request cfg ''default/a/seed'' e' mode" cfg "''put''"]
    assms(2) by (auto simp: put_request_def)
  then show ?thesis using e(1) e' by (simp add: put_kbs_workload_resource_def evict_kbs_cache_entry_def)
qed

theorem delete_only_by_own_response_witness:
  "\<exists>t envelope token resp.
     happened id demo_sys t (Exchange (delete_request demo_config ''default/a/seed'' envelope token) (Inr resp)) \<and>
     is_success (hr_status resp)"
proof -
  obtain t where "run_state (delete_kbs_workload_resource (demo_env (demo_answer 200) demo_config) ''default/a/seed'') demo_sys =
      (Some (Inr True), t)"
    using demo_deletes [OF demo_config_sel(1) refl] by blast
  from delete_only_by_own_response [OF demo_observed this] show ?thesis by (simp only: demo_env_sel if_True) blast
qed

theorem put_only_by_own_response_witness:
  "\<exists>t envelope token resp.
     happened id demo_sys t (Exchange (put_request demo_config ''default/a/seed'' envelope Create token) (Inr resp)) \<and>
     is_success (hr_status resp)"
proof -
  obtain t where "run_state (put_kbs_workload_resource (demo_env (demo_answer 200) demo_config) ''default/a/seed'' [1] Create) demo_sys =
      (Some (Inr ()), t)"
    using demo_puts [OF demo_config_sel(1) refl] by blast
  from put_only_by_own_response [OF demo_observed this] show ?thesis by (simp only: demo_env_sel) blast
qed

definition demo_history :: "(string, cached_resource) cache_op list" where
  "demo_history = [CacheStore 0 ''a'' (Inr ([7], ''t'', 200)), CacheLookup 0 ''a'', CacheEvict ''b'']"

lemma demo_ttl: "from_secs_f64 (Finite 300) = Some 300000000000"
  by (simp add: from_secs_f64_def round_half_even_def)

lemma demo_config_ttl: "c_kbs_resource_cache_seconds demo_config = Finite 300"
  by (simp add: demo_config_def from_env_def env_f64_def)

theorem kbs_cache_fresh_witness:
  "\<exists>pre t post. demo_history = pre @ CacheStore t ''a'' (Inr ([7], ''t'', 200)) # post \<and>
     5 < t + resource_ttl demo_config (Inr ([7], ''t'', 200)) \<and> \<not> list_ex (cache_writes ''a'') post"
proof -
  have "list_all (lookup_by 5) demo_history" by (simp add: demo_history_def)
  moreover have "fst (cached_resource_entry 5 5 (fold (cache_exec demo_config) demo_history []) ''a'') = (Some ([7], ''t'', 200), None)"
    by (simp add: demo_history_def cached_resource_entry_def store_resource_success_def demo_config_ttl
        demo_ttl after_secs_f64_def instant_plus_def ke_is_valid_def Let_def)
  ultimately show ?thesis using kbs_cache_fresh by blast
qed

end
