(* ===== verification/Handoff.thy ===== *)
theory Handoff
  imports Traces Owner_Crypto
begin

text \<open>
  The hand-off of volume keys to the mounting containers through the signal directory, third
  part of \<open>ownership.rs\<close>: key files are created exclusively, the answer is an \<open>unlocked\<close> or
  an \<open>error\<close> file, and the proxy polls for it until a deadline. Writing and clearing a file is
  one step on the file system; every check of a polling round is a step of its own, so the
  mounting container may act between any two.
\<close>

section \<open>Writing and clearing signal files\<close>

text \<open>Create exclusively with mode 0600, write and sync, as both key writers do.\<close>

definition create_key_file :: "io_faults \<Rightarrow> string \<Rightarrow> string \<Rightarrow> bytes \<Rightarrow> fs \<Rightarrow> (ownership_error + unit) \<times> fs" where
  "create_key_file F dir name key fs =
     (let fail = (\<lambda>e. Filesystem (io_text e)); key_path = path_join dir name in
      io_then (fs_create_dir_all F dir fs) fail (\<lambda>_ fs.
      io_then (fs_create_new F 384 key_path fs) fail (\<lambda>_ fs.
      io_then (fs_write_all F key_path key fs) fail (\<lambda>_ fs.
      io_then (fs_sync F key_path fs) fail (\<lambda>_ fs. (Inr (), fs))))))"

definition write_handoff_key :: "io_faults \<Rightarrow> string \<Rightarrow> bytes \<Rightarrow> fs \<Rightarrow> (ownership_error + unit) \<times> fs" where
  "write_handoff_key F signal_dir key fs = create_key_file F signal_dir SIGNAL_KEY_FILE key fs"

definition write_slot_handoff_key ::
  "io_faults \<Rightarrow> string \<Rightarrow> string \<Rightarrow> bytes \<Rightarrow> fs \<Rightarrow> (ownership_error + unit) \<times> fs" where
  "write_slot_handoff_key F signal_dir slot key fs =
     create_key_file F (path_join signal_dir slot) SIGNAL_KEY_FILE key fs"

text \<open>Removing the files of a list in order; a missing one is no error.\<close>

fun remove_files :: "io_faults \<Rightarrow> string list \<Rightarrow> fs \<Rightarrow> (ownership_error + unit) \<times> fs" where
  "remove_files F [] fs = (Inr (), fs)"
| "remove_files F (path # paths) fs =
     (case fs_remove_file F path fs of
        (Inr _, fs) \<Rightarrow> remove_files F paths fs
      | (Inl (NotFound _), fs) \<Rightarrow> remove_files F paths fs
      | (Inl (OtherIo t), fs) \<Rightarrow> (Inl (Filesystem t), fs))"

definition slot_files :: "string \<Rightarrow> string list \<Rightarrow> string list \<Rightarrow> string list" where
  "slot_files signal_dir slots names =
     concat (map (\<lambda>slot. map (path_join (path_join signal_dir slot)) names) slots)"

definition clear_slot_handoff_files ::
  "io_faults \<Rightarrow> string \<Rightarrow> string list \<Rightarrow> string list \<Rightarrow> fs \<Rightarrow> (ownership_error + unit) \<times> fs" where
  "clear_slot_handoff_files F signal_dir slots names fs = remove_files F (slot_files signal_dir slots names) fs"

definition clear_password_handoff_key_files_for_slots ::
  "io_faults \<Rightarrow> string \<Rightarrow> string list \<Rightarrow> fs \<Rightarrow> (ownership_error + unit) \<times> fs" where
  "clear_password_handoff_key_files_for_slots F signal_dir slots fs =
     clear_slot_handoff_files F signal_dir slots [SIGNAL_KEY_FILE] fs"

definition clear_password_handoff_key_files :: "io_faults \<Rightarrow> string \<Rightarrow> fs \<Rightarrow> (ownership_error + unit) \<times> fs" where
  "clear_password_handoff_key_files F signal_dir fs =
     clear_password_handoff_key_files_for_slots F signal_dir [SIGNAL_APP_DATA_SLOT, SIGNAL_TLS_DATA_SLOT] fs"

definition clear_password_handoff_retry_files_for_slots ::
  "io_faults \<Rightarrow> string \<Rightarrow> string list \<Rightarrow> fs \<Rightarrow> (ownership_error + unit) \<times> fs" where
  "clear_password_handoff_retry_files_for_slots F signal_dir slots fs =
     clear_slot_handoff_files F signal_dir slots [SIGNAL_KEY_FILE, SIGNAL_ERROR_FILE] fs"

definition clear_password_handoff_retry_files :: "io_faults \<Rightarrow> string \<Rightarrow> fs \<Rightarrow> (ownership_error + unit) \<times> fs" where
  "clear_password_handoff_retry_files F signal_dir fs =
     clear_password_handoff_retry_files_for_slots F signal_dir [SIGNAL_APP_DATA_SLOT, SIGNAL_TLS_DATA_SLOT] fs"

definition clear_handoff_retry_files :: "io_faults \<Rightarrow> string \<Rightarrow> fs \<Rightarrow> (ownership_error + unit) \<times> fs" where
  "clear_handoff_retry_files F signal_dir fs =
     remove_files F (map (path_join signal_dir) [SIGNAL_KEY_FILE, SIGNAL_ERROR_FILE]) fs"

fun write_slots :: "io_faults \<Rightarrow> string \<Rightarrow> owner_volume_keys \<Rightarrow> string list \<Rightarrow> fs \<Rightarrow> (ownership_error + unit) \<times> fs" where
  "write_slots F signal_dir keys [] fs = (Inr (), fs)"
| "write_slots F signal_dir keys (slot # slots) fs =
     (case (if slot = SIGNAL_APP_DATA_SLOT then write_slot_handoff_key F signal_dir slot (vk_app_data keys) fs
            else if slot = SIGNAL_TLS_DATA_SLOT then write_slot_handoff_key F signal_dir slot (vk_tls_data keys) fs
            else (Inl (Envelope (''unsupported_handoff_slot:'' @ slot)), fs)) of
        (Inl e, fs) \<Rightarrow> (Inl e, fs)
      | (Inr _, fs) \<Rightarrow> write_slots F signal_dir keys slots fs)"

definition write_password_handoff_keys_for_slots ::
  "io_faults \<Rightarrow> string \<Rightarrow> owner_volume_keys \<Rightarrow> string list \<Rightarrow> fs \<Rightarrow> (ownership_error + unit) \<times> fs" where
  "write_password_handoff_keys_for_slots F signal_dir keys slots fs =
     (case clear_password_handoff_key_files_for_slots F signal_dir slots fs of
        (Inl e, fs) \<Rightarrow> (Inl e, fs)
      | (Inr _, fs) \<Rightarrow> write_slots F signal_dir keys slots fs)"

definition write_password_handoff_keys ::
  "io_faults \<Rightarrow> string \<Rightarrow> owner_volume_keys \<Rightarrow> fs \<Rightarrow> (ownership_error + unit) \<times> fs" where
  "write_password_handoff_keys F signal_dir keys fs =
     write_password_handoff_keys_for_slots F signal_dir keys [SIGNAL_APP_DATA_SLOT, SIGNAL_TLS_DATA_SLOT] fs"

section \<open>Polling\<close>

definition handoff_timeout :: "nat \<Rightarrow> duration" where
  "handoff_timeout timeout_secs =
     from_secs (if timeout_secs = 0 then HANDOFF_DEFAULT_TIMEOUT_SECONDS else timeout_secs)"

text \<open>A loop that runs a round (\<open>body\<close>), gives up at the deadline and otherwise pauses. A round ends the
  loop with \<open>Some\<close> answer. \<open>fuel\<close> bounds the rounds; running out of it is not returning, and
  \<open>poll_rounds\<close> is enough when every pause lasts at least as long as asked.\<close>

fun deadline_loop ::
  "'w env \<Rightarrow> ('w, 'a option) proc \<Rightarrow> 'a \<Rightarrow> duration \<Rightarrow> instant \<Rightarrow> nat \<Rightarrow> ('w, 'a) proc" where
  "deadline_loop E body late pause deadline 0 = panic"
| "deadline_loop E body late pause deadline (Suc fuel) =
     pbind body (\<lambda>r.
     case r of
       Some answer \<Rightarrow> ret answer
     | None \<Rightarrow>
         call (e_now E) (\<lambda>now.
         if deadline \<le> now then ret late
         else call (e_sleep E pause) (\<lambda>_. deadline_loop E body late pause deadline fuel)))"

definition poll_rounds :: "duration \<Rightarrow> duration \<Rightarrow> nat" where
  "poll_rounds timeout pause = timeout div pause + 2"

definition error_file_message :: "'w env \<Rightarrow> string \<Rightarrow> (string \<Rightarrow> ('w, (ownership_error + handoff_outcome) option) proc) \<Rightarrow>
    ('w, (ownership_error + handoff_outcome) option) proc" where
  "error_file_message E path k =
     call (io_read E (\<lambda>F. fs_read_to_string F path)) (\<lambda>r.
     case r of Inl e \<Rightarrow> ret (Some (Inl (Filesystem (io_text e)))) | Inr message \<Rightarrow> k (trim message))"

definition poll_handoff_round :: "'w env \<Rightarrow> string \<Rightarrow> ('w, (ownership_error + handoff_outcome) option) proc" where
  "poll_handoff_round E signal_dir =
     call (io_read E (\<lambda>F. fs_exists F (path_join signal_dir SIGNAL_UNLOCKED_FILE))) (\<lambda>unlocked.
     if unlocked then ret (Some (Inr HandoffUnlocked))
     else call (io_read E (\<lambda>F. fs_exists F (path_join signal_dir SIGNAL_ERROR_FILE))) (\<lambda>failed.
     if failed then
       error_file_message E (path_join signal_dir SIGNAL_ERROR_FILE) (\<lambda>trimmed.
       ret (Some (Inr (if trimmed = ''wrong_password'' then HandoffWrongPassword
                       else HandoffFatal (if trimmed = [] then ''unknown_error'' else trimmed)))))
     else ret None))"

definition poll_handoff_result :: "'w env \<Rightarrow> string \<Rightarrow> nat \<Rightarrow> ('w, ownership_error + handoff_outcome) proc" where
  "poll_handoff_result E signal_dir timeout_secs =
     (let timeout = handoff_timeout timeout_secs in
      call (e_now E) (\<lambda>now.
      deadline_loop E (poll_handoff_round E signal_dir) (Inr HandoffTimeout) (from_millis 50)
        (now + timeout) (poll_rounds timeout (from_millis 50))))"

text \<open>One round over the slots that are left, \<open>wanted\<close> in all.\<close>

fun poll_slots_round ::
  "'w env \<Rightarrow> string \<Rightarrow> string list \<Rightarrow> nat \<Rightarrow> nat \<Rightarrow> ('w, (ownership_error + handoff_outcome) option) proc" where
  "poll_slots_round E signal_dir [] wanted unlocked_count =
     ret (if unlocked_count = wanted then Some (Inr HandoffUnlocked) else None)"
| "poll_slots_round E signal_dir (slot # slots) wanted unlocked_count =
     (let slot_dir = path_join signal_dir slot in
      call (io_read E (\<lambda>F. fs_exists F (path_join slot_dir SIGNAL_UNLOCKED_FILE))) (\<lambda>unlocked.
      if unlocked then poll_slots_round E signal_dir slots wanted (unlocked_count + 1)
      else call (io_read E (\<lambda>F. fs_exists F (path_join slot_dir SIGNAL_ERROR_FILE))) (\<lambda>failed.
      if failed then
        error_file_message E (path_join slot_dir SIGNAL_ERROR_FILE) (\<lambda>trimmed.
        ret (Some (Inr (HandoffFatal (slot @ '':'' @ (if trimmed = [] then ''unknown_error'' else trimmed))))))
      else poll_slots_round E signal_dir slots wanted unlocked_count)))"

definition poll_slot_handoff_result ::
  "'w env \<Rightarrow> string \<Rightarrow> string list \<Rightarrow> nat \<Rightarrow> ('w, ownership_error + handoff_outcome) proc" where
  "poll_slot_handoff_result E signal_dir slots timeout_secs =
     (let timeout = handoff_timeout timeout_secs in
      call (e_now E) (\<lambda>now.
      deadline_loop E (poll_slots_round E signal_dir slots (length slots) 0) (Inr HandoffTimeout) (from_millis 50)
        (now + timeout) (poll_rounds timeout (from_millis 50))))"

definition poll_password_handoff_result_for_slots ::
  "'w env \<Rightarrow> string \<Rightarrow> string list \<Rightarrow> nat \<Rightarrow> ('w, ownership_error + handoff_outcome) proc" where
  "poll_password_handoff_result_for_slots E signal_dir slots timeout_secs =
     poll_slot_handoff_result E signal_dir slots timeout_secs"

definition poll_password_handoff_result :: "'w env \<Rightarrow> string \<Rightarrow> nat \<Rightarrow> ('w, ownership_error + handoff_outcome) proc" where
  "poll_password_handoff_result E signal_dir timeout_secs =
     poll_slot_handoff_result E signal_dir [SIGNAL_APP_DATA_SLOT, SIGNAL_TLS_DATA_SLOT] timeout_secs"

section \<open>The files that are written\<close>

lemma create_key_file_content:
  assumes "create_key_file F dir name key fs = (Inr (), fs')"
  shows "fs_lookup fs' (path_join dir name) = Some (File \<lparr>fn_mode = 384, fn_gid = None, fn_data = key\<rparr>)"
proof -
  let ?p = "path_join dir name"
  obtain fs1 fs2 fs3 where "fs_create_new F 384 ?p fs1 = (Inr (), fs2)" "fs_write_all F ?p key fs2 = (Inr (), fs3)"
      "fs_sync F ?p fs3 = (Inr (), fs')"
    using assms by (auto simp: create_key_file_def Let_def io_then_Inr)
  moreover from this(1) have "fs_lookup fs2 ?p = Some (File \<lparr>fn_mode = 384, fn_gid = None, fn_data = []\<rparr>)"
    by (auto simp: fs_create_new_def split: option.splits if_splits)
  ultimately show ?thesis
    by (auto simp: fs_write_all_def fs_sync_def split: option.splits)
qed

text \<open>Creating a key file leaves every other file alone; it may add directories.\<close>

lemma create_dir_keeps_file:
  assumes "fs_lookup fs q = Some (File f)"
  shows "fs_lookup (snd (fs_create_dir_all F dir fs)) q = Some (File f)"
proof (cases "q \<in> set (path_chain dir)")
  case True
  have "case fs_lookup fs q of Some (File _) \<Rightarrow> True | _ \<Rightarrow> False" using assms by simp
  with True have "list_ex (\<lambda>q. case fs_lookup fs q of Some (File _) \<Rightarrow> True | _ \<Rightarrow> False) (path_chain dir)"
    unfolding list_ex_iff by blast
  then show ?thesis using assms by (auto simp: fs_create_dir_all_def split: option.splits)
qed (use assms fs_create_dir_frame in simp)

lemma create_key_file_frame:
  assumes "fs_lookup fs q = Some (File f)" "q \<noteq> path_join dir name"
  shows "fs_lookup (snd (create_key_file F dir name key fs)) q = Some (File f)"
  unfolding create_key_file_def Let_def
  by (intro io_then_frame create_dir_keeps_file) (simp_all add: assms fs_frame)

definition slot_key :: "owner_volume_keys \<Rightarrow> string \<Rightarrow> bytes" where
  "slot_key keys slot = (if slot = SIGNAL_APP_DATA_SLOT then vk_app_data keys else vk_tls_data keys)"

definition slot_key_path :: "string \<Rightarrow> string \<Rightarrow> string" where
  "slot_key_path signal_dir slot = path_join (path_join signal_dir slot) SIGNAL_KEY_FILE"

abbreviation handoff_slots :: "string set" where
  "handoff_slots \<equiv> {SIGNAL_APP_DATA_SLOT, SIGNAL_TLS_DATA_SLOT}"

lemmas slot_names = SIGNAL_APP_DATA_SLOT_def SIGNAL_TLS_DATA_SLOT_def SIGNAL_KEY_FILE_def
  SIGNAL_ERROR_FILE_def SIGNAL_UNLOCKED_FILE_def

lemma path_join_plain:
  "name \<noteq> [] \<Longrightarrow> hd name \<noteq> CHR ''/'' \<Longrightarrow>
     path_join dir name = (if dir = [] \<or> last dir = CHR ''/'' then dir else dir @ ''/'') @ name"
  by (cases name) (simp_all add: path_join_def starts_with_def)

lemma slot_key_path_plain:
  assumes "slot \<in> handoff_slots"
  shows "slot_key_path dir slot = (if dir = [] \<or> last dir = CHR ''/'' then dir else dir @ ''/'') @ slot @ ''/key''"
proof -
  have "slot \<noteq> [] \<and> hd slot \<noteq> CHR ''/'' \<and> last slot \<noteq> CHR ''/''" using assms by (auto simp: slot_names)
  then show ?thesis by (simp add: slot_key_path_def path_join_plain SIGNAL_KEY_FILE_def)
qed

lemma slot_key_path_inj:
  "slot \<in> handoff_slots \<Longrightarrow> slot' \<in> handoff_slots \<Longrightarrow> slot_key_path dir slot = slot_key_path dir slot' \<Longrightarrow> slot = slot'"
  by (simp only: slot_key_path_plain same_append_eq append_same_eq)

lemma write_slots_Cons:
  "write_slots F dir keys (slot # slots) fs = (Inr (), fs') \<longleftrightarrow>
     slot \<in> handoff_slots \<and>
     (\<exists>fs1. create_key_file F (path_join dir slot) SIGNAL_KEY_FILE (slot_key keys slot) fs = (Inr (), fs1) \<and>
        write_slots F dir keys slots fs1 = (Inr (), fs'))"
proof -
  obtain r fs1 where "create_key_file F (path_join dir slot) SIGNAL_KEY_FILE (slot_key keys slot) fs = (r, fs1)"
    by (cases "create_key_file F (path_join dir slot) SIGNAL_KEY_FILE (slot_key keys slot) fs")
  then show ?thesis
    by (cases "slot = SIGNAL_APP_DATA_SLOT"; cases "slot = SIGNAL_TLS_DATA_SLOT"; cases r)
      (simp_all add: slot_key_def write_slot_handoff_key_def)
qed

lemma write_slots_keeps:
  assumes "fs_lookup fs q = Some (File f)" "q \<notin> slot_key_path dir ` set slots"
    "write_slots F dir keys slots fs = (Inr (), fs')"
  shows "fs_lookup fs' q = Some (File f)"
  using assms
proof (induction slots arbitrary: fs)
  case (Cons slot slots)
  from Cons.prems(3) obtain fs1 where
    "create_key_file F (path_join dir slot) SIGNAL_KEY_FILE (slot_key keys slot) fs = (Inr (), fs1)"
    "write_slots F dir keys slots fs1 = (Inr (), fs')" unfolding write_slots_Cons by blast
  moreover have "q \<noteq> path_join (path_join dir slot) SIGNAL_KEY_FILE" "q \<notin> slot_key_path dir ` set slots"
    using Cons.prems(2) by (auto simp: slot_key_path_def)
  moreover from this(1) have "fs_lookup fs1 q = Some (File f)"
    using create_key_file_frame [OF Cons.prems(1), of "path_join dir slot" SIGNAL_KEY_FILE F "slot_key keys slot"]
      calculation(1) by simp
  ultimately show ?case using Cons.IH by blast
qed simp

lemma write_slots_names: "write_slots F dir keys slots fs = (Inr (), fs') \<Longrightarrow> set slots \<subseteq> handoff_slots"
  by (induction slots arbitrary: fs) (simp, metis insert_subset list.simps(15) write_slots_Cons)

lemma write_slots_content:
  assumes "write_slots F dir keys slots fs = (Inr (), fs')" "slot \<in> set slots"
  shows "slot \<in> handoff_slots \<and>
    (\<exists>f. fs_lookup fs' (slot_key_path dir slot) = Some (File f) \<and> fn_mode f = 384 \<and> fn_data f = slot_key keys slot)"
  using assms
proof (induction slots arbitrary: fs)
  case (Cons s slots)
  from Cons.prems(1) obtain fs1 where s: "s \<in> handoff_slots"
    "create_key_file F (path_join dir s) SIGNAL_KEY_FILE (slot_key keys s) fs = (Inr (), fs1)"
    "write_slots F dir keys slots fs1 = (Inr (), fs')" unfolding write_slots_Cons by blast
  show ?case
  proof (cases "slot \<in> set slots")
    case True
    then show ?thesis using Cons.IH s(3) by blast
  next
    case False
    then have slot: "slot = s" using Cons.prems(2) by simp
    have "slot_key_path dir s \<notin> slot_key_path dir ` set slots"
    proof
      assume "slot_key_path dir s \<in> slot_key_path dir ` set slots"
      then obtain s' where s': "s' \<in> set slots" "slot_key_path dir s = slot_key_path dir s'" by blast
      moreover have "s' \<in> handoff_slots" using write_slots_names [OF s(3)] s'(1) by blast
      ultimately show False using False slot slot_key_path_inj [OF s(1)] by blast
    qed
    from write_slots_keeps [OF create_key_file_content [OF s(2), folded slot_key_path_def] this s(3)]
    show ?thesis using slot s(1) by simp
  qed
qed simp

section \<open>Polls return\<close>

lemma advances_deadline_loop [advance_rules]:
  "env_advances R E \<Longrightarrow> advances R body \<Longrightarrow> advances R (deadline_loop E body late pause deadline fuel)"
  by (induction fuel) (auto intro!: advance_rules)

text \<open>Under a clock, a loop whose rounds return and whose budget covers the time to the
  deadline returns.\<close>

lemma deadline_loop_returns:
  assumes "timed E clk" "advances (clock_runs clk) body" "\<And>s. fst (run_state body s) \<noteq> None"
    and "deadline \<le> clk (s_world s) + fuel * pause"
  shows "fst (run_state (deadline_loop E body late pause deadline (Suc fuel)) s) \<noteq> None"
  using assms(4)
proof (induction fuel arbitrary: s)
  case (0 s)
  obtain r s1 where r: "run_state body s = (Some r, s1)"
    using assms(3) [of s] by (cases "run_state body s") auto
  obtain now s2 where now: "run_state (e_now E) s1 = (now, s2)" by fastforce
  have "deadline \<le> now" using "0.prems" timed_now [OF assms(1) now] advancesD [OF assms(2) r] by simp
  then show ?case using r now by (auto split: option.splits)
next
  case (Suc fuel s)
  obtain r s1 where r: "run_state body s = (Some r, s1)"
    using assms(3) [of s] by (cases "run_state body s") auto
  obtain now s2 where now: "run_state (e_now E) s1 = (now, s2)" by fastforce
  obtain u s3 where sl: "run_state (e_sleep E pause) s2 = (u, s3)" by (rule prod.exhaust)
  have "clk (s_world s) + pause \<le> clk (s_world s3)"
    using timed_now [OF assms(1) now] timed_sleep [OF assms(1) sl] advancesD [OF assms(2) r] by simp
  then have "fst (run_state (deadline_loop E body late pause deadline (Suc fuel)) s3) \<noteq> None"
    using Suc.prems by (intro Suc.IH) simp
  then show ?case using r now sl
    by (subst deadline_loop.simps) (auto simp del: deadline_loop.simps split: option.splits)
qed

lemma poll_returns:
  assumes "timed E clk" "advances (clock_runs clk) body" "\<And>s. fst (run_state body s) \<noteq> None" "0 < pause"
  shows "fst (run_state (call (e_now E) (\<lambda>now.
    deadline_loop E body late pause (now + timeout) (poll_rounds timeout pause))) s) \<noteq> None"
proof -
  obtain now s1 where now: "run_state (e_now E) s = (now, s1)" by fastforce
  have "timeout < (timeout div pause + 1) * pause"
    using assms(4) by (metis dividend_less_div_times mult.commute Suc_eq_plus1 mult_Suc_right)
  then have "now + timeout \<le> clk (s_world s1) + (timeout div pause + 1) * pause"
    using timed_now [OF assms(1) now] by simp
  from deadline_loop_returns [OF assms(1-3) this] show ?thesis
    using now by (simp add: poll_rounds_def del: deadline_loop.simps)
qed

lemma advances_error_file_message [advance_rules]:
  "env_advances R E \<Longrightarrow> (\<And>t. advances R (k t)) \<Longrightarrow> advances R (error_file_message E path k)"
  unfolding error_file_message_def by (intro advance_rules; (assumption | simp))

lemma advances_poll_handoff_round [advance_rules]: "env_advances R E \<Longrightarrow> advances R (poll_handoff_round E signal_dir)"
  unfolding poll_handoff_round_def by (intro advance_rules; (assumption | simp))

lemma advances_poll_slots_round [advance_rules]:
  "env_advances R E \<Longrightarrow> advances R (poll_slots_round E signal_dir slots wanted n)"
  by (induction slots arbitrary: n) (auto intro!: advance_rules)

lemma error_file_message_returns:
  "(\<And>t s. fst (run_state (k t) s) \<noteq> None) \<Longrightarrow> fst (run_state (error_file_message E path k) s) \<noteq> None"
  by (auto simp: error_file_message_def split: prod.splits sum.splits)

lemma poll_handoff_round_returns: "fst (run_state (poll_handoff_round E signal_dir) s) \<noteq> None"
  by (auto simp: poll_handoff_round_def error_file_message_def split: prod.splits sum.splits)

lemma poll_slots_round_returns: "fst (run_state (poll_slots_round E signal_dir slots wanted n) s) \<noteq> None"
  by (induction slots arbitrary: n s) (auto simp: Let_def error_file_message_def split: prod.splits sum.splits)

section \<open>Properties\<close>

text \<open>C24. When writing the volume keys succeeds, every requested slot is a known one and its
  key file holds exactly that slot's key, readable by the owner only.\<close>

theorem handoff_keys_written:
  assumes "write_password_handoff_keys_for_slots F signal_dir keys slots fs = (Inr (), fs')" "slot \<in> set slots"
  shows "slot \<in> {SIGNAL_APP_DATA_SLOT, SIGNAL_TLS_DATA_SLOT} \<and>
    (\<exists>f. fs_lookup fs' (path_join (path_join signal_dir slot) SIGNAL_KEY_FILE) = Some (File f) \<and> fn_mode f = 384 \<and>
       fn_data f = (if slot = SIGNAL_APP_DATA_SLOT then vk_app_data keys else vk_tls_data keys))"
proof -
  obtain fs1 where "write_slots F signal_dir keys slots fs1 = (Inr (), fs')"
    using assms(1) by (auto simp: write_password_handoff_keys_for_slots_def split: prod.splits sum.splits)
  from write_slots_content [OF this assms(2)] show ?thesis by (simp only: slot_key_def slot_key_path_def)
qed

definition demo_keys :: owner_volume_keys where
  "demo_keys = \<lparr>vk_app_data = [1], vk_tls_data = [2]\<rparr>"

theorem handoff_keys_written_witness:
  "\<exists>fs' f. fs_lookup fs' ''/s/tls-data/key'' = Some (File f) \<and> fn_mode f = 384 \<and> fn_data f = [2]"
proof -
  have "is_ok (fst (write_password_handoff_keys_for_slots no_faults ''/s'' demo_keys [SIGNAL_TLS_DATA_SLOT] []))"
    by code_simp
  then obtain fs' where "write_password_handoff_keys_for_slots no_faults ''/s'' demo_keys [SIGNAL_TLS_DATA_SLOT] [] = (Inr (), fs')"
    by (cases "write_password_handoff_keys_for_slots no_faults ''/s'' demo_keys [SIGNAL_TLS_DATA_SLOT] []")
      (auto simp: is_ok_def split: sum.splits)
  from handoff_keys_written [OF this, of SIGNAL_TLS_DATA_SLOT] show ?thesis
    by (auto simp: slot_names demo_keys_def path_join_def starts_with_def)
qed

text \<open>C25. Both hand-off polls come back: on a clock that does not run backwards and with pauses
  that last as long as asked for, they answer, whatever the file system and the other tasks do.\<close>

theorem handoff_polls_return:
  assumes "timed E clk"
  shows "fst (run_state (poll_handoff_result E signal_dir timeout_secs) s) \<noteq> None \<and>
    fst (run_state (poll_slot_handoff_result E signal_dir slots timeout_secs) s) \<noteq> None"
  unfolding poll_handoff_result_def poll_slot_handoff_result_def Let_def
  by (intro conjI poll_returns [OF assms] advance_rules timed_advances [OF assms]
      poll_handoff_round_returns poll_slots_round_returns) simp_all

theorem handoff_polls_return_witness:
  "fst (run_state (poll_handoff_result (clock_env no_answer demo_config) ''/s'' 0) demo_clock_sys) \<noteq> None"
  using handoff_polls_return [OF clock_env_timed] by blast

end
