(* ===== verification/Escrow.thy ===== *)
theory Escrow
  imports Traces Kv_Store
begin

text \<open>
  Storage of the owner seed's ciphertext outside the key broker, \<open>escrow.rs\<close>: a directory
  with one file per value, replaced atomically through a temporary file, and a Kubernetes
  secret that is read, changed and put back.
\<close>

section \<open>Data\<close>

record owner_seed_material =
  om_encrypted :: "bytes option"
  om_sealed :: "bytes option"

datatype escrow_value_update = Keep | Remove | SetValue bytes

section \<open>The escrow directory\<close>

definition owner_escrow_dir :: "config \<Rightarrow> string" where
  "owner_escrow_dir cfg = c_owner_escrow_dir cfg"

definition ensure_owner_escrow_dir :: "io_faults \<Rightarrow> config \<Rightarrow> fs \<Rightarrow> ownership_error + string" where
  "ensure_owner_escrow_dir F cfg fs =
     (let dir = owner_escrow_dir cfg in
      res_bind (map_err (\<lambda>e. Store (''owner_escrow_dir_unavailable:'' @ io_text e)) (fs_metadata F dir fs)) (\<lambda>metadata.
      if metadata \<noteq> Dir then Inl (Store ''owner_escrow_dir_not_directory'') else Inr dir))"

definition escrow_key_ok :: "string \<Rightarrow> bool" where
  "escrow_key_ok key \<longleftrightarrow> \<not> contains ''/'' key \<and> \<not> contains [CHR 92] key \<and> key \<noteq> ''.'' \<and> key \<noteq> ''..''"

definition owner_escrow_file_path :: "io_faults \<Rightarrow> config \<Rightarrow> string \<Rightarrow> fs \<Rightarrow> ownership_error + string" where
  "owner_escrow_file_path F cfg key fs =
     res_bind (ensure_owner_escrow_dir F cfg fs) (\<lambda>dir.
     if \<not> escrow_key_ok key then Inl (Store (''owner_escrow_key_invalid:'' @ key))
     else Inr (path_join dir key))"

definition read_optional_file :: "io_faults \<Rightarrow> string \<Rightarrow> string \<Rightarrow> fs \<Rightarrow> ownership_error + bytes option" where
  "read_optional_file F path key fs =
     (case fs_read F path fs of
        Inr bs \<Rightarrow> Inr (Some bs)
      | Inl (NotFound _) \<Rightarrow> Inr None
      | Inl (OtherIo t) \<Rightarrow> Inl (Store (''owner_escrow_read_failed:'' @ key @ '':'' @ t)))"

definition sync_parent_dir :: "io_faults \<Rightarrow> string \<Rightarrow> string \<Rightarrow> fs \<Rightarrow> (ownership_error + unit) \<times> fs" where
  "sync_parent_dir F path key fs =
     (case path_parent path of
        None \<Rightarrow> (Inl (Store (''owner_escrow_parent_missing:'' @ key)), fs)
      | Some parent \<Rightarrow>
          io_then (fs_sync_dir F parent fs) (\<lambda>e. Store (''owner_escrow_parent_sync_failed:'' @ key @ '':'' @ io_text e))
            (\<lambda>_ fs. (Inr (), fs)))"

text \<open>New files get mode 0666 less the process's mask, written as 0644 here.\<close>

definition write_atomic :: "io_faults \<Rightarrow> string \<Rightarrow> string \<Rightarrow> bytes \<Rightarrow> fs \<Rightarrow> (ownership_error + unit) \<times> fs" where
  "write_atomic F path key bs fs =
     (let tmp_path = path_set_extension path ''tmp'';
          failed = (\<lambda>what e. Store (''owner_escrow_'' @ what @ ''_failed:'' @ key @ '':'' @ io_text e)) in
      io_then (fs_open_write F 420 tmp_path fs) (failed ''write'') (\<lambda>_ fs.
      io_then (fs_write_all F tmp_path bs fs) (failed ''write'') (\<lambda>_ fs.
      io_then (fs_sync F tmp_path fs) (failed ''sync'') (\<lambda>_ fs.
      io_then (fs_rename F tmp_path path fs) (failed ''rename'') (\<lambda>_ fs.
      sync_parent_dir F path key fs)))))"

definition remove_escrow_file :: "io_faults \<Rightarrow> string \<Rightarrow> string \<Rightarrow> fs \<Rightarrow> (ownership_error + unit) \<times> fs" where
  "remove_escrow_file F path key fs =
     (case fs_remove_file F path fs of
        (Inl (NotFound _), fs) \<Rightarrow> (Inr (), fs)
      | (Inl (OtherIo t), fs) \<Rightarrow> (Inl (Store (''owner_escrow_remove_failed:'' @ key @ '':'' @ t)), fs)
      | (Inr _, fs) \<Rightarrow> sync_parent_dir F path key fs)"

definition update_escrow_file ::
  "io_faults \<Rightarrow> string \<Rightarrow> string \<Rightarrow> escrow_value_update \<Rightarrow> fs \<Rightarrow> (ownership_error + unit) \<times> fs" where
  "update_escrow_file F path key upd fs =
     (case upd of
        Keep \<Rightarrow> (Inr (), fs)
      | Remove \<Rightarrow> remove_escrow_file F path key fs
      | SetValue bs \<Rightarrow> write_atomic F path key bs fs)"

text \<open>The two operations on the directory; each call on the file system is followed by what
  other tasks do.\<close>

definition load_owner_seed_material_from_files ::
  "'w env \<Rightarrow> ('w, ownership_error + owner_seed_material) proc" where
  "load_owner_seed_material_from_files E =
     (let ek = c_owner_escrow_encrypted_key (e_config E); sk = c_owner_escrow_sealed_key (e_config E) in
      call (io_read E (\<lambda>F. owner_escrow_file_path F (e_config E) ek)) (\<lambda>r. attempt r (\<lambda>encrypted_path.
      call (io_read E (\<lambda>F. owner_escrow_file_path F (e_config E) sk)) (\<lambda>r. attempt r (\<lambda>sealed_path.
      call (io_read E (\<lambda>F. read_optional_file F encrypted_path ek)) (\<lambda>r. attempt r (\<lambda>encrypted.
      call (io_read E (\<lambda>F. read_optional_file F sealed_path sk)) (\<lambda>r. attempt r (\<lambda>sealed.
      ret (Inr \<lparr>om_encrypted = encrypted, om_sealed = sealed\<rparr>))))))))))"

definition update_owner_seed_material_from_files ::
  "'w env \<Rightarrow> escrow_value_update \<Rightarrow> escrow_value_update \<Rightarrow> ('w, ownership_error + unit) proc" where
  "update_owner_seed_material_from_files E encrypted sealed =
     (let ek = c_owner_escrow_encrypted_key (e_config E); sk = c_owner_escrow_sealed_key (e_config E) in
      call (io_read E (\<lambda>F. owner_escrow_file_path F (e_config E) ek)) (\<lambda>r. attempt r (\<lambda>encrypted_path.
      call (io_read E (\<lambda>F. owner_escrow_file_path F (e_config E) sk)) (\<lambda>r. attempt r (\<lambda>sealed_path.
      call (io_call E (\<lambda>F. update_escrow_file F encrypted_path ek encrypted)) (\<lambda>r. attempt r (\<lambda>_.
      call (io_call E (\<lambda>F. update_escrow_file F sealed_path sk sealed)) (\<lambda>r. attempt r (\<lambda>_.
      ret (Inr ()))))))))))"

section \<open>The Kubernetes secret\<close>

definition build_kube_client :: "'w env \<Rightarrow> ('w, ownership_error + unit) proc" where
  "build_kube_client E =
     (let cfg = e_config E; X = e_ext E;
          finish = (\<lambda>cert. ret (map_err (\<lambda>e. Store (''k8s_client_build_failed:'' @ e)) (x_client_build X cert))) in
      if starts_with ''https://'' (c_k8s_api_url cfg) then
        call (io_read E (\<lambda>F. fs_read F (c_k8s_ca_cert_path cfg))) (\<lambda>r.
        attempt (map_err (\<lambda>e. Store (''k8s_ca_read_failed:'' @ io_text e)) r) (\<lambda>pem.
        attempt (map_err (\<lambda>e. Store (''k8s_ca_parse_failed:'' @ e)) (x_pem_certificate X pem)) (\<lambda>_.
        finish [pem])))
      else finish [])"

definition owner_secret_name :: "config \<Rightarrow> ownership_error + string" where
  "owner_secret_name cfg =
     (let name = (if c_owner_escrow_secret_name cfg = [] then
                    (if c_instance_id cfg = [] then [] else c_instance_id cfg @ ''-owner-escrow'')
                  else c_owner_escrow_secret_name cfg)
      in if name = [] then Inl (Store ''owner_escrow_secret_name_missing'') else Inr name)"

definition owner_secret_url :: "externals \<Rightarrow> config \<Rightarrow> ownership_error + string" where
  "owner_secret_url X cfg =
     (if c_attestation_pod_namespace cfg = [] then Inl (Store ''attestation_pod_namespace_missing'')
      else res_bind (owner_secret_name cfg) (\<lambda>name.
        let url = trim_end_matches CHR ''/'' (c_k8s_api_url cfg) @ ''/api/v1/namespaces/'' @
                  c_attestation_pod_namespace cfg @ ''/secrets/'' @ name
        in res_bind (map_err (\<lambda>e. Store (''k8s_url_invalid:'' @ e)) (x_url_parse X url)) (\<lambda>_. Inr url)))"

definition read_service_account_token :: "'w env \<Rightarrow> ('w, ownership_error + string) proc" where
  "read_service_account_token E =
     call (io_read E (\<lambda>F. fs_read_to_string F (c_k8s_service_account_token_path (e_config E)))) (\<lambda>r.
     ret (case r of Inr token \<Rightarrow> Inr (trim token) | Inl e \<Rightarrow> Inl (Store (''k8s_token_read_failed:'' @ io_text e))))"

definition body_or_empty :: "externals \<Rightarrow> http_response \<Rightarrow> string" where
  "body_or_empty X resp = (case hr_body resp of Inr b \<Rightarrow> x_body_text X b | Inl _ \<Rightarrow> [])"

definition fetch_secret :: "'w env \<Rightarrow> ('w, ownership_error + secret_object) proc" where
  "fetch_secret E =
     pthen (build_kube_client E) (\<lambda>_.
     pthen (read_service_account_token E) (\<lambda>token.
     attempt (owner_secret_url (e_ext E) (e_config E)) (\<lambda>url.
     call (e_http E \<lparr>hq_method = ''GET'', hq_url = url,
             hq_headers = [(''Authorization'', ''Bearer '' @ token), (''Accept'', ''application/json'')],
             hq_json = None, hq_timeout = None\<rparr>) (\<lambda>result.
     attempt (map_err (\<lambda>e. Store (''k8s_secret_get_failed:'' @ he_text e)) result) (\<lambda>resp.
     if hr_status resp = 404 then ret (Inl (Store ''owner_escrow_secret_missing''))
     else if \<not> is_success (hr_status resp) then
       ret (Inl (Store (''k8s_secret_get_non_200:'' @ show_nat (hr_status resp) @ '':'' @ body_or_empty (e_ext E) resp)))
     else ret (map_err (\<lambda>e. Store (''k8s_secret_parse_failed:'' @ e))
       (case hr_body resp of Inl e \<Rightarrow> Inl (he_text e) | Inr b \<Rightarrow> x_secret_parse (e_ext E) b)))))))"

text \<open>The derived serializer.\<close>

definition secret_to_json :: "secret_object \<Rightarrow> json" where
  "secret_to_json so =
     JObj [(''apiVersion'', JStr (so_api_version so)), (''kind'', JStr (so_kind so)),
       (''metadata'', JObj [(''name'', JStr (so_name so)), (''namespace'', JStr (so_namespace so)),
          (''resourceVersion'', jopt_str (so_resource_version so))]),
       (''data'', JObj (map (\<lambda>(k, v). (k, JStr v)) (so_data so))), (''type'', JStr (so_type so))]"

definition put_secret :: "'w env \<Rightarrow> secret_object \<Rightarrow> ('w, ownership_error + unit) proc" where
  "put_secret E secret =
     pthen (build_kube_client E) (\<lambda>_.
     pthen (read_service_account_token E) (\<lambda>token.
     attempt (owner_secret_url (e_ext E) (e_config E)) (\<lambda>url.
     call (e_http E \<lparr>hq_method = ''PUT'', hq_url = url,
             hq_headers = [(''Authorization'', ''Bearer '' @ token)],
             hq_json = Some (secret_to_json secret), hq_timeout = None\<rparr>) (\<lambda>result.
     attempt (map_err (\<lambda>e. Store (''k8s_secret_put_failed:'' @ he_text e)) result) (\<lambda>resp.
     if \<not> is_success (hr_status resp) then
       ret (Inl (Store (''k8s_secret_put_non_200:'' @ show_nat (hr_status resp) @ '':'' @ body_or_empty (e_ext E) resp)))
     else ret (Inr ()))))))"

definition decode_secret_value :: "externals \<Rightarrow> (string \<times> string) list \<Rightarrow> string \<Rightarrow> ownership_error + bytes option" where
  "decode_secret_value X data key =
     (case map_of data key of
        Some encoded \<Rightarrow>
          (case x_b64_decode X encoded of
             Inr bs \<Rightarrow> Inr (Some bs)
           | Inl e \<Rightarrow> Inl (Store (''k8s_secret_base64_decode_failed:'' @ key @ '':'' @ e)))
      | None \<Rightarrow> Inr None)"

definition secret_load_owner_seed_material :: "'w env \<Rightarrow> ('w, ownership_error + owner_seed_material) proc" where
  "secret_load_owner_seed_material E =
     pthen (fetch_secret E) (\<lambda>secret.
     attempt (decode_secret_value (e_ext E) (so_data secret) (c_owner_escrow_encrypted_key (e_config E))) (\<lambda>encrypted.
     attempt (decode_secret_value (e_ext E) (so_data secret) (c_owner_escrow_sealed_key (e_config E))) (\<lambda>sealed.
     ret (Inr \<lparr>om_encrypted = encrypted, om_sealed = sealed\<rparr>))))"

fun update_secret_value ::
  "externals \<Rightarrow> string \<Rightarrow> escrow_value_update \<Rightarrow> (string \<times> string) list \<Rightarrow> (string \<times> string) list" where
  "update_secret_value X key Keep data = data"
| "update_secret_value X key Remove data = AList.delete key data"
| "update_secret_value X key (SetValue bs) data = AList.update key (x_b64_encode X bs) data"

definition secret_update_owner_seed_material ::
  "'w env \<Rightarrow> escrow_value_update \<Rightarrow> escrow_value_update \<Rightarrow> ('w, ownership_error + unit) proc" where
  "secret_update_owner_seed_material E encrypted sealed =
     pthen (fetch_secret E) (\<lambda>secret.
     put_secret E (secret\<lparr>so_data :=
       update_secret_value (e_ext E) (c_owner_escrow_sealed_key (e_config E)) sealed
         (update_secret_value (e_ext E) (c_owner_escrow_encrypted_key (e_config E)) encrypted (so_data secret))\<rparr>))"

section \<open>What an observer sees\<close>

lemma advances_load_owner_seed_material_from_files [advance_rules]:
  "env_advances R E \<Longrightarrow> advances R (load_owner_seed_material_from_files E)"
  unfolding load_owner_seed_material_from_files_def by (intro advance_rules; (assumption | simp))

lemma advances_update_owner_seed_material_from_files [advance_rules]:
  "env_advances R E \<Longrightarrow> advances R (update_owner_seed_material_from_files E encrypted sealed)"
  unfolding update_owner_seed_material_from_files_def by (intro advance_rules; (assumption | simp))

lemma advances_build_kube_client [advance_rules]: "env_advances R E \<Longrightarrow> advances R (build_kube_client E)"
  unfolding build_kube_client_def by (intro advance_rules; (assumption | simp))

lemma advances_read_service_account_token [advance_rules]:
  "env_advances R E \<Longrightarrow> advances R (read_service_account_token E)"
  unfolding read_service_account_token_def by (intro advance_rules; (assumption | simp))

lemma advances_fetch_secret [advance_rules]: "env_advances R E \<Longrightarrow> advances R (fetch_secret E)"
  unfolding fetch_secret_def by (intro advance_rules; (assumption | simp))

lemma advances_put_secret [advance_rules]: "env_advances R E \<Longrightarrow> advances R (put_secret E secret)"
  unfolding put_secret_def by (intro advance_rules; (assumption | simp))

lemma advances_secret_load_owner_seed_material [advance_rules]:
  "env_advances R E \<Longrightarrow> advances R (secret_load_owner_seed_material E)"
  unfolding secret_load_owner_seed_material_def by (intro advance_rules; (assumption | simp))

lemma advances_secret_update_owner_seed_material [advance_rules]:
  "env_advances R E \<Longrightarrow> advances R (secret_update_owner_seed_material E encrypted sealed)"
  unfolding secret_update_owner_seed_material_def by (intro advance_rules; (assumption | simp))

section \<open>Values are replaced whole\<close>

text \<open>Everything before the rename works on the temporary file, and only the rename touches the
  target: whatever fails, the target is what it was or holds the new value.\<close>

definition escrow_value :: "string \<Rightarrow> string \<Rightarrow> fs \<Rightarrow> ownership_error + bytes option" where
  "escrow_value path key fs = read_optional_file no_faults path key fs"

fun escrow_effect :: "escrow_value_update \<Rightarrow> ownership_error + bytes option \<Rightarrow> ownership_error + bytes option" where
  "escrow_effect Keep old = old"
| "escrow_effect Remove old = Inr None"
| "escrow_effect (SetValue bs) old = Inr (Some bs)"

lemma escrow_value_cong: "fs_lookup fs' path = fs_lookup fs path \<Longrightarrow> escrow_value path key fs' = escrow_value path key fs"
  by (simp add: escrow_value_def read_optional_file_def fs_read_def no_faults_def)

lemma escrow_value_file: "fs_lookup fs path = Some (File f) \<Longrightarrow> escrow_value path key fs = Inr (Some (fn_data f))"
  by (simp add: escrow_value_def read_optional_file_def fs_read_def no_faults_def)

lemma escrow_value_none: "fs_lookup fs path = None \<Longrightarrow> escrow_value path key fs = Inr None"
  by (simp add: escrow_value_def read_optional_file_def fs_read_def no_faults_def)

lemma sync_parent_dir_same: "snd (sync_parent_dir F path key fs) = fs"
  by (auto simp: sync_parent_dir_def io_then_def fs_sync_dir_def split: option.splits)

text \<open>The two ways a chain of calls on one path ends.\<close>

lemma io_then_cases:
  assumes "io_then r f k = (res, fs')"
  obtains (failed) e where "r = (Inl e, fs')" "res = Inl (f e)"
  | (went_on) v fs1 where "r = (Inr v, fs1)" "k v fs1 = (res, fs')"
  using assms by (auto simp: io_then_def split: prod.splits sum.splits)

lemma write_atomic_outcome:
  assumes "write_atomic F path key bs fs = (r, fs')" "path_set_extension path ''tmp'' \<noteq> path"
  shows "(r = Inr () \<longrightarrow> escrow_value path key fs' = Inr (Some bs)) \<and>
    (escrow_value path key fs' = Inr (Some bs) \<or> fs_lookup fs' path = fs_lookup fs path) \<and>
    (\<forall>q. q \<noteq> path \<longrightarrow> q \<noteq> path_set_extension path ''tmp'' \<longrightarrow> fs_lookup fs' q = fs_lookup fs q)"
proof -
  let ?tmp = "path_set_extension path ''tmp''"
  let ?same = "\<lambda>fs1. \<forall>q. q \<noteq> ?tmp \<longrightarrow> fs_lookup fs1 q = fs_lookup fs q"
  have stop: ?thesis if "?same fs'" "r = Inl e" for e using that assms(2) by auto
  from assms(1) show ?thesis unfolding write_atomic_def Let_def
  proof (cases rule: io_then_cases)
    case (failed e)
    then show ?thesis using fs_frame(1) [of _ ?tmp F 420 fs] by (intro stop) auto
  next
    case (went_on u fs1)
    have s1: "?same fs1" using fs_frame(1) [of _ ?tmp F 420 fs] went_on(1) by auto
    from went_on(2) show ?thesis
    proof (cases rule: io_then_cases)
      case (failed e)
      then show ?thesis using fs_frame(3) [of _ ?tmp F bs fs1] s1 by (intro stop) auto
    next
      case (went_on u fs2)
      have s2: "?same fs2" using fs_frame(3) [of _ ?tmp F bs fs1] s1 went_on(1) by auto
      obtain f where f: "fs_lookup fs2 ?tmp = Some (File f)" "fn_data f = bs"
        using fs_write_all_ok [OF went_on(1)] by blast
      have sy: "fs_lookup (snd (fs_sync F ?tmp fs2)) q = fs_lookup fs2 q" for q by (rule fs_frame(4))
      from went_on(2) show ?thesis
      proof (cases rule: io_then_cases)
        case (failed e)
        then show ?thesis using sy s2 by (intro stop) auto
      next
        case (went_on u fs3)
        have s3: "?same fs3" "fs_lookup fs3 ?tmp = Some (File f)" using sy s2 f(1) went_on(1) by auto
        from went_on(2) show ?thesis
        proof (cases rule: io_then_cases)
          case (failed e)
          then show ?thesis using fs_rename_fail [of F ?tmp path fs3] s3 by (intro stop) auto
        next
          case (went_on u fs4)
          have "fs' = fs4" using went_on(2) sync_parent_dir_same [of F path key fs4] by simp
          moreover have "escrow_value path key fs4 = Inr (Some bs)"
            using fs_rename_ok [OF went_on(1) assms(2)] s3(2) f(2) escrow_value_file by simp
          ultimately show ?thesis using s3(1) fs_rename_frame [of _ ?tmp path F fs3] went_on(1) by auto
        qed
      qed
    qed
  qed
qed

lemma remove_escrow_file_outcome:
  assumes "remove_escrow_file F path key fs = (r, fs')"
  shows "(r = Inr () \<longrightarrow> fs_lookup fs' path = None) \<and>
    (fs_lookup fs' path = None \<or> fs_lookup fs' path = fs_lookup fs path) \<and>
    (\<forall>q. q \<noteq> path \<longrightarrow> fs_lookup fs' q = fs_lookup fs q)"
  using assms sync_parent_dir_same [of F path key "fs_del path fs"]
  by (auto simp: remove_escrow_file_def fs_remove_file_def split: option.splits node.splits)

section \<open>Properties\<close>

text \<open>C23. An update of a stored value is atomic: whatever calls fail, the value under the key is
  afterwards what it was or what the update asks for, never a part of it; if the update reports
  success it is what the update asks for; and no other file changes, the temporary file apart.\<close>

theorem escrow_update_atomic:
  assumes "update_escrow_file F path key upd fs = (r, fs')" "path_set_extension path ''tmp'' \<noteq> path"
  shows "(r = Inr () \<longrightarrow> escrow_value path key fs' = escrow_effect upd (escrow_value path key fs)) \<and>
    escrow_value path key fs' \<in> {escrow_value path key fs, escrow_effect upd (escrow_value path key fs)} \<and>
    (\<forall>q. q \<noteq> path \<longrightarrow> q \<noteq> path_set_extension path ''tmp'' \<longrightarrow> fs_lookup fs' q = fs_lookup fs q)"
proof (cases upd)
  case Keep
  then show ?thesis using assms(1) by (simp add: update_escrow_file_def)
next
  case Remove
  then have "remove_escrow_file F path key fs = (r, fs')" using assms(1) by (simp add: update_escrow_file_def)
  from remove_escrow_file_outcome [OF this] show ?thesis
    using Remove by (auto simp: escrow_value_none intro: escrow_value_cong)
next
  case (SetValue bs)
  then have "write_atomic F path key bs fs = (r, fs')" using assms(1) by (simp add: update_escrow_file_def)
  from write_atomic_outcome [OF this assms(2)] show ?thesis
    using SetValue by (auto intro: escrow_value_cong)
qed

text \<open>A disk that fails in the middle of writing the temporary file.\<close>

definition torn_write :: io_faults where
  "torn_write = \<lparr>io_fails = (\<lambda>c. case c of WriteData _ \<Rightarrow> Some ''ENOSPC'' | _ \<Rightarrow> None), io_written = (\<lambda>_. 1)\<rparr>"

definition escrow_demo :: fs where
  "escrow_demo = [(''/e'', Dir), (''/e/seed'', File \<lparr>fn_mode = 420, fn_gid = None, fn_data = [1]\<rparr>)]"

theorem escrow_update_atomic_witness:
  "escrow_value ''/e/seed'' ''seed'' (snd (update_escrow_file torn_write ''/e/seed'' ''seed'' (SetValue [2, 3]) escrow_demo))
     \<in> {Inr (Some [1]), Inr (Some [2, 3])}"
proof -
  have "path_set_extension ''/e/seed'' ''tmp'' \<noteq> ''/e/seed''" by code_simp
  moreover have "escrow_value ''/e/seed'' ''seed'' escrow_demo = Inr (Some [1])" by code_simp
  ultimately show ?thesis
    using escrow_update_atomic [OF prod.collapse [symmetric], of "''/e/seed''" torn_write "''seed''" "SetValue [2, 3]" escrow_demo]
    by simp
qed

end
