(* ===== verification/Owner_Seed.thy ===== *)
theory Owner_Seed
  imports Kbs Escrow
begin

text \<open>
  The owner seed's ciphertext across its three backends, and what the ownership state becomes
  from it: \<open>load_owner_seed_material\<close> to \<open>update_owner_seed_material\<close> of \<open>handlers.rs\<close>. A
  resource counts as absent only on a 404, the broker's own where the local agent hides it
  behind a 500.
\<close>

section \<open>Absence\<close>

definition upstream_status :: "json \<Rightarrow> nat option" where
  "upstream_status error_json = Option.bind (jget error_json ''upstream_status'') as_u64"

definition is_missing_owner_seed_resource :: "json \<Rightarrow> bool" where
  "is_missing_owner_seed_resource error_json \<longleftrightarrow> upstream_status error_json = Some 404"

definition is_optional_sealed_owner_seed_resource_missing :: "json \<Rightarrow> bool" where
  "is_optional_sealed_owner_seed_resource_missing error_json \<longleftrightarrow> upstream_status error_json = Some 404"

definition owner_seed_unavailable_error :: "json \<Rightarrow> ownership_error" where
  "owner_seed_unavailable_error error_json =
     OwnerSeedUnavailable (case Option.bind (jget error_json ''error'') as_str of
       Some e \<Rightarrow> e | None \<Rightarrow> ''owner_seed_fetch_failed'')"

text \<open>The status of the direct probe decides; \<open>what\<close> is the prefix of its error text.\<close>

definition missing_by_probe :: "'w env \<Rightarrow> string \<Rightarrow> string \<Rightarrow> ('w, ownership_error + bool) proc" where
  "missing_by_probe E resource_path what =
     pbind (probe_direct_kbs_resource_status_with_session_refresh E resource_path) (\<lambda>probe.
     attempt (map_err (\<lambda>e. OwnerSeedUnavailable (''owner_seed_probe_failed:'' @ error_to_string e)) probe) (\<lambda>status.
     ret (if status = 404 then Inr True
          else if status = 200 then Inr False
          else Inl (OwnerSeedUnavailable (what @ ''_probe_unexpected_status:'' @ show_nat status)))))"

definition cdh_missing_owner_seed_resource :: "'w env \<Rightarrow> string \<Rightarrow> json \<Rightarrow> ('w, ownership_error + bool) proc" where
  "cdh_missing_owner_seed_resource E resource_path error_json =
     (if is_missing_owner_seed_resource error_json then ret (Inr True)
      else if upstream_status error_json \<noteq> Some 500 then ret (Inr False)
      else missing_by_probe E resource_path ''owner_seed'')"

definition cdh_missing_optional_sealed_owner_seed_resource ::
  "'w env \<Rightarrow> string \<Rightarrow> json \<Rightarrow> ('w, ownership_error + bool) proc" where
  "cdh_missing_optional_sealed_owner_seed_resource E resource_path error_json =
     (if is_optional_sealed_owner_seed_resource_missing error_json then ret (Inr True)
      else if upstream_status error_json \<noteq> Some 500 then ret (Inr False)
      else missing_by_probe E resource_path ''owner_seed_sealed'')"

section \<open>Loading\<close>

text \<open>One of the two resources through the cache: its body, or absence as \<open>missing\<close> decides.\<close>

definition load_kbs_value ::
  "'w env \<Rightarrow> string \<Rightarrow> ('w env \<Rightarrow> string \<Rightarrow> json \<Rightarrow> ('w, ownership_error + bool) proc) \<Rightarrow>
     ('w, ownership_error + bytes option) proc" where
  "load_kbs_value E resource_path missing =
     pbind (fetch_kbs_resource E resource_path) (\<lambda>fetched.
     case fetched of
       Inr (body, _, _) \<Rightarrow> ret (Inr (Some body))
     | Inl (_, error_json) \<Rightarrow>
         pthen (missing E resource_path error_json) (\<lambda>gone.
         ret (if gone then Inr None else Inl (owner_seed_unavailable_error error_json))))"

definition encrypted_path :: "'w env \<Rightarrow> string" where
  "encrypted_path E = trim (c_owner_seed_encrypted_kbs_path (e_config E))"

definition sealed_path :: "'w env \<Rightarrow> string" where
  "sealed_path E = trim (c_owner_seed_sealed_kbs_path (e_config E))"

definition load_owner_seed_material :: "'w env \<Rightarrow> ('w, ownership_error + owner_seed_material) proc" where
  "load_owner_seed_material E =
     (let backend = c_owner_ciphertext_backend (e_config E) in
      if backend = ''filesystem'' then load_owner_seed_material_from_files E
      else if backend = ''kubernetes-secret'' then secret_load_owner_seed_material E
      else if backend = ''kbs-resource'' then
        pthen (load_kbs_value E (encrypted_path E) cdh_missing_owner_seed_resource) (\<lambda>encrypted.
        pthen (load_kbs_value E (sealed_path E) cdh_missing_optional_sealed_owner_seed_resource) (\<lambda>sealed.
        ret (Inr \<lparr>om_encrypted = encrypted, om_sealed = sealed\<rparr>)))
      else ret (Inl (Store (''unsupported_owner_ciphertext_backend:'' @ backend))))"

section \<open>The state that follows from the material\<close>

definition material_observed :: "owner_seed_material \<Rightarrow> ownership_observation" where
  "material_observed material =
     \<lparr>encrypted_present = is_some (om_encrypted material), sealed_present = is_some (om_sealed material)\<rparr>"

definition evict_owner_seed_entries :: "'w env \<Rightarrow> ('w sys, unit) state" where
  "evict_owner_seed_entries E =
     State_Monad.bind (evict_kbs_cache_entry (encrypted_path E)) (\<lambda>_. evict_kbs_cache_entry (sealed_path E))"

definition settle_ownership_state :: "'w env \<Rightarrow> owner_seed_material \<Rightarrow> ('w, ownership_observation) proc" where
  "settle_ownership_state E material =
     (if is_some (om_encrypted material) \<or> is_some (om_sealed material) then
        call (on_guard E set_locked) (\<lambda>_. ret (material_observed material))
      else call (get_guard E) (\<lambda>g1.
        if is_unlocking g1 then ret (material_observed material)
        else call (get_guard E) (\<lambda>g2.
          if is_unclaimed g2 then
            call (on_guard E set_unclaimed_preserving_attempts) (\<lambda>_. ret (material_observed material))
          else call (on_guard E set_unclaimed) (\<lambda>_. ret (material_observed material)))))"

definition refresh_ownership_state :: "'w env \<Rightarrow> bool \<Rightarrow> ('w, ownership_error + ownership_observation) proc" where
  "refresh_ownership_state E force_refresh =
     call (gets s_guard) (\<lambda>g.
     if \<not> (is_password_mode g \<or> is_auto_unlock_mode g) then
       ret (Inr \<lparr>encrypted_present = False, sealed_present = False\<rparr>)
     else
       call (if force_refresh \<and> c_owner_ciphertext_backend (e_config E) = ''kbs-resource''
             then evict_owner_seed_entries E else State_Monad.return ()) (\<lambda>_.
       pthen (load_owner_seed_material E) (\<lambda>material.
       pbind (settle_ownership_state E material) (\<lambda>obs. ret (Inr obs)))))"

definition maybe_refresh_unclaimed_state :: "'w env \<Rightarrow> ('w, response option) proc" where
  "maybe_refresh_unclaimed_state E =
     call (get_guard E) (\<lambda>g.
     if \<not> is_unclaimed g then ret None
     else pbind (refresh_ownership_state E True) (\<lambda>r.
       ret (case r of
              Inl err \<Rightarrow> Some (json_response 503 (JObj [(''error'', JStr ''owner_seed_refresh_unavailable''),
                           (''detail'', JStr (error_to_string err))]))
            | Inr _ \<Rightarrow> None)))"

definition load_owner_seed_material_with_revalidation ::
  "'w env \<Rightarrow> ('w, ownership_error + owner_seed_material) proc" where
  "load_owner_seed_material_with_revalidation E =
     pthen (load_owner_seed_material E) (\<lambda>material.
     if is_some (om_encrypted material) \<or> c_owner_ciphertext_backend (e_config E) \<noteq> ''kbs-resource''
     then ret (Inr material)
     else pthen (refresh_ownership_state E True) (\<lambda>_. load_owner_seed_material E))"

section \<open>Updating\<close>

definition apply_kbs_owner_seed_update ::
  "'w env \<Rightarrow> string \<Rightarrow> escrow_value_update \<Rightarrow> bytes option \<Rightarrow> ('w, ownership_error + bool) proc" where
  "apply_kbs_owner_seed_update E resource_path upd previous =
     (case upd of
        Keep \<Rightarrow> ret (Inr False)
      | Remove \<Rightarrow>
          (if previous = None then ret (Inr False)
           else pthen (delete_kbs_workload_resource E resource_path) (\<lambda>_. ret (Inr True)))
      | SetValue bs \<Rightarrow>
          pthen (put_kbs_workload_resource E resource_path bs (if is_some previous then Replace else Create))
            (\<lambda>_. ret (Inr True)))"

definition restore_kbs_owner_seed_resource ::
  "'w env \<Rightarrow> string \<Rightarrow> bytes option \<Rightarrow> ('w, ownership_error + unit) proc" where
  "restore_kbs_owner_seed_resource E resource_path previous =
     (case previous of
        Some bs \<Rightarrow> put_kbs_workload_resource E resource_path bs Replace
      | None \<Rightarrow> pthen (delete_kbs_workload_resource E resource_path) (\<lambda>_. ret (Inr ())))"

definition update_failed :: "ownership_error \<Rightarrow> string" where
  "update_failed err = ''owner_seed_update_failed:'' @ error_to_string err"

definition update_owner_seed_material ::
  "'w env \<Rightarrow> escrow_value_update \<Rightarrow> escrow_value_update \<Rightarrow> ('w, ownership_error + unit) proc" where
  "update_owner_seed_material E encrypted sealed =
     (let backend = c_owner_ciphertext_backend (e_config E);
          epath = c_owner_seed_encrypted_kbs_path (e_config E);
          spath = c_owner_seed_sealed_kbs_path (e_config E) in
      if backend = ''filesystem'' then update_owner_seed_material_from_files E encrypted sealed
      else if backend = ''kubernetes-secret'' then secret_update_owner_seed_material E encrypted sealed
      else if backend = ''kbs-resource'' then
        pthen (load_owner_seed_material E) (\<lambda>previous.
        pthen (apply_kbs_owner_seed_update E epath encrypted (om_encrypted previous)) (\<lambda>encrypted_changed.
        pbind (apply_kbs_owner_seed_update E spath sealed (om_sealed previous)) (\<lambda>r.
        case r of
          Inr _ \<Rightarrow> ret (Inr ())
        | Inl err \<Rightarrow>
            if encrypted_changed then
              pbind (restore_kbs_owner_seed_resource E epath (om_encrypted previous)) (\<lambda>restored.
              case restored of
                Inl rollback_err \<Rightarrow>
                  ret (Inl (Store (update_failed err @ ''; rollback_failed:'' @ error_to_string rollback_err)))
              | Inr _ \<Rightarrow> ret (Inl (Store (update_failed err))))
            else ret (Inl (Store (update_failed err))))))
      else ret (Inl (Store (''unsupported_owner_ciphertext_backend:'' @ backend))))"

section \<open>What an observer sees\<close>

lemma advances_missing_by_probe [advance_rules]: "env_advances R E \<Longrightarrow> advances R (missing_by_probe E path what)"
  unfolding missing_by_probe_def by (intro advance_rules; (assumption | simp))

lemma advances_cdh_missing [advance_rules]:
  "env_advances R E \<Longrightarrow> advances R (cdh_missing_owner_seed_resource E path j)"
  "env_advances R E \<Longrightarrow> advances R (cdh_missing_optional_sealed_owner_seed_resource E path j)"
  unfolding cdh_missing_owner_seed_resource_def cdh_missing_optional_sealed_owner_seed_resource_def
  by (intro advance_rules; (assumption | simp))+

lemma advances_load_kbs_value [advance_rules]:
  "env_advances R E \<Longrightarrow> (\<And>p j. advances R (missing E p j)) \<Longrightarrow> advances R (load_kbs_value E path missing)"
  unfolding load_kbs_value_def by (intro advance_rules; (assumption | simp))

lemma advances_load_owner_seed_material [advance_rules]:
  "env_advances R E \<Longrightarrow> advances R (load_owner_seed_material E)"
  unfolding load_owner_seed_material_def by (intro advance_rules; (assumption | simp))

text \<open>The answer of an exchange carries a status.\<close>

definition answered :: "nat \<Rightarrow> http_error + http_response \<Rightarrow> bool" where
  "answered n r = (case r of Inr resp \<Rightarrow> hr_status resp = n | Inl e \<Rightarrow> he_status e = Some n)"

text \<open>A request to a URL was sent and its answer carried the status.\<close>

definition shown :: "'w trace \<Rightarrow> 'w sys \<Rightarrow> 'w sys \<Rightarrow> string \<Rightarrow> nat \<Rightarrow> bool" where
  "shown tr s t url n \<longleftrightarrow> (\<exists>q r. happened tr s t (Exchange q r) \<and> hq_url q = url \<and> answered n r)"

lemma shownI: "happened tr s t (Exchange q r) \<Longrightarrow> hq_url q = url \<Longrightarrow> answered n r \<Longrightarrow> shown tr s t url n"
  unfolding shown_def by blast

lemma shown_earlier: "prefix (tr (s_world s)) (tr (s_world t)) \<Longrightarrow> shown tr t u url n \<Longrightarrow> shown tr s u url n"
  unfolding shown_def using happened_earlier by blast

lemma shown_later: "shown tr s t url n \<Longrightarrow> prefix (tr (s_world t)) (tr (s_world u)) \<Longrightarrow> shown tr s u url n"
  unfolding shown_def using happened_later by blast

lemma fail_resource_result: "run_state (fail_resource E c key p) s = (Some r, t) \<Longrightarrow> r = Inl (502, p)"
  by (auto simp: fail_resource_def split: prod.splits option.splits)

lemma upstream_status_fields [simp]:
  "upstream_status (JObj kvs) = Option.bind (map_of kvs ''upstream_status'') as_u64"
  "upstream_status (jset (JObj kvs) k v) =
     (if k = ''upstream_status'' then as_u64 v else upstream_status (JObj kvs))"
  by (simp_all add: upstream_status_def update_conv')

lemma upstream_status_payload:
  "upstream_status (resource_error_payload url now e) = Some n \<Longrightarrow> he_status e = Some n"
  by (auto simp: resource_error_payload_def upstream_status_def Let_def update_conv' split: option.splits if_splits)

text \<open>Without a cached entry a failed read reports the status of its own exchange.\<close>

lemma fetch_uncached_error:
  assumes "observed E tr" "run_state (fetch_kbs_resource E key) s = (Some (Inl (code, j)), t)"
    "map_of (s_kbs_cache s) key = None" "upstream_status j = Some n"
  shows "shown tr s t (resource_url (e_config E) key) n"
proof -
  let ?q = "get_request (resource_url (e_config E) key) [(''Accept'', ''application/octet-stream'')] (Some (from_secs 20))"
  obtain now1 s1 where n1: "run_state (e_now E) s = (now1, s1)" by fastforce
  obtain now2 s2 where n2: "run_state (e_now E) s1 = (now2, s2)" by fastforce
  obtain r s3 where r: "run_state (e_http E ?q) s2 = (r, s3)" by fastforce
  have adv: "env_advances (log_grows tr) E" using assms(1) by (rule observed_advances)
  have "prefix (tr (s_world s)) (tr (s_world s2))"
    using advancesD [OF advances_env(3) [OF adv] n1] advancesD [OF advances_env(3) [OF adv] n2]
    by (rule prefix_order.trans)
  then have here: "happened tr s s3 (Exchange ?q r)"
    using observed_http [OF assms(1) r] by (rule happened_earlier)
  obtain p s4 where p: "prefix (tr (s_world s3)) (tr (s_world s4))" "run_state (fail_resource E (s_kbs_cache s) key p) s4 =
      (Some (Inl (code, j)), t)" "upstream_status p = Some n \<longrightarrow> answered n r"
  proof -
    obtain now s4 where now: "run_state (utc_now E) s3 = (now, s4)" by fastforce
    have pre: "prefix (tr (s_world s3)) (tr (s_world s4))"
      using advancesD [OF advances_utc_now [OF adv] now] .
    have "\<exists>p. run_state (fail_resource E (s_kbs_cache s) key p) s4 = (Some (Inl (code, j)), t) \<and>
        (upstream_status p = Some n \<longrightarrow> answered n r)"
      using assms(2,3) n1 n2 r now
      by (cases r) (auto simp: fetch_kbs_resource_def cached_resource_entry_def answered_def Let_def
          split: prod.splits sum.splits if_splits option.splits dest: upstream_status_payload)
    then show ?thesis using that pre by blast
  qed
  have "p = j" using fail_resource_result [OF p(2)] by simp
  then have "answered n r" using p(3) assms(4) by blast
  moreover have "prefix (tr (s_world s3)) (tr (s_world t))"
    using p(1) advancesD [OF advances_fail_resource [OF adv] p(2)] by (rule prefix_order.trans)
  with here have "happened tr s t (Exchange ?q r)" by (rule happened_later)
  moreover have "hq_url ?q = resource_url (e_config E) key" by (simp add: get_request_def)
  ultimately show ?thesis by (intro shownI)
qed

definition direct_resource_url :: "config \<Rightarrow> string \<Rightarrow> string" where
  "direct_resource_url cfg resource_path =
     trim_end_matches CHR ''/'' (c_kbs_resource_url cfg) @ ''/'' @ trim_start_matches CHR ''/'' resource_path"

lemma probe_shown:
  assumes "observed E tr" "run_state (probe_direct_kbs_resource_status E path) s = (Some (Inr n), t)"
  shows "shown tr s t (direct_resource_url (e_config E) path) n"
proof -
  obtain token s1 resp q where "run_state (fetch_kbs_bearer_token E) s = (Some (Inr token), s1)"
      and q: "run_state (e_http E q) s1 = (Inr resp, t)" "hr_status resp = n"
        "hq_url q = direct_resource_url (e_config E) path"
    using assms(2) by (auto simp: probe_direct_kbs_resource_status_def map_err_def get_request_def
        direct_resource_url_def split: prod.splits option.splits sum.splits)
  then have "prefix (tr (s_world s)) (tr (s_world s1))"
    using advancesD [OF advances_fetch_kbs_bearer_token [OF observed_advances [OF assms(1)]]] by blast
  then have "happened tr s t (Exchange q (Inr resp))"
    using observed_http [OF assms(1) q(1)] by (rule happened_earlier)
  then show ?thesis by (rule shownI) (simp_all add: q answered_def)
qed

lemma probe_refresh_shown:
  assumes "observed E tr"
    "run_state (probe_direct_kbs_resource_status_with_session_refresh E path) s = (Some (Inr n), t)"
  shows "shown tr s t (direct_resource_url (e_config E) path) n"
proof -
  have adv: "env_advances (log_grows tr) E" using assms(1) by (rule observed_advances)
  consider (first) "run_state (probe_direct_kbs_resource_status E path) s = (Some (Inr n), t)"
    | (second) s1 s2 where "run_state (probe_direct_kbs_resource_status E path) s = (Some (Inr 401), s1)"
        "run_state (invalidate_aa_cache E) s1 = ((), s2)"
        "run_state (probe_direct_kbs_resource_status E path) s2 = (Some (Inr n), t)"
    using assms(2) by (auto simp: probe_direct_kbs_resource_status_with_session_refresh_def
        split: prod.splits option.splits sum.splits if_splits)
  then show ?thesis
  proof cases
    case first
    then show ?thesis using probe_shown assms(1) by blast
  next
    case second
    have "prefix (tr (s_world s)) (tr (s_world s2))"
      using advancesD [OF advances_probe [OF adv] second(1)] advancesD [OF advances_invalidate_aa_cache [OF adv] second(2)]
      by (rule prefix_order.trans)
    then show ?thesis using probe_shown [OF assms(1) second(3)] by (rule shown_earlier)
  qed
qed

lemma missing_by_probe_shown:
  assumes "observed E tr" "run_state (missing_by_probe E path what) s = (Some (Inr True), t)"
  shows "shown tr s t (direct_resource_url (e_config E) path) 404"
proof -
  have "run_state (probe_direct_kbs_resource_status_with_session_refresh E path) s = (Some (Inr 404), t)"
    using assms(2) by (auto simp: missing_by_probe_def map_err_def split: prod.splits option.splits sum.splits if_splits)
  from probe_refresh_shown [OF assms(1) this] show ?thesis .
qed

text \<open>A value counts as absent only on a 404 for its own path, from the local agent or, behind a
  500 of the agent, from the broker.\<close>

abbreviation absence_shown :: "'w env \<Rightarrow> 'w trace \<Rightarrow> 'w sys \<Rightarrow> 'w sys \<Rightarrow> string \<Rightarrow> bool" where
  "absence_shown E tr s t path \<equiv>
     shown tr s t (resource_url (e_config E) path) 404 \<or>
     shown tr s t (resource_url (e_config E) path) 500 \<and> shown tr s t (direct_resource_url (e_config E) path) 404"

lemma load_kbs_value_absent:
  assumes "observed E tr" "map_of (s_kbs_cache s) path = None"
    "run_state (load_kbs_value E path missing) s = (Some (Inr None), t)"
    "\<And>E j. missing E path j = (if upstream_status j = Some 404 then ret (Inr True)
       else if upstream_status j \<noteq> Some 500 then ret (Inr False) else missing_by_probe E path what)"
  shows "absence_shown E tr s t path"
proof -
  have adv: "env_advances (log_grows tr) E" using assms(1) by (rule observed_advances)
  obtain code j s1 where f: "run_state (fetch_kbs_resource E path) s = (Some (Inl (code, j)), s1)"
      and m: "run_state (missing E path j) s1 = (Some (Inr True), t)"
    using assms(3) by (auto simp: load_kbs_value_def split: prod.splits option.splits sum.splits if_splits)
  have pre: "prefix (tr (s_world s)) (tr (s_world s1))"
    using advancesD [OF advances_fetch_kbs_resource [OF adv] f] .
  note own = fetch_uncached_error [OF assms(1) f assms(2)]
  show ?thesis
  proof (cases "upstream_status j = Some 404")
    case True
    then have "t = s1" using m assms(4) by simp
    with own [OF True] show ?thesis by simp
  next
    case False
    then have j: "upstream_status j = Some 500" "run_state (missing_by_probe E path what) s1 = (Some (Inr True), t)"
      using m assms(4) by (auto split: if_splits)
    have "shown tr s t (direct_resource_url (e_config E) path) 404"
      using pre missing_by_probe_shown [OF assms(1) j(2)] by (rule shown_earlier)
    moreover have "shown tr s t (resource_url (e_config E) path) 500"
      using own [OF j(1)] advancesD [OF advances_missing_by_probe [OF adv] j(2)] by (rule shown_later)
    ultimately show ?thesis by blast
  qed
qed

section \<open>The steps of a refresh\<close>

lemma refresh_steps:
  assumes "is_password_mode (s_guard s) \<or> is_auto_unlock_mode (s_guard s)"
    "run_state (refresh_ownership_state E force_refresh) s = (Some r, t)"
  shows "\<exists>m s1 s2. s_guard s1 = s_guard s \<and> run_state (load_owner_seed_material E) s1 = (Some m, s2) \<and>
    (case m of Inl e \<Rightarrow> r = Inl e \<and> t = s2
      | Inr material \<Rightarrow> \<exists>obs. run_state (settle_ownership_state E material) s2 = (Some obs, t) \<and> r = Inr obs)"
proof -
  define s1 where "s1 = snd (run_state (if force_refresh \<and> c_owner_ciphertext_backend (e_config E) = ''kbs-resource''
    then evict_owner_seed_entries E else State_Monad.return ()) s)"
  have g: "s_guard s1 = s_guard s" by (simp add: s1_def evict_owner_seed_entries_def evict_kbs_cache_entry_def)
  have ev: "run_state (if force_refresh \<and> c_owner_ciphertext_backend (e_config E) = ''kbs-resource''
    then evict_owner_seed_entries E else State_Monad.return ()) s = ((), s1)" by (simp add: s1_def prod_eq_iff)
  obtain m s2 where l: "run_state (load_owner_seed_material E) s1 = (m, s2)" by fastforce
  obtain v where v: "m = Some v" "case v of Inl e \<Rightarrow> r = Inl e \<and> t = s2
      | Inr material \<Rightarrow> \<exists>obs. run_state (settle_ownership_state E material) s2 = (Some obs, t) \<and> r = Inr obs"
    using assms ev l by (auto simp: refresh_ownership_state_def simp del: run_bind split: prod.splits option.splits sum.splits)
  then show ?thesis using g l by blast
qed

lemma refresh_evicts:
  assumes "c_owner_ciphertext_backend (e_config E) = ''kbs-resource''"
    "is_password_mode (s_guard s) \<or> is_auto_unlock_mode (s_guard s)"
    "run_state (refresh_ownership_state E True) s = (Some (Inr obs), t)"
  shows "\<exists>s1 material s2. s_world s1 = s_world s \<and> map_of (s_kbs_cache s1) (encrypted_path E) = None \<and>
    run_state (load_owner_seed_material E) s1 = (Some (Inr material), s2) \<and>
    run_state (settle_ownership_state E material) s2 = (Some obs, t)"
proof -
  define s1 where "s1 = snd (run_state (evict_owner_seed_entries E) s)"
  have "s_world s1 = s_world s" "map_of (s_kbs_cache s1) (encrypted_path E) = None"
    by (simp_all add: s1_def evict_owner_seed_entries_def evict_kbs_cache_entry_def delete_conv')
  moreover have "run_state (evict_owner_seed_entries E) s = ((), s1)" by (simp add: s1_def prod_eq_iff)
  ultimately show ?thesis using assms
    by (auto simp: refresh_ownership_state_def split: prod.splits option.splits sum.splits intro!: exI [of _ s1])
qed

lemma settle_observation: "run_state (settle_ownership_state E material) s = (Some obs, t) \<Longrightarrow> obs = material_observed material"
  by (auto simp: settle_ownership_state_def split: if_splits prod.splits)

lemma advances_settle_log: "env_advances (log_grows tr) E \<Longrightarrow> advances (log_grows tr) (settle_ownership_state E material)"
  unfolding settle_ownership_state_def by (intro advance_rules; (assumption | simp))

lemma load_kbs_parts:
  assumes "env_advances (log_grows tr) E" "c_owner_ciphertext_backend (e_config E) = ''kbs-resource''"
    "run_state (load_owner_seed_material E) s = (Some (Inr material), t)"
  shows "\<exists>s1. run_state (load_kbs_value E (encrypted_path E) cdh_missing_owner_seed_resource) s =
      (Some (Inr (om_encrypted material)), s1) \<and> prefix (tr (s_world s1)) (tr (s_world t))"
proof -
  obtain enc s1 sealed where e: "run_state (load_kbs_value E (encrypted_path E) cdh_missing_owner_seed_resource) s = (Some (Inr enc), s1)"
    and s: "run_state (load_kbs_value E (sealed_path E) cdh_missing_optional_sealed_owner_seed_resource) s1 = (Some (Inr sealed), t)"
      "material = \<lparr>om_encrypted = enc, om_sealed = sealed\<rparr>"
    using assms(2,3) by (auto simp: load_owner_seed_material_def split: prod.splits option.splits sum.splits)
  have "prefix (tr (s_world s1)) (tr (s_world t))"
    by (rule advancesD [OF advances_load_kbs_value s(1)]) (intro advance_rules assms(1))+
  with e s(2) show ?thesis by simp
qed

section \<open>Accepted writes\<close>

definition put_accepted :: "'w env \<Rightarrow> 'w trace \<Rightarrow> 'w sys \<Rightarrow> 'w sys \<Rightarrow> string \<Rightarrow> bool" where
  "put_accepted E tr s t path \<longleftrightarrow> (\<exists>envelope mode token resp.
     happened tr s t (Exchange (put_request (e_config E) path envelope mode token) (Inr resp)) \<and> is_success (hr_status resp))"

lemma put_accepted_within:
  assumes "prefix (tr (s_world s)) (tr (s_world s1))" "put_accepted E tr s1 s2 path" "prefix (tr (s_world s2)) (tr (s_world t))"
  shows "put_accepted E tr s t path"
  using assms unfolding put_accepted_def by (blast intro: happened_earlier happened_later)

lemma apply_update_accepted:
  assumes "observed E tr" "run_state (apply_kbs_owner_seed_update E path (SetValue bs) prev) s = (Some (Inr b), t)"
  shows "put_accepted E tr s t path"
proof -
  obtain mode where "run_state (put_kbs_workload_resource E path bs mode) s = (Some (Inr ()), t)"
    using assms(2) by (auto simp: apply_kbs_owner_seed_update_def split: prod.splits option.splits sum.splits)
  from put_acknowledged [OF assms(1) this] show ?thesis unfolding put_accepted_def by blast
qed

lemma advances_put_kbs_workload_resource [advance_rules]:
  "env_advances R E \<Longrightarrow> advances R (put_kbs_workload_resource E path bs mode)"
  unfolding put_kbs_workload_resource_def by (intro advance_rules; (assumption | simp))

lemma advances_delete_kbs_workload_resource [advance_rules]:
  "env_advances R E \<Longrightarrow> advances R (delete_kbs_workload_resource E path)"
  unfolding delete_kbs_workload_resource_def by (intro advance_rules; (assumption | simp))

lemma advances_apply_update [advance_rules]:
  "env_advances R E \<Longrightarrow> advances R (apply_kbs_owner_seed_update E path upd prev)"
  unfolding apply_kbs_owner_seed_update_def
  by (cases upd) (simp_all add: advance_rules)

section \<open>Properties\<close>

text \<open>C19. The state follows the material. A refresh that finds a password envelope or a legacy
  sealed copy leaves the pod locked, whatever the state was and whatever other requests do; one
  that finds neither leaves it claimable, or in the hands of the operation that is unlocking it.
  A refresh that fails makes no claim about the state: with no other request at work the
  machine is exactly what it was.\<close>

theorem refresh_follows_material:
  assumes "is_password_mode (s_guard s) \<or> is_auto_unlock_mode (s_guard s)"
    "run_state (refresh_ownership_state E force_refresh) s = (Some r, t)"
  shows "case r of
      Inr obs \<Rightarrow> (if encrypted_present obs \<or> sealed_present obs then current_state (s_guard t) = Locked
                 else current_state (s_guard t) \<in> {Unclaimed, Unlocking})
    | Inl e \<Rightarrow> (undisturbed E \<longrightarrow> s_guard t = s_guard s)"
proof -
  obtain m s1 s2 where l: "s_guard s1 = s_guard s" "run_state (load_owner_seed_material E) s1 = (Some m, s2)"
    and rest: "case m of Inl e \<Rightarrow> r = Inl e \<and> t = s2
      | Inr material \<Rightarrow> \<exists>obs. run_state (settle_ownership_state E material) s2 = (Some obs, t) \<and> r = Inr obs"
    using refresh_steps [OF assms] by blast
  show ?thesis
  proof (cases m)
    case (Inl e)
    then have "undisturbed E \<Longrightarrow> s_guard s2 = s_guard s1"
      by (intro undisturbedD [OF _ advances_load_owner_seed_material l(2)])
    with Inl rest l(1) show ?thesis by simp
  next
    case (Inr material)
    with rest obtain obs where "run_state (settle_ownership_state E material) s2 = (Some obs, t)" "r = Inr obs" by auto
    then show ?thesis
      by (auto simp: settle_ownership_state_def material_observed_def is_unlocking_def split: if_splits prod.splits)
  qed
qed

text \<open>C18. A pod is reported to have no password envelope only on evidence: under the key-broker
  backend a forced refresh concludes that the envelope is absent only when, during this very
  refresh, the agent answered 404 for its path, or answered 500 and the broker itself answered
  404. No timeout, authorization failure or other error leads there.\<close>

theorem absent_only_on_404:
  assumes "observed E tr" "c_owner_ciphertext_backend (e_config E) = ''kbs-resource''"
    "is_password_mode (s_guard s) \<or> is_auto_unlock_mode (s_guard s)"
    "run_state (refresh_ownership_state E True) s = (Some (Inr obs), t)" "\<not> encrypted_present obs"
  shows "absence_shown E tr s t (encrypted_path E)"
proof -
  have adv: "env_advances (log_grows tr) E" using assms(1) by (rule observed_advances)
  obtain s1 material s2 where l: "s_world s1 = s_world s" "map_of (s_kbs_cache s1) (encrypted_path E) = None"
      "run_state (load_owner_seed_material E) s1 = (Some (Inr material), s2)"
      "run_state (settle_ownership_state E material) s2 = (Some obs, t)"
    using refresh_evicts [OF assms(2-4)] by blast
  have "om_encrypted material = None" using settle_observation [OF l(4)] assms(5)
    by (simp add: material_observed_def is_some_iff)
  then obtain s3 where e: "run_state (load_kbs_value E (encrypted_path E) cdh_missing_owner_seed_resource) s1 = (Some (Inr None), s3)"
      and "prefix (tr (s_world s3)) (tr (s_world s2))"
    using load_kbs_parts [OF adv assms(2) l(3)] by auto
  moreover have "prefix (tr (s_world s2)) (tr (s_world t))" by (rule advancesD [OF advances_settle_log [OF adv] l(4)])
  ultimately have after: "prefix (tr (s_world s3)) (tr (s_world t))" by (blast intro: prefix_order.trans)
  have "absence_shown E tr s1 s3 (encrypted_path E)"
    by (rule load_kbs_value_absent [OF assms(1) l(2) e])
      (simp add: cdh_missing_owner_seed_resource_def is_missing_owner_seed_resource_def)
  then have "absence_shown E tr s1 t (encrypted_path E)" using shown_later [OF _ after] by blast
  then show ?thesis by (simp add: shown_def happened_def l(1))
qed


section \<open>Concrete runs\<close>

definition seed_config :: config where
  "seed_config = demo_config\<lparr>c_owner_seed_encrypted_kbs_path := ''default/a/seed'',
     c_kbs_resource_cache_seconds := Finite 0, c_kbs_resource_failure_cache_seconds := Finite 0\<rparr>"

abbreviation gone_env :: "event list env" where
  "gone_env \<equiv> demo_env (\<lambda>_. ok_response 404 []) seed_config"

lemma seed_config_sel [simp]:
  "c_owner_seed_encrypted_kbs_path seed_config = ''default/a/seed''" "c_instance_id seed_config = ''inst-1''"
  "c_kbs_resource_cache_seconds seed_config = Finite 0" "c_kbs_resource_failure_cache_seconds seed_config = Finite 0"
  "c_owner_ciphertext_backend seed_config = ''kbs-resource''"
  by (simp_all add: seed_config_def demo_config_def from_env_def env_or_def)

lemma demo_load_gone:
  assumes "missing = cdh_missing_owner_seed_resource \<or> missing = cdh_missing_optional_sealed_owner_seed_resource"
  shows "\<exists>w. run_state (load_kbs_value gone_env path missing) (demo_sys\<lparr>s_world := v\<rparr>) =
    (Some (Inr None), demo_sys\<lparr>s_world := w\<rparr>)"
  using assms
  by (auto simp: load_kbs_value_def fetch_kbs_resource_def cached_resource_entry_def ok_response_def Let_def
      demo_timestamp fail_resource_def store_resource_error_def cache_put_def cdh_missing_owner_seed_resource_def
      cdh_missing_optional_sealed_owner_seed_resource_def is_missing_owner_seed_resource_def
      is_optional_sealed_owner_seed_resource_missing_def demo_sys_def)

lemma demo_mode: "is_password_mode (s_guard demo_sys)"
  by (simp add: demo_sys_def guard_new_def new_with_signal_dir_def is_password_mode_def parse_mode_def)

lemma demo_refresh_gone:
  "\<exists>t. run_state (refresh_ownership_state gone_env True) demo_sys =
     (Some (Inr \<lparr>encrypted_present = False, sealed_present = False\<rparr>), t)"
proof -
  have ev: "run_state (evict_owner_seed_entries gone_env) demo_sys = ((), demo_sys)"
    by (simp add: evict_owner_seed_entries_def evict_kbs_cache_entry_def demo_sys_def)
  obtain w where w: "run_state (load_kbs_value gone_env (encrypted_path gone_env) cdh_missing_owner_seed_resource) demo_sys =
      (Some (Inr None), demo_sys\<lparr>s_world := w\<rparr>)"
    using demo_load_gone [of _ _ "[]"] by (auto simp: demo_sys_def)
  obtain w' where w': "run_state (load_kbs_value gone_env (sealed_path gone_env) cdh_missing_optional_sealed_owner_seed_resource)
      (demo_sys\<lparr>s_world := w\<rparr>) = (Some (Inr None), demo_sys\<lparr>s_world := w'\<rparr>)"
    using demo_load_gone by blast
  have "run_state (load_owner_seed_material gone_env) demo_sys =
      (Some (Inr \<lparr>om_encrypted = None, om_sealed = None\<rparr>), demo_sys\<lparr>s_world := w'\<rparr>)"
    by (simp add: load_owner_seed_material_def w w')
  then show ?thesis
    using demo_mode by (simp add: refresh_ownership_state_def ev settle_ownership_state_def material_observed_def)
qed

theorem refresh_follows_material_witness:
  "\<exists>t. run_state (refresh_ownership_state gone_env True) demo_sys =
     (Some (Inr \<lparr>encrypted_present = False, sealed_present = False\<rparr>), t) \<and>
     current_state (s_guard t) \<in> {Unclaimed, Unlocking}"
proof -
  obtain t where t: "run_state (refresh_ownership_state gone_env True) demo_sys =
      (Some (Inr \<lparr>encrypted_present = False, sealed_present = False\<rparr>), t)"
    using demo_refresh_gone by blast
  from refresh_follows_material [OF disjI1 [OF demo_mode] t] t show ?thesis by simp
qed

theorem absent_only_on_404_witness:
  "\<exists>t. absence_shown gone_env id demo_sys t (encrypted_path gone_env)"
proof -
  obtain t where "run_state (refresh_ownership_state gone_env True) demo_sys =
      (Some (Inr \<lparr>encrypted_present = False, sealed_present = False\<rparr>), t)"
    using demo_refresh_gone by blast
  from absent_only_on_404 [OF demo_observed _ disjI1 [OF demo_mode] this] show ?thesis by auto
qed

lemma demo_load_present:
  "\<exists>w. run_state (load_kbs_value (demo_env (demo_answer 200) seed_config) path missing) (demo_sys\<lparr>s_world := v\<rparr>) =
     (Some (Inr (Some [116])), demo_sys\<lparr>s_world := w\<rparr>)"
  by (auto simp: load_kbs_value_def fetch_kbs_resource_def cached_resource_entry_def ok_response_def Let_def demo_answer_def
      store_resource_success_def cache_put_def demo_sys_def get_request_def)


end
