(* ===== verification/Rate_Window.thy ===== *)
theory Rate_Window
  imports Prelude
begin

text \<open>
  Sliding-window rate limits. A limiter keeps the times it admitted requests at and admits one
  only when fewer than \<open>limit\<close> of them are younger than \<open>width\<close>. The contract is the locale
  \<open>rate_limiter\<close>, proved once to bound every window of every run; the limits of the proof
  endpoint are interpretations.
\<close>

definition in_span :: "duration \<Rightarrow> instant \<Rightarrow> instant \<Rightarrow> bool" where
  "in_span width t x \<longleftrightarrow> t \<le> x \<and> x < t + width"

definition span_ok :: "duration \<Rightarrow> nat \<Rightarrow> instant list \<Rightarrow> bool" where
  "span_ok width limit lg \<longleftrightarrow> (\<forall>t. length (filter (in_span width t) lg) \<le> limit)"

lemma span_ok_snoc:
  assumes "span_ok width limit lg" "list_all (\<lambda>x. x \<le> now) lg"
    "length (filter (\<lambda>x. now - x < width) lg) < limit"
  shows "span_ok width limit (lg @ [now])"
  unfolding span_ok_def
proof
  fix t
  show "length (filter (in_span width t) (lg @ [now])) \<le> limit"
  proof (cases "in_span width t now")
    case False
    with assms(1) show ?thesis by (simp add: span_ok_def)
  next
    case True
    have "length (filter (in_span width t) lg) \<le> length (filter (\<lambda>x. now - x < width) lg)"
      using True assms(2) by (intro length_filter_mono) (auto simp: in_span_def list_all_iff)
    then show ?thesis using True assms(3) by simp
  qed
qed

text \<open>A run of requests with their times, and the requests that were admitted.\<close>

fun admit_run :: "('q \<Rightarrow> instant \<Rightarrow> 's \<Rightarrow> bool \<times> 's) \<Rightarrow> ('q \<times> instant) list \<Rightarrow> 's \<Rightarrow> ('q \<times> instant) list" where
  "admit_run admit [] s = []"
| "admit_run admit ((q, now) # qs) s =
     (case admit q now s of (ok, s1) \<Rightarrow> (if ok then [(q, now)] else []) @ admit_run admit qs s1)"

locale rate_limiter =
  fixes admit :: "'q \<Rightarrow> instant \<Rightarrow> 's \<Rightarrow> bool \<times> 's"
    and inv :: "'s \<Rightarrow> bool"
    and counts :: "'q \<Rightarrow> bool"
    and recorded :: "'s \<Rightarrow> instant list"
    and width :: duration
    and limit :: nat
  assumes width_pos: "0 < width"
    and inv_admit: "inv s \<Longrightarrow> inv (snd (admit q now s))"
    and admit_below: "inv s \<Longrightarrow> counts q \<Longrightarrow> fst (admit q now s) \<Longrightarrow>
      length (filter (\<lambda>x. now - x < width) (recorded s)) < limit"
    and recorded_admit: "inv s \<Longrightarrow> recorded (snd (admit q now s)) =
      filter (\<lambda>x. now - x < width) (recorded s) @ (if fst (admit q now s) \<and> counts q then [now] else [])"
begin

definition counted :: "('q \<times> instant) list \<Rightarrow> instant list" where
  "counted qs = map snd (filter (\<lambda>(q, _). counts q) qs)"

lemma run_within:
  assumes "inv s" "recorded s = filter (\<lambda>x. now - x < width) lg" "list_all (\<lambda>x. x \<le> now) lg" "span_ok width limit lg"
    "sorted (now # map snd qs)"
  shows "span_ok width limit (lg @ counted (admit_run admit qs s))"
  using assms
proof (induction qs arbitrary: s now lg)
  case Nil
  then show ?case by (simp add: counted_def)
next
  case (Cons qn qs)
  obtain q n where qn: "qn = (q, n)" by (cases qn)
  obtain ok s1 where a: "admit q n s = (ok, s1)" by (cases "admit q n s")
  let ?lg = "lg @ (if ok \<and> counts q then [n] else [])"
  have le: "now \<le> n" "sorted (n # map snd qs)" using Cons.prems(5) qn by auto
  have old: "filter (\<lambda>x. n - x < width) (recorded s) = filter (\<lambda>x. n - x < width) lg"
    using Cons.prems(2,3) le(1) by (auto simp: list_all_iff intro!: filter_cong)
  have ge: "list_all (\<lambda>x. x \<le> n) lg" using Cons.prems(3) le(1) by (auto simp: list_all_iff)
  have "span_ok width limit ?lg"
    using span_ok_snoc [OF Cons.prems(4) ge] admit_below [OF Cons.prems(1), of q n] a old Cons.prems(4) by auto
  moreover have "recorded s1 = filter (\<lambda>x. n - x < width) ?lg"
    using recorded_admit [OF Cons.prems(1), of q n] a old width_pos by simp
  moreover have "list_all (\<lambda>x. x \<le> n) ?lg" using ge by simp
  moreover have "inv s1" using inv_admit [OF Cons.prems(1), of q n] a by simp
  ultimately have "span_ok width limit (?lg @ counted (admit_run admit qs s1))"
    using Cons.IH le(2) by blast
  then show ?case using a qn by (auto simp: counted_def split: if_splits)
qed

theorem run_bounded:
  assumes "inv s" "recorded s = []" "sorted (map snd qs)"
  shows "length (filter (in_span width t) (counted (admit_run admit qs s))) \<le> limit"
  using run_within [of s 0 "[]" qs] assms by (simp add: span_ok_def)

end

end
