(* ===== verification/Bootstrap.thy ===== *)
theory Bootstrap
  imports Kbs Owner_Crypto Rate_Window
begin

text \<open>
  The first part of \<open>handlers.rs\<close>: the rate limit of the proof endpoint, the decoders of
  binary request fields, the transcript bound into the attestation report, the queue of
  bootstrap challenges, the check of a bootstrap signature, the attested identity and the
  signed audit line.
\<close>

section \<open>Rate limit of the proof endpoint\<close>

definition PROOF_PER_SOURCE_PER_MINUTE :: nat where "PROOF_PER_SOURCE_PER_MINUTE = 6"
definition PROOF_GLOBAL_PER_MINUTE :: nat where "PROOF_GLOBAL_PER_MINUTE = 30"

definition seen_recently :: "instant \<Rightarrow> instant \<Rightarrow> bool" where
  "seen_recently now seen \<longleftrightarrow> now - seen < from_secs 60"

text \<open>The map of sources is an association list; its order is of no consequence.\<close>

definition retain_recent :: "instant \<Rightarrow> proof_rate \<Rightarrow> proof_rate" where
  "retain_recent now r =
     \<lparr>pr_global = filter (seen_recently now) (pr_global r),
      pr_sources = filter (\<lambda>(_, seen). seen \<noteq> [])
        (map (\<lambda>(source, seen). (source, filter (seen_recently now) seen)) (pr_sources r))\<rparr>"

definition source_window :: "proof_rate \<Rightarrow> string \<Rightarrow> instant list" where
  "source_window r source = (case map_of (pr_sources r) source of Some seen \<Rightarrow> seen | None \<Rightarrow> [])"

definition allow :: "string \<Rightarrow> instant \<Rightarrow> proof_rate \<Rightarrow> bool \<times> proof_rate" where
  "allow source now r =
     (let r = retain_recent now r; window = source_window r source in
      if PROOF_GLOBAL_PER_MINUTE \<le> length (pr_global r) \<or> PROOF_PER_SOURCE_PER_MINUTE \<le> length window
      then (False, r\<lparr>pr_sources := AList.update source window (pr_sources r)\<rparr>)
      else (True, \<lparr>pr_global = pr_global r @ [now],
                   pr_sources = AList.update source (window @ [now]) (pr_sources r)\<rparr>))"

section \<open>Request bodies and errors\<close>

definition receipt_error_response :: "receipt_error \<Rightarrow> response" where
  "receipt_error_response err = json_response 400 (JObj [(''error'', JStr (receipt_error_to_string err))])"

section \<open>Binary fields\<close>

text \<open>\<open>u8::from_str_radix\<close> of two bytes: a leading plus sign is skipped.\<close>

definition from_str_radix_16 :: "u8 \<Rightarrow> u8 \<Rightarrow> u8 option" where
  "from_str_radix_16 h l =
     (if h = 43 then hex_nibble l
      else Option.bind (hex_nibble h) (\<lambda>hi. map_option (\<lambda>lo. hi * 16 + lo) (hex_nibble l)))"

text \<open>\<open>or_else\<close> on results.\<close>

definition or_else :: "'e + 'a \<Rightarrow> 'f + 'a \<Rightarrow> 'f + 'a" where
  "or_else x y = (case x of Inr v \<Rightarrow> Inr v | Inl _ \<Rightarrow> y)"

definition decode_base64_bytes :: "externals \<Rightarrow> string \<Rightarrow> bytes option" where
  "decode_base64_bytes X val =
     (let trimmed = trim val;
          padded = trimmed @ replicate ((4 - length trimmed mod 4) mod 4) CHR ''=''
      in res_ok (or_else (x_b64url_decode X trimmed)
           (or_else (x_b64url_pad_decode X padded) (x_b64_decode X trimmed))))"

definition decode_fixed32_base64 :: "externals \<Rightarrow> string \<Rightarrow> string \<Rightarrow> string + bytes" where
  "decode_fixed32_base64 X val field =
     res_bind (ok_or (field @ ''_base64_invalid'') (decode_base64_bytes X val)) (\<lambda>bs.
     if length bs = 32 then Inr bs else Inl (field @ ''_length_invalid:'' @ show_nat (length bs)))"

fun hex32_pairs :: "string \<Rightarrow> bytes \<Rightarrow> string + bytes" where
  "hex32_pairs field (h # l # rest) =
     res_bind (ok_or (field @ ''_hex_invalid'') (from_utf8 [h, l])) (\<lambda>_.
     res_bind (ok_or (field @ ''_hex_invalid'') (from_str_radix_16 h l)) (\<lambda>v.
     res_bind (hex32_pairs field rest) (\<lambda>vs. Inr (v # vs))))"
| "hex32_pairs field _ = Inr []"

definition decode_hex32 :: "string \<Rightarrow> string \<Rightarrow> string + bytes" where
  "decode_hex32 val field =
     (let trimmed = trim val in
      if length trimmed \<noteq> 64 then Inl (field @ ''_length_invalid:'' @ show_nat (length trimmed))
      else hex32_pairs field (as_bytes trimmed))"

definition decode_sha256_field :: "externals \<Rightarrow> string \<Rightarrow> string \<Rightarrow> string + bytes" where
  "decode_sha256_field X val field =
     (let trimmed = trim val in
      if length trimmed = 64 \<and> list_all is_ascii_hexdigit trimmed then decode_hex32 trimmed field
      else decode_fixed32_base64 X trimmed field)"

text \<open>The text of \<open>Utf8Error\<close> for two bytes that are not a string of their own.\<close>

definition utf8_error_text :: "u8 \<Rightarrow> u8 \<Rightarrow> string" where
  "utf8_error_text a b =
     (let lead = (\<lambda>x :: u8. 194 \<le> x \<and> x \<le> 244);
          second = (\<lambda>x y :: u8. if x = 224 then 160 \<le> y \<and> y \<le> 191 else if x = 237 then 128 \<le> y \<and> y \<le> 159
                      else if x = 240 then 144 \<le> y \<and> y \<le> 191 else if x = 244 then 128 \<le> y \<and> y \<le> 143
                      else 224 \<le> x \<and> 128 \<le> y \<and> y \<le> 191)
      in if a < 128 then
           (if lead b then ''incomplete utf-8 byte sequence from index 1''
            else ''invalid utf-8 sequence of 1 bytes from index 1'')
         else if lead a \<and> second a b then ''incomplete utf-8 byte sequence from index 0''
         else ''invalid utf-8 sequence of 1 bytes from index 0'')"

fun decode_hex_pairs :: "bytes \<Rightarrow> ownership_error + bytes" where
  "decode_hex_pairs (h # l # rest) =
     (let failed = (\<lambda>t. Envelope (''binary_decode_failed:'' @ t)) in
      res_bind (ok_or (failed (utf8_error_text h l)) (from_utf8 [h, l])) (\<lambda>_.
      res_bind (ok_or (failed ''invalid digit found in string'') (from_str_radix_16 h l)) (\<lambda>v.
      res_bind (decode_hex_pairs rest) (\<lambda>vs. Inr (v # vs)))))"
| "decode_hex_pairs _ = Inr []"

definition decode_binary_field :: "externals \<Rightarrow> string \<Rightarrow> ownership_error + bytes" where
  "decode_binary_field X val =
     (let trimmed = trim val in
      or_else (x_b64url_decode X trimmed)
        (or_else (x_b64_decode X trimmed)
          (if odd (length trimmed) then Inl (Envelope ''binary_decode_failed:hex_length_invalid'')
           else decode_hex_pairs (as_bytes trimmed))))"

section \<open>The attested transcript\<close>

definition validate_attestation_domain :: "string \<Rightarrow> string + string" where
  "validate_attestation_domain val =
     (let domain = to_ascii_lowercase (trim val) in
      if domain \<noteq> [] \<and> length domain \<le> 253 \<and> \<not> starts_with ''.'' domain \<and> \<not> ends_with ''.'' domain \<and>
         list_all (\<lambda>c. is_ascii_alphanumeric c \<or> c = CHR ''.'' \<or> c = CHR ''-'') domain
      then Inr domain else Inl ''domain_invalid'')"

definition tee_tls_transcript_hash :: "externals \<Rightarrow> string \<Rightarrow> bytes \<Rightarrow> bytes \<Rightarrow> bytes option" where
  "tee_tls_transcript_hash X domain nonce leaf_spki_sha256 =
     ce_v1_hash (x_sha256 X) [(''purpose'', as_bytes ''enclava-tee-tls-v1''), (''domain'', as_bytes domain),
       (''nonce'', nonce), (''leaf_spki_sha256'', leaf_spki_sha256)]"

definition build_report_data :: "externals \<Rightarrow> string \<Rightarrow> bytes \<Rightarrow> bytes \<Rightarrow> bytes \<Rightarrow> bytes option" where
  "build_report_data X domain nonce leaf_spki_sha256 receipt_pubkey_sha256 =
     Option.bind (tee_tls_transcript_hash X domain nonce leaf_spki_sha256) (\<lambda>transcript_hash.
     Option.bind (ce_v1_hash (x_sha256 X) [(''purpose'', as_bytes ''enclava-tee-report-data-v1''),
       (''transcript_hash'', transcript_hash), (''receipt_pubkey_sha256'', receipt_pubkey_sha256)]) (\<lambda>binding_hash.
     Some (as_bytes (hex_lower binding_hash))))"

section \<open>Limits on secret operations\<close>

definition rate_limited_response :: response where
  "rate_limited_response = json_response 429 (JObj [(''error'', JStr ''rate_limited''), (''retry_after'', JInt 60)])"

definition begin_rate_limited_secret_operation :: "'w env \<Rightarrow> ('w, response option) proc" where
  "begin_rate_limited_secret_operation E =
     call (guard_call_at E begin_secret_operation_attempt) (\<lambda>r.
     ret (case r of
            Inr _ \<Rightarrow> None
          | Inl RateLimited \<Rightarrow> Some rate_limited_response
          | Inl err \<Rightarrow> Some (json_response 500 (JObj [(''error'', JStr ''operation_failed''),
              (''detail'', JStr (error_to_string err))]))))"

definition owner_seed_handoff_slots :: "config \<Rightarrow> string list" where
  "owner_seed_handoff_slots cfg =
     (let slots = filter (\<lambda>slot. slot = SIGNAL_APP_DATA_SLOT \<or> slot = SIGNAL_TLS_DATA_SLOT)
                    (c_owner_seed_handoff_slots cfg)
      in if slots = [] then [SIGNAL_APP_DATA_SLOT, SIGNAL_TLS_DATA_SLOT] else slots)"

section \<open>Bootstrap challenges\<close>

type_synonym challenges = "bootstrap_challenge list"

definition prune_bootstrap_challenges :: "instant \<Rightarrow> challenges \<Rightarrow> challenges" where
  "prune_bootstrap_challenges now cs = dropWhile (\<lambda>c. expires_at c \<le> now) cs"

definition push_challenge :: "instant \<Rightarrow> string \<Rightarrow> instant \<Rightarrow> challenges \<Rightarrow> challenges" where
  "push_challenge now challenge expiry cs =
     (let cs = prune_bootstrap_challenges now cs;
          cs = (if BOOTSTRAP_CHALLENGE_MAX_ACTIVE \<le> length cs then tl cs else cs)
      in cs @ [\<lparr>challenge_b64 = challenge, expires_at = expiry\<rparr>])"

text \<open>Removes the first entry with the given text; says whether there was one.\<close>

fun remove_challenge :: "string \<Rightarrow> challenges \<Rightarrow> bool \<times> challenges" where
  "remove_challenge challenge [] = (False, [])"
| "remove_challenge challenge (c # cs) =
     (if challenge_b64 c = challenge then (True, cs)
      else case remove_challenge challenge cs of (found, cs') \<Rightarrow> (found, c # cs'))"

definition take_challenge :: "instant \<Rightarrow> string \<Rightarrow> challenges \<Rightarrow> bool \<times> challenges" where
  "take_challenge now challenge cs = remove_challenge challenge (prune_bootstrap_challenges now cs)"

definition record_bootstrap_challenge :: "'w env \<Rightarrow> string \<Rightarrow> instant \<Rightarrow> ('w sys, unit) state" where
  "record_bootstrap_challenge E challenge expiry =
     State_Monad.bind (e_yield E) (\<lambda>_. State_Monad.bind (e_now E) (\<lambda>now.
       modify (\<lambda>s. s\<lparr>s_challenges := push_challenge now challenge expiry (s_challenges s)\<rparr>)))"

definition consume_bootstrap_challenge :: "'w env \<Rightarrow> string \<Rightarrow> ('w sys, bool) state" where
  "consume_bootstrap_challenge E challenge =
     State_Monad.bind (e_yield E) (\<lambda>_. State_Monad.bind (e_now E) (\<lambda>now.
       State (\<lambda>s. case take_challenge now challenge (s_challenges s) of
         (found, cs) \<Rightarrow> (found, s\<lparr>s_challenges := cs\<rparr>))))"

section \<open>Bootstrap signatures\<close>

definition bootstrap_pubkey_hash_matches :: "externals \<Rightarrow> string \<Rightarrow> bytes \<Rightarrow> bool" where
  "bootstrap_pubkey_hash_matches X expected raw_pubkey =
     (let expected = trim expected; digest = x_sha256 X raw_pubkey in
      eq_ignore_ascii_case expected (hex_lower digest) \<or> expected = x_b64url_encode X digest)"

definition validate_bootstrap_signature ::
  "externals \<Rightarrow> string \<Rightarrow> string \<Rightarrow> string \<Rightarrow> string \<Rightarrow> ownership_error + unit" where
  "validate_bootstrap_signature X challenge bootstrap_pubkey signature expected_pubkey_hash =
     res_bind (decode_binary_field X challenge) (\<lambda>challenge_bytes.
     res_bind (decode_binary_field X bootstrap_pubkey) (\<lambda>public_key_bytes.
     res_bind (decode_binary_field X signature) (\<lambda>signature_bytes.
     if \<not> bootstrap_pubkey_hash_matches X expected_pubkey_hash public_key_bytes
     then Inl (Envelope ''bootstrap_pubkey_hash_mismatch'')
     else if length public_key_bytes \<noteq> 32 then Inl (Envelope ''bootstrap_pubkey_length_invalid'')
     else res_bind (map_err (\<lambda>e. Envelope (''bootstrap_pubkey_invalid:'' @ e)) (x_ed_key X public_key_bytes)) (\<lambda>_.
       res_bind (map_err (\<lambda>e. Envelope (''bootstrap_signature_invalid:'' @ e)) (x_ed_signature X signature_bytes)) (\<lambda>_.
       if x_ed_verify X public_key_bytes challenge_bytes signature_bytes then Inr ()
       else Inl (Envelope ''bootstrap_signature_mismatch''))))))"

section \<open>Identity and audit\<close>

record ownership_identity =
  oi_tenant_id :: "string option"
  oi_instance_id :: "string option"
  oi_bootstrap_owner_pubkey_hash :: "string option"
  oi_tenant_instance_identity_hash :: "string option"
  oi_claims_verified :: bool
  oi_claims_error :: "string option"

definition fetch_ownership_identity :: "'w env \<Rightarrow> ('w, ownership_identity) proc" where
  "fetch_ownership_identity E =
     pbind (fetch_kbs_token_claims E) (\<lambda>token_claims.
     let claims = (case jget token_claims ''claims_root'' of
                     Some v \<Rightarrow> (if is_object v then v else JObj []) | None \<Rightarrow> JObj [])
     in ret \<lparr>oi_tenant_id = extract_tenant_id claims, oi_instance_id = extract_instance_id claims,
          oi_bootstrap_owner_pubkey_hash = extract_bootstrap_owner_pubkey_hash claims,
          oi_tenant_instance_identity_hash = extract_tenant_instance_identity_hash claims,
          oi_claims_verified = (case Option.bind (jget token_claims ''verified'') as_bool of Some b \<Rightarrow> b | None \<Rightarrow> False),
          oi_claims_error = Option.bind (jget token_claims ''error'') as_str\<rparr>)"

definition emit_signed_owner_audit_event :: "'w env \<Rightarrow> bytes \<Rightarrow> string \<Rightarrow> json \<Rightarrow> ('w, unit) proc" where
  "emit_signed_owner_audit_event E owner_seed action details =
     call (utc_now E) (\<lambda>now.
     case signed_owner_audit_event (e_ext E) now owner_seed (c_instance_id (e_config E))
            (c_storage_ownership_mode (e_config E)) action details of
       Inr ev \<Rightarrow> call (log_line (LogJson ev)) (\<lambda>_. ret ())
     | Inl err \<Rightarrow>
         call (utc_now E) (\<lambda>now.
         call (log_line (LogJson (JObj [(''kind'', JStr ''owner_seed_audit_error''), (''timestamp'', JStr now),
           (''instance_id'', JStr (c_instance_id (e_config E))), (''action'', JStr action),
           (''error'', JStr (error_to_string err))]))) (\<lambda>_. ret ())))"

section \<open>The rate limits meet their contract\<close>

definition rate_inv :: "proof_rate \<Rightarrow> bool" where
  "rate_inv r \<longleftrightarrow> distinct (map fst (pr_sources r))"

lemma retain_inv: "rate_inv r \<Longrightarrow> rate_inv (retain_recent now r)"
  by (auto simp: rate_inv_def retain_recent_def distinct_map inj_on_def split_def)

lemma window_after_filter:
  assumes "distinct (map fst windows)"
  shows "map_of (filter (\<lambda>(_, seen). seen \<noteq> []) windows) source =
    Option.bind (map_of windows source) (\<lambda>seen. if seen = [] then None else Some seen)"
  using assms by (induction windows) (auto dest: map_of_SomeD simp: image_iff bind_eq_Some_conv split: if_splits bind_splits)

lemma source_window_retain:
  assumes "rate_inv r"
  shows "source_window (retain_recent now r) source = filter (seen_recently now) (source_window r source)"
proof -
  let ?f = "\<lambda>(s, seen). (s, filter (seen_recently now) seen)"
  have "distinct (map fst (map ?f (pr_sources r)))" using assms by (simp add: rate_inv_def split_def comp_def)
  moreover have "map_of (map ?f (pr_sources r)) source = map_option (filter (seen_recently now)) (map_of (pr_sources r) source)"
    by (simp add: map_of_map)
  ultimately show ?thesis
    by (simp add: source_window_def retain_recent_def window_after_filter split: option.splits)
qed

lemma allow_inv: "rate_inv r \<Longrightarrow> rate_inv (snd (allow source now r))"
  using retain_inv [of r now] by (simp add: allow_def rate_inv_def Let_def distinct_update)

lemma source_window_update:
  "source_window \<lparr>pr_global = g, pr_sources = AList.update source w srcs\<rparr> source' =
     (if source' = source then w else source_window \<lparr>pr_global = g, pr_sources = srcs\<rparr> source')"
  by (simp add: source_window_def update_conv')

lemma source_window_global:
  "source_window \<lparr>pr_global = g @ [now], pr_sources = srcs\<rparr> = source_window \<lparr>pr_global = g, pr_sources = srcs\<rparr>"
  by (simp add: source_window_def fun_eq_iff)

lemma allow_global:
  "pr_global (snd (allow source now r)) = filter (seen_recently now) (pr_global r) @ (if fst (allow source now r) then [now] else [])"
  "fst (allow source now r) \<Longrightarrow> length (filter (seen_recently now) (pr_global r)) < PROOF_GLOBAL_PER_MINUTE"
  by (auto simp: allow_def Let_def retain_recent_def split: if_splits)

lemma seen_recently_fun: "(\<lambda>x. now - x < from_secs 60) = seen_recently now"
  by (auto simp: seen_recently_def)

lemma allow_window:
  assumes "rate_inv r"
  shows "source_window (snd (allow source now r)) source' = filter (seen_recently now) (source_window r source') @
    (if fst (allow source now r) \<and> source = source' then [now] else [])"
proof -
  obtain g srcs where r: "retain_recent now r = \<lparr>pr_global = g, pr_sources = srcs\<rparr>" by (cases "retain_recent now r")
  show ?thesis
    using source_window_retain [OF assms, of now source'] source_window_retain [OF assms, of now source]
    by (simp add: allow_def Let_def r source_window_update source_window_global)
qed

interpretation proof_global: rate_limiter allow rate_inv "\<lambda>_. True" pr_global "from_secs 60" PROOF_GLOBAL_PER_MINUTE
  unfolding rate_limiter_def seen_recently_fun by (simp add: allow_inv allow_global)

interpretation proof_source: rate_limiter allow rate_inv "\<lambda>q. q = source" "\<lambda>r. source_window r source" "from_secs 60"
  PROOF_PER_SOURCE_PER_MINUTE for source
proof unfold_locales
  fix r q and now :: instant
  assume r: "rate_inv r"
  show "source_window (snd (allow q now r)) source = filter (\<lambda>x. now - x < from_secs 60) (source_window r source) @
      (if fst (allow q now r) \<and> q = source then [now] else [])"
    unfolding seen_recently_fun by (rule allow_window [OF r])
  assume "q = source" "fst (allow q now r)"
  then show "length (filter (\<lambda>x. now - x < from_secs 60) (source_window r source)) < PROOF_PER_SOURCE_PER_MINUTE"
    unfolding seen_recently_fun source_window_retain [OF r, symmetric] by (auto simp: allow_def Let_def split: if_splits)
qed (simp_all add: allow_inv)

section \<open>Runs of the challenge queue\<close>

text \<open>A sequence of issues (time, text, expiry) and redemptions (time, text), as the lock orders
  them, and the redemptions that succeed.\<close>

datatype challenge_op = Issue instant string instant | Redeem instant string

fun challenge_step :: "challenge_op \<Rightarrow> challenges \<Rightarrow> (instant \<times> string) list \<times> challenges" where
  "challenge_step (Issue now c e) cs = ([], push_challenge now c e cs)"
| "challenge_step (Redeem now c) cs =
     (case take_challenge now c cs of (found, cs') \<Rightarrow> (if found then [(now, c)] else [], cs'))"

fun redeemed :: "challenge_op list \<Rightarrow> challenges \<Rightarrow> (instant \<times> string) list" where
  "redeemed [] cs = []"
| "redeemed (x # xs) cs = fst (challenge_step x cs) @ redeemed xs (snd (challenge_step x cs))"

definition active :: "challenge_op list \<Rightarrow> challenges" where
  "active ops = fold (\<lambda>x cs. snd (challenge_step x cs)) ops []"

fun issues :: "string \<Rightarrow> challenge_op \<Rightarrow> bool" where
  "issues c (Issue now c' e) \<longleftrightarrow> c' = c"
| "issues c (Redeem now c') \<longleftrightarrow> False"

fun expiry_of :: "challenge_op \<Rightarrow> instant list" where
  "expiry_of (Issue now c e) = [e]"
| "expiry_of (Redeem now c) = []"

abbreviation copies :: "string \<Rightarrow> challenges \<Rightarrow> nat" where
  "copies c cs \<equiv> length (filter (\<lambda>x. challenge_b64 x = c) cs)"

lemma copies_prune: "copies c (prune_bootstrap_challenges now cs) \<le> copies c cs"
  unfolding prune_bootstrap_challenges_def by (induction cs) auto

lemma copies_tl: "copies c (tl cs) \<le> copies c cs"
  by (cases cs) auto

lemma copies_push: "copies c (push_challenge now c' e cs) \<le> copies c cs + (if c' = c then 1 else 0)"
  using copies_prune [of c now cs] copies_tl [of c "prune_bootstrap_challenges now cs"]
  by (simp add: push_challenge_def Let_def)

lemma copies_remove:
  "remove_challenge c' cs = (found, cs') \<Longrightarrow> copies c cs = copies c cs' + (if found \<and> c' = c then 1 else 0)"
  by (induction cs arbitrary: cs') (auto split: if_splits prod.splits)

lemma remove_challenge_found:
  "remove_challenge c cs = (True, cs') \<Longrightarrow> \<exists>x\<in>set cs. challenge_b64 x = c"
  by (induction cs arbitrary: cs') (auto split: if_splits prod.splits)

lemma remove_challenge_subset: "remove_challenge c cs = (found, cs') \<Longrightarrow> \<exists>a b x. cs' = cs \<or> cs = a @ x # b \<and> cs' = a @ b"
proof (induction cs arbitrary: cs' found)
  case (Cons y cs)
  show ?case
  proof (cases "challenge_b64 y = c")
    case True
    with Cons.prems have "y # cs = [] @ y # cs" "cs' = [] @ cs" by auto
    then show ?thesis by blast
  next
    case False
    then obtain cs1 where r: "remove_challenge c cs = (found, cs1)" "cs' = y # cs1"
      using Cons.prems by (auto split: prod.splits)
    from Cons.IH [OF r(1)] consider "cs1 = cs" | a b x where "cs = a @ x # b" "cs1 = a @ b" by blast
    then show ?thesis
    proof cases
      case 2
      then have "y # cs = (y # a) @ x # b" "cs' = (y # a) @ b" using r(2) by simp_all
      then show ?thesis by blast
    qed (use r(2) in blast)
  qed
qed simp

lemma step_copies:
  "copies c (snd (challenge_step x cs)) + length (filter (\<lambda>r. snd r = c) (fst (challenge_step x cs))) \<le>
     copies c cs + (if issues c x then 1 else 0)"
proof (cases x)
  case (Redeem now c')
  obtain found cs' where r: "remove_challenge c' (prune_bootstrap_challenges now cs) = (found, cs')" by fastforce
  show ?thesis using copies_remove [OF r, of c] copies_prune [of c now cs] Redeem r by (auto simp: take_challenge_def)
qed (use copies_push in simp)

lemma redeemed_copies: "length (filter (\<lambda>r. snd r = c) (redeemed ops cs)) \<le> copies c cs + length (filter (issues c) ops)"
proof (induction ops arbitrary: cs)
  case (Cons x ops)
  show ?case using step_copies [of c x cs] Cons.IH [of "snd (challenge_step x cs)"] by auto
qed simp

lemma step_active:
  "length cs \<le> BOOTSTRAP_CHALLENGE_MAX_ACTIVE \<Longrightarrow> length (snd (challenge_step x cs)) \<le> BOOTSTRAP_CHALLENGE_MAX_ACTIVE"
proof (cases x)
  case (Issue now c e)
  assume "length cs \<le> BOOTSTRAP_CHALLENGE_MAX_ACTIVE"
  then have "length (prune_bootstrap_challenges now cs) \<le> BOOTSTRAP_CHALLENGE_MAX_ACTIVE"
    unfolding prune_bootstrap_challenges_def using length_dropWhile_le order_trans by blast
  then show ?thesis using Issue by (simp add: push_challenge_def Let_def BOOTSTRAP_CHALLENGE_MAX_ACTIVE_def)
next
  case (Redeem now c)
  assume l: "length cs \<le> BOOTSTRAP_CHALLENGE_MAX_ACTIVE"
  obtain found cs' where r: "remove_challenge c (prune_bootstrap_challenges now cs) = (found, cs')" by fastforce
  have "length cs' \<le> length (prune_bootstrap_challenges now cs)" using remove_challenge_subset [OF r] by auto
  also have "\<dots> \<le> length cs" by (simp add: prune_bootstrap_challenges_def length_dropWhile_le)
  finally show ?thesis using Redeem r l by (simp add: take_challenge_def)
qed

lemma active_bounded: "length (active ops) \<le> BOOTSTRAP_CHALLENGE_MAX_ACTIVE"
proof -
  have "length cs \<le> BOOTSTRAP_CHALLENGE_MAX_ACTIVE \<Longrightarrow>
      length (fold (\<lambda>x cs. snd (challenge_step x cs)) ops cs) \<le> BOOTSTRAP_CHALLENGE_MAX_ACTIVE" for cs
    by (induction ops arbitrary: cs) (simp_all add: step_active)
  then show ?thesis by (simp add: active_def)
qed

text \<open>When expiries are issued in order, the queue is in order of expiry and pruning leaves only
  challenges that are still good.\<close>

lemma prune_fresh:
  assumes "sorted (map expires_at cs)" "x \<in> set (prune_bootstrap_challenges now cs)"
  shows "now < expires_at x"
  using assms unfolding prune_bootstrap_challenges_def
  by (induction cs) (auto split: if_splits)

lemma prune_suffix: "\<exists>a. cs = a @ prune_bootstrap_challenges now cs"
  unfolding prune_bootstrap_challenges_def by (metis takeWhile_dropWhile_id)

lemma step_sorted:
  assumes "sorted (map expires_at cs @ expiry_of x @ rest)"
  shows "sorted (map expires_at (snd (challenge_step x cs)) @ rest)"
proof -
  have drop: "sorted (map expires_at b @ r)" if "sorted (map expires_at (a @ b) @ r)" for a b and r :: "instant list"
    using that by (simp add: sorted_append)
  have prune: "sorted (map expires_at (prune_bootstrap_challenges now cs) @ expiry_of x @ rest)" for now
    using drop assms prune_suffix [of cs now] by metis
  show ?thesis
  proof (cases x)
    case (Issue now c e)
    let ?p = "prune_bootstrap_challenges now cs"
    have "sorted (map expires_at (tl ?p) @ e # rest)"
      using prune [of now] Issue by (cases ?p) auto
    then show ?thesis using prune [of now] Issue by (auto simp: push_challenge_def Let_def)
  next
    case (Redeem now c)
    obtain found cs' where r: "remove_challenge c (prune_bootstrap_challenges now cs) = (found, cs')" by fastforce
    have "sorted (map expires_at cs' @ rest)"
      using remove_challenge_subset [OF r] prune [of now] Redeem by (auto simp: sorted_append)
    then show ?thesis using Redeem r by (simp add: take_challenge_def)
  qed
qed

lemma step_origin:
  "x \<in> set (snd (challenge_step y cs)) \<Longrightarrow> x \<in> set cs \<or> (\<exists>now. y = Issue now (challenge_b64 x) (expires_at x))"
proof (cases y)
  case (Issue now c e)
  have "set (tl (prune_bootstrap_challenges now cs)) \<subseteq> set (prune_bootstrap_challenges now cs)"
    by (cases "prune_bootstrap_challenges now cs") auto
  moreover have "set (prune_bootstrap_challenges now cs) \<subseteq> set cs"
    by (auto simp: prune_bootstrap_challenges_def dest: set_dropWhileD)
  moreover assume "x \<in> set (snd (challenge_step y cs))"
  ultimately show ?thesis using Issue by (auto simp: push_challenge_def Let_def split: if_splits)
next
  case (Redeem now c)
  obtain found cs' where r: "remove_challenge c (prune_bootstrap_challenges now cs) = (found, cs')" by fastforce
  have "set cs' \<subseteq> set (prune_bootstrap_challenges now cs)" using remove_challenge_subset [OF r] by auto
  moreover assume "x \<in> set (snd (challenge_step y cs))"
  ultimately show ?thesis using Redeem r
    by (auto simp: take_challenge_def prune_bootstrap_challenges_def dest: set_dropWhileD)
qed

lemma redeemed_fresh:
  assumes "sorted (map expires_at cs @ concat (map expiry_of ops))" "(now, c) \<in> set (redeemed ops cs)"
  shows "(\<exists>x\<in>set cs. challenge_b64 x = c \<and> now < expires_at x) \<or> (\<exists>t e. Issue t c e \<in> set ops \<and> now < e)"
  using assms
proof (induction ops arbitrary: cs)
  case (Cons y ops)
  show ?case
  proof (cases "(now, c) \<in> set (fst (challenge_step y cs))")
    case True
    then have "y = Redeem now c" by (cases y) (auto split: prod.splits if_splits)
    moreover from this True obtain cs' where "remove_challenge c (prune_bootstrap_challenges now cs) = (True, cs')"
      by (auto simp: take_challenge_def split: prod.splits if_splits)
    ultimately obtain x where x: "x \<in> set (prune_bootstrap_challenges now cs)" "challenge_b64 x = c"
      using remove_challenge_found by blast
    moreover have "now < expires_at x" using prune_fresh x(1) Cons.prems(1) by (auto simp: sorted_append)
    moreover have "x \<in> set cs" using x(1) by (auto simp: prune_bootstrap_challenges_def dest: set_dropWhileD)
    ultimately show ?thesis by blast
  next
    case False
    then have "(now, c) \<in> set (redeemed ops (snd (challenge_step y cs)))" using Cons.prems(2) by simp
    with Cons.IH step_sorted [of cs y "concat (map expiry_of ops)"] Cons.prems(1)
    show ?thesis using step_origin [of _ y cs] by fastforce
  qed
qed simp

section \<open>Properties\<close>

definition no_requests :: proof_rate where
  "no_requests = \<lparr>pr_global = [], pr_sources = []\<rparr>"

text \<open>The proof endpoint cannot be driven faster than its limits: of any sequence of requests
  on a clock that does not run backwards, at most 30 are admitted in any 60 seconds, and at most
  6 of any one source.\<close>

theorem proof_rate_bound:
  assumes "sorted (map snd requests)"
  shows "length (filter (\<lambda>(_, x). in_span (from_secs 60) t x) (admit_run allow requests no_requests)) \<le> PROOF_GLOBAL_PER_MINUTE \<and>
    length (filter (\<lambda>(q, x). q = source \<and> in_span (from_secs 60) t x) (admit_run allow requests no_requests))
      \<le> PROOF_PER_SOURCE_PER_MINUTE"
proof -
  have start: "rate_inv no_requests" "pr_global no_requests = []" "source_window no_requests source = []"
    by (simp_all add: no_requests_def rate_inv_def source_window_def)
  have g: "length (filter (in_span (from_secs 60) t) (proof_global.counted xs)) = length (filter (\<lambda>(_, x). in_span (from_secs 60) t x) xs)" for xs
    by (induction xs) (auto simp: proof_global.counted_def)
  have s: "length (filter (in_span (from_secs 60) t) (proof_source.counted source xs)) =
      length (filter (\<lambda>(q, x). q = source \<and> in_span (from_secs 60) t x) xs)" for xs
    by (induction xs) (auto simp: proof_source.counted_def)
  show ?thesis
    using proof_global.run_bounded [OF start(1,2) assms, of t] proof_source.run_bounded [OF start(1,3) assms, of t]
    unfolding g s by blast
qed

theorem proof_rate_bound_witness:
  "length (filter (\<lambda>(q, x). q = ''10.0.0.1'' \<and> in_span (from_secs 60) 0 x)
     (admit_run allow (replicate 9 (''10.0.0.1'', 5)) no_requests)) \<le> PROOF_PER_SOURCE_PER_MINUTE"
proof -
  have "sorted (map snd (replicate 9 (''10.0.0.1'', 5 :: instant)))" by code_simp
  from proof_rate_bound [OF this] show ?thesis by blast
qed



lemma ce_v1_hash_binds:
  assumes "ce_v1_hash sha rs = Some h" "ce_v1_hash sha qs = Some h"
  shows "rs = qs \<or> (\<exists>a b. a \<noteq> b \<and> sha a = sha b)"
  using assms concat_ce_enc_inj by (auto simp: ce_v1_hash_def ce_v1_bytes_eq split: if_splits)

text \<open>C22. The report data bind the whole transcript: if two requests lead to the same 64 bytes, then
  domain, nonce, TLS key hash and receipt key hash are all the same, or the hash function has
  collided. So an attestation report cannot be replayed for another nonce, host or key.\<close>

theorem report_data_binds:
  assumes "build_report_data X domain nonce spki receipt = Some rd"
    "build_report_data X domain' nonce' spki' receipt' = Some rd"
  shows "(domain = domain' \<and> nonce = nonce' \<and> spki = spki' \<and> receipt = receipt') \<or>
    (\<exists>a b. a \<noteq> b \<and> x_sha256 X a = x_sha256 X b)"
proof -
  obtain t h t' h' where parts: "tee_tls_transcript_hash X domain nonce spki = Some t"
      "tee_tls_transcript_hash X domain' nonce' spki' = Some t'"
      "ce_v1_hash (x_sha256 X) [(''purpose'', as_bytes ''enclava-tee-report-data-v1''), (''transcript_hash'', t),
         (''receipt_pubkey_sha256'', receipt)] = Some h"
      "ce_v1_hash (x_sha256 X) [(''purpose'', as_bytes ''enclava-tee-report-data-v1''), (''transcript_hash'', t'),
         (''receipt_pubkey_sha256'', receipt')] = Some h'"
      and rd: "rd = as_bytes (hex_lower h)" "rd = as_bytes (hex_lower h')"
    using assms by (auto simp: build_report_data_def bind_eq_Some_conv)
  have "h = h'" using rd hex.enc_inj by (metis bytes_to_str_as_bytes)
  then have "(t = t' \<and> receipt = receipt') \<or> (\<exists>a b. a \<noteq> b \<and> x_sha256 X a = x_sha256 X b)"
    using ce_v1_hash_binds [OF parts(3)] parts(4) by auto
  moreover have "(domain = domain' \<and> nonce = nonce' \<and> spki = spki') \<or> (\<exists>a b. a \<noteq> b \<and> x_sha256 X a = x_sha256 X b)"
    if "t = t'"
    using ce_v1_hash_binds [OF parts(1,2) [unfolded tee_tls_transcript_hash_def, folded that]]
    by (auto dest: arg_cong [where f = bytes_to_str])
  ultimately show ?thesis by blast
qed

lemma demo_report_data: "\<exists>rd. build_report_data demo_externals ''h.example'' [1] [2] [3] = Some rd"
  by (simp add: build_report_data_def tee_tls_transcript_hash_def ce_v1_hash_def ce_v1_bytes_eq ce_fits_def demo_externals_def)

theorem report_data_binds_witness:
  "\<exists>rd. build_report_data demo_externals ''h.example'' [1] [2] [3] = Some rd \<and>
     (([1] :: bytes) = [1] \<or> (\<exists>a b. a \<noteq> b \<and> x_sha256 demo_externals a = x_sha256 demo_externals b))"
proof -
  obtain rd where rd: "build_report_data demo_externals ''h.example'' [1] [2] [3] = Some rd" using demo_report_data by blast
  from report_data_binds [OF rd rd] rd show ?thesis by blast
qed

end
