(* ===== verification/Init_Status.thy ===== *)
theory Init_Status
  imports Handoff Kbs
begin

text \<open>
  What the proxy learns from \<open>enclava-init\<close>, the middle part of \<open>handlers.rs\<close>: the bounded and
  sanitized error and stage files behind \<open>/status\<close>, the ready file, the certificate cooldown
  marker, the wait for readiness whose deadline the marker may extend, and the connection to the
  unlock socket.
\<close>

section \<open>The error file\<close>

definition INIT_ERROR_MAX_BYTES :: nat where "INIT_ERROR_MAX_BYTES = 4096"
definition INIT_ERROR_RETRY_AFTER_MAX_FUTURE_SECONDS :: int where
  "INIT_ERROR_RETRY_AFTER_MAX_FUTURE_SECONDS = 365 * 24 * 60 * 60"
definition INIT_ERROR_CODE_RATE_LIMITED :: string where "INIT_ERROR_CODE_RATE_LIMITED = ''acme_rate_limited''"
definition INIT_ERROR_CODE_CERTIFICATE_ISSUANCE_FAILED :: string where
  "INIT_ERROR_CODE_CERTIFICATE_ISSUANCE_FAILED = ''acme_certificate_issuance_failed''"
definition INIT_ERROR_CODE_INIT_FAILED :: string where "INIT_ERROR_CODE_INIT_FAILED = ''enclava_init_failed''"

record bootstrap_init_error =
  ie_code :: string
  ie_retry_after :: "string option"

definition init_error_generic :: bootstrap_init_error where
  "init_error_generic = \<lparr>ie_code = INIT_ERROR_CODE_INIT_FAILED, ie_retry_after = None\<rparr>"

definition status_json :: "bootstrap_init_error \<Rightarrow> json" where
  "status_json e = JObj [(''error'', JStr (ie_code e)), (''terminal'', JBool True), (''retry_after'', jopt_str (ie_retry_after e))]"

definition ownership_detail :: "bootstrap_init_error \<Rightarrow> string" where
  "ownership_detail e =
     (if ie_code e = INIT_ERROR_CODE_INIT_FAILED then INIT_ERROR_CODE_INIT_FAILED
      else INIT_ERROR_CODE_INIT_FAILED @ '':'' @ ie_code e)"

definition i64_saturating_add :: "int \<Rightarrow> int \<Rightarrow> int" where
  "i64_saturating_add a b = max (- (2 ^ 63)) (min (2 ^ 63 - 1) (a + b))"

definition deadline_within_producer_bound :: "string \<Rightarrow> int \<Rightarrow> bool" where
  "deadline_within_producer_bound deadline now_unix =
     (case rfc3339_utc_unix_seconds deadline of
        Some deadline_unix \<Rightarrow> deadline_unix \<le> i64_saturating_add now_unix INIT_ERROR_RETRY_AFTER_MAX_FUTURE_SECONDS
      | None \<Rightarrow> False)"

definition parse_bootstrap_init_error_at :: "externals \<Rightarrow> bytes \<Rightarrow> int \<Rightarrow> bootstrap_init_error" where
  "parse_bootstrap_init_error_at X bs now_unix =
     (case x_json_parse X bs of
        Inl _ \<Rightarrow> init_error_generic
      | Inr val \<Rightarrow>
          (case as_object val of
             None \<Rightarrow> init_error_generic
           | Some obj \<Rightarrow>
               (case Option.bind (map_of obj ''error'') as_str of
                  None \<Rightarrow> init_error_generic
                | Some code \<Rightarrow>
                    (if code \<notin> {INIT_ERROR_CODE_RATE_LIMITED, INIT_ERROR_CODE_CERTIFICATE_ISSUANCE_FAILED,
                               INIT_ERROR_CODE_INIT_FAILED} then init_error_generic
                     else if Option.bind (map_of obj ''terminal'') as_bool \<noteq> Some True then init_error_generic
                     else \<lparr>ie_code = code, ie_retry_after =
                       (case map_of obj ''retry_after'' of
                          Some (JStr deadline) \<Rightarrow>
                            (if deadline_within_producer_bound deadline now_unix then Some deadline else None)
                        | _ \<Rightarrow> None)\<rparr>))))"

definition parse_bootstrap_init_error :: "'w env \<Rightarrow> bytes \<Rightarrow> ('w sys, bootstrap_init_error) state" where
  "parse_bootstrap_init_error E bs =
     State_Monad.bind (e_unix E) (\<lambda>(secs, _).
     State_Monad.return (parse_bootstrap_init_error_at (e_ext E) bs (int secs)))"

datatype init_error_file_probe = Absent | Unreadable | Oversized | Loaded bytes

text \<open>One byte more than the bound is read, which is enough to see that the file is too long.\<close>

definition probe_init_error_file :: "'w env \<Rightarrow> string \<Rightarrow> ('w sys, init_error_file_probe) state" where
  "probe_init_error_file E path =
     io_read E (\<lambda>F fs.
       case fs_read F path fs of
         Inl (NotFound _) \<Rightarrow> Absent
       | Inl (OtherIo _) \<Rightarrow> Unreadable
       | Inr contents \<Rightarrow>
           (let bs = take (INIT_ERROR_MAX_BYTES + 1) contents in
            if INIT_ERROR_MAX_BYTES < length bs then Oversized else Loaded bs))"

section \<open>The ready file and the stage file\<close>

definition ready_file :: "config \<Rightarrow> string" where "ready_file cfg = trim (c_enclava_init_ready_file cfg)"
definition error_file :: "config \<Rightarrow> string" where "error_file cfg = trim (c_enclava_init_error_file cfg)"

definition enclava_init_ready_file_is_ready :: "'w env \<Rightarrow> ('w, ownership_error + bool) proc" where
  "enclava_init_ready_file_is_ready E =
     (if ready_file (e_config E) = [] then ret (Inr False)
      else call (io_read E (\<lambda>F. fs_read_to_string F (ready_file (e_config E)))) (\<lambda>r.
        ret (case r of
               Inr val \<Rightarrow> Inr (trim val = ''ready'')
             | Inl (NotFound _) \<Rightarrow> Inr False
             | Inl (OtherIo _) \<Rightarrow> Inl (Store ''enclava_init_ready_file_read_failed''))))"

definition clear_enclava_init_error_for_recovery :: "'w env \<Rightarrow> ('w, ownership_error + unit) proc" where
  "clear_enclava_init_error_for_recovery E =
     (if error_file (e_config E) = [] then ret (Inr ())
      else call (io_call E (\<lambda>F. fs_remove_file F (error_file (e_config E)))) (\<lambda>r.
        ret (case r of
               Inr _ \<Rightarrow> Inr ()
             | Inl (NotFound _) \<Rightarrow> Inr ()
             | Inl (OtherIo _) \<Rightarrow> Inl (Store ''enclava_init_error_file_clear_failed''))))"

definition INIT_STAGE_MAX_BYTES :: nat where "INIT_STAGE_MAX_BYTES = 256"

definition INIT_STAGE_VOCABULARY :: "string list" where
  "INIT_STAGE_VOCABULARY =
     [''loading config'', ''validating signed config'', ''verifying trustee policy'', ''waiting for owner seed'',
      ''opening luks volumes'', ''preparing mount ownership'', ''provisioning static tls certificate'',
      ''writing component seeds'', ''waiting for workload containers'', ''binding workload mount namespaces'',
      ''seeding caddy runtime handoff'', ''marking ready'']"

definition init_stage_file_from_ready :: "string \<Rightarrow> string option" where
  "init_stage_file_from_ready ready =
     Option.bind (path_parent ready) (\<lambda>parent. if parent = [] then None else Some (path_join parent ''init-stage''))"

definition stage_of_bytes :: "bytes \<Rightarrow> string option" where
  "stage_of_bytes bs =
     (if INIT_STAGE_MAX_BYTES < length bs then None
      else Option.bind (strip_suffix [10] bs) (\<lambda>staged. find (\<lambda>phase. as_bytes phase = staged) INIT_STAGE_VOCABULARY))"

definition read_init_stage :: "'w env \<Rightarrow> ('w sys, string option) state" where
  "read_init_stage E =
     (case init_stage_file_from_ready (ready_file (e_config E)) of
        None \<Rightarrow> State_Monad.return None
      | Some stage_file \<Rightarrow>
          io_read E (\<lambda>F fs. Option.bind (res_ok (fs_read F stage_file fs))
            (\<lambda>contents. stage_of_bytes (take (INIT_STAGE_MAX_BYTES + 1) contents))))"

definition status_diagnostic :: "'w env \<Rightarrow> ('w, json option) proc" where
  "status_diagnostic E =
     (if error_file (e_config E) = [] then ret None
      else call (probe_init_error_file E (error_file (e_config E))) (\<lambda>probe.
        case probe of
          Absent \<Rightarrow> ret None
        | Unreadable \<Rightarrow> ret (Some (status_json init_error_generic))
        | Oversized \<Rightarrow> ret (Some (status_json init_error_generic))
        | Loaded bs \<Rightarrow> call (parse_bootstrap_init_error E bs) (\<lambda>e. ret (Some (status_json e)))))"

definition bootstrap_diagnostics_for_status :: "'w env \<Rightarrow> ('w, string option \<times> json option) proc" where
  "bootstrap_diagnostics_for_status E =
     (let ready_now = (if ready_file (e_config E) = [] then ret False
                       else pbind (enclava_init_ready_file_is_ready E) (\<lambda>r. ret (r = Inr True))) in
      pbind ready_now (\<lambda>ready.
      if ready then ret (None, None)
      else pbind (status_diagnostic E) (\<lambda>diagnostic.
        call (read_init_stage E) (\<lambda>stage.
        pbind ready_now (\<lambda>ready.
        if ready then ret (None, None)
        else ret (stage, case (stage, diagnostic) of
                    (Some st, Some d) \<Rightarrow> Some (jset d ''last_init_stage'' (JStr st))
                  | _ \<Rightarrow> diagnostic))))))"

section \<open>The certificate cooldown marker\<close>

definition ACME_COOLDOWN_MAX_EXTENSION_SECONDS :: nat where "ACME_COOLDOWN_MAX_EXTENSION_SECONDS = 4 * 60 * 60 + 600"
definition ACME_COOLDOWN_MAX_EXTENSION :: duration where
  "ACME_COOLDOWN_MAX_EXTENSION = from_secs ACME_COOLDOWN_MAX_EXTENSION_SECONDS"
definition ACME_COOLDOWN_GRACE :: duration where "ACME_COOLDOWN_GRACE = from_secs 180"
definition MAX_ACME_COOLDOWN_MARKER_BYTES :: nat where "MAX_ACME_COOLDOWN_MARKER_BYTES = 4 * 1024"

record acme_cooldown =
  ac_retry_after :: string
  ac_retry_after_unix :: nat

definition parse_acme_cooldown_marker :: "externals \<Rightarrow> bytes \<Rightarrow> nat \<Rightarrow> nat \<Rightarrow> acme_cooldown option" where
  "parse_acme_cooldown_marker X body now_unix horizon_unix =
     Option.bind (res_ok (x_json_parse X body)) (\<lambda>parsed.
     Option.bind (Option.bind (jget parsed ''error'') as_str) (\<lambda>code.
     if code \<noteq> ''acme_rate_limited'' then None
     else if Option.bind (jget parsed ''terminal'') as_bool \<noteq> Some False then None
     else Option.bind (Option.bind (jget parsed ''retry_after_unix'') as_u64) (\<lambda>retry_after_unix.
       if retry_after_unix \<le> now_unix \<or> horizon_unix < retry_after_unix then None
       else Option.bind (Option.bind (jget parsed ''retry_after'') as_str) (\<lambda>retry_after.
         if length retry_after \<le> 64
         then Some \<lparr>ac_retry_after = retry_after, ac_retry_after_unix = retry_after_unix\<rparr> else None))))"

definition read_acme_cooldown :: "'w env \<Rightarrow> ('w, acme_cooldown option) proc" where
  "read_acme_cooldown E =
     (let path = trim (c_enclava_init_acme_cooldown_file (e_config E)) in
      if path = [] then ret None
      else call (io_read E (\<lambda>F. fs_metadata F path)) (\<lambda>metadata.
        case metadata of
          Inr (File f) \<Rightarrow>
            (if MAX_ACME_COOLDOWN_MARKER_BYTES < length (fn_data f) then ret None
             else call (io_read E (\<lambda>F. fs_read F path)) (\<lambda>r.
               case r of
                 Inl _ \<Rightarrow> ret None
               | Inr body \<Rightarrow> call (e_unix E) (\<lambda>(now_unix, _).
                   ret (parse_acme_cooldown_marker (e_ext E) body now_unix
                          (now_unix + ACME_COOLDOWN_MAX_EXTENSION_SECONDS)))))
        | _ \<Rightarrow> ret None))"

section \<open>Waiting for readiness\<close>

text \<open>The failure a round observes, if any: the error file first, then a last look at the ready
  file, which wins.\<close>

definition init_failure :: "'w env \<Rightarrow> ('w, ownership_error option) proc" where
  "init_failure E =
     (if error_file (e_config E) = [] then ret None
      else call (probe_init_error_file E (error_file (e_config E))) (\<lambda>probe.
        case probe of
          Absent \<Rightarrow> ret None
        | Unreadable \<Rightarrow> ret (Some (Store ''enclava_init_error_file_read_failed''))
        | Oversized \<Rightarrow> ret (Some (Store (ownership_detail init_error_generic)))
        | Loaded bs \<Rightarrow> call (parse_bootstrap_init_error E bs) (\<lambda>e. ret (Some (Store (ownership_detail e))))))"

definition wait_round :: "'w env \<Rightarrow> ('w, (ownership_error + unit) option) proc" where
  "wait_round E =
     call (io_read E (\<lambda>F. fs_read_to_string F (ready_file (e_config E)))) (\<lambda>r.
     let go_on = pbind (init_failure E) (\<lambda>failure.
           case failure of
             None \<Rightarrow> ret None
           | Some err \<Rightarrow> pbind (enclava_init_ready_file_is_ready E) (\<lambda>ready.
               ret (Some (if ready = Inr True then Inr () else Inl err))))
     in case r of
          Inr val \<Rightarrow> (if trim val = ''ready'' then ret (Some (Inr ())) else go_on)
        | Inl (NotFound _) \<Rightarrow> go_on
        | Inl (OtherIo _) \<Rightarrow> ret (Some (Inl (Store ''enclava_init_ready_file_read_failed''))))"

definition extend_deadline :: "'w env \<Rightarrow> instant \<Rightarrow> instant \<Rightarrow> ('w, instant) proc" where
  "extend_deadline E started deadline =
     pbind (read_acme_cooldown E) (\<lambda>cooldown.
     case cooldown of
       None \<Rightarrow> ret deadline
     | Some c \<Rightarrow>
         call (e_unix E) (\<lambda>(now_unix, _).
         call (e_now E) (\<lambda>now.
         let candidate = now + from_secs (ac_retry_after_unix c - now_unix) + ACME_COOLDOWN_GRACE in
         ret (if deadline < candidate then min candidate (started + ACME_COOLDOWN_MAX_EXTENSION) else deadline))))"

text \<open>The loop. Every round that does not return pauses for at least a nanosecond, and the deadline
  never passes the larger of the timeout and the extension bound, so that many rounds are
  enough.\<close>

fun wait_loop :: "'w env \<Rightarrow> instant \<Rightarrow> instant \<Rightarrow> nat \<Rightarrow> ('w, ownership_error + unit) proc" where
  "wait_loop E started deadline 0 = panic"
| "wait_loop E started deadline (Suc fuel) =
     pbind (wait_round E) (\<lambda>r.
     case r of
       Some answer \<Rightarrow> ret answer
     | None \<Rightarrow>
         pbind (extend_deadline E started deadline) (\<lambda>deadline.
         call (e_now E) (\<lambda>now.
         if deadline \<le> now then ret (Inl Timeout)
         else call (e_sleep E (min (from_millis 100) (deadline - now))) (\<lambda>_.
           wait_loop E started deadline fuel))))"

definition wait_rounds :: "duration \<Rightarrow> nat" where
  "wait_rounds timeout = max timeout ACME_COOLDOWN_MAX_EXTENSION + 2"

definition wait_for_enclava_init_ready :: "'w env \<Rightarrow> duration \<Rightarrow> ('w, ownership_error + unit) proc" where
  "wait_for_enclava_init_ready E timeout =
     (if ready_file (e_config E) = [] then ret (Inr ())
      else call (e_now E) (\<lambda>started. wait_loop E started (started + timeout) (wait_rounds timeout)))"

definition spawn_enclava_init_ready_watch :: "'w env \<Rightarrow> duration \<Rightarrow> ('w sys, unit) state" where
  "spawn_enclava_init_ready_watch E timeout =
     (if ready_file (e_config E) = [] \<and> error_file (e_config E) = [] then State_Monad.return ()
      else spawn (ReadyWatchTask timeout))"

definition spawn_recovery_init_ready_watch :: "duration \<Rightarrow> ('w sys, unit) state" where
  "spawn_recovery_init_ready_watch timeout = spawn (RecoveryWatchTask timeout)"

section \<open>The unlock socket\<close>

fun connect_loop :: "'w env \<Rightarrow> string \<Rightarrow> instant \<Rightarrow> nat \<Rightarrow> ('w, ownership_error + unit) proc" where
  "connect_loop E path deadline 0 = panic"
| "connect_loop E path deadline (Suc fuel) =
     call (e_connect E path) (\<lambda>r.
     case r of
       Inr _ \<Rightarrow> ret (Inr ())
     | Inl err \<Rightarrow>
         call (e_now E) (\<lambda>now.
         if deadline \<le> now then ret (Inl (Store (''enclava_init_unlock_socket_connect_failed:'' @ err)))
         else call (e_sleep E (min (from_millis 50) (deadline - now))) (\<lambda>_. connect_loop E path deadline fuel)))"

definition connect_init_unlock_socket :: "'w env \<Rightarrow> string \<Rightarrow> duration \<Rightarrow> ('w, ownership_error + unit) proc" where
  "connect_init_unlock_socket E path timeout =
     call (e_now E) (\<lambda>now. connect_loop E path (now + timeout) (timeout + 2))"

section \<open>What an observer sees\<close>

lemma advances_parse_bootstrap_init_error [advance_rules]:
  "env_advances R E \<Longrightarrow> advances R (parse_bootstrap_init_error E bs)"
  unfolding parse_bootstrap_init_error_def by (intro advance_rules; (assumption | simp))

lemma advances_probe_init_error_file [advance_rules]: "env_advances R E \<Longrightarrow> advances R (probe_init_error_file E path)"
  unfolding probe_init_error_file_def by (intro advance_rules; (assumption | simp))

lemma advances_ready_file_is_ready [advance_rules]: "env_advances R E \<Longrightarrow> advances R (enclava_init_ready_file_is_ready E)"
  unfolding enclava_init_ready_file_is_ready_def by (intro advance_rules; (assumption | simp))

lemma advances_case_probe [advance_rules]:
  "advances R a \<Longrightarrow> advances R u \<Longrightarrow> advances R v \<Longrightarrow> (\<And>bs. advances R (l bs)) \<Longrightarrow>
     advances R (case p of Absent \<Rightarrow> a | Unreadable \<Rightarrow> u | Oversized \<Rightarrow> v | Loaded bs \<Rightarrow> l bs)"
  by (cases p) auto

lemma advances_case_io_error [advance_rules]:
  "(\<And>x. advances R (f x)) \<Longrightarrow> (\<And>x. advances R (g x)) \<Longrightarrow>
     advances R (case e of NotFound x \<Rightarrow> f x | OtherIo x \<Rightarrow> g x)"
  by (cases e) auto

lemma advances_case_node [advance_rules]:
  "advances R d \<Longrightarrow> (\<And>x. advances R (f x)) \<Longrightarrow> advances R (case n of Dir \<Rightarrow> d | File x \<Rightarrow> f x)"
  by (cases n) auto

lemma advances_init_failure [advance_rules]: "env_advances R E \<Longrightarrow> advances R (init_failure E)"
  unfolding init_failure_def by (intro advance_rules; (assumption | simp))

lemma advances_wait_round [advance_rules]: "env_advances R E \<Longrightarrow> advances R (wait_round E)"
  unfolding wait_round_def by (intro advance_rules; (assumption | simp))

lemma advances_read_acme_cooldown [advance_rules]: "env_advances R E \<Longrightarrow> advances R (read_acme_cooldown E)"
  unfolding read_acme_cooldown_def by (intro advance_rules; (assumption | simp))

lemma advances_extend_deadline [advance_rules]: "env_advances R E \<Longrightarrow> advances R (extend_deadline E started deadline)"
  unfolding extend_deadline_def by (intro advance_rules; (assumption | simp))

lemma advances_wait_loop [advance_rules]: "env_advances R E \<Longrightarrow> advances R (wait_loop E started deadline fuel)"
  by (induction fuel arbitrary: deadline) (auto intro!: advance_rules)

lemma advances_wait_for_enclava_init_ready [advance_rules]:
  "env_advances R E \<Longrightarrow> advances R (wait_for_enclava_init_ready E timeout)"
  unfolding wait_for_enclava_init_ready_def by (intro advance_rules; (assumption | simp))

lemma advances_clear_init_error [advance_rules]: "env_advances R E \<Longrightarrow> advances R (clear_enclava_init_error_for_recovery E)"
  unfolding clear_enclava_init_error_for_recovery_def by (intro advance_rules; (assumption | simp))

lemma advances_spawn_ready_watch [advance_rules]: "env_advances R E \<Longrightarrow> advances R (spawn_enclava_init_ready_watch E timeout)"
  unfolding spawn_enclava_init_ready_watch_def by (intro advance_rules; (assumption | simp))

lemma advances_connect_loop [advance_rules]: "env_advances R E \<Longrightarrow> advances R (connect_loop E path deadline fuel)"
  by (induction fuel) (auto intro!: advance_rules)

lemma advances_connect_init_unlock_socket [advance_rules]:
  "env_advances R E \<Longrightarrow> advances R (connect_init_unlock_socket E path timeout)"
  unfolding connect_init_unlock_socket_def by (intro advance_rules; (assumption | simp))

section \<open>The wait ends, and rightly\<close>

text \<open>At this moment the ready file can be read and says ready.\<close>

definition says_ready :: "config \<Rightarrow> fs \<Rightarrow> bool" where
  "says_ready cfg fs \<longleftrightarrow> (\<exists>F val. fs_read_to_string F (ready_file cfg) fs = Inr val \<and> trim val = ''ready'')"

lemma run_io_read: "run_state (io_read E f) s = (x, t) \<Longrightarrow> \<exists>F. f F (s_files t) = x"
  by (auto simp: io_read_def split: prod.splits)

lemma init_failure_returns: "fst (run_state (init_failure E) s) \<noteq> None"
  by (auto simp: init_failure_def split: prod.splits init_error_file_probe.splits)

lemma ready_check_returns: "fst (run_state (enclava_init_ready_file_is_ready E) s) \<noteq> None"
  by (auto simp: enclava_init_ready_file_is_ready_def split: prod.splits)

lemma ready_check_sound:
  "run_state (enclava_init_ready_file_is_ready E) s = (Some (Inr True), t) \<Longrightarrow> says_ready (e_config E) (s_files t)"
  by (auto simp: enclava_init_ready_file_is_ready_def says_ready_def dest!: run_io_read
      split: prod.splits if_splits sum.splits io_error.splits)

lemma wait_round_returns: "fst (run_state (wait_round E) s) \<noteq> None"
proof -
  obtain r s1 where r: "run_state (io_read E (\<lambda>F. fs_read_to_string F (ready_file (e_config E)))) s = (r, s1)" by fastforce
  obtain f s2 where f: "run_state (init_failure E) s1 = (Some f, s2)"
    using init_failure_returns [of E s1] by (cases "run_state (init_failure E) s1") auto
  obtain b s3 where b: "run_state (enclava_init_ready_file_is_ready E) s2 = (Some b, s3)"
    using ready_check_returns [of E s2] by (cases "run_state (enclava_init_ready_file_is_ready E) s2") auto
  show ?thesis using r f b by (auto simp: wait_round_def Let_def split: sum.splits io_error.splits option.splits)
qed

lemma wait_round_sound:
  "run_state (wait_round E) s = (Some (Some (Inr ())), t) \<Longrightarrow> says_ready (e_config E) (s_files t)"
  by (auto simp: wait_round_def Let_def says_ready_def ready_check_sound [unfolded says_ready_def] dest!: run_io_read
      split: prod.splits sum.splits io_error.splits option.splits if_splits)

lemma extend_deadline_bound:
  "\<exists>d t. run_state (extend_deadline E started deadline) s = (Some d, t) \<and>
     d \<le> max deadline (started + ACME_COOLDOWN_MAX_EXTENSION)"
proof -
  have "fst (run_state (read_acme_cooldown E) s) \<noteq> None"
    by (auto simp: read_acme_cooldown_def Let_def split: prod.splits sum.splits node.splits)
  then show ?thesis
    by (cases "run_state (read_acme_cooldown E) s") (auto simp: extend_deadline_def Let_def split: prod.splits option.splits)
qed

lemma wait_loop_returns:
  assumes "timed E clk" "deadline \<le> limit" "started + ACME_COOLDOWN_MAX_EXTENSION \<le> limit"
    "limit \<le> clk (s_world s) + fuel"
  shows "fst (run_state (wait_loop E started deadline (Suc fuel)) s) \<noteq> None"
  using assms(2,4)
proof (induction fuel arbitrary: deadline s)
  case (0 deadline s)
  obtain r s1 where r: "run_state (wait_round E) s = (Some r, s1)"
    using wait_round_returns [of E s] by (cases "run_state (wait_round E) s") auto
  obtain d s2 where d: "run_state (extend_deadline E started deadline) s1 = (Some d, s2)"
      "d \<le> max deadline (started + ACME_COOLDOWN_MAX_EXTENSION)"
    using extend_deadline_bound by blast
  obtain now s3 where now: "run_state (e_now E) s2 = (now, s3)" by fastforce
  have "d \<le> limit" using d(2) "0.prems"(1) assms(3) by simp
  then have "d \<le> now"
    using "0.prems"(2) timed_now [OF assms(1) now]
      advancesD [OF advances_wait_round [OF timed_advances [OF assms(1)]] r]
      advancesD [OF advances_extend_deadline [OF timed_advances [OF assms(1)]] d(1)] by simp
  then show ?case using r d(1) now by (auto split: option.splits)
next
  case (Suc fuel deadline s)
  obtain r s1 where r: "run_state (wait_round E) s = (Some r, s1)"
    using wait_round_returns [of E s] by (cases "run_state (wait_round E) s") auto
  obtain d s2 where d: "run_state (extend_deadline E started deadline) s1 = (Some d, s2)"
      "d \<le> max deadline (started + ACME_COOLDOWN_MAX_EXTENSION)"
    using extend_deadline_bound by blast
  obtain now s3 where now: "run_state (e_now E) s2 = (now, s3)" by fastforce
  obtain u s4 where sl: "run_state (e_sleep E (min (from_millis 100) (d - now))) s3 = (u, s4)" by (rule prod.exhaust)
  have clk: "clk (s_world s) \<le> clk (s_world s3)"
    using timed_now [OF assms(1) now] advancesD [OF advances_wait_round [OF timed_advances [OF assms(1)]] r]
      advancesD [OF advances_extend_deadline [OF timed_advances [OF assms(1)]] d(1)] by simp
  have "d \<le> limit" using d(2) Suc.prems(1) assms(3) by simp
  moreover have "\<not> d \<le> now \<Longrightarrow> limit \<le> clk (s_world s4) + fuel"
    using clk timed_sleep [OF assms(1) sl] Suc.prems(2) by simp
  ultimately have "\<not> d \<le> now \<Longrightarrow> fst (run_state (wait_loop E started d (Suc fuel)) s4) \<noteq> None"
    using Suc.IH by blast
  then show ?case using r d(1) now sl
    by (subst wait_loop.simps) (auto simp del: wait_loop.simps split: option.splits)
qed

lemma wait_loop_sound:
  "run_state (wait_loop E started deadline fuel) s = (Some (Inr ()), t) \<Longrightarrow> says_ready (e_config E) (s_files t)"
proof (induction fuel arbitrary: deadline s)
  case (Suc fuel)
  then show ?case by (auto dest: wait_round_sound split: prod.splits option.splits if_splits)
qed simp

section \<open>Properties\<close>

text \<open>C26. Waiting for \<open>enclava-init\<close> always ends, whatever cooldown markers appear meanwhile, and it
  reports success only when the ready file says so at that moment.\<close>

theorem init_wait_ends:
  assumes "timed E clk" "run_state (wait_for_enclava_init_ready E timeout) s = (r, t)"
  shows "r \<noteq> None \<and> (r = Some (Inr ()) \<longrightarrow> ready_file (e_config E) = [] \<or> says_ready (e_config E) (s_files t))"
proof (cases "ready_file (e_config E) = []")
  case True
  then show ?thesis using assms(2) by (auto simp: wait_for_enclava_init_ready_def)
next
  case False
  obtain now s1 where now: "run_state (e_now E) s = (now, s1)" by fastforce
  have w: "run_state (wait_loop E now (now + timeout) (wait_rounds timeout)) s1 = (r, t)"
    using assms(2) False now by (simp add: wait_for_enclava_init_ready_def del: wait_loop.simps)
  have "fst (run_state (wait_loop E now (now + timeout) (Suc (max timeout ACME_COOLDOWN_MAX_EXTENSION + 1))) s1) \<noteq> None"
    by (rule wait_loop_returns [OF assms(1), where limit = "now + max timeout ACME_COOLDOWN_MAX_EXTENSION"])
      (use timed_now [OF assms(1) now] in \<open>simp_all add: le_SucI\<close>)
  then have "r \<noteq> None" using w by (simp add: wait_rounds_def del: wait_loop.simps)
  then show ?thesis using wait_loop_sound w by blast
qed

theorem init_wait_ends_witness:
  "fst (run_state (wait_for_enclava_init_ready (clock_env no_answer demo_config) 5) demo_clock_sys) \<noteq> None"
  using init_wait_ends [OF clock_env_timed prod.collapse [symmetric], where s = demo_clock_sys] by blast

definition safe_init_error :: "bootstrap_init_error \<Rightarrow> bool" where
  "safe_init_error e \<longleftrightarrow>
     ie_code e \<in> {INIT_ERROR_CODE_RATE_LIMITED, INIT_ERROR_CODE_CERTIFICATE_ISSUANCE_FAILED, INIT_ERROR_CODE_INIT_FAILED} \<and>
     pred_option is_valid_rfc3339_utc (ie_retry_after e)"

lemma safe_generic: "safe_init_error init_error_generic"
  by (simp add: safe_init_error_def init_error_generic_def)

lemma bound_valid: "deadline_within_producer_bound deadline now \<Longrightarrow> is_valid_rfc3339_utc deadline"
  by (auto simp: deadline_within_producer_bound_def rfc3339_utc_unix_seconds_def split: option.splits if_splits)

lemma safe_parse: "safe_init_error (parse_bootstrap_init_error_at X bs now)"
proof -
  have "pred_option is_valid_rfc3339_utc (case v of Some (JStr deadline) \<Rightarrow>
      (if deadline_within_producer_bound deadline now then Some deadline else None) | _ \<Rightarrow> None)" for v
    by (auto dest: bound_valid split: option.splits json.splits)
  then have "code \<in> {INIT_ERROR_CODE_RATE_LIMITED, INIT_ERROR_CODE_CERTIFICATE_ISSUANCE_FAILED, INIT_ERROR_CODE_INIT_FAILED} \<Longrightarrow>
      safe_init_error \<lparr>ie_code = code, ie_retry_after = (case v of Some (JStr deadline) \<Rightarrow>
        (if deadline_within_producer_bound deadline now then Some deadline else None) | _ \<Rightarrow> None)\<rparr>" for code v
    by (simp add: safe_init_error_def)
  then show ?thesis
    unfolding parse_bootstrap_init_error_at_def
    by (simp only: safe_generic if_split sum.split option.split) blast
qed

definition safe_diagnostic :: "json \<Rightarrow> bool" where
  "safe_diagnostic d \<longleftrightarrow> (\<exists>e. safe_init_error e \<and>
     (d = status_json e \<or> (\<exists>st\<in>set INIT_STAGE_VOCABULARY. d = jset (status_json e) ''last_init_stage'' (JStr st))))"

lemma status_diagnostic_safe:
  assumes "run_state (status_diagnostic E) s = (Some d, t)"
  shows "\<exists>e. d = None \<or> d = Some (status_json e) \<and> safe_init_error e"
  using assms safe_generic safe_parse
  by (auto simp: status_diagnostic_def parse_bootstrap_init_error_def split: prod.splits if_splits init_error_file_probe.splits)

lemma stage_vocabulary: "run_state (read_init_stage E) s = (Some st, t) \<Longrightarrow> st \<in> set INIT_STAGE_VOCABULARY"
  by (auto simp: read_init_stage_def stage_of_bytes_def bind_eq_Some_conv find_Some_iff dest!: run_io_read
      split: option.splits if_splits)

text \<open>C27. Nothing of the files that \<open>enclava-init\<close> writes is echoed: whatever their contents, the
  stage and the diagnostic of a status answer are drawn from the fixed vocabulary, and a deadline
  is shown only if it is a valid UTC timestamp.\<close>

theorem diagnostics_sanitized:
  assumes "run_state (bootstrap_diagnostics_for_status E) s = (Some (stage, diagnostic), t)"
  shows "pred_option (\<lambda>st. st \<in> set INIT_STAGE_VOCABULARY) stage \<and> pred_option safe_diagnostic diagnostic"
proof -
  consider (ready) "stage = None" "diagnostic = None"
    | (shown) d s1 s2 s3 s4 where "run_state (status_diagnostic E) s1 = (Some d, s2)"
        "run_state (read_init_stage E) s3 = (stage, s4)"
        "diagnostic = (case (stage, d) of (Some st, Some d) \<Rightarrow> Some (jset d ''last_init_stage'' (JStr st)) | _ \<Rightarrow> d)"
    using assms by (auto simp: bootstrap_diagnostics_for_status_def Let_def split: prod.splits option.splits if_splits)
  then show ?thesis
  proof cases
    case shown
    from status_diagnostic_safe [OF shown(1)] obtain e where e: "d = None \<or> d = Some (status_json e) \<and> safe_init_error e" by blast
    have st: "pred_option (\<lambda>st. st \<in> set INIT_STAGE_VOCABULARY) stage"
      using stage_vocabulary [of E s3 _ s4] shown(2) by (cases stage) auto
    then show ?thesis using e shown(3)
      by (cases stage; cases d) (simp_all add: safe_diagnostic_def; blast)+
  qed simp
qed

definition failed_init :: "event list sys" where
  "failed_init = demo_sys\<lparr>s_files := [(''/run/enclava/init-error'', File \<lparr>fn_mode = 420, fn_gid = None, fn_data = [120]\<rparr>)]\<rparr>"

theorem diagnostics_sanitized_witness:
  "\<exists>stage diagnostic t. run_state (bootstrap_diagnostics_for_status (demo_env no_answer demo_config)) failed_init =
     (Some (stage, diagnostic), t) \<and> pred_option safe_diagnostic diagnostic"
proof -
  let ?r = "run_state (bootstrap_diagnostics_for_status (demo_env no_answer demo_config)) failed_init"
  have "fst ?r \<noteq> None"
    by (auto simp: bootstrap_diagnostics_for_status_def Let_def status_diagnostic_def parse_bootstrap_init_error_def
        enclava_init_ready_file_is_ready_def split: prod.splits option.splits if_splits init_error_file_probe.splits)
  then obtain stage diagnostic t where r: "?r = (Some (stage, diagnostic), t)" by (cases ?r) auto
  from diagnostics_sanitized [OF r] r show ?thesis by blast
qed

end
