(* ===== verification/Machine_Steps.thy ===== *)
theory Machine_Steps
  imports Handoff Bootstrap
begin

text \<open>
  How requests move the ownership machine. \<open>yields Q m g\<close> is a weakest precondition that speaks
  of the machine only: whatever the rest of the state, if \<open>m\<close> starts with machine \<open>g\<close> and
  returns, the answer and the machine it leaves satisfy \<open>Q\<close>. Its rules go through a procedure
  construct by construct, for an environment in which no other request touches the machine.
  \<open>machine_moves\<close> is the motion for the general case: the machine changes only by operations of
  \<open>Ownership_Runs\<close>, the queue of challenges by those of \<open>Bootstrap\<close> and the windows of the proof limiter by
  admissions, at times the clock really shows.
\<close>

named_theorems yield_rules

section \<open>The steps of a run\<close>

lemma run_pbind_Some:
  "run_state (pbind m k) s = (Some r, t) \<longleftrightarrow> (\<exists>x u. run_state m s = (Some x, u) \<and> run_state (k x) u = (Some r, t))"
  by (auto split: prod.splits option.splits)

lemma run_call_Some:
  "run_state (call m k) s = (Some r, t) \<longleftrightarrow> (\<exists>x u. run_state m s = (x, u) \<and> run_state (k x) u = (Some r, t))"
  by (auto split: prod.splits)

lemma run_or_panic_Some:
  "run_state (or_panic v k) s = (Some r, t) \<longleftrightarrow> (\<exists>x. v = Some x \<and> run_state (k x) s = (Some r, t))"
  by (auto split: option.splits)

lemma run_pthen_Inr:
  "run_state (pthen m k) s = (Some (Inr r), t) \<longleftrightarrow>
     (\<exists>x u. run_state m s = (Some (Inr x), u) \<and> run_state (k x) u = (Some (Inr r), t))"
  by (auto split: prod.splits option.splits sum.splits)

lemma run_attempt_Inr:
  "run_state (attempt r k) s = (Some (Inr v), t) \<longleftrightarrow> (\<exists>x. r = Inr x \<and> run_state (k x) s = (Some (Inr v), t))"
  by (auto split: sum.splits)

lemmas run_steps = run_pbind_Some run_call_Some run_or_panic_Some

section \<open>Answers and the machine they leave\<close>

definition yields :: "('a \<Rightarrow> ownership_guard \<Rightarrow> bool) \<Rightarrow> ('w, 'a) proc \<Rightarrow> ownership_guard \<Rightarrow> bool" where
  "yields Q m g \<longleftrightarrow> (\<forall>s r t. s_guard s = g \<longrightarrow> run_state m s = (Some r, t) \<longrightarrow> Q r (s_guard t))"

abbreviation stays :: "('w sys, 'a) state \<Rightarrow> bool" where
  "stays m \<equiv> advances (\<lambda>s t. s_guard t = s_guard s) m"

lemma undisturbed_env: "undisturbed E \<Longrightarrow> env_advances (\<lambda>s t. s_guard t = s_guard s) E"
  by (simp add: undisturbed_def)

lemma yieldsD: "yields Q m (s_guard s) \<Longrightarrow> run_state m s = (Some r, t) \<Longrightarrow> Q r (s_guard t)"
  by (simp add: yields_def)

lemma yields_ret [yield_rules]: "Q x g \<Longrightarrow> yields Q (ret x) g"
  by (simp add: yields_def)

lemma yields_panic [yield_rules]: "yields Q panic g"
  by (simp add: yields_def)

lemma yields_stepI:
  "(\<And>s x t. s_guard s = g \<Longrightarrow> run_state m s = (x, t) \<Longrightarrow> yields Q (k x) (s_guard t)) \<Longrightarrow> yields Q (call m k) g"
  unfolding yields_def by (fastforce split: prod.splits)

lemma yields_call: "stays m \<Longrightarrow> (\<And>x. yields Q (k x) g) \<Longrightarrow> yields Q (call m k) g"
  by (fastforce simp: yields_def split: prod.splits dest: advancesD)

lemma yields_pbind: "stays m \<Longrightarrow> (\<And>x. yields Q (k x) g) \<Longrightarrow> yields Q (pbind m k) g"
  by (fastforce simp: yields_def split: prod.splits option.splits dest: advancesD)

lemma yields_pthen: "stays m \<Longrightarrow> (\<And>e. Q (Inl e) g) \<Longrightarrow> (\<And>x. yields Q (k x) g) \<Longrightarrow> yields Q (pthen m k) g"
  by (fastforce simp: yields_def split: prod.splits option.splits sum.splits dest: advancesD)

lemma yields_seq: "yields P m g \<Longrightarrow> (\<And>x g'. P x g' \<Longrightarrow> yields Q (k x) g') \<Longrightarrow> yields Q (pbind m k) g"
  by (fastforce simp: yields_def split: prod.splits option.splits)

lemma yields_attempt [yield_rules]:
  "(\<And>e. r = Inl e \<Longrightarrow> Q (Inl e) g) \<Longrightarrow> (\<And>x. r = Inr x \<Longrightarrow> yields Q (k x) g) \<Longrightarrow> yields Q (attempt r k) g"
  by (cases r) (simp_all add: attempt_def yields_ret)

lemma yields_or_panic [yield_rules]: "(\<And>v. x = Some v \<Longrightarrow> yields Q (k v) g) \<Longrightarrow> yields Q (or_panic x k) g"
  by (cases x) (simp_all add: or_panic_def yields_panic)

lemma yields_if [yield_rules]:
  "(b \<Longrightarrow> yields Q m g) \<Longrightarrow> (\<not> b \<Longrightarrow> yields Q n g) \<Longrightarrow> yields Q (if b then m else n) g"
  by simp

lemma yields_let [yield_rules]: "yields Q (m v) g \<Longrightarrow> yields Q (let x = v in m x) g"
  by simp

lemma yields_option [yield_rules]:
  "(r = None \<Longrightarrow> yields Q m g) \<Longrightarrow> (\<And>x. r = Some x \<Longrightarrow> yields Q (k x) g) \<Longrightarrow>
     yields Q (case r of None \<Rightarrow> m | Some x \<Rightarrow> k x) g"
  by (cases r) auto

lemma yields_sum [yield_rules]:
  "(\<And>x. r = Inl x \<Longrightarrow> yields Q (f x) g) \<Longrightarrow> (\<And>x. r = Inr x \<Longrightarrow> yields Q (k x) g) \<Longrightarrow>
     yields Q (case r of Inl x \<Rightarrow> f x | Inr x \<Rightarrow> k x) g"
  by (cases r) auto

lemma yields_prod [yield_rules]: "(\<And>x y. r = (x, y) \<Longrightarrow> yields Q (f x y) g) \<Longrightarrow> yields Q (case r of (x, y) \<Rightarrow> f x y) g"
  by (cases r) auto

lemma yields_read [yield_rules]: "yields Q (k g) g \<Longrightarrow> yields Q (call (gets s_guard) k) g"
  by (simp add: yields_def)

lemma yield_same: "undisturbed E \<Longrightarrow> run_state (e_yield E) s = (u, t) \<Longrightarrow> s_guard t = s_guard s"
  by (rule undisturbedD [OF _ advances_env(7)])

lemma now_same: "undisturbed E \<Longrightarrow> run_state (e_now E) s = (u, t) \<Longrightarrow> s_guard t = s_guard s"
  by (rule undisturbedD [OF _ advances_env(3)])

lemma yields_get_guard [yield_rules]: "undisturbed E \<Longrightarrow> yields Q (k g) g \<Longrightarrow> yields Q (call (get_guard E) k) g"
  by (rule yields_stepI) (auto split: prod.splits dest: yield_same)

lemma yields_on_guard [yield_rules]:
  "undisturbed E \<Longrightarrow> yields Q (k ()) (f g) \<Longrightarrow> yields Q (call (on_guard E f) k) g"
  by (rule yields_stepI) (auto split: prod.splits dest: yield_same)

lemma yields_guard_call [yield_rules]:
  "undisturbed E \<Longrightarrow> (\<And>x g'. f g = (x, g') \<Longrightarrow> yields Q (k x) g') \<Longrightarrow> yields Q (call (guard_call E f) k) g"
  by (rule yields_stepI) (auto split: prod.splits dest: yield_same)

lemma yields_guard_call_at [yield_rules]:
  "undisturbed E \<Longrightarrow> (\<And>now x g'. f now g = (x, g') \<Longrightarrow> yields Q (k x) g') \<Longrightarrow> yields Q (call (guard_call_at E f) k) g"
  by (rule yields_stepI) (auto split: prod.splits simp: yield_same now_same)

section \<open>Moves of the machine\<close>

text \<open>The times of a run of operations after \<open>clk\<close>: the last clock reading.\<close>

definition last_time :: "instant \<Rightarrow> machine_op list \<Rightarrow> instant" where
  "last_time clk ops = foldl (\<lambda>c x. case op_time x of None \<Rightarrow> c | Some t \<Rightarrow> t) clk ops"

definition guard_moves :: "('w \<Rightarrow> instant) \<Rightarrow> ownership_guard \<Rightarrow> 'w \<Rightarrow> ownership_guard \<Rightarrow> 'w \<Rightarrow> bool" where
  "guard_moves clk g w g' w' \<longleftrightarrow> clk w \<le> clk w' \<and>
     (\<exists>ops. g' = run_ops ops g \<and> clock_ok (clk w) ops \<and> last_time (clk w) ops \<le> clk w')"

text \<open>A table whose every change is an operation at a time, in the order of the times.\<close>

definition table_moves :: "('x \<Rightarrow> 's \<Rightarrow> 's) \<Rightarrow> ('x \<Rightarrow> instant) \<Rightarrow> instant \<Rightarrow> 's \<Rightarrow> instant \<Rightarrow> 's \<Rightarrow> bool" where
  "table_moves step tm a s b t \<longleftrightarrow> (\<exists>xs. t = fold step xs s \<and> sorted (a # map tm xs @ [b]))"

fun challenge_time :: "challenge_op \<Rightarrow> instant" where
  "challenge_time (Issue now c e) = now"
| "challenge_time (Redeem now c) = now"

definition queue_step :: "challenge_op \<Rightarrow> challenges \<Rightarrow> challenges" where
  "queue_step x cs = snd (challenge_step x cs)"

definition rate_step :: "string \<times> instant \<Rightarrow> proof_rate \<Rightarrow> proof_rate" where
  "rate_step = (\<lambda>(source, now) r. snd (allow source now r))"

text \<open>The machine, the queue of challenges and the windows of the limiter change only by their operations, each at
  the time of the clock.\<close>

definition machine_moves :: "('w \<Rightarrow> instant) \<Rightarrow> 'w motion" where
  "machine_moves clk s t \<longleftrightarrow> guard_moves clk (s_guard s) (s_world s) (s_guard t) (s_world t) \<and>
     table_moves queue_step challenge_time (clk (s_world s)) (s_challenges s) (clk (s_world t)) (s_challenges t) \<and>
     table_moves rate_step snd (clk (s_world s)) (s_proof_rate s) (clk (s_world t)) (s_proof_rate t)"

lemma clock_ok_append: "clock_ok c (xs @ ys) \<longleftrightarrow> clock_ok c xs \<and> clock_ok (last_time c xs) ys"
  by (induction xs arbitrary: c) (auto simp: last_time_def split: option.splits)

lemma last_time_append: "last_time c (xs @ ys) = last_time (last_time c xs) ys"
  by (simp add: last_time_def)

lemma clock_ok_mono: "clock_ok c ops \<Longrightarrow> b \<le> c \<Longrightarrow> clock_ok b ops"
  by (induction ops arbitrary: b c) (auto split: option.splits)

lemma last_time_mono: "b \<le> c \<Longrightarrow> last_time b ops \<le> last_time c ops"
  by (induction ops arbitrary: b c) (auto simp: last_time_def split: option.splits)

lemma guard_moves_refl: "clk w \<le> clk w' \<Longrightarrow> guard_moves clk g w g w'"
  by (auto simp: guard_moves_def last_time_def intro: exI [of _ "[]"])

lemma guard_moves_trans:
  assumes "guard_moves clk g w g' w'" "guard_moves clk g' w' g'' w''"
  shows "guard_moves clk g w g'' w''"
proof -
  obtain xs ys where xs: "clk w \<le> clk w'" "g' = run_ops xs g" "clock_ok (clk w) xs" "last_time (clk w) xs \<le> clk w'"
    and ys: "clk w' \<le> clk w''" "g'' = run_ops ys g'" "clock_ok (clk w') ys" "last_time (clk w') ys \<le> clk w''"
    using assms by (auto simp: guard_moves_def)
  have "clock_ok (clk w) (xs @ ys)"
    using xs ys by (simp add: clock_ok_append clock_ok_mono [of "clk w'"])
  moreover have "last_time (clk w) (xs @ ys) \<le> clk w''"
    using last_time_mono [OF xs(4), of ys] ys(4) by (simp add: last_time_append)
  ultimately show ?thesis
    using xs ys by (auto simp: guard_moves_def run_ops_append intro: exI [of _ "xs @ ys"])
qed

lemma guard_moves_op: "op_time x = None \<or> op_time x = Some (clk w) \<Longrightarrow> guard_moves clk g w (apply_op x g) w"
  by (auto simp: guard_moves_def last_time_def intro!: exI [of _ "[x]"])

lemma table_moves_refl: "a \<le> b \<Longrightarrow> table_moves step tm a s b s"
  by (auto simp: table_moves_def intro: exI [of _ "[]"])

lemma table_moves_trans:
  assumes "table_moves step tm a s b t" "table_moves step tm b t c u"
  shows "table_moves step tm a s c u"
proof -
  obtain xs ys where "t = fold step xs s" "sorted (a # map tm xs @ [b])" "u = fold step ys t" "sorted (b # map tm ys @ [c])"
    using assms by (auto simp: table_moves_def)
  then have "u = fold step (xs @ ys) s \<and> sorted (a # map tm (xs @ ys) @ [c])"
    by (fastforce simp: sorted_append)
  then show ?thesis unfolding table_moves_def by blast
qed

lemma table_moves_op: "tm x = a \<Longrightarrow> table_moves step tm a s a (step x s)"
  by (auto simp: table_moves_def intro!: exI [of _ "[x]"])

lemma table_moves_inv:
  assumes "table_moves step tm a s b t" "I s" "\<And>x s. I s \<Longrightarrow> I (step x s)"
  shows "I t"
proof -
  obtain xs where "t = fold step xs s" using assms(1) by (auto simp: table_moves_def)
  then show ?thesis using fold_invariant [of xs "\<lambda>_. True" I s step] assms(2,3) by simp
qed

lemma progress_machine: "progress (machine_moves clk)"
  unfolding progress_def machine_moves_def
  by (auto intro: guard_moves_refl guard_moves_trans table_moves_refl table_moves_trans)

lemma machine_moves_op:
  "op_time x = None \<or> op_time x = Some (clk (s_world s)) \<Longrightarrow> machine_moves clk s (s\<lparr>s_guard := apply_op x (s_guard s)\<rparr>)"
  by (simp add: machine_moves_def guard_moves_op table_moves_refl)

lemma machine_moves_unchanged:
  "clk (s_world s) \<le> clk (s_world t) \<Longrightarrow> s_guard t = s_guard s \<Longrightarrow> s_challenges t = s_challenges s \<Longrightarrow>
   s_proof_rate t = s_proof_rate s \<Longrightarrow> machine_moves clk s t"
  by (simp add: machine_moves_def guard_moves_refl table_moves_refl)

lemma machine_allows: "op_time x = None \<Longrightarrow> allows (machine_moves clk) (apply_op x)"
  by (simp add: machine_moves_op)

text \<open>A process whose environment, the other tasks included, keeps to the machine's operations.\<close>

definition machine_env :: "'w env \<Rightarrow> ('w \<Rightarrow> instant) \<Rightarrow> bool" where
  "machine_env E clk \<longleftrightarrow> env_advances (machine_moves clk) E \<and> timed E clk"

lemma machine_env_advances [advance_rules]: "machine_env E clk \<Longrightarrow> env_advances (machine_moves clk) E"
  by (simp add: machine_env_def)

text \<open>An operation on the state with the clock read while the lock is held.\<close>

lemma advances_locked:
  assumes "machine_env E clk" "\<And>now s. now = clk (s_world s) \<Longrightarrow> machine_moves clk s (snd (f now s))"
  shows "advances (machine_moves clk) (State_Monad.bind (e_yield E) (\<lambda>_. State_Monad.bind (e_now E) (\<lambda>now. State (f now))))"
proof (rule advancesI)
  fix s x t
  assume a: "run_state (State_Monad.bind (e_yield E) (\<lambda>_. State_Monad.bind (e_now E) (\<lambda>now. State (f now)))) s = (x, t)"
  obtain u s1 where y: "run_state (e_yield E) s = (u, s1)" by (rule prod.exhaust)
  obtain now s2 where n: "run_state (e_now E) s1 = (now, s2)" by (rule prod.exhaust)
  note adv = machine_env_advances [OF assms(1)]
  have "machine_moves clk s s2"
    by (rule progress_trans [OF progress_machine advancesD [OF advances_env(7) [OF adv] y] advancesD [OF advances_env(3) [OF adv] n]])
  moreover have "now = clk (s_world s2)" using timed_now [OF _ n] assms(1) by (auto simp: machine_env_def)
  then have "machine_moves clk s2 t" using a y n assms(2) [of now s2] by simp
  ultimately show "machine_moves clk s t" by (rule progress_trans [OF progress_machine])
qed

lemma advances_timed_op:
  assumes "machine_env E clk" "\<And>now g. \<exists>x. op_time x = Some now \<and> snd (f now g) = apply_op x g"
  shows "advances (machine_moves clk) (guard_call_at E f)"
  unfolding guard_call_at_def
proof (rule advances_locked [OF assms(1)])
  fix now and s :: "'a sys"
  assume "now = clk (s_world s)"
  then obtain x where "op_time x = Some (clk (s_world s))" "snd (f now (s_guard s)) = apply_op x (s_guard s)" using assms(2) by blast
  then show "machine_moves clk s (snd (case f now (s_guard s) of (x, g) \<Rightarrow> (x, s\<lparr>s_guard := g\<rparr>)))"
    using machine_moves_op [of x clk s] by (simp add: split_beta)
qed

text \<open>The two operations on the challenges.\<close>

lemma challenge_op_moves:
  assumes "challenge_time x = clk (s_world s)" "cs = queue_step x (s_challenges s)"
  shows "machine_moves clk s (s\<lparr>s_challenges := cs\<rparr>)"
  using table_moves_op [of challenge_time x, OF assms(1), of queue_step "s_challenges s"] assms(2)
  by (simp add: machine_moves_def guard_moves_refl table_moves_refl)

lemma modify_State: "modify f = State (\<lambda>s. ((), f s))"
  by (simp add: modify_def State_Monad.get_def State_Monad.set_def State_Monad.bind_def)

lemma moves_record_challenge:
  "machine_env E clk \<Longrightarrow> advances (machine_moves clk) (record_bootstrap_challenge E c e)"
  unfolding record_bootstrap_challenge_def modify_State
  by (rule advances_locked, assumption) (simp add: challenge_op_moves [of "Issue _ c e"] queue_step_def)

lemma moves_consume_challenge:
  "machine_env E clk \<Longrightarrow> advances (machine_moves clk) (consume_bootstrap_challenge E c)"
  unfolding consume_bootstrap_challenge_def
  by (rule advances_locked, assumption) (simp add: challenge_op_moves [of "Redeem _ c"] queue_step_def split_beta)

lemma advances_attempts:
  "machine_env E clk \<Longrightarrow> advances (machine_moves clk) (guard_call_at E begin_unlock_attempt)"
  "machine_env E clk \<Longrightarrow> advances (machine_moves clk) (guard_call_at E begin_recovery_from_error)"
  "machine_env E clk \<Longrightarrow> advances (machine_moves clk) (guard_call_at E begin_secret_operation_attempt)"
  by (rule advances_timed_op, assumption, metis apply_op.simps(2) op_time.simps(2))
    (rule advances_timed_op, assumption, metis apply_op.simps(4) op_time.simps(3),
     rule advances_timed_op, assumption, metis apply_op.simps(1) op_time.simps(1))

text \<open>The attempt budget is kept along every motion.\<close>

lemma run_ops_budget:
  "clock_ok c ops \<Longrightarrow> budget_inv (c, g) \<Longrightarrow> budget_inv (last_time c ops, run_ops ops g)"
proof (induction ops arbitrary: c g)
  case (Cons x ops)
  show ?case
  proof (cases "op_time x")
    case None
    with Cons.prems have "budget_inv (c, apply_op x g)"
      using machine_step_budget_inv [OF machine_step.untimed [OF None]] by blast
    with Cons None show ?thesis by (simp add: last_time_def)
  next
    case (Some t)
    with Cons.prems have "budget_inv (t, apply_op x g)"
      using machine_step_budget_inv [OF machine_step.timed [OF Some]] by auto
    with Cons Some show ?thesis by (simp add: last_time_def)
  qed
qed (simp add: last_time_def)

lemma moves_budget:
  assumes "guard_moves clk g w g' w'" "budget_inv (clk w, g)"
  shows "budget_inv (clk w', g')"
proof -
  obtain ops where ops: "g' = run_ops ops g" "clock_ok (clk w) ops" "last_time (clk w) ops \<le> clk w'"
    using assms(1) by (auto simp: guard_moves_def)
  show ?thesis using run_ops_budget [OF ops(2) assms(2)] ops by (auto simp: budget_inv_def)
qed

end
