(* ===== verification/Unlock.thy ===== *)
theory Unlock
  imports Owner_Seed Bootstrap Init_Status Machine_Steps
begin

text \<open>
  Start-up and unlocking, \<open>handlers.rs\<close> from \<open>initialize_ownership_state\<close> to
  \<open>verify_owner_seed_for_recovery\<close>: the start-up loop with its two independent budgets, the
  \<open>/unlock\<close> handler with its recovery section and the guard that is dropped at its end, the
  background tasks that finish an unlock, and the exchange with \<open>enclava-init\<close>.
\<close>

section \<open>Start-up\<close>

definition OWNER_SEED_STARTUP_RECHECK_ATTEMPTS :: nat where "OWNER_SEED_STARTUP_RECHECK_ATTEMPTS = 5"
definition OWNER_SEED_STARTUP_RECHECK_DELAY :: duration where "OWNER_SEED_STARTUP_RECHECK_DELAY = from_millis 2000"
definition OWNER_SEED_STARTUP_ERROR_ATTEMPTS :: nat where "OWNER_SEED_STARTUP_ERROR_ATTEMPTS = 120"
definition OWNER_SEED_STARTUP_ERROR_DELAY :: duration where "OWNER_SEED_STARTUP_ERROR_DELAY = from_millis 3000"
definition OWNER_SEED_STARTUP_ERROR_DEADLINE :: duration where "OWNER_SEED_STARTUP_ERROR_DEADLINE = from_millis 300000"
definition OWNER_SEED_STARTUP_REFRESH_CAP :: duration where "OWNER_SEED_STARTUP_REFRESH_CAP = from_millis 90000"
definition OWNER_SEED_STARTUP_TOTAL_DEADLINE :: duration where "OWNER_SEED_STARTUP_TOTAL_DEADLINE = from_millis 480000"

text \<open>\<open>timeout_at\<close> around a refresh.\<close>

definition refresh_before :: "'w env \<Rightarrow> instant \<Rightarrow> bool \<Rightarrow> ('w, ownership_error + ownership_observation) proc" where
  "refresh_before E deadline force_refresh =
     call (e_expired E deadline) (\<lambda>expired.
     if expired then ret (Inl (OwnerSeedUnavailable ''startup_refresh_timed_out''))
     else refresh_ownership_state E force_refresh)"

text \<open>\<open>sleep_until\<close>.\<close>

definition sleep_until :: "'w env \<Rightarrow> instant \<Rightarrow> ('w sys, unit) state" where
  "sleep_until E wake = State_Monad.bind (e_now E) (\<lambda>now. e_sleep E (wake - now))"

function startup_loop :: "'w env \<Rightarrow> instant \<Rightarrow> nat \<Rightarrow> nat \<Rightarrow> instant option \<Rightarrow> ('w, unit) proc" where
  "startup_loop E startup_deadline unclaimed_polls error_attempts error_deadline =
     call (e_now E) (\<lambda>now.
     let attempt_cap = now + OWNER_SEED_STARTUP_REFRESH_CAP;
         refresh_deadline = min (case error_deadline of Some budget \<Rightarrow> min attempt_cap budget | None \<Rightarrow> attempt_cap)
           startup_deadline in
     pbind (refresh_before E refresh_deadline (0 < unclaimed_polls + error_attempts)) (\<lambda>refreshed.
     case refreshed of
       Inr _ \<Rightarrow>
         call (get_guard E) (\<lambda>g.
         if \<not> is_unclaimed g then ret ()
         else if c_owner_ciphertext_backend (e_config E) \<noteq> ''kbs-resource'' \<or>
                 OWNER_SEED_STARTUP_RECHECK_ATTEMPTS \<le> unclaimed_polls + 1 then ret ()
         else call (e_now E) (\<lambda>now.
           call (e_sleep E (min OWNER_SEED_STARTUP_RECHECK_DELAY (startup_deadline - now))) (\<lambda>_.
           startup_loop E startup_deadline (unclaimed_polls + 1) error_attempts None)))
     | Inl err \<Rightarrow>
         call (e_now E) (\<lambda>now.
         let error_window = (case error_deadline of Some d \<Rightarrow> d | None \<Rightarrow> now + OWNER_SEED_STARTUP_ERROR_DEADLINE);
             deadline = min error_window startup_deadline in
         if c_owner_ciphertext_backend (e_config E) = ''kbs-resource'' \<and>
            error_attempts + 1 < OWNER_SEED_STARTUP_ERROR_ATTEMPTS \<and> now < deadline then
           call (sleep_until E (min (now + OWNER_SEED_STARTUP_ERROR_DELAY) deadline)) (\<lambda>_.
           startup_loop E startup_deadline unclaimed_polls (error_attempts + 1) (Some error_window))
         else call (on_guard E (set_ownership_error err)) (\<lambda>_. ret ()))))"
  by pat_completeness auto
termination
  by (relation "measure (\<lambda>(E, d, unclaimed_polls, error_attempts, w).
        (OWNER_SEED_STARTUP_RECHECK_ATTEMPTS - unclaimed_polls) + (OWNER_SEED_STARTUP_ERROR_ATTEMPTS - error_attempts))") auto

declare startup_loop.simps [simp del]

definition initialize_ownership_state :: "'w env \<Rightarrow> ('w, unit) proc" where
  "initialize_ownership_state E =
     call (gets s_guard) (\<lambda>g.
     if \<not> (is_password_mode g \<or> is_auto_unlock_mode g) then ret ()
     else call (e_now E) (\<lambda>now. startup_loop E (now + OWNER_SEED_STARTUP_TOTAL_DEADLINE) 0 0 None))"

section \<open>Talking to \<open>enclava-init\<close>\<close>

definition unlock_poll_timeout_seconds :: nat where
  "unlock_poll_timeout_seconds = HANDOFF_DEFAULT_TIMEOUT_SECONDS"

definition unlock_timeout :: duration where
  "unlock_timeout = from_secs unlock_poll_timeout_seconds"

definition unlock_socket :: "config \<Rightarrow> string" where
  "unlock_socket cfg = trim (c_enclava_init_unlock_socket cfg)"

text \<open>\<open>trim_end_matches(['\r', '\n'])\<close>.\<close>

definition trim_line_end :: "string \<Rightarrow> string" where
  "trim_line_end s = rev (dropWhile (\<lambda>c. ord c = 13 \<or> ord c = 10) (rev s))"

definition socket_reply :: "string \<Rightarrow> ownership_error + unit" where
  "socket_reply line =
     (let reply = trim_line_end line in
      if reply = ''OK'' then Inr ()
      else case strip_prefix ''ERR '' reply of
             Some reason \<Rightarrow> Inl (Store (''enclava_init_unlock_failed:'' @ reason))
           | None \<Rightarrow> Inl (Store (''enclava_init_unlock_unexpected_reply:'' @ reply)))"

definition request_owner_seed_unlock :: "'w env \<Rightarrow> bytes \<Rightarrow> duration \<Rightarrow> ('w, ownership_error + unit) proc" where
  "request_owner_seed_unlock E owner_seed timeout =
     pthen (connect_init_unlock_socket E (unlock_socket (e_config E)) timeout) (\<lambda>_.
     call (e_socket_write E (as_bytes (''owner-seed-v1:'' @ x_b64url_encode (e_ext E) owner_seed @ [CHR 10]))) (\<lambda>written.
     attempt (map_err (\<lambda>e. UnlockAmbiguous (''enclava_init_unlock_socket_write_failed:'' @ e)) written) (\<lambda>_.
     call (e_socket_line E timeout) (\<lambda>line.
     attempt (ok_or (UnlockAmbiguous ''enclava_init_unlock_socket_read_timeout'') line) (\<lambda>line.
     attempt (map_err (\<lambda>e. UnlockAmbiguous (''enclava_init_unlock_socket_read_failed:'' @ e)) line) (\<lambda>reply.
     if reply = [] then ret (Inl (UnlockAmbiguous ''enclava_init_unlock_socket_closed''))
     else ret (socket_reply reply)))))))"

definition unlock_owner_seed_via_init_socket :: "'w env \<Rightarrow> bytes \<Rightarrow> ('w, ownership_error + string option) proc" where
  "unlock_owner_seed_via_init_socket E owner_seed =
     pthen (enclava_init_ready_file_is_ready E) (\<lambda>ready.
     if ready then call (on_guard E set_unlocked) (\<lambda>_. ret (Inr None))
     else pthen (request_owner_seed_unlock E owner_seed unlock_timeout) (\<lambda>_.
       call (on_guard E set_unlocked) (\<lambda>_.
       call (spawn_enclava_init_ready_watch E unlock_timeout) (\<lambda>_.
       ret (Inr None)))))"

definition render_password_handoff_outcome :: "'w env \<Rightarrow> handoff_outcome \<Rightarrow> ('w, ownership_error + string option) proc" where
  "render_password_handoff_outcome E outcome =
     (case outcome of
        HandoffUnlocked \<Rightarrow> call (on_guard E set_unlocked) (\<lambda>_. ret (Inr None))
      | HandoffWrongPassword \<Rightarrow> ret (Inl WrongPassword)
      | HandoffFatal message \<Rightarrow>
          ret (Inl (Store (case split_once '':'' message of
            Some (slot, reason) \<Rightarrow>
              (if slot = SIGNAL_APP_DATA_SLOT \<or> slot = SIGNAL_TLS_DATA_SLOT
               then slot @ ''_unlock_failed:'' @ reason else message)
          | None \<Rightarrow> message)))
      | HandoffTimeout \<Rightarrow> ret (Inl Timeout))"

definition unlock_owner_seed_material :: "'w env \<Rightarrow> bytes \<Rightarrow> ('w, ownership_error + string option) proc" where
  "unlock_owner_seed_material E owner_seed =
     (if unlock_socket (e_config E) \<noteq> [] then unlock_owner_seed_via_init_socket E owner_seed
      else call (gets (\<lambda>s. g_signal_dir (s_guard s))) (\<lambda>dir.
        let slots = owner_seed_handoff_slots (e_config E) in
        attempt (derive_owner_volume_keys (e_ext E) owner_seed) (\<lambda>owner_keys.
        call (io_call E (\<lambda>F. write_password_handoff_keys_for_slots F dir owner_keys slots)) (\<lambda>written.
        attempt written (\<lambda>_.
        pthen (poll_password_handoff_result_for_slots E dir slots unlock_poll_timeout_seconds) (\<lambda>outcome.
        render_password_handoff_outcome E outcome))))))"

definition finalize_rewrapped_owner_seed :: "'w env \<Rightarrow> bytes \<Rightarrow> ('w, ownership_error + string option) proc" where
  "finalize_rewrapped_owner_seed E owner_seed =
     call (get_guard E) (\<lambda>g.
     if is_unlocked g then
       call (io_call E (\<lambda>F. clear_password_handoff_retry_files_for_slots F (g_signal_dir g)
                              (owner_seed_handoff_slots (e_config E)))) (\<lambda>cleared.
       attempt cleared (\<lambda>_.
       call (on_guard E set_unlocked) (\<lambda>_. ret (Inr None))))
     else unlock_owner_seed_material E owner_seed)"

section \<open>The unlock tasks\<close>

definition unlock_failed :: "string \<Rightarrow> response" where
  "unlock_failed detail = json_response 500
     (JObj [(''error'', JStr ''unlock_failed''), (''detail'', JStr detail), (''state'', JStr ''error'')])"

definition wrong_password_response :: response where
  "wrong_password_response = json_response 200 (JObj [(''error'', JStr ''wrong_password''), (''state'', JStr ''locked'')])"

text \<open>Record the error and answer with it.\<close>

definition fail_unlock :: "'w env \<Rightarrow> ownership_error \<Rightarrow> ('w, response) proc" where
  "fail_unlock E err = call (on_guard E (set_ownership_error err)) (\<lambda>_. ret (unlock_failed (error_to_string err)))"

definition render_level1_handoff_outcome :: "'w env \<Rightarrow> handoff_outcome \<Rightarrow> ('w, response) proc" where
  "render_level1_handoff_outcome E outcome =
     (case outcome of
        HandoffUnlocked \<Rightarrow>
          call (on_guard E set_unlocked) (\<lambda>_. ret (json_response 200 (JObj [(''state'', JStr ''unlocked'')])))
      | HandoffWrongPassword \<Rightarrow>
          call (gets (\<lambda>s. g_signal_dir (s_guard s))) (\<lambda>dir.
          call (io_call E (\<lambda>F. clear_handoff_retry_files F dir)) (\<lambda>cleared.
          case cleared of
            Inl err \<Rightarrow> fail_unlock E err
          | Inr _ \<Rightarrow> call (on_guard E set_locked_after_retry) (\<lambda>_. ret wrong_password_response)))
      | HandoffFatal message \<Rightarrow>
          call (on_guard E (set_error message)) (\<lambda>_. ret (unlock_failed message))
      | HandoffTimeout \<Rightarrow>
          call (on_guard E (set_error ''unlock_timeout'')) (\<lambda>_.
          ret (json_response 500 (JObj [(''error'', JStr ''unlock_timeout''), (''state'', JStr ''error'')]))))"

text \<open>The result of a fallible step, with the error recorded.\<close>

definition or_fail_unlock :: "'w env \<Rightarrow> ownership_error + 'a \<Rightarrow> ('a \<Rightarrow> ('w, response) proc) \<Rightarrow> ('w, response) proc" where
  "or_fail_unlock E r k = (case r of Inl err \<Rightarrow> fail_unlock E err | Inr v \<Rightarrow> k v)"

definition unlock_level1_mode :: "'w env \<Rightarrow> bytes \<Rightarrow> ('w, response) proc" where
  "unlock_level1_mode E password =
     or_fail_unlock E (fst (derive_luks_key (e_ext E) password (c_instance_id (e_config E)))) (\<lambda>key.
     call (gets (\<lambda>s. g_signal_dir (s_guard s))) (\<lambda>dir.
     call (io_call E (\<lambda>F. write_handoff_key F dir key)) (\<lambda>written.
     or_fail_unlock E written (\<lambda>_.
     pbind (poll_handoff_result E dir unlock_poll_timeout_seconds) (\<lambda>polled.
     or_fail_unlock E polled (\<lambda>outcome. render_level1_handoff_outcome E outcome))))))"

definition unlock_password_mode :: "'w env \<Rightarrow> bytes \<Rightarrow> ('w, response) proc" where
  "unlock_password_mode E password =
     or_fail_unlock E (fst (derive_password_wrap_key (e_ext E) password (c_instance_id (e_config E)))) (\<lambda>wrap_key.
     pbind (load_owner_seed_material_with_revalidation E) (\<lambda>loaded.
     or_fail_unlock E loaded (\<lambda>material.
     case om_encrypted material of
       None \<Rightarrow>
         (if is_some (om_sealed material) then
            call (on_guard E set_locked) (\<lambda>_. ret (json_response 409
              (JObj [(''error'', JStr ''owner_seed_recovery_required''), (''state'', JStr ''locked'')])))
          else call (on_guard E set_unclaimed) (\<lambda>_. ret (json_response 409
              (JObj [(''error'', JStr ''unclaimed''), (''state'', JStr ''unclaimed'')]))))
     | Some resource \<Rightarrow>
         (case decrypt_owner_seed (e_ext E) resource wrap_key of
            Inl WrongPassword \<Rightarrow> call (on_guard E set_locked_after_retry) (\<lambda>_. ret wrong_password_response)
          | Inl err \<Rightarrow> fail_unlock E err
          | Inr owner_seed \<Rightarrow>
              pbind (unlock_owner_seed_material E owner_seed) (\<lambda>unlocked.
              case unlocked of
                Inr warning \<Rightarrow>
                  pbind (emit_signed_owner_audit_event E owner_seed ''unlock''
                    (JObj [(''auto_unlock_enabled'', JBool False), (''warning'', jopt_str warning)])) (\<lambda>_.
                  ret (json_response 200 (JObj ((''state'', JStr ''unlocked'') #
                    (case warning of None \<Rightarrow> [] | Some w \<Rightarrow> [(''warning'', JStr w)])))))
              | Inl WrongPassword \<Rightarrow> call (on_guard E set_locked_after_retry) (\<lambda>_. ret wrong_password_response)
              | Inl err \<Rightarrow>
                  call (on_guard E (set_ownership_error err)) (\<lambda>_.
                  ret (unlock_failed (case err of Store detail \<Rightarrow> detail | _ \<Rightarrow> error_to_string err))))))))"

section \<open>The unlock handler\<close>

definition not_found_response :: response where
  "not_found_response = json_response 404 (JObj [(''error'', JStr ''not_found'')])"

definition unclaimed_response :: response where
  "unclaimed_response = json_response 409 (JObj [(''error'', JStr ''unclaimed''), (''state'', JStr ''unclaimed'')])"

definition reported_state :: "ownership_guard \<Rightarrow> string" where
  "reported_state g = (case Option.bind (jget (state_json g) ''state'') as_str of Some st \<Rightarrow> st | None \<Rightarrow> ''unknown'')"

definition not_locked_response :: "string \<Rightarrow> response" where
  "not_locked_response st = json_response 409 (JObj [(''error'', JStr ''not_locked''), (''state'', JStr st)])"

definition answer_not_locked :: "'w env \<Rightarrow> ('w, response) proc" where
  "answer_not_locked E = call (get_guard E) (\<lambda>g. ret (not_locked_response (reported_state g)))"

text \<open>The recovery section. \<open>Some\<close> is a response to return, \<open>None\<close> means that the request holds the
  reservation and goes on. The guard is dropped on every way out.\<close>

definition recovery_outcome :: "'w env \<Rightarrow> u64 \<Rightarrow> ownership_error + ownership_observation \<Rightarrow> ('w, response option) proc" where
  "recovery_outcome E generation refreshed =
     (case refreshed of
        Inl err \<Rightarrow>
          call (on_guard E (set_ownership_error err)) (\<lambda>_. ret (Some (not_locked_response ''error'')))
      | Inr observation \<Rightarrow>
          call (guard_call E (claim_recovered_state generation observation)) (\<lambda>claim.
          case claim of
            UnlockReservation \<Rightarrow> ret None
          | ClaimUnclaimed \<Rightarrow> ret (Some unclaimed_response)
          | Conflict \<Rightarrow> pbind (answer_not_locked E) (\<lambda>resp. ret (Some resp))))"

definition recovery_section :: "'w env \<Rightarrow> u64 \<Rightarrow> ('w, response option) proc" where
  "recovery_section E generation =
     pbind (refresh_ownership_state E True) (\<lambda>first.
     pbind (case first of Inl _ \<Rightarrow> refresh_ownership_state E True | Inr obs \<Rightarrow> ret (Inr obs)) (\<lambda>refreshed.
     pbind (recovery_outcome E generation refreshed) (\<lambda>r.
     call (on_guard E (restore_reprobeable_error_if_unlocking generation)) (\<lambda>_. ret r))))"

definition begin_unlock :: "'w env \<Rightarrow> ('w, response option) proc" where
  "begin_unlock E =
     call (guard_call_at E begin_unlock_attempt) (\<lambda>begun.
     case begun of
       Inr _ \<Rightarrow> ret None
     | Inl RateLimited \<Rightarrow> ret (Some rate_limited_response)
     | Inl NotLocked \<Rightarrow> pbind (answer_not_locked E) (\<lambda>resp. ret (Some resp))
     | Inl err \<Rightarrow> ret (Some (unlock_failed (error_to_string err))))"

text \<open>The reservation: by recovery when the error is one that a retry may clear, else charged to the
  attempt budget.\<close>

definition reserve_unlock :: "'w env \<Rightarrow> ('w, response option) proc" where
  "reserve_unlock E =
     call (get_guard E) (\<lambda>g.
     if error_is_reprobeable g then
       call (guard_call_at E begin_recovery_from_error) (\<lambda>begun.
       case begun of
         Inl RateLimited \<Rightarrow> ret (Some rate_limited_response)
       | Inl _ \<Rightarrow> begin_unlock E
       | Inr generation \<Rightarrow> recovery_section E generation)
     else begin_unlock E)"

definition spawn_unlock_task :: "'w env \<Rightarrow> bytes \<Rightarrow> ('w, response) proc" where
  "spawn_unlock_task E password =
     call (gets s_guard) (\<lambda>g.
     call (spawn (if is_password_mode g \<or> is_auto_unlock_mode g then UnlockPasswordTask password
                  else UnlockLevel1Task password)) (\<lambda>_.
     ret (json_response 202 (JObj [(''state'', JStr ''unlocking'')]))))"

definition unlock :: "'w env \<Rightarrow> string \<Rightarrow> ('w, response) proc" where
  "unlock E password =
     call (gets s_guard) (\<lambda>g.
     if \<not> requires_manual_unlock g then ret not_found_response
     else pbind (maybe_refresh_unclaimed_state E) (\<lambda>failed.
       case failed of
         Some response \<Rightarrow> ret response
       | None \<Rightarrow>
           call (get_guard E) (\<lambda>g.
           if is_unclaimed g then ret unclaimed_response
           else if password = [] then ret (json_response 400 (JObj [(''error'', JStr ''password_required'')]))
           else pbind (reserve_unlock E) (\<lambda>refused.
             case refused of
               Some response \<Rightarrow> ret response
             | None \<Rightarrow>
                 if c_instance_id (e_config E) = [] then
                   call (on_guard E (set_error ''configuration_error'')) (\<lambda>_. ret (json_response 500
                     (JObj [(''error'', JStr ''configuration_error''), (''state'', JStr ''error'')])))
                 else spawn_unlock_task E (as_bytes password)))))"

section \<open>Verification before recovery\<close>

definition release_verification :: "'w env \<Rightarrow> bool \<Rightarrow> ('w sys, unit) state" where
  "release_verification E restore_unclaimed =
     on_guard E (if restore_unclaimed then set_unclaimed_preserving_attempts else set_locked_after_retry)"

definition verify_owner_seed_for_recovery :: "'w env \<Rightarrow> bytes \<Rightarrow> bool \<Rightarrow> ('w, ownership_error + bool) proc" where
  "verify_owner_seed_for_recovery E owner_seed restore_unclaimed_on_failure =
     (if unlock_socket (e_config E) = [] \<or> ready_file (e_config E) = [] then ret (Inr False)
      else pthen (enclava_init_ready_file_is_ready E) (\<lambda>ready.
      if ready then ret (Inr False)
      else call (guard_call E begin_recovery_verification) (\<lambda>reserved.
      case reserved of
        Inl _ \<Rightarrow> ret (Inr False)
      | Inr _ \<Rightarrow>
          pbind (clear_enclava_init_error_for_recovery E) (\<lambda>cleared.
          case cleared of
            Inl err \<Rightarrow> call (release_verification E restore_unclaimed_on_failure) (\<lambda>_. ret (Inl err))
          | Inr _ \<Rightarrow>
              pbind (request_owner_seed_unlock E owner_seed unlock_timeout) (\<lambda>requested.
              case requested of
                Inl (UnlockAmbiguous detail) \<Rightarrow> ret (Inl (UnlockAmbiguous detail))
              | Inl err \<Rightarrow> call (release_verification E restore_unclaimed_on_failure) (\<lambda>_. ret (Inl err))
              | Inr _ \<Rightarrow>
                  pbind (wait_for_enclava_init_ready E unlock_timeout) (\<lambda>waited.
                  case waited of
                    Inr _ \<Rightarrow> ret (Inr True)
                  | Inl Timeout \<Rightarrow>
                      call (spawn_recovery_init_ready_watch unlock_timeout) (\<lambda>_. ret (Inl Timeout))
                  | Inl err \<Rightarrow>
                      (if err = Store ''enclava_init_ready_file_read_failed'' \<or> err = Store ''enclava_init_error_file_read_failed''
                       then ret (Inl (UnlockAmbiguous (case err of Store detail \<Rightarrow> detail | _ \<Rightarrow> [])))
                       else call (release_verification E restore_unclaimed_on_failure) (\<lambda>_. ret (Inl err)))))))))"

section \<open>Background tasks\<close>

definition ready_watch :: "'w env \<Rightarrow> duration \<Rightarrow> ('w, unit) proc" where
  "ready_watch E timeout =
     pbind (wait_for_enclava_init_ready E timeout) (\<lambda>r.
     call (on_guard E (case r of Inr _ \<Rightarrow> set_unlocked | Inl err \<Rightarrow> set_error (error_to_string err))) (\<lambda>_. ret ()))"

definition recovery_watch :: "'w env \<Rightarrow> duration \<Rightarrow> ('w, unit) proc" where
  "recovery_watch E timeout =
     pbind (wait_for_enclava_init_ready E timeout) (\<lambda>r.
     call (on_guard E (case r of Inr _ \<Rightarrow> set_error ''recovery_persistence_requires_restart''
       | Inl err \<Rightarrow> set_error (error_to_string err))) (\<lambda>_. ret ()))"

section \<open>Steps that leave the machine alone\<close>

lemma advances_polls [advance_rules]:
  "env_advances R E \<Longrightarrow> advances R (poll_handoff_result E dir n)"
  "env_advances R E \<Longrightarrow> advances R (poll_password_handoff_result_for_slots E dir slots n)"
  unfolding poll_handoff_result_def poll_password_handoff_result_for_slots_def poll_slot_handoff_result_def
  by (intro advance_rules; (assumption | simp))+

lemma advances_emit_audit [advance_rules]:
  "env_advances R E \<Longrightarrow> advances R (emit_signed_owner_audit_event E seed action details)"
  unfolding emit_signed_owner_audit_event_def by (intro advance_rules; (assumption | simp))

lemma advances_request_owner_seed_unlock [advance_rules]:
  "env_advances R E \<Longrightarrow> advances R (request_owner_seed_unlock E seed timeout)"
  unfolding request_owner_seed_unlock_def by (intro advance_rules; (assumption | simp))

section \<open>What an unlock leaves\<close>

text \<open>The response shows the state the machine is in.\<close>

definition reports :: "response \<Rightarrow> ownership_guard \<Rightarrow> bool" where
  "reports resp g \<longleftrightarrow> (\<exists>body. rp_body resp = JsonBody body \<and>
     jget body ''state'' = Some (JStr (state_name (current_state g))))"

lemma yields_any: "yields (\<lambda>_ _. True) m g"
  by (simp add: yields_def)

lemma reports_json [simp]:
  "reports (json_response n (JObj kvs)) g \<longleftrightarrow> map_of kvs ''state'' = Some (JStr (state_name (current_state g)))"
  by (simp add: reports_def)

lemma unlock_failed_reports [simp]: "reports (unlock_failed d) g \<longleftrightarrow> current_state g = Error"
  by (cases "current_state g") (simp_all add: unlock_failed_def)

lemma wrong_password_reports [simp]: "reports wrong_password_response g \<longleftrightarrow> current_state g = Locked"
  by (cases "current_state g") (simp_all add: wrong_password_response_def)

definition settled :: "response \<Rightarrow> ownership_guard \<Rightarrow> bool" where
  "settled resp g \<longleftrightarrow> reports resp g \<and> current_state g \<noteq> Unlocking"

lemma yields_fail_unlock [yield_rules]: "undisturbed E \<Longrightarrow> yields settled (fail_unlock E err) g"
  unfolding fail_unlock_def by (intro yield_rules) (simp_all add: settled_def)

lemma yields_or_fail_unlock [yield_rules]:
  "undisturbed E \<Longrightarrow> (\<And>v. r = Inr v \<Longrightarrow> yields settled (k v) g) \<Longrightarrow> yields settled (or_fail_unlock E r k) g"
  unfolding or_fail_unlock_def by (intro yield_rules) auto

lemma yields_outcome [yield_rules]:
  "undisturbed E \<Longrightarrow> yields (\<lambda>r g'. is_ok r \<longrightarrow> current_state g' = Unlocked) (render_password_handoff_outcome E outcome) g"
  unfolding render_password_handoff_outcome_def
  by (cases outcome) (auto intro!: yield_rules)

text \<open>Handing the seed over leaves the pod unlocked exactly when it is reported as done.\<close>

lemma yields_unlock_material:
  assumes "undisturbed E"
  shows "yields (\<lambda>r g'. is_ok r \<longrightarrow> current_state g' = Unlocked) (unlock_owner_seed_material E seed) g"
  unfolding unlock_owner_seed_material_def unlock_owner_seed_via_init_socket_def
  by (insert assms undisturbed_env [OF assms],
     (assumption | rule yield_rules | (rule yields_call yields_pbind yields_pthen, (intro advance_rules; (assumption | simp))) | simp)+)

lemma yields_level1_outcome [yield_rules]:
  "undisturbed E \<Longrightarrow> yields settled (render_level1_handoff_outcome E outcome) g"
  unfolding render_level1_handoff_outcome_def
  by (insert undisturbed_env [of E], cases outcome; simp;
     (assumption | rule yield_rules | (rule yields_call yields_pbind, (intro advance_rules; (assumption | simp))) | simp add: settled_def)+)

text \<open>A refresh that no other request interferes with.\<close>

lemma yields_settle:
  "undisturbed E \<Longrightarrow> yields (\<lambda>obs g'. obs = material_observed material \<and>
     g' = (if encrypted_present obs \<or> sealed_present obs then set_locked g
           else if is_unlocking g then g else if is_unclaimed g then set_unclaimed_preserving_attempts g
           else set_unclaimed g)) (settle_ownership_state E material) g"
  unfolding settle_ownership_state_def
  by (assumption | rule yield_rules | simp add: material_observed_def)+

definition refreshed :: "ownership_guard \<Rightarrow> ownership_error + ownership_observation \<Rightarrow> ownership_guard \<Rightarrow> bool" where
  "refreshed g r g' \<longleftrightarrow>
     (case r of
        Inl _ \<Rightarrow> g' = g
      | Inr obs \<Rightarrow>
          (if encrypted_present obs \<or> sealed_present obs then g' = set_locked g
           else g' = g \<or> (current_state g \<noteq> Unlocking \<and> current_state g' = Unclaimed \<and> g_mode g' = g_mode g)))"

lemma refreshed_Inl [simp]: "refreshed g (Inl e) g' \<longleftrightarrow> g' = g"
  by (simp add: refreshed_def)

lemma yields_refresh:
  assumes "undisturbed E"
  shows "yields (refreshed g) (refresh_ownership_state E force_refresh) g"
proof -
  note adv = undisturbed_env [OF assms]
  have settle: "yields (refreshed g) (pbind (settle_ownership_state E material) (\<lambda>obs. ret (Inr obs))) g" for material
    by (rule yields_seq [OF yields_settle [OF assms]], rule yields_ret)
      (auto simp: refreshed_def is_unlocking_def)
  show ?thesis
    unfolding refresh_ownership_state_def evict_owner_seed_entries_def
    by (insert assms adv,
       (assumption | rule yield_rules settle | (rule yields_call yields_pthen, (intro advance_rules; (assumption | simp)))
        | simp add: refreshed_def)+)
qed

lemma yields_maybe_refresh:
  assumes "undisturbed E"
  shows "yields (\<lambda>r g'. (g' = g \<or> current_state g' \<in> {Locked, Unclaimed} \<and> g_mode g' = g_mode g) \<and>
    (\<forall>resp. r = Some resp \<longrightarrow> rp_status resp \<noteq> 202)) (maybe_refresh_unclaimed_state E) g"
  unfolding maybe_refresh_unclaimed_state_def
  by (insert assms, (assumption | rule yield_rules yields_seq [OF yields_refresh]
      | (auto simp: refreshed_def split: sum.splits if_splits)[1])+)

section \<open>What the handler leaves\<close>

text \<open>After the reservation step: the request holds the reservation, or it is refused and no
  reservation is left behind.\<close>

definition reserved :: "response option \<Rightarrow> ownership_guard \<Rightarrow> bool" where
  "reserved refused g \<longleftrightarrow>
     (case refused of None \<Rightarrow> current_state g = Unlocking
      | Some resp \<Rightarrow> current_state g \<noteq> Unlocking \<and> rp_status resp \<noteq> 202)"

lemma yields_answer_not_locked:
  "undisturbed E \<Longrightarrow> yields (\<lambda>resp g'. g' = g \<and> rp_status resp = 409) (answer_not_locked E) g"
  unfolding answer_not_locked_def not_locked_response_def by (assumption | rule yield_rules | simp)+

lemma begin_unlock_attempt_cases:
  assumes "begin_unlock_attempt now g = (r, g')" "mode_requires_manual_unlock (g_mode g)"
  shows "r = Inr () \<and> current_state g' = Unlocking \<or> r \<in> {Inl RateLimited, Inl NotLocked} \<and> current_state g' = current_state g"
  using assms by (auto simp: begin_unlock_attempt_def current_state_def Let_def machine_defs split: if_splits)

lemma yields_begin_unlock:
  assumes "undisturbed E" "current_state g \<noteq> Unlocking" "mode_requires_manual_unlock (g_mode g)"
  shows "yields reserved (begin_unlock E) g"
  unfolding begin_unlock_def
proof (rule yields_guard_call_at [OF assms(1)])
  fix now r g'
  assume "begin_unlock_attempt now g = (r, g')"
  then consider "r = Inr ()" "current_state g' = Unlocking" | "r \<in> {Inl RateLimited, Inl NotLocked}" "current_state g' \<noteq> Unlocking"
    using begin_unlock_attempt_cases assms(2,3) by metis
  then show "yields reserved (case r of Inr _ \<Rightarrow> ret None | Inl RateLimited \<Rightarrow> ret (Some rate_limited_response)
     | Inl NotLocked \<Rightarrow> pbind (answer_not_locked E) (\<lambda>resp. ret (Some resp))
     | Inl err \<Rightarrow> ret (Some (unlock_failed (error_to_string err)))) g'"
    by cases (auto simp: reserved_def rate_limited_response_def intro!: yields_ret
        yields_seq [OF yields_answer_not_locked [OF assms(1)]])
qed

lemma restore_same: "current_state g \<noteq> Unlocking \<Longrightarrow> restore_reprobeable_error_if_unlocking n g = g"
  by (simp add: restore_reprobeable_error_if_unlocking_def current_state_def Let_def)

lemma yields_recovery_section:
  assumes "undisturbed E" "begin_recovery_from_error now g0 = (Inr n, g)"
  shows "yields reserved (recovery_section E n) g"
proof -
  have g: "current_state g = Unlocking" "m_unlock_generation (g_machine g) = n"
    using assms(2) by (auto simp: machine_defs Let_def current_state_def split: if_splits)
  let ?restore = "restore_reprobeable_error_if_unlocking n"
  have out: "yields (\<lambda>r g'. reserved r (?restore g')) (recovery_outcome E n r) g'" if "refreshed g r g'" for r g'
    unfolding recovery_outcome_def
  proof (rule yields_sum)
    fix err
    show "yields (\<lambda>r g'. reserved r (?restore g')) (call (on_guard E (set_ownership_error err))
      (\<lambda>_. ret (Some (not_locked_response ''error'')))) g'"
      by (intro yield_rules assms(1)) (simp add: reserved_def not_locked_response_def restore_same)
  next
    fix obs
    assume "r = Inr obs"
    with that have "g' = (if encrypted_present obs \<or> sealed_present obs then set_locked g else g)"
      by (auto simp: refreshed_def g split: if_splits)
    then show "yields (\<lambda>r g'. reserved r (?restore g')) (call (guard_call E (claim_recovered_state n obs)) (\<lambda>claim. case claim of
        UnlockReservation \<Rightarrow> ret None | ClaimUnclaimed \<Rightarrow> ret (Some unclaimed_response)
      | Conflict \<Rightarrow> pbind (answer_not_locked E) (\<lambda>resp. ret (Some resp)))) g'"
      using g by (intro yields_guard_call assms(1))
        (auto simp: claim_recovered_state_def machine_defs current_state_def Let_def reserved_def unclaimed_response_def
          restore_reprobeable_error_if_unlocking_def intro!: yields_ret split: if_splits)
  qed
  have again: "yields (refreshed g)
      (case r of Inl _ \<Rightarrow> refresh_ownership_state E True | Inr obs \<Rightarrow> ret (Inr obs)) g'" if "refreshed g r g'" for r g'
    using that yields_refresh [OF assms(1), of g] by (cases r) (auto intro!: yields_ret)
  show ?thesis
    unfolding recovery_section_def
    by (rule yields_seq [OF yields_refresh [OF assms(1)]], rule yields_seq [OF again], assumption,
        rule yields_seq [OF out], assumption) (intro yield_rules assms(1))
qed

lemma yields_reserve_unlock:
  assumes "undisturbed E" "current_state g \<noteq> Unlocking" "mode_requires_manual_unlock (g_mode g)"
  shows "yields reserved (reserve_unlock E) g"
  unfolding reserve_unlock_def
proof (rule yields_get_guard [OF assms(1)], rule yields_if)
  show "yields reserved (begin_unlock E) g" by (rule yields_begin_unlock [OF assms])
  show "yields reserved (call (guard_call_at E begin_recovery_from_error) (\<lambda>begun. case begun of
      Inl RateLimited \<Rightarrow> ret (Some rate_limited_response) | Inl _ \<Rightarrow> begin_unlock E
    | Inr generation \<Rightarrow> recovery_section E generation)) g"
  proof (rule yields_guard_call_at [OF assms(1)])
    fix now r g'
    assume r: "begin_recovery_from_error now g = (r, g')"
    show "yields reserved (case r of Inl RateLimited \<Rightarrow> ret (Some rate_limited_response) | Inl _ \<Rightarrow> begin_unlock E
      | Inr generation \<Rightarrow> recovery_section E generation) g'"
    proof (cases r)
      case (Inr n)
      then show ?thesis using yields_recovery_section [OF assms(1)] r by simp
    next
      case (Inl e)
      then have "current_state g' \<noteq> Unlocking" "mode_requires_manual_unlock (g_mode g')"
        using r assms(2,3) by (auto simp: machine_defs Let_def current_state_def split: if_splits)
      then show ?thesis using Inl yields_begin_unlock [OF assms(1)]
        by (auto simp: reserved_def rate_limited_response_def intro!: yields_ret split: ownership_error.splits)
    qed
  qed
qed

lemma yields_unlock_password_mode:
  assumes "undisturbed E"
  shows "yields settled (unlock_password_mode E password) g"
proof -
  note adv = undisturbed_env [OF assms]
  have done_ok: "yields settled (pbind (emit_signed_owner_audit_event E seed action details) (\<lambda>_. ret (json_response 200
      (JObj ((''state'', JStr ''unlocked'') # kvs))))) g'" if "current_state g' = Unlocked" for seed action details kvs g'
    by (rule yields_pbind, rule advances_emit_audit [OF adv], rule yields_ret) (simp add: settled_def that)
  have handed: "yields settled (case r of
       Inr warning \<Rightarrow> pbind (emit_signed_owner_audit_event E seed ''unlock''
                    (JObj [(''auto_unlock_enabled'', JBool False), (''warning'', jopt_str warning)])) (\<lambda>_.
                  ret (json_response 200 (JObj ((''state'', JStr ''unlocked'') #
                    (case warning of None \<Rightarrow> [] | Some w \<Rightarrow> [(''warning'', JStr w)])))))
     | Inl WrongPassword \<Rightarrow> call (on_guard E set_locked_after_retry) (\<lambda>_. ret wrong_password_response)
     | Inl err \<Rightarrow> call (on_guard E (set_ownership_error err)) (\<lambda>_.
                  ret (unlock_failed (case err of Store detail \<Rightarrow> detail | _ \<Rightarrow> error_to_string err)))) g'"
    if "is_ok r \<longrightarrow> current_state g' = Unlocked" for r :: "ownership_error + string option" and seed g'
    using that by (auto intro!: done_ok yield_rules assms simp: settled_def split: sum.splits ownership_error.splits)
  show ?thesis
    unfolding unlock_password_mode_def
    by (rule yields_or_fail_unlock [OF assms], rule yields_seq [OF yields_any], rule yields_or_fail_unlock [OF assms])
      (auto split: option.splits sum.splits ownership_error.splits simp: settled_def
        intro!: yield_rules assms yields_seq [OF yields_unlock_material [OF assms]] handed done_ok)
qed

section \<open>Properties\<close>



section \<open>Concrete runs\<close>

definition files_config :: config where
  "files_config = demo_config\<lparr>c_owner_ciphertext_backend := ''filesystem'', c_owner_escrow_dir := ''/e'',
     c_owner_escrow_encrypted_key := ''seed'', c_owner_escrow_sealed_key := ''sealed''\<rparr>"

lemma files_config_sel [simp]:
  "c_owner_ciphertext_backend files_config = ''filesystem''" "c_owner_escrow_dir files_config = ''/e''"
  "c_owner_escrow_encrypted_key files_config = ''seed''" "c_owner_escrow_sealed_key files_config = ''sealed''"
  "c_instance_id files_config = ''inst-1''"
  by (simp_all add: files_config_def)

abbreviation files_env :: "event list env" where
  "files_env \<equiv> demo_env no_answer files_config"

abbreviation files_sys :: "event list sys" where
  "files_sys \<equiv> demo_sys\<lparr>s_files := [(''/e'', Dir)]\<rparr>"

lemma demo_guard: "is_unclaimed (s_guard demo_sys) = False" "requires_manual_unlock (s_guard demo_sys)"
  "current_state (s_guard demo_sys) = Locked" "error_is_reprobeable (s_guard demo_sys) = False"
  by (simp_all add: demo_sys_def machine_eval is_unclaimed_def requires_manual_unlock_def current_state_def error_is_reprobeable_def)


lemma demo_wrap_key: "fst (derive_password_wrap_key demo_externals [1] ''inst-1'') \<noteq> Inl e"
  by (simp add: derive_password_wrap_key_def derive_hkdf_key_def demo_externals_def numeral_nat)


end
