(* ===== verification/Handlers.thy ===== *)
theory Handlers
  imports Unlock Config_Store Jwt
begin

text \<open>
  The remaining request handlers of \<open>handlers.rs\<close>: health and status, the claim of a fresh pod,
  change of password, recovery, the legacy auto-unlock routes, configuration, teardown, receipts,
  resources and the log relay. A handler takes the environment and the request as the extractors
  of the web framework deliver it (decoded body and path, verified token), and answers a
  \<open>response\<close>.
\<close>

section \<open>Health and status\<close>

definition health :: "'w env \<Rightarrow> ('w, response) proc" where
  "health E =
     call (utc_now E) (\<lambda>now.
     call (get_guard E) (\<lambda>g.
     case health_status now g of (code, body) \<Rightarrow> ret (json_response code body)))"

definition status_identity :: "config \<Rightarrow> ownership_identity \<Rightarrow> (string \<times> json) list" where
  "status_identity cfg identity =
     [(''instance_id'', JStr (c_instance_id cfg)),
      (''ciphertext_backend'', JStr (c_owner_ciphertext_backend cfg)),
      (''tenant_id'', jopt_str (oi_tenant_id identity)),
      (''claims_instance_id'', jopt_str (oi_instance_id identity)),
      (''bootstrap_owner_pubkey_hash'', jopt_str (oi_bootstrap_owner_pubkey_hash identity)),
      (''tenant_instance_identity_hash'', jopt_str (oi_tenant_instance_identity_hash identity)),
      (''claims_verified'', JBool (oi_claims_verified identity)),
      (''claims_error'', jopt_str (oi_claims_error identity))]"

definition jset_all :: "json \<Rightarrow> (string \<times> json) list \<Rightarrow> json" where
  "jset_all body kvs = foldl (\<lambda>b (k, v). jset b k v) body kvs"

definition status :: "'w env \<Rightarrow> ('w, response) proc" where
  "status E =
     call (gets s_guard) (\<lambda>g.
     if \<not> requires_manual_unlock g then ret not_found_response
     else pbind (maybe_refresh_unclaimed_state E) (\<lambda>failed.
       case failed of
         Some response \<Rightarrow> ret response
       | None \<Rightarrow>
           call (get_guard E) (\<lambda>g.
           pbind (fetch_ownership_identity E) (\<lambda>identity.
           call (io_read E (\<lambda>F. is_config_ready F (c_cap_config_dir (e_config E)))) (\<lambda>config_ready.
           pbind (bootstrap_diagnostics_for_status E) (\<lambda>(last_init_stage, bootstrap_error).
           pbind (read_acme_cooldown E) (\<lambda>cooldown.
           ret (json_response 200 (jset_all (state_json g)
             (status_identity (e_config E) identity @ [(''config_ready'', JBool config_ready)] @
              (case last_init_stage of Some st \<Rightarrow> [(''last_init_stage'', JStr st)] | None \<Rightarrow> []) @
              (case bootstrap_error of Some e \<Rightarrow> [(''bootstrap_error'', e)] | None \<Rightarrow> []) @
              (case cooldown of Some c \<Rightarrow> [(''acme_retry_after'', JStr (ac_retry_after c))] | None \<Rightarrow> [])))))))))))"

section \<open>Claiming a pod\<close>

definition already_claimed :: "'w env \<Rightarrow> ('w, response) proc" where
  "already_claimed E =
     call (get_guard E) (\<lambda>g. ret (json_response 409
       (JObj [(''error'', JStr ''already_claimed''), (''state'', state_json g)])))"

definition pubkey_hash_missing :: "ownership_identity \<Rightarrow> response" where
  "pubkey_hash_missing identity = json_response 409
     (JObj [(''error'', JStr ''bootstrap_owner_pubkey_hash_missing''), (''claims_error'', jopt_str (oi_claims_error identity))])"

text \<open>The prologue both bootstrap handlers share.\<close>

definition when_unclaimed :: "'w env \<Rightarrow> ('w, response) proc \<Rightarrow> ('w, response) proc" where
  "when_unclaimed E k =
     call (gets s_guard) (\<lambda>g.
     if \<not> requires_manual_unlock g then ret not_found_response
     else pbind (maybe_refresh_unclaimed_state E) (\<lambda>failed.
       case failed of
         Some response \<Rightarrow> ret response
       | None \<Rightarrow> call (get_guard E) (\<lambda>g. if \<not> is_unclaimed g then already_claimed E else k)))"

text \<open>A float that is not finite serializes as null.\<close>

definition json_of_f64 :: "f64 \<Rightarrow> json" where
  "json_of_f64 x = (case x of Finite _ \<Rightarrow> JFloat x | _ \<Rightarrow> JNull)"

definition bootstrap_challenge_handler :: "'w env \<Rightarrow> ('w, response) proc" where
  "bootstrap_challenge_handler E =
     when_unclaimed E (
     pbind (fetch_ownership_identity E) (\<lambda>identity.
     if oi_bootstrap_owner_pubkey_hash identity = None then ret (pubkey_hash_missing identity)
     else call (e_random E 32) (\<lambda>entropy.
       case entropy of
         Inl e \<Rightarrow> ret (json_response 500 (JObj [(''error'', JStr ''challenge_entropy_unavailable''), (''detail'', JStr e)]))
       | Inr challenge_bytes \<Rightarrow>
           (let challenge = x_b64url_encode (e_ext E) challenge_bytes; ttl = c_ownership_challenge_ttl_seconds (e_config E) in
            call (e_now E) (\<lambda>now.
            or_panic (instant_plus now (from_secs (f64_as_u64 ttl))) (\<lambda>until.
            call (record_bootstrap_challenge E challenge until) (\<lambda>_.
            ret (json_response 200 (JObj [(''instance_id'', JStr (c_instance_id (e_config E))),
              (''challenge'', JStr challenge), (''nonce'', JStr challenge),
              (''expires_in_seconds'', json_of_f64 ttl)])))))))))"

record bootstrap_claim_request =
  bc_challenge :: string
  bc_bootstrap_pubkey :: string
  bc_signature :: string
  bc_password :: string

definition failed_response :: "string \<Rightarrow> string \<Rightarrow> response" where
  "failed_response err detail = json_response 500 (JObj [(''error'', JStr err), (''detail'', JStr detail)])"

definition res_or_empty :: "'e + string \<Rightarrow> string" where
  "res_or_empty r = (case r of Inr v \<Rightarrow> v | Inl _ \<Rightarrow> [])"

text \<open>Three steps that several handlers share, each answering 500 with the handler's error code when it
  fails: the wrap key of a password, the seed encrypted under it with a fresh nonce, and the
  update of the stored material.\<close>

definition with_wrap_key :: "'w env \<Rightarrow> string \<Rightarrow> bytes \<Rightarrow> (bytes \<Rightarrow> ('w, response) proc) \<Rightarrow> ('w, response) proc" where
  "with_wrap_key E err password k =
     (case fst (derive_password_wrap_key (e_ext E) password (c_instance_id (e_config E))) of
        Inl e \<Rightarrow> ret (failed_response err (error_to_string e))
      | Inr wrap_key \<Rightarrow> k wrap_key)"

definition wrap_seed :: "'w env \<Rightarrow> string \<Rightarrow> bytes \<Rightarrow> bytes \<Rightarrow> (bytes \<Rightarrow> ('w, response) proc) \<Rightarrow> ('w, response) proc" where
  "wrap_seed E err owner_seed wrap_key k =
     call (e_random E 12) (\<lambda>nonce.
     case encrypt_owner_seed (e_ext E) nonce owner_seed wrap_key of
       Inl e \<Rightarrow> ret (failed_response err (error_to_string e))
     | Inr encrypted \<Rightarrow> k encrypted)"

definition store_seed ::
  "'w env \<Rightarrow> string \<Rightarrow> escrow_value_update \<Rightarrow> escrow_value_update \<Rightarrow> ('w, response) proc \<Rightarrow> ('w, response) proc" where
  "store_seed E err encrypted sealed k =
     pbind (update_owner_seed_material E encrypted sealed) (\<lambda>stored.
     case stored of Inl e \<Rightarrow> ret (failed_response err (error_to_string e)) | Inr _ \<Rightarrow> k)"

text \<open>The second half of a claim, once its signature is verified: a fresh seed is wrapped under the
  password, stored, and handed to the volumes.\<close>

definition claim_outcome :: "'w env \<Rightarrow> bytes \<Rightarrow> ownership_error + string option \<Rightarrow> ('w, response) proc" where
  "claim_outcome E owner_seed unlocked =
     (case unlocked of
        Inr warning \<Rightarrow>
          (let owner_pubkey = res_or_empty (owner_public_key_b64url (e_ext E) owner_seed) in
           pbind (emit_signed_owner_audit_event E owner_seed ''claim''
             (JObj [(''auto_unlock_enabled'', JBool False), (''owner_public_key'', JStr owner_pubkey),
                (''warning'', jopt_str warning)])) (\<lambda>_.
           ret (json_response 200 (JObj [(''status'', JStr ''CLAIM_ACCEPTED''), (''state'', JStr ''unlocked''),
             (''owner_public_key'', JStr owner_pubkey),
             (''owner_seed_mnemonic'', JStr (res_or_empty (owner_seed_mnemonic (e_ext E) owner_seed))),
             (''warning'', jopt_str warning)]))))
      | Inl err \<Rightarrow>
          call (on_guard E (set_ownership_error err)) (\<lambda>_.
          ret (json_response 500 (JObj [(''error'', JStr ''claim_failed''),
            (''detail'', JStr (error_to_string err)), (''state'', JStr ''error'')]))))"

definition hand_over_new_seed :: "'w env \<Rightarrow> bytes \<Rightarrow> ('w, response) proc" where
  "hand_over_new_seed E owner_seed =
     call (on_guard E set_locked) (\<lambda>_.
     pbind (unlock_owner_seed_material E owner_seed) (claim_outcome E owner_seed))"

definition seal_new_owner :: "'w env \<Rightarrow> bytes \<Rightarrow> ('w, response) proc" where
  "seal_new_owner E password =
     with_wrap_key E ''claim_failed'' password (\<lambda>wrap_key.
     call (e_random E 32) (\<lambda>entropy.
     case entropy of
       Inl e \<Rightarrow> ret (failed_response ''claim_failed'' (''owner_seed_entropy_unavailable:'' @ e))
     | Inr owner_seed \<Rightarrow>
         wrap_seed E ''claim_failed'' owner_seed wrap_key (\<lambda>encrypted.
         store_seed E ''claim_failed'' (SetValue encrypted) Remove (hand_over_new_seed E owner_seed))))"

definition bootstrap_claim :: "'w env \<Rightarrow> bootstrap_claim_request \<Rightarrow> ('w, response) proc" where
  "bootstrap_claim E payload =
     when_unclaimed E (
     if trim (bc_password payload) = [] then ret (json_response 400 (JObj [(''error'', JStr ''password_required'')]))
     else call (consume_bootstrap_challenge E (bc_challenge payload)) (\<lambda>challenge_ok.
     if \<not> challenge_ok then ret (json_response 400 (JObj [(''error'', JStr ''bootstrap_challenge_invalid'')]))
     else pbind (fetch_ownership_identity E) (\<lambda>identity.
     case oi_bootstrap_owner_pubkey_hash identity of
       None \<Rightarrow> ret (pubkey_hash_missing identity)
     | Some expected_hash \<Rightarrow>
         (case validate_bootstrap_signature (e_ext E) (bc_challenge payload) (bc_bootstrap_pubkey payload)
                 (bc_signature payload) expected_hash of
            Inl err \<Rightarrow> ret (json_response 401 (JObj [(''error'', JStr ''bootstrap_signature_invalid''),
              (''detail'', JStr (error_to_string err))]))
          | Inr _ \<Rightarrow> seal_new_owner E (as_bytes (bc_password payload))))))"

section \<open>Changing the password\<close>

definition password_required :: response where
  "password_required = json_response 400 (JObj [(''error'', JStr ''password_required'')])"

text \<open>The stored envelope opened with a password, as the two password-authenticated handlers do:
  \<open>err\<close> is their error code, and the continuation gets the seed.\<close>

definition open_owner_seed ::
  "'w env \<Rightarrow> string \<Rightarrow> bytes \<Rightarrow> ownership_error + owner_seed_material \<Rightarrow> (bytes \<Rightarrow> ('w, response) proc) \<Rightarrow> ('w, response) proc" where
  "open_owner_seed E err password loaded k =
     (case loaded of
        Inl e \<Rightarrow> ret (failed_response err (error_to_string e))
      | Inr material \<Rightarrow>
          (case om_encrypted material of
             None \<Rightarrow> ret unclaimed_response
           | Some resource \<Rightarrow>
               (case fst (derive_password_wrap_key (e_ext E) password (c_instance_id (e_config E))) of
                  Inl e \<Rightarrow> ret (failed_response err (error_to_string e))
                | Inr wrap_key \<Rightarrow>
                    (case decrypt_owner_seed (e_ext E) resource wrap_key of
                       Inl WrongPassword \<Rightarrow> ret (json_response 401 (JObj [(''error'', JStr ''wrong_password'')]))
                     | Inl e \<Rightarrow> ret (failed_response err (error_to_string e))
                     | Inr owner_seed \<Rightarrow> k owner_seed))))"

definition with_owner_seed :: "'w env \<Rightarrow> string \<Rightarrow> bytes \<Rightarrow> (bytes \<Rightarrow> ('w, response) proc) \<Rightarrow> ('w, response) proc" where
  "with_owner_seed E err password k =
     pbind (begin_rate_limited_secret_operation E) (\<lambda>limited.
     case limited of
       Some response \<Rightarrow> ret response
     | None \<Rightarrow>
         pbind (load_owner_seed_material_with_revalidation E) (\<lambda>loaded. open_owner_seed E err password loaded k))"

definition audit_owner_change :: "'w env \<Rightarrow> bytes \<Rightarrow> string \<Rightarrow> ('w, unit) proc" where
  "audit_owner_change E owner_seed action =
     emit_signed_owner_audit_event E owner_seed action
       (JObj [(''auto_unlock_enabled'', JBool False),
          (''owner_public_key'', JStr (res_or_empty (owner_public_key_b64url (e_ext E) owner_seed)))])"

definition change_password :: "'w env \<Rightarrow> string \<Rightarrow> string \<Rightarrow> ('w, response) proc" where
  "change_password E old_password new_password =
     (let err = ''change_password_failed'' in
      if old_password = [] \<or> new_password = [] then ret password_required
      else with_owner_seed E err (as_bytes old_password) (\<lambda>owner_seed.
        with_wrap_key E err (as_bytes new_password) (\<lambda>new_wrap_key.
        wrap_seed E err owner_seed new_wrap_key (\<lambda>encrypted.
        store_seed E err (SetValue encrypted) Keep (
        pbind (audit_owner_change E owner_seed ''change_password'') (\<lambda>_.
        ret (json_response 200 (JObj [(''status'', JStr ''password_changed'')]))))))))"

definition enable_auto_unlock :: "('w, response) proc" where
  "enable_auto_unlock = ret (json_response 403 (JObj [(''error'', JStr ''auto_unlock_disabled'')]))"

definition disable_auto_unlock :: "'w env \<Rightarrow> string \<Rightarrow> ('w, response) proc" where
  "disable_auto_unlock E password =
     (let err = ''disable_auto_unlock_failed'' in
      if password = [] then ret password_required
      else with_owner_seed E err (as_bytes password) (\<lambda>owner_seed.
        store_seed E err Keep Remove (
        pbind (audit_owner_change E owner_seed ''disable_auto_unlock'') (\<lambda>_.
        ret (json_response 200 (JObj [(''status'', JStr ''auto_unlock_disabled'')]))))))"

section \<open>Recovery\<close>

definition restart_required :: "string \<Rightarrow> response" where
  "restart_required detail = json_response 500
     (JObj [(''error'', JStr ''recover_failed''), (''detail'', JStr detail), (''retry'', JStr ''restart_required'')])"

text \<open>What follows the verification: the new envelope is stored and the volumes unlocked.\<close>

definition persist_recovery :: "'w env \<Rightarrow> bytes \<Rightarrow> bytes \<Rightarrow> ('w, response) proc" where
  "persist_recovery E owner_seed encrypted =
     pbind (update_owner_seed_material E (SetValue encrypted) Keep) (\<lambda>stored.
     case stored of
       Inl err \<Rightarrow>
         call (on_guard E (set_error ''recovery_persistence_requires_restart'')) (\<lambda>_.
         ret (restart_required (error_to_string err)))
     | Inr _ \<Rightarrow>
         pbind (finalize_rewrapped_owner_seed E owner_seed) (\<lambda>unlocked.
         case unlocked of
           Inr warning \<Rightarrow>
             (let owner_pubkey = res_or_empty (owner_public_key_b64url (e_ext E) owner_seed) in
              pbind (emit_signed_owner_audit_event E owner_seed ''recover''
                (JObj [(''auto_unlock_enabled'', JBool False), (''owner_public_key'', JStr owner_pubkey),
                   (''warning'', jopt_str warning)])) (\<lambda>_.
              ret (json_response 200 (JObj [(''status'', JStr ''recovered''), (''state'', JStr ''unlocked''),
                (''owner_public_key'', JStr owner_pubkey), (''warning'', jopt_str warning)]))))
         | Inl err \<Rightarrow>
             call (on_guard E (set_ownership_error err)) (\<lambda>_.
             ret (json_response 500 (JObj [(''error'', JStr ''recover_failed''),
               (''detail'', JStr (error_to_string err)), (''state'', JStr ''error'')])))))"

definition verify_then_persist :: "'w env \<Rightarrow> bytes \<Rightarrow> bytes \<Rightarrow> bool \<Rightarrow> ('w, response) proc" where
  "verify_then_persist E owner_seed encrypted restore_unclaimed =
     pbind (verify_owner_seed_for_recovery E owner_seed restore_unclaimed) (\<lambda>verified.
     case verified of
       Inr True \<Rightarrow> persist_recovery E owner_seed encrypted
     | Inr False \<Rightarrow> ret (json_response 409 (JObj [(''error'', JStr ''recover_verification_unavailable''),
         (''detail'', JStr ''recovery_requires_locked_init_verifier'')]))
     | Inl err \<Rightarrow>
         (if err = Store ''enclava_init_unlock_failed:wrong_password'' then
            ret (json_response 400 (JObj [(''error'', JStr ''mnemonic_invalid''), (''detail'', JStr ''owner_seed_mismatch'')]))
          else case err of
            UnlockAmbiguous detail \<Rightarrow>
              call (on_guard E (set_error ''recovery_verification_ambiguous_restart_required'')) (\<lambda>_.
              ret (restart_required detail))
          | _ \<Rightarrow> ret (failed_response ''recover_failed'' (error_to_string err))))"

definition rewrap_for_recovery :: "'w env \<Rightarrow> bytes \<Rightarrow> string \<Rightarrow> bool \<Rightarrow> ('w, response) proc" where
  "rewrap_for_recovery E owner_seed new_password had_envelope =
     with_wrap_key E ''recover_failed'' (as_bytes new_password) (\<lambda>wrap_key.
     wrap_seed E ''recover_failed'' owner_seed wrap_key (\<lambda>encrypted.
     call (get_guard E) (\<lambda>g.
     verify_then_persist E owner_seed encrypted (is_unclaimed g \<and> \<not> had_envelope))))"

definition recover :: "'w env \<Rightarrow> string \<Rightarrow> string \<Rightarrow> ('w, response) proc" where
  "recover E mnemonic new_password =
     (let err = ''recover_failed'' in
      if trim new_password = [] \<or> trim mnemonic = [] then
        ret (json_response 400 (JObj [(''error'', JStr ''mnemonic_and_password_required'')]))
      else pbind (begin_rate_limited_secret_operation E) (\<lambda>limited.
      case limited of
        Some response \<Rightarrow> ret response
      | None \<Rightarrow>
          (case owner_seed_from_mnemonic (e_ext E) mnemonic of
             Inl e \<Rightarrow> ret (json_response 400 (JObj [(''error'', JStr ''mnemonic_invalid''),
               (''detail'', JStr (error_to_string e))]))
           | Inr owner_seed \<Rightarrow>
               pbind (load_owner_seed_material_with_revalidation E) (\<lambda>loaded.
               case loaded of
                 Inl e \<Rightarrow> ret (failed_response err (error_to_string e))
               | Inr material \<Rightarrow>
                   rewrap_for_recovery E owner_seed new_password (is_some (om_encrypted material))))))"

section \<open>Configuration\<close>

definition metadata_sync_body :: "string \<Rightarrow> string \<Rightarrow> api_token_claims \<Rightarrow> json" where
  "metadata_sync_body key action claims =
     JObj [(''key'', JStr key), (''action'', JStr action), (''org_id'', JStr (org_id claims)), (''app_id'', JStr (app_id claims))]"

definition spawn_config_metadata_sync :: "'w env \<Rightarrow> string \<Rightarrow> string \<Rightarrow> api_token_claims \<Rightarrow> ('w sys, unit) state" where
  "spawn_config_metadata_sync E key action claims =
     (let cfg = e_config E in
      if c_cap_api_url cfg = [] then State_Monad.return ()
      else spawn (MetadataSyncTask (c_cap_api_url cfg @ ''/internal/apps/'' @ c_instance_id cfg @ ''/config/sync'')
        (metadata_sync_body key action claims)))"

definition quoted :: "string \<Rightarrow> string" where
  "quoted s = [CHR 34] @ s @ [CHR 34]"

fun log_fields :: "(string \<times> string) list \<Rightarrow> string" where
  "log_fields [] = []"
| "log_fields [(k, v)] = quoted k @ '':'' @ v"
| "log_fields ((k, v) # kvs) = quoted k @ '':'' @ v @ '','' @ log_fields kvs"

definition log_text :: "(string \<times> string) list \<Rightarrow> log_entry" where
  "log_text kvs = LogText (''{'' @ log_fields kvs @ ''}'')"

text \<open>The task: two attempts, two seconds apart.\<close>

fun metadata_sync_attempts :: "'w env \<Rightarrow> string \<Rightarrow> json \<Rightarrow> nat list \<Rightarrow> ('w, unit) proc" where
  "metadata_sync_attempts E url body [] = ret ()"
| "metadata_sync_attempts E url body (tries # rest) =
     call (e_http E \<lparr>hq_method = ''POST'', hq_url = url, hq_headers = [], hq_json = Some body,
                     hq_timeout = Some (from_secs 10)\<rparr>) (\<lambda>result.
     let again = (if tries = 0 then call (e_sleep E (from_secs 2)) (\<lambda>_. metadata_sync_attempts E url body rest)
                  else metadata_sync_attempts E url body rest) in
     case result of
       Inr resp \<Rightarrow>
         (if is_success (hr_status resp) then ret ()
          else call (log_line (log_text [(''event'', quoted ''config_metadata_sync_failed''), (''attempt'', show_nat tries),
                 (''status'', show_nat (hr_status resp)), (''url'', quoted url)])) (\<lambda>_. again))
     | Inl e \<Rightarrow>
         call (log_line (log_text [(''event'', quoted ''config_metadata_sync_error''), (''attempt'', show_nat tries),
           (''error'', quoted (he_text e)), (''url'', quoted url)])) (\<lambda>_. again))"

definition metadata_sync :: "'w env \<Rightarrow> string \<Rightarrow> json \<Rightarrow> ('w, unit) proc" where
  "metadata_sync E url body = metadata_sync_attempts E url body [0, 1]"

definition require_config_storage_ready :: "'w env \<Rightarrow> ('w, response + unit) proc" where
  "require_config_storage_ready E =
     (if ready_file (e_config E) = [] then ret (Inr ())
      else pbind (enclava_init_ready_file_is_ready E) (\<lambda>ready.
        ret (case ready of
               Inr True \<Rightarrow> Inr ()
             | Inr False \<Rightarrow> Inl (json_response 423 (JObj [(''error'', JStr ''init_not_ready''),
                 (''detail'', JStr ''enclava-init has not finished preparing decrypted config storage'')]))
             | Inl err \<Rightarrow> Inl (json_response 500 (JObj [(''error'', JStr ''init_ready_check_failed''),
                 (''detail'', JStr (error_to_string err))])))))"

definition config_error_response :: "string \<Rightarrow> config_store_error \<Rightarrow> response" where
  "config_error_response err e =
     (case e of
        InvalidKeyName detail \<Rightarrow>
          json_response 400 (JObj [(''error'', JStr ''invalid_key_name''), (''detail'', JStr detail)])
      | _ \<Rightarrow> json_response 500 (JObj [(''error'', JStr err), (''detail'', JStr (config_error_to_string e))]))"

definition config_put :: "'w env \<Rightarrow> api_token_claims \<Rightarrow> string \<Rightarrow> bytes \<Rightarrow> ('w, response) proc" where
  "config_put E claims key body =
     pbind (require_config_storage_ready E) (\<lambda>ready.
     case ready of
       Inl response \<Rightarrow> ret response
     | Inr _ \<Rightarrow>
         (let dir = c_cap_config_dir (e_config E); opts = \<lparr>file_gid = c_cap_config_file_gid (e_config E)\<rparr> in
          call (io_call E (\<lambda>F. write_config_with_options F dir key body opts)) (\<lambda>written.
          case written of
            Inr _ \<Rightarrow>
              call (e_unix E) (\<lambda>(secs, _).
              call (io_call E (\<lambda>F. write_ready_sentinel_with_options F secs dir opts)) (\<lambda>sentinel.
              call (case sentinel of
                      Inl e \<Rightarrow> log_line (log_text [(''event'', quoted ''config_ready_sentinel_failed''),
                                 (''error'', quoted (config_error_to_string e))])
                    | Inr _ \<Rightarrow> State_Monad.return ()) (\<lambda>_.
              call (spawn_config_metadata_sync E key ''set'' claims) (\<lambda>_.
              ret (json_response 200 (JObj [(''status'', JStr ''ok''), (''key'', JStr key)]))))))
          | Inl e \<Rightarrow> ret (config_error_response ''config_write_failed'' e))))"

definition config_list :: "'w env \<Rightarrow> ('w, response) proc" where
  "config_list E =
     call (io_read E (\<lambda>F. list_config_keys F (c_cap_config_dir (e_config E)))) (\<lambda>listed.
     ret (case listed of
            Inr keys \<Rightarrow> json_response 200 (JObj [(''keys'', JArr (map JStr keys))])
          | Inl e \<Rightarrow> json_response 500 (JObj [(''error'', JStr ''config_list_failed''),
              (''detail'', JStr (config_error_to_string e))])))"

definition config_delete :: "'w env \<Rightarrow> api_token_claims \<Rightarrow> string \<Rightarrow> ('w, response) proc" where
  "config_delete E claims key =
     pbind (require_config_storage_ready E) (\<lambda>ready.
     case ready of
       Inl response \<Rightarrow> ret response
     | Inr _ \<Rightarrow>
         call (io_call E (\<lambda>F. delete_config F (c_cap_config_dir (e_config E)) key)) (\<lambda>deleted.
         case deleted of
           Inr existed \<Rightarrow>
             call (spawn_config_metadata_sync E key ''delete'' claims) (\<lambda>_.
             ret (json_response 200 (JObj [(''status'', JStr ''ok''), (''key'', JStr key), (''existed'', JBool existed)])))
         | Inl e \<Rightarrow> ret (config_error_response ''config_delete_failed'' e)))"

section \<open>Teardown\<close>

definition teardown_log :: "'w env \<Rightarrow> string \<Rightarrow> api_token_claims \<Rightarrow> string list \<Rightarrow> string list \<Rightarrow> log_entry" where
  "teardown_log E now claims deleted errors =
     (let texts = (\<lambda>xs. bytes_to_str (x_json_print (e_ext E) (JArr (map JStr xs)))) in
      log_text [(''event'', quoted ''teardown''), (''version'', quoted OWNER_AUDIT_EVENT_VERSION),
        (''timestamp'', quoted now), (''instance_id'', quoted (c_instance_id (e_config E))),
        (''org_id'', quoted (org_id claims)), (''app_id'', quoted (app_id claims)),
        (''deleted'', texts deleted), (''errors'', texts errors)])"

text \<open>What a deletion adds to the lists of names and errors.\<close>

definition deletion_note :: "string \<Rightarrow> ownership_error + bool \<Rightarrow> string list \<times> string list" where
  "deletion_note name r = (case r of Inr _ \<Rightarrow> ([name], []) | Inl e \<Rightarrow> ([], [name @ '':'' @ error_to_string e]))"

definition teardown_answer ::
  "'w env \<Rightarrow> string \<Rightarrow> api_token_claims \<Rightarrow> ownership_error + bool \<Rightarrow> ownership_error + bool \<Rightarrow> ('w, response) proc" where
  "teardown_answer E now claims encrypted sealed =
     (let deleted = fst (deletion_note ''seed-encrypted'' encrypted) @ fst (deletion_note ''seed-sealed'' sealed);
          errors = snd (deletion_note ''seed-encrypted'' encrypted) @ snd (deletion_note ''seed-sealed'' sealed);
          inst = (''instance_id'', JStr (c_instance_id (e_config E))) in
      call (log_line (teardown_log E now claims deleted errors)) (\<lambda>_.
      ret (if errors = [] then
             json_response 200 (JObj [(''status'', JStr ''teardown_complete''), (''deleted'', JArr (map JStr deleted)), inst])
           else json_response 500 (JObj [(''error'', JStr ''teardown_partial_failure''), (''errors'', JArr (map JStr errors)),
             (''deleted'', JArr (map JStr deleted)), inst]))))"

definition teardown :: "'w env \<Rightarrow> api_token_claims \<Rightarrow> ('w, response) proc" where
  "teardown E claims =
     call (utc_now E) (\<lambda>now.
     pbind (delete_kbs_workload_resource E (c_owner_seed_encrypted_kbs_path (e_config E))) (\<lambda>encrypted.
     pbind (delete_kbs_workload_resource E (c_owner_seed_sealed_kbs_path (e_config E))) (\<lambda>sealed.
     teardown_answer E now claims encrypted sealed)))"

section \<open>Receipts, resources, logs and unknown routes\<close>

definition sign_receipt_handler :: "'w env \<Rightarrow> sign_receipt_request \<Rightarrow> ('w, response) proc" where
  "sign_receipt_handler E request =
     call (utc_now E) (\<lambda>now.
     or_panic (sign_receipt (e_ext E) (e_receipt_seed E) now request) (\<lambda>signed.
     ret (case signed of
            Inr response \<Rightarrow> json_response 200 (response_to_json response)
          | Inl err \<Rightarrow> receipt_error_response err)))"

definition cdh_resource :: "'w env \<Rightarrow> string \<Rightarrow> ('w, response) proc" where
  "cdh_resource E path =
     pbind (fetch_kbs_resource E (trim_start_matches CHR ''/'' path)) (\<lambda>r.
     ret (case r of
            Inr (body, content_type, code) \<Rightarrow> bytes_response code body content_type
          | Inl (_, error_json) \<Rightarrow> json_response 502 error_json))"

definition not_found :: "string \<Rightarrow> ('w, response) proc" where
  "not_found path =
     ret (json_response 404 (JObj [(''error'', JStr ''not_found''), (''path'', JStr path),
       (''supported_paths'', JArr (map JStr [''/health'', ''/v1/attestation/info'', ''/v1/attestation'', ''/status'',
          ''/.well-known/confidential/logs'']))]))"

definition encrypted_logs :: "'w env \<Rightarrow> string option \<Rightarrow> ('w, response) proc" where
  "encrypted_logs E query =
     (let url = c_log_relay_url (e_config E) @ (case query of Some q \<Rightarrow> (if q = [] then [] else ''?'' @ q) | None \<Rightarrow> []);
          unavailable = (\<lambda>code. json_response code (JObj [(''error'', JStr ''encrypted_log_stream_unavailable'')])) in
      call (e_http E (get_request url [] None)) (\<lambda>result.
      ret (case result of
             Inl _ \<Rightarrow> unavailable 502
           | Inr upstream \<Rightarrow>
               (if \<not> is_success (hr_status upstream) then unavailable (hr_status upstream)
                else \<lparr>rp_status = hr_status upstream,
                  rp_headers = [(''content-type'', ''application/x-ndjson''), (''cache-control'', ''no-store''),
                    (''x-enclava-log-format'', ''encrypted-jsonl; version=enclava-log-frame-v1'')],
                  rp_body = StreamBody\<rparr>))))"

section \<open>Tasks\<close>

definition run_task :: "'w env \<Rightarrow> task \<Rightarrow> ('w, unit) proc" where
  "run_task E t =
     (case t of
        UnlockPasswordTask password \<Rightarrow> pbind (unlock_password_mode E password) (\<lambda>_. ret ())
      | UnlockLevel1Task password \<Rightarrow> pbind (unlock_level1_mode E password) (\<lambda>_. ret ())
      | ReadyWatchTask timeout \<Rightarrow> ready_watch E timeout
      | RecoveryWatchTask timeout \<Rightarrow> recovery_watch E timeout
      | MetadataSyncTask url body \<Rightarrow> metadata_sync E url body)"
section \<open>Steps of the owner handlers\<close>

text \<open>An envelope was stored that this password opens, giving this seed.\<close>

definition stored_under :: "'w env \<Rightarrow> string \<Rightarrow> bytes \<Rightarrow> bool" where
  "stored_under E password seed \<longleftrightarrow> (\<exists>envelope sealed key s t.
     run_state (update_owner_seed_material E (SetValue envelope) sealed) s = (Some (Inr ()), t) \<and>
     fst (derive_password_wrap_key (e_ext E) (as_bytes password) (c_instance_id (e_config E))) = Inr key \<and>
     decrypt_owner_seed (e_ext E) envelope key = Inr seed)"

text \<open>What the handlers rely on: the codecs and the cipher are inverse to their inverses, and the entropy
  source delivers as many bytes as asked for.\<close>

definition crypto_laws :: "'w env \<Rightarrow> bool" where
  "crypto_laws E \<longleftrightarrow> b64_law (e_ext E) \<and> gcm_law (e_ext E) \<and> envelope_law (e_ext E) \<and>
     (\<forall>n s bs t. run_state (e_random E n) s = (Inr bs, t) \<longrightarrow> length bs = n)"

lemma unwrap_stored:
  assumes "crypto_laws E" "run_state (e_random E 12) s0 = (nonce, s1)" "length seed = 32"
    and "encrypt_owner_seed (e_ext E) nonce seed key = Inr envelope"
  shows "decrypt_owner_seed (e_ext E) envelope key = Inr seed"
proof -
  obtain bs where bs: "nonce = Inr bs" using assms(4) by (cases nonce) (auto simp: encrypt_owner_seed_def)
  show ?thesis using decrypt_encrypt [of "e_ext E" bs seed key envelope] assms bs by (auto simp: crypto_laws_def)
qed

lemma stored_underI:
  assumes "crypto_laws E" "run_state (e_random E 12) s0 = (nonce, s1)" "length seed = 32"
    and "fst (derive_password_wrap_key (e_ext E) (as_bytes password) (c_instance_id (e_config E))) = Inr key"
    and "encrypt_owner_seed (e_ext E) nonce seed key = Inr envelope"
    and "run_state (update_owner_seed_material E (SetValue envelope) sealed) s = (Some (Inr ()), t)"
  shows "stored_under E password seed"
  using assms(4,6) unwrap_stored [OF assms(1-3,5)] unfolding stored_under_def by blast

lemma seed_length: "owner_seed_from_mnemonic X phrase = Inr seed \<Longrightarrow> length seed = 32"
  by (auto simp: owner_seed_from_mnemonic_def result_iffs split: if_splits)

lemma begin_secret_operation_refuses:
  "run_state (begin_rate_limited_secret_operation E) s = (Some (Some resp), t) \<Longrightarrow> rp_status resp \<in> {429, 500}"
  by (auto simp: begin_rate_limited_secret_operation_def rate_limited_response_def split: prod.splits sum.splits ownership_error.splits)

lemma with_owner_seed_steps:
  assumes "run_state (with_owner_seed E err password k) s = (Some resp, t)" "rp_status resp = 200"
  obtains s1 material s2 resource key seed where
    "run_state (load_owner_seed_material_with_revalidation E) s1 = (Some (Inr material), s2)"
    "om_encrypted material = Some resource"
    "fst (derive_password_wrap_key (e_ext E) password (c_instance_id (e_config E))) = Inr key"
    "decrypt_owner_seed (e_ext E) resource key = Inr seed" "run_state (k seed) s2 = (Some resp, t)"
proof -
  from assms(1) obtain limited s1 where l: "run_state (begin_rate_limited_secret_operation E) s = (Some limited, s1)"
    and r: "run_state (case limited of Some response \<Rightarrow> ret response | None \<Rightarrow>
      pbind (load_owner_seed_material_with_revalidation E) (\<lambda>loaded. open_owner_seed E err password loaded k)) s1 = (Some resp, t)"
    unfolding with_owner_seed_def run_pbind_Some by blast
  have "limited = None" using l r assms(2) by (cases limited) (auto dest: begin_secret_operation_refuses)
  with r obtain loaded s2 where "run_state (load_owner_seed_material_with_revalidation E) s1 = (Some loaded, s2)"
    "run_state (open_owner_seed E err password loaded k) s2 = (Some resp, t)"
    by (auto simp: run_pbind_Some simp del: run_pbind)
  then show thesis using that assms(2)
    by (auto simp: open_owner_seed_def failed_response_def unclaimed_response_def
        split: option.splits sum.splits ownership_error.splits)
qed

lemma wrap_key_steps:
  assumes "run_state (with_wrap_key E err password k) s = (Some resp, t)" "rp_status resp = 200"
  obtains key where "fst (derive_password_wrap_key (e_ext E) password (c_instance_id (e_config E))) = Inr key"
    "run_state (k key) s = (Some resp, t)"
  using assms by (auto simp: with_wrap_key_def failed_response_def split: sum.splits)

lemma wrap_seed_steps:
  assumes "run_state (wrap_seed E err seed key k) s = (Some resp, t)" "rp_status resp = 200"
  obtains nonce s1 envelope where "run_state (e_random E 12) s = (nonce, s1)"
    "encrypt_owner_seed (e_ext E) nonce seed key = Inr envelope" "run_state (k envelope) s1 = (Some resp, t)"
  using assms by (auto simp: wrap_seed_def failed_response_def split: prod.splits sum.splits)

lemma store_steps:
  assumes "run_state (store_seed E err encrypted sealed k) s = (Some resp, t)" "rp_status resp = 200"
  obtains s1 where "run_state (update_owner_seed_material E encrypted sealed) s = (Some (Inr ()), s1)" "run_state k s1 = (Some resp, t)"
  using assms by (auto simp: store_seed_def failed_response_def split: prod.splits option.splits sum.splits)

lemma maybe_refresh_refuses:
  "run_state (maybe_refresh_unclaimed_state E) s = (Some (Some resp), t) \<Longrightarrow> rp_status resp = 503"
  by (auto simp: maybe_refresh_unclaimed_state_def split: prod.splits if_splits option.splits sum.splits)

lemma when_unclaimed_steps:
  assumes "run_state (when_unclaimed E k) s = (Some resp, t)" "rp_status resp = 200"
  obtains s1 where "run_state k s1 = (Some resp, t)"
  using assms by (auto simp: when_unclaimed_def not_found_response_def already_claimed_def run_steps simp del: run_pbind run_call
      dest!: maybe_refresh_refuses split: option.splits if_splits)

lemma claim_steps:
  assumes "run_state (bootstrap_claim E payload) s = (Some resp, t)" "rp_status resp = 200"
  obtains s1 s2 identity s3 expected_hash where "run_state (consume_bootstrap_challenge E (bc_challenge payload)) s1 = (True, s2)"
    "run_state (fetch_ownership_identity E) s2 = (Some identity, s3)" "oi_bootstrap_owner_pubkey_hash identity = Some expected_hash"
    "validate_bootstrap_signature (e_ext E) (bc_challenge payload) (bc_bootstrap_pubkey payload) (bc_signature payload) expected_hash = Inr ()"
    "run_state (seal_new_owner E (as_bytes (bc_password payload))) s3 = (Some resp, t)"
proof -
  from assms obtain s0 where "run_state (if trim (bc_password payload) = [] then ret (json_response 400 (JObj [(''error'', JStr ''password_required'')]))
     else call (consume_bootstrap_challenge E (bc_challenge payload)) (\<lambda>challenge_ok.
     if \<not> challenge_ok then ret (json_response 400 (JObj [(''error'', JStr ''bootstrap_challenge_invalid'')]))
     else pbind (fetch_ownership_identity E) (\<lambda>identity.
     case oi_bootstrap_owner_pubkey_hash identity of
       None \<Rightarrow> ret (pubkey_hash_missing identity)
     | Some expected_hash \<Rightarrow>
         (case validate_bootstrap_signature (e_ext E) (bc_challenge payload) (bc_bootstrap_pubkey payload)
                 (bc_signature payload) expected_hash of
            Inl err \<Rightarrow> ret (json_response 401 (JObj [(''error'', JStr ''bootstrap_signature_invalid''),
              (''detail'', JStr (error_to_string err))]))
          | Inr _ \<Rightarrow> seal_new_owner E (as_bytes (bc_password payload)))))) s0 = (Some resp, t)"
    unfolding bootstrap_claim_def by (rule when_unclaimed_steps)
  with assms(2) show thesis using that
    by (auto simp: pubkey_hash_missing_def split: if_splits prod.splits option.splits sum.splits)
qed

lemma handed_over:
  assumes "run_state (hand_over_new_seed E seed) s = (Some resp, t)" "rp_status resp = 200" "mnemonic_law (e_ext E)" "length seed = 32"
  shows "\<exists>body. rp_body resp = JsonBody body \<and>
    (\<forall>phrase. jget body ''owner_seed_mnemonic'' = Some (JStr phrase) \<longrightarrow> phrase = [] \<or>
       owner_seed_from_mnemonic (e_ext E) phrase = Inr seed) \<and>
    (undisturbed E \<longrightarrow> current_state (s_guard t) = Unlocked)"
proof -
  obtain s1 unlocked s2 where "run_state (unlock_owner_seed_material E seed) s1 = (Some unlocked, s2)"
    "run_state (claim_outcome E seed unlocked) s2 = (Some resp, t)"
    using assms(1) unfolding hand_over_new_seed_def run_steps by blast
  with assms(2) obtain warning u pk details where un: "run_state (unlock_owner_seed_material E seed) s1 = (Some (Inr warning), s2)"
    and au: "run_state (emit_signed_owner_audit_event E seed ''claim'' details) s2 = (Some u, t)"
    and resp: "resp = json_response 200 (JObj [(''status'', JStr ''CLAIM_ACCEPTED''), (''state'', JStr ''unlocked''), (''owner_public_key'', pk),
      (''owner_seed_mnemonic'', JStr (res_or_empty (owner_seed_mnemonic (e_ext E) seed))), (''warning'', jopt_str warning)])"
    by (auto simp: claim_outcome_def run_pbind_Some Let_def simp del: run_pbind split: sum.splits prod.splits)
  have "res_or_empty (owner_seed_mnemonic (e_ext E) seed) = [] \<or>
      owner_seed_from_mnemonic (e_ext E) (res_or_empty (owner_seed_mnemonic (e_ext E) seed)) = Inr seed"
    using assms(3,4) by (auto simp: res_or_empty_def owner_seed_mnemonic_def owner_seed_from_mnemonic_def mnemonic_law_def
        result_iffs split: sum.splits if_splits)
  moreover have "current_state (s_guard t) = Unlocked" if "undisturbed E"
    using yieldsD [OF yields_unlock_material [OF that] un] undisturbedD [OF that advances_emit_audit au] by simp
  ultimately show ?thesis using resp by auto
qed

lemma verify_steps:
  assumes "run_state (verify_owner_seed_for_recovery E seed restore) s = (Some (Inr True), t)"
  obtains s1 s2 where "run_state (request_owner_seed_unlock E seed unlock_timeout) s1 = (Some (Inr ()), s2)"
    "run_state (wait_for_enclava_init_ready E unlock_timeout) s2 = (Some (Inr ()), t)"
  using assms
  by (auto simp: verify_owner_seed_for_recovery_def release_verification_def spawn_recovery_init_ready_watch_def
      split: if_splits prod.splits option.splits sum.splits ownership_error.splits)

lemma verify_then_persist_steps:
  assumes "run_state (verify_then_persist E seed envelope restore) s = (Some resp, t)" "rp_status resp = 200"
  obtains s1 where "run_state (verify_owner_seed_for_recovery E seed restore) s = (Some (Inr True), s1)"
    "run_state (persist_recovery E seed envelope) s1 = (Some resp, t)"
  using assms by (auto simp: verify_then_persist_def restart_required_def failed_response_def
      split: if_splits prod.splits option.splits sum.splits bool.splits ownership_error.splits)

lemma persist_steps:
  assumes "run_state (persist_recovery E seed envelope) s = (Some resp, t)" "rp_status resp = 200"
  obtains s1 where "run_state (update_owner_seed_material E (SetValue envelope) Keep) s = (Some (Inr ()), s1)"
proof -
  obtain stored s1 where u: "run_state (update_owner_seed_material E (SetValue envelope) Keep) s = (Some stored, s1)"
    using assms(1) unfolding persist_recovery_def run_pbind_Some by blast
  have "stored = Inr ()"
    using assms u by (cases stored) (auto simp: persist_recovery_def restart_required_def split: prod.splits)
  with u that show thesis by blast
qed

lemma recover_steps:
  assumes "run_state (recover E mnemonic new_password) s = (Some resp, t)" "rp_status resp = 200"
  obtains seed key nonce s0 s1 envelope s2 restore where "owner_seed_from_mnemonic (e_ext E) mnemonic = Inr seed"
    "fst (derive_password_wrap_key (e_ext E) (as_bytes new_password) (c_instance_id (e_config E))) = Inr key"
    "run_state (e_random E 12) s0 = (nonce, s1)" "encrypt_owner_seed (e_ext E) nonce seed key = Inr envelope"
    "run_state (verify_then_persist E seed envelope restore) s2 = (Some resp, t)"
proof -
  obtain seed s0 had where seed: "owner_seed_from_mnemonic (e_ext E) mnemonic = Inr seed"
    and "run_state (rewrap_for_recovery E seed new_password had) s0 = (Some resp, t)"
    using assms by (auto simp: recover_def Let_def failed_response_def dest!: begin_secret_operation_refuses
      split: if_splits prod.splits option.splits sum.splits)
  from this(2) assms(2) show thesis unfolding rewrap_for_recovery_def
    by (elim wrap_key_steps wrap_seed_steps) (use that seed in \<open>auto split: prod.splits\<close>)
qed

section \<open>Properties\<close>




definition erased :: "'w env \<Rightarrow> 'w trace \<Rightarrow> 'w sys \<Rightarrow> 'w sys \<Rightarrow> string \<Rightarrow> bool" where
  "erased E tr s t path \<longleftrightarrow> (\<exists>envelope token resp.
     happened tr s t (Exchange (delete_request (e_config E) path envelope token) (Inr resp)) \<and>
     (is_success (hr_status resp) \<or> hr_status resp = 404 \<or> hr_status resp = 412))"

lemma erased_within:
  assumes "prefix (tr (s_world s)) (tr (s_world s1))" "erased E tr s1 s2 path" "prefix (tr (s_world s2)) (tr (s_world t))"
  shows "erased E tr s t path"
  using assms unfolding erased_def by (blast intro: happened_earlier happened_later)

text \<open>C33. A teardown that reports completion has erased both copies of the owner seed at the broker: for
  each, the broker itself answered the \<open>DELETE\<close> for that path with success or with its own
  absence (404, or 412 to the condition that the resource exists).\<close>

theorem teardown_erases_both:
  assumes "observed E tr" "run_state (teardown E claims) s = (Some resp, t)" "rp_status resp = 200"
  shows "erased E tr s t (c_owner_seed_encrypted_kbs_path (e_config E)) \<and>
    erased E tr s t (c_owner_seed_sealed_kbs_path (e_config E))"
proof -
  note adv = observed_advances [OF assms(1)]
  obtain now s0 d s1 d' s2 where n: "run_state (utc_now E) s = (now, s0)"
    and del: "run_state (delete_kbs_workload_resource E (c_owner_seed_encrypted_kbs_path (e_config E))) s0 = (Some d, s1)"
      "run_state (delete_kbs_workload_resource E (c_owner_seed_sealed_kbs_path (e_config E))) s1 = (Some d', s2)"
    and answer: "run_state (teardown_answer E now claims d d') s2 = (Some resp, t)"
    using assms(2) unfolding teardown_def run_steps by blast
  have "is_ok d \<and> is_ok d' \<and> s_world t = s_world s2"
    using answer assms(3) by (auto simp: teardown_answer_def deletion_note_def Let_def is_ok_def split: sum.splits if_splits)
  then obtain r1 r2 where d1: "run_state (delete_kbs_workload_resource E (c_owner_seed_encrypted_kbs_path (e_config E))) s0 = (Some (Inr r1), s1)"
    and d2: "run_state (delete_kbs_workload_resource E (c_owner_seed_sealed_kbs_path (e_config E))) s1 = (Some (Inr r2), s2)"
    and t: "s_world t = s_world s2"
    using del by (auto simp: is_ok_def split: sum.splits)
  have p0: "prefix (tr (s_world s)) (tr (s_world s0))" by (rule advancesD [OF advances_utc_now [OF adv] n])
  have p1: "prefix (tr (s_world s0)) (tr (s_world s1))" by (rule advancesD [OF advances_delete_kbs_workload_resource [OF adv] d1])
  have p2: "prefix (tr (s_world s1)) (tr (s_world t))" using advancesD [OF advances_delete_kbs_workload_resource [OF adv] d2] t by simp
  have "erased E tr s0 s1 (c_owner_seed_encrypted_kbs_path (e_config E))" "erased E tr s1 s2 (c_owner_seed_sealed_kbs_path (e_config E))"
    using delete_acknowledged [OF assms(1) d1] delete_acknowledged [OF assms(1) d2] unfolding erased_def by (metis (full_types))+
  then show ?thesis
    using erased_within [OF p0 _ p2] erased_within [OF prefix_order.trans [OF p0 p1], of E s2 _ t] t by simp
qed
end
