(* ===== verification/Handler_Runs.thy ===== *)
theory Handler_Runs
  imports Handlers
begin

text \<open>
  Concrete runs of the owner handlers, on an escrow directory without faults and an
  \<open>enclava-init\<close> that accepts every seed.
\<close>

section \<open>An escrow directory and an init process\<close>

text \<open>\<open>enclava-init\<close> answers OK on its socket and then writes its ready file.\<close>

definition init_config :: config where
  "init_config = files_config\<lparr>c_enclava_init_unlock_socket := ''/s'', c_enclava_init_ready_file := ''/r'',
     c_enclava_init_error_file := []\<rparr>"

lemma init_config_sel [simp]:
  "c_owner_ciphertext_backend init_config = ''filesystem''" "c_owner_escrow_dir init_config = ''/e''"
  "c_owner_escrow_encrypted_key init_config = ''seed''" "c_owner_escrow_sealed_key init_config = ''sealed''"
  "c_instance_id init_config = ''inst-1''" "unlock_socket init_config = ''/s''" "ready_file init_config = ''/r''"
  "error_file init_config = []"
  by (simp_all add: init_config_def unlock_socket_def ready_file_def error_file_def) code_simp+

definition ready_node :: node where
  "ready_node = File \<lparr>fn_mode = 420, fn_gid = None, fn_data = as_bytes ''ready''\<rparr>"

definition escrow_env :: "externals \<Rightarrow> event list env" where
  "escrow_env X = (demo_env no_answer init_config)\<lparr>e_ext := X,
     e_socket_line := (\<lambda>_. State (\<lambda>s. (Some (Inr ''OK''), s\<lparr>s_files := fs_set ''/r'' ready_node (s_files s)\<rparr>)))\<rparr>"

lemma escrow_env_sel [simp]:
  "e_ext (escrow_env X) = X" "e_config (escrow_env X) = init_config" "e_io (escrow_env X) = State_Monad.return no_faults"
  "e_yield (escrow_env X) = State_Monad.return ()" "run_state (e_now (escrow_env X)) s = (0, s)"
  "run_state (e_random (escrow_env X) n) s = (Inr (replicate n 1), s)"
  "run_state (e_unix (escrow_env X)) s = ((0, 0), s)"
  "run_state (e_connect (escrow_env X) path) s = (Inr (), s)" "run_state (e_socket_write (escrow_env X) bs) s = (Inr (), s)"
  "run_state (e_socket_line (escrow_env X) d) s = (Some (Inr ''OK''), s\<lparr>s_files := fs_set ''/r'' ready_node (s_files s)\<rparr>)"
  "utc_now (escrow_env X) = State_Monad.return ''1970-01-01T00:00:00.000000+00:00''"
  using demo_timestamp [of no_answer init_config] by (simp_all add: escrow_env_def utc_now_def)

definition escrow_fs :: "fs \<Rightarrow> bool" where
  "escrow_fs fs \<longleftrightarrow> fs_lookup fs ''/e'' = Some Dir \<and> fs_lookup fs ''/e/seed.tmp'' = None \<and>
     fs_lookup fs ''/e/seed'' \<noteq> Some Dir \<and> fs_lookup fs ''/e/sealed'' = None"

lemma escrow_names:
  "path_set_extension ''/e/seed'' ''tmp'' = ''/e/seed.tmp''" "path_parent ''/e/seed'' = Some ''/e''"
  "path_parent ''/e/seed.tmp'' = Some ''/e''" "escrow_key_ok ''seed''" "escrow_key_ok ''sealed''"
  by code_simp+

lemma no_faults_sel [simp]: "io_fails no_faults c = None"
  by (simp add: no_faults_def)

lemma escrow_paths:
  assumes "escrow_fs fs"
  shows "owner_escrow_file_path no_faults init_config ''seed'' fs = Inr ''/e/seed''"
    "owner_escrow_file_path no_faults init_config ''sealed'' fs = Inr ''/e/sealed''"
  using assms by (simp_all add: owner_escrow_file_path_def ensure_owner_escrow_dir_def owner_escrow_dir_def escrow_names
      escrow_fs_def fs_metadata_def path_join_def starts_with_def)

lemma lookup_set: "fs_lookup (fs_set p n fs) q = (if q = p then Some n else fs_lookup fs q)"
  by (simp add: fs_lookup_def fs_set_def update_conv)

lemma lookup_del: "fs_lookup (fs_del p fs) q = (if q = p then None else fs_lookup fs q)"
  by (simp add: fs_lookup_def fs_del_def delete_conv)

lemma escrow_write:
  assumes "escrow_fs fs"
  obtains fs' where "write_atomic no_faults ''/e/seed'' ''seed'' bs fs = (Inr (), fs')" "escrow_fs fs'"
    "fs_lookup fs' ''/r'' = fs_lookup fs ''/r''"
proof -
  have "\<exists>fs'. write_atomic no_faults ''/e/seed'' ''seed'' bs fs = (Inr (), fs') \<and> escrow_fs fs' \<and> fs_lookup fs' ''/r'' = fs_lookup fs ''/r''"
    using assms by (auto simp: write_atomic_def escrow_names escrow_fs_def Let_def io_then_def fs_open_write_def fs_write_all_def
        fs_sync_def fs_rename_def sync_parent_dir_def fs_sync_dir_def parent_is_dir_def lookup_set lookup_del
        split: option.splits node.splits)
  then show thesis using that by blast
qed

lemma escrow_update:
  assumes "escrow_fs (s_files s)" "sealed \<in> {Keep, Remove}"
  obtains fs' where "run_state (update_owner_seed_material (escrow_env X) (SetValue bs) sealed) s = (Some (Inr ()), s\<lparr>s_files := fs'\<rparr>)"
    "fs_lookup fs' ''/r'' = fs_lookup (s_files s) ''/r''"
proof -
  obtain fs' where w: "write_atomic no_faults ''/e/seed'' ''seed'' bs (s_files s) = (Inr (), fs')" "escrow_fs fs'"
    "fs_lookup fs' ''/r'' = fs_lookup (s_files s) ''/r''"
    using escrow_write [OF assms(1)] by blast
  have "run_state (update_owner_seed_material (escrow_env X) (SetValue bs) sealed) s = (Some (Inr ()), s\<lparr>s_files := fs'\<rparr>)"
    using assms w by (auto simp: update_owner_seed_material_def update_owner_seed_material_from_files_def io_read_def io_call_def
        escrow_paths update_escrow_file_def remove_escrow_file_def fs_remove_file_def escrow_fs_def Let_def)
  then show thesis using that w(3) by blast
qed

lemma escrow_load:
  assumes "escrow_fs (s_files s)"
  shows "run_state (load_owner_seed_material (escrow_env X)) s = (Some (Inr \<lparr>om_encrypted =
    (case fs_lookup (s_files s) ''/e/seed'' of Some (File f) \<Rightarrow> Some (fn_data f) | _ \<Rightarrow> None), om_sealed = None\<rparr>), s)"
    "run_state (load_owner_seed_material_with_revalidation (escrow_env X)) s = (Some (Inr \<lparr>om_encrypted =
    (case fs_lookup (s_files s) ''/e/seed'' of Some (File f) \<Rightarrow> Some (fn_data f) | _ \<Rightarrow> None), om_sealed = None\<rparr>), s)"
  using assms by (auto simp: load_owner_seed_material_with_revalidation_def load_owner_seed_material_def
      load_owner_seed_material_from_files_def io_read_def escrow_paths read_optional_file_def fs_read_def escrow_fs_def Let_def
      split: option.splits node.splits)

lemma escrow_audit:
  obtains l where "run_state (emit_signed_owner_audit_event (escrow_env X) seed action details) s = (Some (), s\<lparr>s_log := l\<rparr>)"
  by (cases "signed_owner_audit_event X ''1970-01-01T00:00:00.000000+00:00'' seed ''inst-1''
        (c_storage_ownership_mode init_config) action details")
    (auto simp: emit_signed_owner_audit_event_def)

lemma escrow_begin:
  assumes "s_guard s = s_guard demo_sys"
  obtains g where "run_state (begin_rate_limited_secret_operation (escrow_env X)) s = (Some None, s\<lparr>s_guard := g\<rparr>)"
    "current_state g = Locked"
proof -
  have "\<exists>g. begin_secret_operation_attempt 0 (s_guard demo_sys) = (Inr (), g) \<and> current_state g = Locked"
    by (simp add: demo_sys_def machine_eval current_state_def)
  then show thesis using that assms by (auto simp: begin_rate_limited_secret_operation_def)
qed

lemma demo_wrap_key_of:
  obtains key where "fst (derive_password_wrap_key demo_externals (as_bytes (c # pw)) ''inst-1'') = Inr key"
  by (simp add: derive_password_wrap_key_def derive_hkdf_key_def demo_externals_def)

lemma demo_encrypts:
  obtains envelope where "encrypt_owner_seed demo_externals (Inr (replicate 12 1)) seed key = Inr envelope"
  by (simp add: encrypt_owner_seed_def demo_externals_def)

lemma demo_crypto: "crypto_laws (escrow_env demo_externals)"
  by (simp add: crypto_laws_def demo_laws)

text \<open>A directory that holds an envelope.\<close>

abbreviation escrow_with :: "bytes \<Rightarrow> event list sys" where
  "escrow_with envelope \<equiv> demo_sys\<lparr>s_files := [(''/e'', Dir), (''/e/seed'', File \<lparr>fn_mode = 420, fn_gid = None, fn_data = envelope\<rparr>)]\<rparr>"

section \<open>Witnesses\<close>


lemma escrow_request:
  "run_state (request_owner_seed_unlock (escrow_env X) seed timeout) s =
     (Some (Inr ()), s\<lparr>s_files := fs_set ''/r'' ready_node (s_files s)\<rparr>)"
  by (simp add: request_owner_seed_unlock_def connect_init_unlock_socket_def socket_reply_def trim_line_end_def)

lemma escrow_ready:
  "fs_lookup (s_files s) ''/r'' = Some ready_node \<Longrightarrow> run_state (enclava_init_ready_file_is_ready (escrow_env X)) s = (Some (Inr True), s)"
  "fs_lookup (s_files s) ''/r'' = None \<Longrightarrow> run_state (enclava_init_ready_file_is_ready (escrow_env X)) s = (Some (Inr False), s)"
  "fs_lookup (s_files s) ''/r'' = Some ready_node \<Longrightarrow> run_state (wait_for_enclava_init_ready (escrow_env X) timeout) s = (Some (Inr ()), s)"
proof -
  have word: "from_utf8 (as_bytes ''ready'') = Some ''ready''" "trim ''ready'' = ''ready''" by code_simp+
  have read: "fs_read_to_string no_faults ''/r'' (s_files s) = Inr ''ready''" if "fs_lookup (s_files s) ''/r'' = Some ready_node"
    using that word(1) by (simp add: fs_read_to_string_def fs_read_def ready_node_def)
  show "run_state (enclava_init_ready_file_is_ready (escrow_env X)) s = (Some (Inr True), s)" if "fs_lookup (s_files s) ''/r'' = Some ready_node"
    using read [OF that] word(2) by (simp add: enclava_init_ready_file_is_ready_def io_read_def)
  show "run_state (enclava_init_ready_file_is_ready (escrow_env X)) s = (Some (Inr False), s)" if "fs_lookup (s_files s) ''/r'' = None"
    using that by (simp add: enclava_init_ready_file_is_ready_def io_read_def fs_read_to_string_def fs_read_def)
  show "run_state (wait_for_enclava_init_ready (escrow_env X) timeout) s = (Some (Inr ()), s)" if "fs_lookup (s_files s) ''/r'' = Some ready_node"
    using read [OF that] word(2) by (simp add: wait_for_enclava_init_ready_def wait_rounds_def wait_round_def io_read_def)
qed

lemma escrow_unlock:
  assumes "fs_lookup (s_files s) ''/r'' \<in> {None, Some ready_node}"
  obtains t where "run_state (unlock_owner_seed_material (escrow_env X) seed) s = (Some (Inr None), t)"
proof -
  have "\<exists>t. run_state (unlock_owner_seed_material (escrow_env X) seed) s = (Some (Inr None), t)"
  proof (cases "fs_lookup (s_files s) ''/r'' = None")
    case True
    then show ?thesis
      by (simp add: unlock_owner_seed_material_def unlock_owner_seed_via_init_socket_def escrow_ready(2) escrow_request
          spawn_enclava_init_ready_watch_def)
  next
    case False
    then have "fs_lookup (s_files s) ''/r'' = Some ready_node" using assms by auto
    then show ?thesis
      by (simp add: unlock_owner_seed_material_def unlock_owner_seed_via_init_socket_def escrow_ready(1))
  qed
  then show thesis using that by blast
qed


text \<open>A pod to be claimed: a token whose claims name the owner's key, and one outstanding challenge.\<close>

abbreviation owner_key :: bytes where "owner_key \<equiv> replicate 32 9"

definition claim_ext :: externals where
  "claim_ext = demo_externals\<lparr>x_jwt_decode := (\<lambda>_ _ _. Inr (JObj [(''identity'',
     JObj [(''bootstrap_owner_pubkey_hash'', JStr (hex_lower owner_key))])]))\<rparr>"

definition claim_sys :: "event list sys" where
  "claim_sys = demo_sys\<lparr>s_guard := set_unclaimed (s_guard demo_sys),
     s_challenges := [\<lparr>challenge_b64 = ''00'', expires_at = 1\<rparr>],
     s_aa_cache := (s_aa_cache demo_sys)\<lparr>aa_payload := Some (JObj [(''token'', JStr ''a.b.c'')])\<rparr>,
     s_files := [(''/e'', Dir)]\<rparr>"

definition claim_request :: bootstrap_claim_request where
  "claim_request = \<lparr>bc_challenge = ''00'', bc_bootstrap_pubkey = hex_lower owner_key,
     bc_signature = hex_lower (owner_key @ [0]), bc_password = ''pw''\<rparr>"

lemma claim_ext_sel:
  "b64_law claim_ext" "gcm_law claim_ext" "envelope_law claim_ext" "mnemonic_law claim_ext"
  using demo_laws by (simp_all add: claim_ext_def b64_law_def gcm_law_def envelope_law_def mnemonic_law_def)

lemma claim_valid:
  "validate_bootstrap_signature claim_ext ''00'' (hex_lower owner_key) (hex_lower (owner_key @ [0])) (hex_lower owner_key) = Inr ()"
  by code_simp

lemma claim_identity:
  assumes "s_aa_cache s = s_aa_cache claim_sys"
  shows "\<exists>identity. run_state (fetch_ownership_identity (escrow_env claim_ext)) s = (Some identity, s) \<and>
     oi_bootstrap_owner_pubkey_hash identity = Some (hex_lower owner_key)"
proof -
  define h where "h = hex_lower owner_key"
  have w: "jwt_re_match ''a.b.c''" "trim h = h" "h \<noteq> []" unfolding h_def by code_simp+
  have j: "x_jwt_decode claim_ext a b c = Inr (JObj [(''identity'', JObj [(''bootstrap_owner_pubkey_hash'', JStr h)])])" for a b c
    by (simp add: claim_ext_def h_def)
  have v: "verify_jwt_claims claim_ext ''a.b.c'' = Inr (JObj [(''identity'', JObj [(''bootstrap_owner_pubkey_hash'', JStr h)])])"
    using w(1) j by (simp add: verify_jwt_claims_def) (simp add: claim_ext_def demo_externals_def is_object_def)
  have m: "extract_measurement_from_claims (JObj [(''identity'', JObj [(''bootstrap_owner_pubkey_hash'', JStr h)])]) = None"
    by (simp add: extract_measurement_from_claims_def measurement_paths_def)
  have b: "extract_bootstrap_owner_pubkey_hash (JObj [(''identity'', JObj [(''bootstrap_owner_pubkey_hash'', JStr h)])]) = Some h"
    using w by (simp add: extract_bootstrap_owner_pubkey_hash_def extract_init_data_claim_field_def dynamic_paths_def)
  have "payload_token (JObj [(''token'', JStr ''a.b.c'')]) = Some ''a.b.c''" by (simp add: payload_token_def)
  then show ?thesis unfolding h_def [symmetric]
    using assms v m b by (simp add: fetch_ownership_identity_def fetch_kbs_token_claims_def fetch_aa_token_payload_def
        cached_payload_def claim_sys_def demo_sys_def Let_def is_object_def)
qed

lemma claim_refresh:
  "\<exists>g. run_state (maybe_refresh_unclaimed_state (escrow_env claim_ext)) claim_sys = (Some None, claim_sys\<lparr>s_guard := g\<rparr>) \<and> is_unclaimed g"
proof -
  have f: "escrow_fs (s_files claim_sys)" by (simp add: escrow_fs_def fs_lookup_def claim_sys_def)
  have g: "is_unclaimed (s_guard claim_sys)" "\<not> is_unlocking (s_guard claim_sys)" "is_password_mode (s_guard claim_sys)"
    by (simp_all add: claim_sys_def is_unclaimed_def is_unlocking_def is_password_mode_def demo_sys_def machine_eval)
  have "fs_lookup (s_files claim_sys) ''/e/seed'' = None" by (simp add: fs_lookup_def claim_sys_def)
  then show ?thesis using g escrow_load(1) [OF f, of claim_ext]
    by (simp add: maybe_refresh_unclaimed_state_def refresh_ownership_state_def settle_ownership_state_def)
      (intro exI [of _ "set_unclaimed_preserving_attempts (s_guard claim_sys)"], simp add: is_unclaimed_def)
qed

lemma claim_manual: "requires_manual_unlock (s_guard claim_sys)"
  by (simp add: claim_sys_def demo_sys_def machine_eval requires_manual_unlock_def)


definition teardown_config :: config where
  "teardown_config = demo_config\<lparr>c_owner_seed_encrypted_kbs_path := ''default/a/seed'', c_owner_seed_sealed_kbs_path := ''default/a/seed''\<rparr>"

theorem teardown_erases_both_witness:
  "\<exists>t. erased (demo_env (demo_answer 200) teardown_config) id demo_sys t ''default/a/seed''"
proof -
  let ?E = "demo_env (demo_answer 200) teardown_config"
  have cfg: "c_instance_id teardown_config = ''inst-1''" "c_owner_seed_encrypted_kbs_path teardown_config = ''default/a/seed''"
    "c_owner_seed_sealed_kbs_path teardown_config = ''default/a/seed''" by (simp_all add: teardown_config_def)
  obtain s1 where d1: "run_state (delete_kbs_workload_resource ?E ''default/a/seed'') demo_sys = (Some (Inr True), s1)"
    "s_aa_cache s1 = s_aa_cache demo_sys" using demo_deletes [OF cfg(1) refl] by blast
  obtain s2 where d2: "run_state (delete_kbs_workload_resource ?E ''default/a/seed'') s1 = (Some (Inr True), s2)"
    using demo_deletes [OF cfg(1) d1(2)] by blast
  have "\<exists>resp t. run_state (teardown ?E claims) demo_sys = (Some resp, t) \<and> rp_status resp = 200" for claims
    using d1(1) d2 by (simp add: teardown_def demo_timestamp cfg teardown_answer_def deletion_note_def)
  then obtain resp t where "run_state (teardown ?E undefined) demo_sys = (Some resp, t)" "rp_status resp = 200" by blast
  from teardown_erases_both [OF demo_observed this] show ?thesis by (auto simp: cfg)
qed

end
