(* ===== verification/Attestation.thy ===== *)
theory Attestation
  imports Handlers
begin

text \<open>
  The attestation endpoint, \<open>handlers.rs\<close> from \<open>or_null\<close> to \<open>build_server_verification\<close> and
  the handlers \<open>attestation_info\<close> and \<open>attestation\<close>: the request is checked, the report data are
  derived from it, evidence with these data is fetched from the attestation agent, and the
  answer carries the evidence with the claims read from it and from the agent's token. The
  lemmas show that no evidence is handed out for data that a caller chose, and that claims of a
  token for another measurement are never used.
\<close>

section \<open>Metadata\<close>

definition or_null :: "string \<Rightarrow> json" where
  "or_null s = (if s = [] then JNull else JStr s)"

definition build_policy_metadata :: "config \<Rightarrow> json" where
  "build_policy_metadata cfg =
     JObj [(''url'', or_null (c_attestation_policy_url cfg)), (''sha256'', or_null (c_attestation_policy_sha256 cfg)),
       (''signature_url'', or_null (c_attestation_policy_signature_url cfg))]"

definition build_endorsement_metadata :: "config \<Rightarrow> json" where
  "build_endorsement_metadata cfg =
     JObj [(''cert_chain'', JObj [(''url'', or_null (c_attestation_cert_chain_url cfg)), (''fetch_by_client'', JBool True)]),
       (''tcb_info'', JObj [(''url'', or_null (c_attestation_tcb_info_url cfg)), (''fetch_by_client'', JBool True)])]"

definition attestation_info :: "'w env \<Rightarrow> ('w, response) proc" where
  "attestation_info E =
     call (utc_now E) (\<lambda>now.
     ret (json_response 200 (JObj [(''version'', JStr ''1''), (''timestamp'', JStr now),
       (''attestation_type'', JStr (c_attestation_profile (e_config E))),
       (''runtime_class'', JStr (c_attestation_runtime_class (e_config E))),
       (''evidence_endpoint'', JStr ''/v1/attestation?nonce=<base64-32B>&domain=<host>&leaf_spki_sha256=<hex-or-base64-32B>''),
       (''nonce_encoding'', JStr ''base64''),
       (''runtime_data_contract'', JObj [(''caller_supplied_runtime_data'', JBool False),
          (''report_data_layout'', JStr ''transcript_hash[32] || receipt_pubkey_sha256[32]'')]),
       (''policy'', build_policy_metadata (e_config E)),
       (''endorsements'', build_endorsement_metadata (e_config E)),
       (''trust'', JObj [(''authoritative_identity_source'', JStr ''attested_claims''),
          (''operational_identity_sources'', JArr [])])])))"

section \<open>The server's own verdict\<close>

definition attested_digest :: "json \<Rightarrow> string option" where
  "attested_digest claims = nonempty_str (Option.bind (jget claims ''workload'') (\<lambda>w. jget w ''image_digest_attested''))"

definition configured_digest :: "json \<Rightarrow> string option" where
  "configured_digest identity = nonempty_str (Option.bind (jget identity ''configured'') (\<lambda>c. jget c ''image_digest''))"

definition digests_match :: "string option \<Rightarrow> string option \<Rightarrow> bool option" where
  "digests_match a c = (case (a, c) of (Some a, Some c) \<Rightarrow> Some (a = c) | _ \<Rightarrow> None)"

definition jopt_bool :: "bool option \<Rightarrow> json" where
  "jopt_bool b = (case b of Some b \<Rightarrow> JBool b | None \<Rightarrow> JNull)"

definition verdict :: "bool \<Rightarrow> string option \<Rightarrow> string option \<Rightarrow> string" where
  "verdict nonce_supplied attested configured =
     (let matches = digests_match attested configured in
      if \<not> nonce_supplied \<or> matches = Some False then ''fail''
      else if attested = None then ''inconclusive''
      else if matches = Some True \<or> matches = None then ''pass'' else ''inconclusive'')"

definition build_server_verification :: "json \<Rightarrow> json \<Rightarrow> string option \<Rightarrow> string \<Rightarrow> json" where
  "build_server_verification identity claims nonce policy_sha256 =
     (let attested = attested_digest claims; configured = configured_digest identity;
          matches = digests_match attested configured;
          reasons = (if nonce = None then [''nonce_supplied''] else []) @
                    (if matches = Some False then [''attested_matches_configured''] else []);
          warnings = (if attested = None then [''attested_digest_missing''] else []) in
      JObj [(''verdict'', JStr (verdict (nonce \<noteq> None) attested configured)), (''policy_sha256'', or_null policy_sha256),
        (''checks'', JObj [(''nonce_supplied'', JBool (nonce \<noteq> None)), (''attested_digest_present'', JBool (attested \<noteq> None)),
           (''configured_digest_present'', JBool (configured \<noteq> None)), (''attested_matches_configured'', jopt_bool matches)]),
        (''reasons'', JArr (map JStr reasons)), (''warnings'', JArr (map JStr warnings)),
        (''note'', JStr ''Clients must still verify evidence signatures, cert chain, TCB, and nonce binding.'')])"

section \<open>The request\<close>

record attestation_query =
  aq_nonce :: "string option"
  aq_runtime_data :: "string option"
  aq_leaf_spki_sha256 :: "string option"
  aq_domain :: "string option"

text \<open>What a well-formed request asks for: the nonce as text and as bytes, the domain and the hash of the
  TLS key; or the fields of the refusal.\<close>

record attested_request =
  ar_nonce :: string
  ar_nonce_bytes :: bytes
  ar_domain :: string
  ar_leaf :: bytes

definition refusal :: "string \<Rightarrow> string \<Rightarrow> (string \<times> json) list" where
  "refusal err detail = [(''error'', JStr err), (''detail'', JStr detail)]"

definition nonce_hint :: string where
  "nonce_hint = ''Provide nonce via query parameter '' @ [CHR 39] @ ''?nonce=<base64-32-byte-random>'' @ [CHR 39] @ ''.''"

definition check_attestation_query ::
  "externals \<Rightarrow> bytes \<Rightarrow> attestation_query \<Rightarrow> (string \<times> json) list + attested_request" where
  "check_attestation_query X tls_leaf query =
     (if aq_runtime_data query \<noteq> None then Inl (refusal ''runtime_data_rejected''
        ''runtime_data is constructed by attestation-proxy from nonce, domain, leaf_spki_sha256, and the in-TEE receipt public key.'')
      else case aq_nonce query of
        None \<Rightarrow> Inl (refusal ''nonce_required'' nonce_hint)
      | Some nonce \<Rightarrow>
        if nonce = [] then Inl (refusal ''nonce_required'' nonce_hint)
        else
        res_bind (map_err (refusal ''nonce_invalid'') (decode_fixed32_base64 X nonce ''nonce'')) (\<lambda>nonce_bytes.
        res_bind (case aq_domain query of
            None \<Rightarrow> Inl (refusal ''domain_required''
              ''Provide the externally verified TLS/SNI domain used for the confidential channel.'')
          | Some d \<Rightarrow> map_err (refusal ''domain_invalid'') (validate_attestation_domain d)) (\<lambda>domain.
        res_bind (case aq_leaf_spki_sha256 query of
            None \<Rightarrow> Inl (refusal ''leaf_spki_sha256_required''
              ''Provide SHA256(DER-encoded TLS leaf SubjectPublicKeyInfo).'')
          | Some v \<Rightarrow> map_err (refusal ''leaf_spki_sha256_invalid'') (decode_sha256_field X v ''leaf_spki_sha256'')) (\<lambda>leaf.
        if leaf \<noteq> tls_leaf then Inl (refusal ''leaf_spki_sha256_mismatch''
             ''leaf_spki_sha256 must match the attestation-proxy TLS leaf SPKI.'' @ [(''expected'', JStr (hex_lower tls_leaf))])
        else Inr \<lparr>ar_nonce = nonce, ar_nonce_bytes = nonce_bytes, ar_domain = domain, ar_leaf = leaf\<rparr>))))"

section \<open>Evidence\<close>

definition evidence_url :: "config \<Rightarrow> bytes \<Rightarrow> string" where
  "evidence_url cfg report_data = c_aa_evidence_url cfg @ ''?runtime_data='' @ bytes_to_str report_data"

definition evidence_request :: "config \<Rightarrow> bytes \<Rightarrow> http_request" where
  "evidence_request cfg report_data =
     get_request (evidence_url cfg report_data) [(''Accept'', ''application/json'')] (Some (from_secs 15))"

record evidence =
  ev_bytes :: bytes
  ev_content_type :: string
  ev_status :: nat

text \<open>The evidence, or the fields of the answer when the agent failed.\<close>

definition evidence_of ::
  "externals \<Rightarrow> string \<Rightarrow> string \<Rightarrow> http_error + http_response \<Rightarrow> (string \<times> json) list + evidence" where
  "evidence_of X nonce url result =
     (let context = [(''nonce'', JStr nonce), (''aa_evidence_url'', JStr url)];
          http_error = (''error'', JStr ''attestation-agent-http-error'') in
      case result of
        Inr resp \<Rightarrow>
          (if \<not> is_success (hr_status resp) then
             Inl ([http_error, (''upstream_status'', JInt (int (hr_status resp))),
                   (''upstream_body'', JStr (body_or_empty X resp))] @ context)
           else (case hr_body resp of
                   Inl e \<Rightarrow> Inl ([http_error, (''detail'', JStr (he_text e))] @ context)
                 | Inr b \<Rightarrow> Inr \<lparr>ev_bytes = b,
                     ev_content_type = (case header_text ''content-type'' (hr_headers resp) of
                       Some ct \<Rightarrow> ct | None \<Rightarrow> ''application/octet-stream''),
                     ev_status = hr_status resp\<rparr>))
      | Inl e \<Rightarrow>
          (case he_status e of
             Some st \<Rightarrow> Inl ([http_error, (''upstream_status'', JInt (int st)), (''upstream_body'', JStr (he_text e))] @ context)
           | None \<Rightarrow> Inl ([(''error'', JStr ''attestation-agent-unreachable''), (''detail'', JStr (he_text e))] @ context)))"

definition evidence_json :: "externals \<Rightarrow> bytes \<Rightarrow> json option" where
  "evidence_json X bs =
     (if \<not> utf8_valid bs then None
      else case x_json_parse X bs of Inr v \<Rightarrow> (if is_object v then Some v else None) | Inl _ \<Rightarrow> None)"

section \<open>Claims\<close>

definition no_workload :: json where
  "no_workload = JObj (map (\<lambda>k. (k, JNull)) [''container_name'', ''image_reference_attested'', ''image_digest_attested'',
     ''namespace'', ''service_account'', ''init_data_hash''])"

definition measurement_of :: "json \<Rightarrow> string option" where
  "measurement_of claims = Option.bind (jget claims ''measurement'') as_str"

text \<open>The claims of the agent's token are dropped when they are for another measurement than the evidence.\<close>

definition token_mismatch :: "json \<Rightarrow> json \<Rightarrow> bool" where
  "token_mismatch claims token_claims \<longleftrightarrow>
     Option.bind (jget claims ''source'') as_str = Some ''aa_token'' \<and> measurement_of claims \<noteq> None \<and>
     measurement_of token_claims \<noteq> None \<and> measurement_of claims \<noteq> measurement_of token_claims"

definition drop_mismatched :: "json \<Rightarrow> json \<Rightarrow> json" where
  "drop_mismatched claims token_claims =
     (if token_mismatch claims token_claims
      then jset (jset claims ''source'' (JStr ''none'')) ''workload'' no_workload else claims)"

definition no_token_claims :: json where
  "no_token_claims = JObj [(''claims_root'', JNull), (''measurement'', JNull), (''error'', JNull)]"

text \<open>The claims, the token's claims and whether they disagreed.\<close>

definition gather_claims :: "'w env \<Rightarrow> json option \<Rightarrow> ('w, json \<times> json \<times> bool) proc" where
  "gather_claims E evidence =
     (case evidence of
        None \<Rightarrow> ret (JObj [], no_token_claims, False)
      | Some ej \<Rightarrow>
          pbind (fetch_kbs_token_claims E) (\<lambda>token_claims.
          let supplemental = (case jget token_claims ''claims_root'' of
                Some v \<Rightarrow> (if is_object v then Some v else None) | None \<Rightarrow> None);
              claims = extract_claims (e_ext E) ej supplemental (c_attestation_profile (e_config E))
                (c_attestation_workload_container (e_config E)) in
          ret (drop_mismatched claims token_claims, token_claims, token_mismatch claims token_claims)))"

section \<open>The answer\<close>

definition attested_identity :: "json \<Rightarrow> json" where
  "attested_identity claims =
     (let workload = (case jget claims ''workload'' of Some w \<Rightarrow> w | None \<Rightarrow> JObj []);
          w = (\<lambda>k. jopt (jget workload k)) in
      JObj [(''image_reference'', w ''image_reference_attested''), (''image_digest'', w ''image_digest_attested''),
        (''namespace'', w ''namespace''), (''service_account'', w ''service_account''),
        (''init_data_hash'', w ''init_data_hash''), (''source'', jopt (jget claims ''source''))])"

definition full_identity :: "config \<Rightarrow> json \<Rightarrow> json" where
  "full_identity cfg claims =
     JObj [(''attested'', attested_identity claims),
       (''configured'', JObj [(''image_reference'', or_null (c_attestation_workload_image cfg)),
          (''image_digest'', jopt_str (digest_from_image_ref (c_attestation_workload_image cfg)))])]"

definition attestation_payload ::
  "'w env \<Rightarrow> string \<Rightarrow> attested_request \<Rightarrow> evidence \<Rightarrow> json \<Rightarrow> json \<Rightarrow> bool \<Rightarrow> json" where
  "attestation_payload E now request ev claims token_claims mismatch =
     (let cfg = e_config E; ej = evidence_json (e_ext E) (ev_bytes ev);
          same = (case (measurement_of claims, measurement_of token_claims) of
            (Some a, Some b) \<Rightarrow> Some (a = b) | _ \<Rightarrow> None) in
      JObj [(''version'', JStr ''1''), (''timestamp'', JStr now), (''attestation_type'', JStr (c_attestation_profile cfg)),
        (''runtime_class'', JStr (c_attestation_runtime_class cfg)), (''nonce'', JStr (ar_nonce request)),
        (''runtime_data_binding'', JObj [(''scheme'', JStr ''enclava-report-data-v1''), (''domain'', JStr (ar_domain request)),
           (''leaf_spki_sha256'', JStr (hex_lower (ar_leaf request))),
           (''receipt_pubkey_sha256'', JStr (hex_lower (public_key_sha256 (e_ext E) (e_receipt_seed E))))]),
        (''evidence'', JObj [(''format'', JStr (if ej \<noteq> None then ''coco-attestation-report'' else ''opaque'')),
           (''payload_b64'', JStr (x_b64_encode (e_ext E) (ev_bytes ev))), (''json'', jopt ej),
           (''content_type'', JStr (ev_content_type ev)), (''upstream_status'', JInt (int (ev_status ev)))]),
        (''endorsements'', build_endorsement_metadata cfg),
        (''claims'', claims),
        (''claims_meta'', JObj [(''aa_token_error'', jopt (jget token_claims ''error'')),
           (''aa_token_measurement'', jopt (jget token_claims ''measurement'')),
           (''aa_token_measurement_matches_evidence'', jopt_bool same), (''aa_token_measurement_mismatch'', JBool mismatch)]),
        (''identity'', JObj [(''attested'', attested_identity claims)]),
        (''server_verification'', build_server_verification (full_identity cfg claims) claims (Some (ar_nonce request))
           (c_attestation_policy_sha256 cfg)),
        (''policy'', build_policy_metadata cfg)])"

definition stamped :: "'w env \<Rightarrow> nat \<Rightarrow> (string \<times> json) list \<Rightarrow> ('w, response) proc" where
  "stamped E code kvs = call (utc_now E) (\<lambda>now. ret (json_response code (JObj (kvs @ [(''timestamp'', JStr now)]))))"

definition attestation :: "'w env \<Rightarrow> attestation_query \<Rightarrow> ('w, response) proc" where
  "attestation E query =
     (case check_attestation_query (e_ext E) (e_tls_leaf_spki E) query of
        Inl kvs \<Rightarrow> stamped E 400 kvs
      | Inr request \<Rightarrow>
          or_panic (build_report_data (e_ext E) (ar_domain request) (ar_nonce_bytes request) (ar_leaf request)
            (public_key_sha256 (e_ext E) (e_receipt_seed E))) (\<lambda>report_data.
          call (e_http E (evidence_request (e_config E) report_data)) (\<lambda>result.
          case evidence_of (e_ext E) (ar_nonce request) (evidence_url (e_config E) report_data) result of
            Inl kvs \<Rightarrow> stamped E 502 kvs
          | Inr ev \<Rightarrow>
              pbind (gather_claims E (evidence_json (e_ext E) (ev_bytes ev))) (\<lambda>(claims, token_claims, mismatch).
              call (utc_now E) (\<lambda>now.
              ret (json_response 200 (attestation_payload E now request ev claims token_claims mismatch)))))))"

section \<open>Steps\<close>

lemma advances_gather_claims [advance_rules]: "env_advances R E \<Longrightarrow> advances R (gather_claims E ej)"
  unfolding gather_claims_def by (intro advance_rules; (assumption | simp))

lemma stamped_code: "run_state (stamped E code kvs) s = (Some resp, t) \<Longrightarrow> rp_status resp = code"
  by (auto simp: stamped_def split: prod.splits)

lemma attestation_steps:
  assumes "run_state (attestation E query) s = (Some resp, t)" "rp_status resp = 200"
  obtains request report_data result s1 ev claims token_claims mismatch s2 now where
    "check_attestation_query (e_ext E) (e_tls_leaf_spki E) query = Inr request"
    "build_report_data (e_ext E) (ar_domain request) (ar_nonce_bytes request) (ar_leaf request)
       (public_key_sha256 (e_ext E) (e_receipt_seed E)) = Some report_data"
    "run_state (e_http E (evidence_request (e_config E) report_data)) s = (result, s1)"
    "evidence_of (e_ext E) (ar_nonce request) (evidence_url (e_config E) report_data) result = Inr ev"
    "run_state (gather_claims E (evidence_json (e_ext E) (ev_bytes ev))) s1 = (Some (claims, token_claims, mismatch), s2)"
    "run_state (utc_now E) s2 = (now, t)"
    "resp = json_response 200 (attestation_payload E now request ev claims token_claims mismatch)"
  using assms by (auto simp: attestation_def dest!: stamped_code split: sum.splits option.splits prod.splits)

lemma check_query_Inr:
  "check_attestation_query X leaf query = Inr request \<Longrightarrow>
     aq_runtime_data query = None \<and> ar_leaf request = leaf \<and>
     (\<exists>n d. aq_nonce query = Some n \<and> ar_nonce request = n \<and> decode_fixed32_base64 X n ''nonce'' = Inr (ar_nonce_bytes request) \<and>
        aq_domain query = Some d \<and> validate_attestation_domain d = Inr (ar_domain request))"
  by (auto simp: check_attestation_query_def result_iffs split: if_splits option.splits)

lemma evidence_of_Inr:
  "evidence_of X nonce url result = Inr ev \<Longrightarrow> \<exists>r. result = Inr r \<and> is_success (hr_status r) \<and> hr_body r = Inr (ev_bytes ev)"
  by (auto simp: evidence_of_def Let_def split: sum.splits if_splits option.splits)

lemma extract_claims_object: "\<exists>kvs. extract_claims X ej sc profile container = JObj kvs"
  by (simp add: extract_claims_def Let_def split: prod.split)

lemma gather_claims_mismatch:
  assumes "run_state (gather_claims E ej) s = (Some (claims, token_claims, True), t)"
  obtains kvs where "claims = jset (jset (JObj kvs) ''source'' (JStr ''none'')) ''workload'' no_workload"
proof -
  obtain ej sc where "claims = drop_mismatched (extract_claims (e_ext E) ej sc (c_attestation_profile (e_config E))
      (c_attestation_workload_container (e_config E))) token_claims"
    "token_mismatch (extract_claims (e_ext E) ej sc (c_attestation_profile (e_config E))
      (c_attestation_workload_container (e_config E))) token_claims"
    using assms by (auto simp: gather_claims_def Let_def split: option.splits prod.splits)
  then show thesis using that extract_claims_object by (metis drop_mismatched_def)
qed

section \<open>Properties\<close>

text \<open>C34. Evidence is only ever produced for data the proxy derived itself. A 200 answer means that the
  caller supplied no runtime data, named this proxy's own TLS key, and that during the request the
  attestation agent was asked for evidence over exactly the report data of the caller's nonce and
  domain, this TLS key and this proxy's receipt key; the evidence in the answer is the agent's answer
  to that request.\<close>

theorem attestation_evidence_bound:
  assumes "observed E tr" "run_state (attestation E query) s = (Some resp, t)" "rp_status resp = 200"
  shows "\<exists>nonce nonce_bytes domain d report_data r bs body. aq_runtime_data query = None \<and> aq_nonce query = Some nonce \<and>
    decode_fixed32_base64 (e_ext E) nonce ''nonce'' = Inr nonce_bytes \<and>
    aq_domain query = Some d \<and> validate_attestation_domain d = Inr domain \<and>
    build_report_data (e_ext E) domain nonce_bytes (e_tls_leaf_spki E) (public_key_sha256 (e_ext E) (e_receipt_seed E)) = Some report_data \<and>
    happened tr s t (Exchange (evidence_request (e_config E) report_data) (Inr r)) \<and> is_success (hr_status r) \<and> hr_body r = Inr bs \<and>
    rp_body resp = JsonBody body \<and> path_get body [''evidence'', ''payload_b64''] = Some (JStr (x_b64_encode (e_ext E) bs))"
  using assms(2,3)
proof (rule attestation_steps)
  fix request report_data result s1 ev claims token_claims mismatch s2 now
  assume q: "check_attestation_query (e_ext E) (e_tls_leaf_spki E) query = Inr request"
    and rd: "build_report_data (e_ext E) (ar_domain request) (ar_nonce_bytes request) (ar_leaf request)
       (public_key_sha256 (e_ext E) (e_receipt_seed E)) = Some report_data"
    and h: "run_state (e_http E (evidence_request (e_config E) report_data)) s = (result, s1)"
    and ev: "evidence_of (e_ext E) (ar_nonce request) (evidence_url (e_config E) report_data) result = Inr ev"
    and g: "run_state (gather_claims E (evidence_json (e_ext E) (ev_bytes ev))) s1 = (Some (claims, token_claims, mismatch), s2)"
    and u: "run_state (utc_now E) s2 = (now, t)"
    and resp: "resp = json_response 200 (attestation_payload E now request ev claims token_claims mismatch)"
  note adv = observed_advances [OF assms(1)]
  have "prefix (tr (s_world s1)) (tr (s_world t))"
    by (rule advances_trans [OF progress_log advancesD [OF advances_gather_claims [OF adv] g] advances_utc_now [OF adv] u])
  then have "happened tr s t (Exchange (evidence_request (e_config E) report_data) result)"
    by (rule happened_later [OF observed_http [OF assms(1) h]])
  moreover have "path_get (attestation_payload E now request ev claims token_claims mismatch) [''evidence'', ''payload_b64''] =
      Some (JStr (x_b64_encode (e_ext E) (ev_bytes ev)))" by (simp add: attestation_payload_def Let_def)
  ultimately show ?thesis using check_query_Inr [OF q] evidence_of_Inr [OF ev] rd resp by fastforce
qed


section \<open>Concrete runs\<close>

text \<open>Evidence for one measurement and a token for another.\<close>

definition stale_ext :: externals where
  "stale_ext = demo_externals\<lparr>x_json_parse := (\<lambda>_. Inr (JObj [(''attestation_report'', JObj [(''measurement'', JArr [JInt 1])])])),
     x_jwt_decode := (\<lambda>_ _ _. Inr (JObj [(''snp'', JObj [(''measurement'', JStr ''02'')])]))\<rparr>"

definition stale_env :: "event list env" where
  "stale_env = (demo_env (\<lambda>_. ok_response 200 [123]) demo_config)\<lparr>e_ext := stale_ext\<rparr>"

definition stale_sys :: "event list sys" where
  "stale_sys = demo_sys\<lparr>s_aa_cache := (s_aa_cache demo_sys)\<lparr>aa_payload := Some (JObj [(''token'', JStr ''a.b.c'')])\<rparr>\<rparr>"

definition demo_query :: attestation_query where
  "demo_query = \<lparr>aq_nonce = Some (hex_lower (replicate 32 3)), aq_runtime_data = None,
     aq_leaf_spki_sha256 = Some (hex_lower (replicate 32 0)), aq_domain = Some ''app.example''\<rparr>"

definition stale_request :: attested_request where
  "stale_request = \<lparr>ar_nonce = hex_lower (replicate 32 3), ar_nonce_bytes = replicate 32 3, ar_domain = ''app.example'',
     ar_leaf = replicate 32 0\<rparr>"

lemma stale_query: "check_attestation_query stale_ext (replicate 32 0) demo_query = Inr stale_request"
  by code_simp

lemma stale_report:
  "\<exists>rd. build_report_data stale_ext ''app.example'' (replicate 32 3) (replicate 32 0) (public_key_sha256 stale_ext [7]) = Some rd"
  by (simp add: build_report_data_def tee_tls_transcript_hash_def ce_v1_hash_def ce_v1_bytes_eq ce_fits_def stale_ext_def
      demo_externals_def public_key_sha256_def)

definition stale_claims :: json where
  "stale_claims = JObj [(''snp'', JObj [(''measurement'', JStr ''02'')])]"

lemma stale_env_sel [simp]:
  "e_ext stale_env = stale_ext" "e_config stale_env = demo_config" "e_tls_leaf_spki stale_env = replicate 32 0" "e_receipt_seed stale_env = [7]"
  "run_state (e_http stale_env q) s = (ok_response 200 [123], s\<lparr>s_world := s_world s @ [Exchange q (ok_response 200 [123])]\<rparr>)"
  "run_state (e_now stale_env) s = (0, s)" "utc_now stale_env = State_Monad.return ''1970-01-01T00:00:00.000000+00:00''"
  using demo_timestamp [of "\<lambda>_. ok_response 200 [123]" demo_config] by (simp_all add: stale_env_def utc_now_def demo_env_def)

abbreviation stale_token_claims :: json where
  "stale_token_claims \<equiv> JObj [(''claims_root'', stale_claims), (''measurement'', JStr ''02''), (''error'', JNull), (''verified'', JBool True)]"

lemma stale_token:
  assumes "s_aa_cache s = s_aa_cache stale_sys"
  shows "run_state (fetch_kbs_token_claims stale_env) s = (Some stale_token_claims, s)"
proof -
  have "verify_jwt_claims stale_ext ''a.b.c'' = Inr stale_claims" "extract_measurement_from_claims stale_claims = Some ''02''" by code_simp+
  then show ?thesis using assms
    by (simp add: fetch_kbs_token_claims_def fetch_aa_token_payload_def cached_payload_def stale_sys_def demo_sys_def payload_token_def Let_def)
qed

definition stale_evidence :: json where
  "stale_evidence = JObj [(''attestation_report'', JObj [(''measurement'', JArr [JInt 1])])]"

lemma stale_evidence_json: "evidence_json stale_ext [123] = Some stale_evidence"
  by code_simp

lemma stale_mismatch: "token_mismatch (extract_claims stale_ext stale_evidence (Some stale_claims) p c) stale_token_claims"
proof -
  have "select_claims_root stale_ext stale_evidence (Some stale_claims) = (stale_claims, ''aa_token'')"
    "to_hex_bytes (JArr [JInt 1]) = Some ''01''" by code_simp+
  then show ?thesis
    by (simp add: token_mismatch_def extract_claims_def measurement_of_def stale_evidence_def is_object_def jopt_str_def Let_def del: to_hex_bytes.simps)
qed

lemma stale_run:
  obtains body t where "run_state (attestation stale_env demo_query) stale_sys = (Some (json_response 200 body), t)"
    "path_get body [''claims_meta'', ''aa_token_measurement_mismatch''] = Some (JBool True)"
proof -
  obtain rd where rd: "build_report_data stale_ext ''app.example'' (replicate 32 3) (replicate 32 0) (public_key_sha256 stale_ext [7]) = Some rd"
    using stale_report by blast
  have "is_object stale_claims" by (simp add: is_object_def stale_claims_def)
  then have "\<exists>body t. run_state (attestation stale_env demo_query) stale_sys = (Some (json_response 200 body), t) \<and>
      path_get body [''claims_meta'', ''aa_token_measurement_mismatch''] = Some (JBool True)"
    using stale_query rd stale_mismatch stale_evidence_json
    by (simp add: attestation_def stale_request_def evidence_of_def ok_response_def is_success_def gather_claims_def stale_token Let_def)
      (simp add: attestation_payload_def Let_def)
  then show thesis using that by blast
qed

theorem attestation_evidence_bound_witness:
  "\<exists>report_data r t. happened id stale_sys t (Exchange (evidence_request demo_config report_data) (Inr r)) \<and> is_success (hr_status r)"
proof -
  obtain body t where run: "run_state (attestation stale_env demo_query) stale_sys = (Some (json_response 200 body), t)"
    by (rule stale_run)
  have "observed stale_env id" using demo_observed [of "\<lambda>_. ok_response 200 [123]" demo_config]
    by (simp add: stale_env_def observed_def env_advances_def)
  from attestation_evidence_bound [OF this run] show ?thesis by auto
qed

end
