(* ===== verification/Snp_Report.thy ===== *)
theory Snp_Report
  imports Config Ce_V1 Json
begin

text \<open>
  The attestation report of AMD SEV-SNP, \<open>raw_snp_report\<close> and \<open>vcek_url\<close> of \<open>proof.rs\<close> with
  their helpers: the report the attestation agent gives as JSON is laid out in the 1184 bytes that
  the processor signed, and the address of the signing key's certificate is read from these bytes.
  \<open>render\<close> with \<open>snp_layout\<close> is the reference: the fields of the report with their offsets, in
  ascending order, and zeros between them. The lemmas show that the writes of the code are exactly
  this rendering, and that the certificate asked for is the one of the chip and of the firmware
  version that the report names.
\<close>

section \<open>Bytes\<close>

text \<open>\<open>to_le_bytes\<close> and \<open>from_le_bytes\<close>.\<close>

fun le_bytes :: "nat \<Rightarrow> nat \<Rightarrow> bytes" where
  "le_bytes 0 n = []"
| "le_bytes (Suc k) n = word_of_nat (n mod 256) # le_bytes k (n div 256)"

fun from_le :: "bytes \<Rightarrow> nat" where
  "from_le [] = 0"
| "from_le (b # bs) = unat b + 256 * from_le bs"

text \<open>\<open>out[off..off + n].copy_from_slice(bs)\<close> for \<open>n\<close> bytes.\<close>

definition copy_at :: "nat \<Rightarrow> bytes \<Rightarrow> bytes \<Rightarrow> bytes" where
  "copy_at off bs out = take off out @ bs @ drop (off + length bs) out"

definition byte_range :: "nat \<Rightarrow> nat \<Rightarrow> 'a list \<Rightarrow> 'a list" where
  "byte_range a b xs = take (b - a) (drop a xs)"

section \<open>Fields of the JSON report\<close>

definition number :: "json \<Rightarrow> string \<Rightarrow> proof_error + nat" where
  "number val key = ok_or InvalidReport (Option.bind (jget val key) as_u64)"

definition u8_try_from :: "nat \<Rightarrow> u8 option" where
  "u8_try_from n = (if n < 256 then Some (word_of_nat n) else None)"

definition byte :: "json \<Rightarrow> string \<Rightarrow> proof_error + u8" where
  "byte val key = res_bind (number val key) (\<lambda>n. ok_or InvalidReport (u8_try_from n))"

text \<open>The elements of an array that all are bytes.\<close>

fun array_bytes :: "json list \<Rightarrow> proof_error + bytes" where
  "array_bytes [] = Inr []"
| "array_bytes (j # js) =
     res_bind (ok_or InvalidReport (Option.bind (as_u64 j) u8_try_from)) (\<lambda>b.
     res_bind (array_bytes js) (\<lambda>bs. Inr (b # bs)))"

definition array_field :: "json \<Rightarrow> string \<Rightarrow> nat \<Rightarrow> proof_error + bytes" where
  "array_field val key len =
     res_bind (ok_or InvalidReport (Option.bind (jget val key) as_array)) (\<lambda>js.
     if length js \<noteq> len then Inl InvalidReport else array_bytes js)"

definition tcb_bytes :: "json \<Rightarrow> string \<Rightarrow> bool \<Rightarrow> proof_error + bytes" where
  "tcb_bytes report key turin =
     res_bind (ok_or InvalidReport (jget report key)) (\<lambda>val.
     if turin then
       res_bind (byte val ''fmc'') (\<lambda>fmc.
       res_bind (byte val ''bootloader'') (\<lambda>bl.
       res_bind (byte val ''tee'') (\<lambda>tee.
       res_bind (byte val ''snp'') (\<lambda>snp.
       res_bind (byte val ''microcode'') (\<lambda>ucode.
       Inr [fmc, bl, tee, snp, 0, 0, 0, ucode])))))
     else
       res_bind (byte val ''bootloader'') (\<lambda>bl.
       res_bind (byte val ''tee'') (\<lambda>tee.
       res_bind (ok_or InvalidReport (u8_try_from
         (case Option.bind (jget val ''snp'') as_u64 of Some n \<Rightarrow> n | None \<Rightarrow> 0))) (\<lambda>snp.
       res_bind (byte val ''microcode'') (\<lambda>ucode.
       Inr [bl, tee, 0, 0, 0, 0, snp, ucode])))))"

definition tcb :: "json \<Rightarrow> string \<Rightarrow> bool \<Rightarrow> proof_error + nat" where
  "tcb report key turin = res_bind (tcb_bytes report key turin) (\<lambda>bs. Inr (from_le bs))"

section \<open>Writes\<close>

definition put_u32 :: "nat \<Rightarrow> nat \<Rightarrow> bytes \<Rightarrow> proof_error + bytes" where
  "put_u32 off val out =
     res_bind (ok_or InvalidReport (u32_try_from val)) (\<lambda>w. Inr (copy_at off (le_bytes 4 (unat w)) out))"

definition put_u64 :: "nat \<Rightarrow> nat \<Rightarrow> bytes \<Rightarrow> proof_error + bytes" where
  "put_u64 off val out = Inr (copy_at off (le_bytes 8 val) out)"

definition put_array :: "nat \<Rightarrow> json \<Rightarrow> string \<Rightarrow> nat \<Rightarrow> bytes \<Rightarrow> proof_error + bytes" where
  "put_array off val key len out = res_bind (array_field val key len) (\<lambda>bs. Inr (copy_at off bs out))"

definition put_version :: "nat \<Rightarrow> json \<Rightarrow> string \<Rightarrow> bytes \<Rightarrow> proof_error + bytes" where
  "put_version off report key out =
     res_bind (ok_or InvalidReport (jget report key)) (\<lambda>val.
     res_bind (byte val ''build'') (\<lambda>build.
     res_bind (byte val ''minor'') (\<lambda>minor.
     res_bind (byte val ''major'') (\<lambda>major.
     Inr (copy_at (off + 2) [major] (copy_at (off + 1) [minor] (copy_at off [build] out)))))))"

text \<open>The arguments of a write are evaluated first, with \<open>?\<close>.\<close>

definition with_number :: "(nat \<Rightarrow> bytes \<Rightarrow> proof_error + bytes) \<Rightarrow> proof_error + nat \<Rightarrow> bytes \<Rightarrow> proof_error + bytes" where
  "with_number put val out = res_bind val (\<lambda>v. put v out)"

definition put_byte :: "nat \<Rightarrow> json \<Rightarrow> string \<Rightarrow> bytes \<Rightarrow> proof_error + bytes" where
  "put_byte off report key out = res_bind (byte report key) (\<lambda>b. Inr (copy_at off [b] out))"

fun puts :: "(bytes \<Rightarrow> proof_error + bytes) list \<Rightarrow> bytes \<Rightarrow> proof_error + bytes" where
  "puts [] out = Inr out"
| "puts (f # fs) out = res_bind (f out) (puts fs)"

definition is_turin :: "string \<Rightarrow> bool" where
  "is_turin product = starts_with ''turin'' (to_ascii_lowercase product)"

definition snp_writes :: "json \<Rightarrow> nat \<Rightarrow> bool \<Rightarrow> (bytes \<Rightarrow> proof_error + bytes) list" where
  "snp_writes report version turin =
     [put_u32 0x00 version,
      with_number (put_u32 0x04) (number report ''guest_svn''),
      with_number (put_u64 0x08) (number report ''policy''),
      put_array 0x10 report ''family_id'' 16,
      put_array 0x20 report ''image_id'' 16,
      with_number (put_u32 0x30) (number report ''vmpl''),
      with_number (put_u32 0x34) (number report ''sig_algo''),
      with_number (put_u64 0x38) (tcb report ''current_tcb'' turin),
      with_number (put_u64 0x40) (number report ''plat_info''),
      with_number (put_u32 0x48) (number report ''key_info''),
      put_array 0x50 report ''report_data'' 64,
      put_array 0x90 report ''measurement'' 48,
      put_array 0xC0 report ''host_data'' 32,
      put_array 0xE0 report ''id_key_digest'' 48,
      put_array 0x110 report ''author_key_digest'' 48,
      put_array 0x140 report ''report_id'' 32,
      put_array 0x160 report ''report_id_ma'' 32,
      with_number (put_u64 0x180) (tcb report ''reported_tcb'' turin)] @
     (if 3 \<le> version then
        [put_byte 0x188 report ''cpuid_fam_id'', put_byte 0x189 report ''cpuid_mod_id'', put_byte 0x18A report ''cpuid_step'']
      else []) @
     [put_array 0x1A0 report ''chip_id'' 64,
      with_number (put_u64 0x1E0) (tcb report ''committed_tcb'' turin),
      put_version 0x1E8 report ''current'',
      put_version 0x1EC report ''committed'',
      with_number (put_u64 0x1F0) (tcb report ''launch_tcb'' turin)] @
     (if 5 \<le> version then
        [with_number (put_u64 0x1F8) (number report ''launch_mit_vector''),
         with_number (put_u64 0x200) (number report ''current_mit_vector'')]
      else []) @
     [\<lambda>out. res_bind (ok_or InvalidReport (jget report ''signature'')) (\<lambda>signature.
        res_bind (put_array 0x2A0 signature ''r'' 72 out) (put_array 0x2E8 signature ''s'' 72))]"

definition raw_snp_report :: "json \<Rightarrow> string \<Rightarrow> proof_error + bytes" where
  "raw_snp_report evidence product =
     res_bind (ok_or InvalidReport (jget evidence ''attestation_report'')) (\<lambda>report.
     res_bind (number report ''version'') (\<lambda>version.
     puts (snp_writes report version (is_turin product)) (replicate 1184 0)))"

section \<open>The address of the signing key's certificate\<close>

definition vcek_url :: "bytes \<Rightarrow> string \<Rightarrow> string \<Rightarrow> string" where
  "vcek_url report product base =
     (let turin = is_turin product;
          chip_id = hex_lower (if turin then byte_range 0x1A0 0x1A8 report else byte_range 0x1A0 0x1E0 report);
          tcb = byte_range 0x180 0x188 report;
          spl = (\<lambda>i. show_padded 2 (unat (tcb ! i))) in
      if turin then
        base @ ''/'' @ chip_id @ ''?fmcSPL='' @ spl 0 @ ''&blSPL='' @ spl 1 @ ''&teeSPL='' @ spl 2 @
          ''&snpSPL='' @ spl 3 @ ''&ucodeSPL='' @ spl 7
      else
        base @ ''/'' @ chip_id @ ''?blSPL='' @ spl 0 @ ''&teeSPL='' @ spl 1 @ ''&snpSPL='' @ spl 6 @
          ''&ucodeSPL='' @ spl 7)"

section \<open>Reference layout\<close>

text \<open>A field of the layout: its offset, its length and its contents. \<open>render\<close> writes the fields one
  after the other from position \<open>p\<close> on, with zeros in the gaps and up to the end.\<close>

type_synonym field = "nat \<times> nat \<times> (proof_error + bytes)"

fun render :: "nat \<Rightarrow> field list \<Rightarrow> nat \<Rightarrow> proof_error + bytes" where
  "render p [] sz = Inr (replicate (sz - p) 0)"
| "render p ((off, n, contents) # fs) sz =
     res_bind contents (\<lambda>bs. res_bind (render (off + n) fs sz) (\<lambda>rest. Inr (replicate (off - p) 0 @ bs @ rest)))"

fun ascending :: "nat \<Rightarrow> field list \<Rightarrow> nat \<Rightarrow> bool" where
  "ascending p [] sz \<longleftrightarrow> p \<le> sz"
| "ascending p ((off, n, _) # fs) sz \<longleftrightarrow> p \<le> off \<and> ascending (off + n) fs sz"

text \<open>An unsigned number in four or eight bytes, least significant byte first.\<close>

definition u32_field :: "proof_error + nat \<Rightarrow> proof_error + bytes" where
  "u32_field val = res_bind val (\<lambda>v. if v < 2 ^ 32 then Inr (le_bytes 4 v) else Inl InvalidReport)"

definition u64_field :: "proof_error + nat \<Rightarrow> proof_error + bytes" where
  "u64_field val = res_bind val (\<lambda>v. Inr (le_bytes 8 v))"

definition byte_field :: "json \<Rightarrow> string \<Rightarrow> proof_error + bytes" where
  "byte_field report key = res_bind (byte report key) (\<lambda>b. Inr [b])"

definition version_field :: "json \<Rightarrow> string \<Rightarrow> proof_error + bytes" where
  "version_field report key =
     res_bind (ok_or InvalidReport (jget report key)) (\<lambda>val.
     res_bind (byte val ''build'') (\<lambda>build. res_bind (byte val ''minor'') (\<lambda>minor.
     res_bind (byte val ''major'') (\<lambda>major. Inr [build, minor, major]))))"

definition signature_field :: "json \<Rightarrow> proof_error + bytes" where
  "signature_field report =
     res_bind (ok_or InvalidReport (jget report ''signature'')) (\<lambda>signature.
     res_bind (array_field signature ''r'' 72) (\<lambda>r. res_bind (array_field signature ''s'' 72) (\<lambda>s. Inr (r @ s))))"

definition snp_layout :: "json \<Rightarrow> nat \<Rightarrow> bool \<Rightarrow> field list" where
  "snp_layout report version turin =
     [(0, 4, u32_field (Inr version)), (4, 4, u32_field (number report ''guest_svn'')),
      (8, 8, u64_field (number report ''policy'')), (16, 16, array_field report ''family_id'' 16),
      (32, 16, array_field report ''image_id'' 16), (48, 4, u32_field (number report ''vmpl'')),
      (52, 4, u32_field (number report ''sig_algo'')), (56, 8, tcb_bytes report ''current_tcb'' turin),
      (64, 8, u64_field (number report ''plat_info'')), (72, 4, u32_field (number report ''key_info'')),
      (80, 64, array_field report ''report_data'' 64), (144, 48, array_field report ''measurement'' 48),
      (192, 32, array_field report ''host_data'' 32), (224, 48, array_field report ''id_key_digest'' 48),
      (272, 48, array_field report ''author_key_digest'' 48), (320, 32, array_field report ''report_id'' 32),
      (352, 32, array_field report ''report_id_ma'' 32), (384, 8, tcb_bytes report ''reported_tcb'' turin)] @
     (if 3 \<le> version then
        [(392, 1, byte_field report ''cpuid_fam_id''), (393, 1, byte_field report ''cpuid_mod_id''),
         (394, 1, byte_field report ''cpuid_step'')] else []) @
     [(416, 64, array_field report ''chip_id'' 64), (480, 8, tcb_bytes report ''committed_tcb'' turin),
      (488, 3, version_field report ''current''), (492, 3, version_field report ''committed''),
      (496, 8, tcb_bytes report ''launch_tcb'' turin)] @
     (if 5 \<le> version then
        [(504, 8, u64_field (number report ''launch_mit_vector'')), (512, 8, u64_field (number report ''current_mit_vector''))]
      else []) @
     [(672, 144, signature_field report)]"

section \<open>Bytes of numbers\<close>

lemma length_le_bytes [simp]: "length (le_bytes k n) = k"
  by (induction k n rule: le_bytes.induct) auto

lemma le_bytes_from_le: "le_bytes (length bs) (from_le bs) = bs"
  by (induction bs) (simp_all add: word_of_nat_u8 mod_less)

lemma le_bytes_from_le_8: "length bs = 8 \<Longrightarrow> le_bytes 8 (from_le bs) = bs"
  using le_bytes_from_le [of bs] by simp

lemma from_le_le_bytes: "n < 256 ^ k \<Longrightarrow> from_le (le_bytes k n) = n"
  by (induction k n rule: le_bytes.induct) (simp_all add: word_of_nat_u8 less_mult_imp_div_less mult.commute)

lemma length_array_bytes: "array_bytes js = Inr bs \<Longrightarrow> length bs = length js"
  by (induction js arbitrary: bs) (auto simp: result_iffs)

lemma length_array_field: "array_field val key n = Inr bs \<Longrightarrow> length bs = n"
  by (auto simp: array_field_def result_iffs length_array_bytes split: if_splits)

lemma length_tcb_bytes: "tcb_bytes report key turin = Inr bs \<Longrightarrow> length bs = 8"
  by (auto simp: tcb_bytes_def result_iffs split: if_splits)

section \<open>Writes in ascending order are a rendering\<close>

text \<open>A write puts the contents of a field at its offset and nothing else.\<close>

definition writes :: "field \<Rightarrow> (bytes \<Rightarrow> proof_error + bytes) \<Rightarrow> bool" where
  "writes fd put \<longleftrightarrow> (case fd of (off, n, contents) \<Rightarrow> (\<forall>bs. contents = Inr bs \<longrightarrow> length bs = n) \<and>
     (\<forall>out. off + n \<le> length out \<longrightarrow> put out = res_bind contents (\<lambda>bs. Inr (copy_at off bs out))))"

lemma copy_at_zeros:
  "length pre = p \<Longrightarrow> p \<le> off \<Longrightarrow> off + length bs \<le> p + k \<Longrightarrow>
   copy_at off bs (pre @ replicate k 0) = (pre @ replicate (off - p) 0 @ bs) @ replicate (p + k - (off + length bs)) 0"
  by (simp add: copy_at_def)

lemma ascending_le: "ascending p fs sz \<Longrightarrow> p \<le> sz"
  by (induction p fs sz rule: ascending.induct) auto

lemma puts_render:
  assumes "list_all2 writes fs ps" "ascending p fs sz" "length pre = p"
  shows "puts ps (pre @ replicate (sz - p) 0) = res_bind (render p fs sz) (\<lambda>bs. Inr (pre @ bs))"
  using assms
proof (induction fs ps arbitrary: p pre rule: list_all2_induct)
  case (Cons fd fs put ps)
  obtain off n contents where fd: "fd = (off, n, contents)" by (cases fd)
  have asc: "p \<le> off" "ascending (off + n) fs sz" using Cons.prems fd by auto
  note sz = ascending_le [OF asc(2)]
  have put: "put (pre @ replicate (sz - p) 0) = res_bind contents (\<lambda>bs. Inr (copy_at off bs (pre @ replicate (sz - p) 0)))"
    using Cons.hyps(1) fd sz asc(1) Cons.prems(2) by (simp add: writes_def)
  show ?case
  proof (cases contents)
    case (Inr bs)
    then have "length bs = n" using Cons.hyps(1) fd by (simp add: writes_def)
    with Inr put asc sz Cons.prems(2)
    have "put (pre @ replicate (sz - p) 0) =
        Inr ((pre @ replicate (off - p) 0 @ bs) @ replicate (sz - (off + n)) 0)"
      by (simp add: copy_at_zeros [of pre p])
    moreover have "puts ps ((pre @ replicate (off - p) 0 @ bs) @ replicate (sz - (off + n)) 0) =
        res_bind (render (off + n) fs sz) (\<lambda>r. Inr ((pre @ replicate (off - p) 0 @ bs) @ r))"
      by (rule Cons.IH) (use asc Cons.prems(2) \<open>length bs = n\<close> in auto)
    ultimately show ?thesis using fd Inr by (auto simp: res_bind_def split: sum.splits)
  qed (use put fd in simp)
qed simp

lemma res_bind_assoc: "res_bind (res_bind x f) g = res_bind x (\<lambda>v. res_bind (f v) g)"
  by (cases x) simp_all

lemma writes_u32 [intro]: "off' = off \<Longrightarrow> writes (off, 4, u32_field val) (with_number (put_u32 off') val)"
  by (auto simp: writes_def u32_field_def with_number_def put_u32_def u32_try_from_def word_of_nat_u32 result_iffs
      res_bind_assoc res_bind_def split: sum.splits if_splits)

lemma writes_version_number [intro]: "writes (0, 4, u32_field (Inr v)) (put_u32 0 v)"
  using writes_u32 [of 0 0 "Inr v"] by (simp add: with_number_def writes_def)

lemma writes_u64 [intro]: "off' = off \<Longrightarrow> writes (off, 8, u64_field val) (with_number (put_u64 off') val)"
  by (auto simp: writes_def u64_field_def with_number_def put_u64_def result_iffs res_bind_assoc)

lemma writes_tcb [intro]:
  "off' = off \<Longrightarrow> writes (off, 8, tcb_bytes report key turin) (with_number (put_u64 off') (tcb report key turin))"
  by (auto simp: writes_def with_number_def put_u64_def tcb_def res_bind_def length_tcb_bytes le_bytes_from_le_8
      split: sum.splits)

lemma writes_array [intro]: "off' = off \<Longrightarrow> writes (off, n, array_field val key n) (put_array off' val key n)"
  by (auto simp: writes_def put_array_def length_array_field)

lemma writes_byte [intro]: "off' = off \<Longrightarrow> writes (off, Suc 0, byte_field report key) (put_byte off' report key)"
  by (auto simp: writes_def put_byte_def byte_field_def result_iffs res_bind_assoc)

lemma copy_at_twice:
  "off' = off + length a \<Longrightarrow> off + length a + length b \<le> length out \<Longrightarrow>
   copy_at off' b (copy_at off a out) = copy_at off (a @ b) out"
  by (simp add: copy_at_def ac_simps)

lemma writes_version [intro]: "off' = off \<Longrightarrow> writes (off, 3, version_field report key) (put_version off' report key)"
  by (auto simp: writes_def put_version_def version_field_def result_iffs res_bind_assoc copy_at_twice)

lemma writes_signature:
  "writes (672, 144, signature_field report)
     (\<lambda>out. res_bind (ok_or InvalidReport (jget report ''signature'')) (\<lambda>signature.
        res_bind (put_array 0x2A0 signature ''r'' 72 out) (put_array 0x2E8 signature ''s'' 72)))"
  by (auto simp: writes_def put_array_def signature_field_def length_array_field res_bind_assoc copy_at_twice
      res_bind_def ok_or_def split: sum.splits option.splits)

lemma snp_layout_ascending: "ascending 0 (snp_layout report version turin) 1184"
  by (simp add: snp_layout_def)

lemma snp_layout_writes: "list_all2 writes (snp_layout report version turin) (snp_writes report version turin)"
  unfolding snp_layout_def snp_writes_def
  by (intro list_all2_appendI) (auto intro: writes_signature)

section \<open>Reading a rendering\<close>

text \<open>The contents of every field have the length of the field.\<close>

definition sized :: "field list \<Rightarrow> bool" where
  "sized fs \<longleftrightarrow> (\<forall>(off, n, contents) \<in> set fs. \<forall>bs. contents = Inr bs \<longrightarrow> length bs = n)"

lemma sized_Cons: "sized ((off, n, contents) # fs) \<longleftrightarrow> (\<forall>bs. contents = Inr bs \<longrightarrow> length bs = n) \<and> sized fs"
  by (simp add: sized_def)

lemma sized_writes: "list_all2 writes fs ps \<Longrightarrow> sized fs"
  by (induction fs ps rule: list_all2_induct) (auto simp: sized_def writes_def split: prod.splits)

lemma length_render:
  "render p fs sz = Inr out \<Longrightarrow> ascending p fs sz \<Longrightarrow> sized fs \<Longrightarrow> length out = sz - p"
  by (induction p fs sz arbitrary: out rule: render.induct)
    (fastforce simp: result_iffs sized_Cons dest: ascending_le)+

lemma render_slice:
  "render p fs sz = Inr out \<Longrightarrow> ascending p fs sz \<Longrightarrow> sized fs \<Longrightarrow> (off, n, contents) \<in> set fs \<Longrightarrow>
   p \<le> off \<and> contents = Inr (byte_range (off - p) (off - p + n) out)"
proof (induction p fs sz arbitrary: out rule: render.induct)
  case (2 p off' n' contents' fs sz)
  from 2(2) obtain bs rest where bs: "contents' = Inr bs" "render (off' + n') fs sz = Inr rest"
    "out = replicate (off' - p) 0 @ bs @ rest" by (auto simp: result_iffs)
  have len: "length bs = n'" using 2(4) bs(1) by (simp add: sized_Cons)
  show ?case
  proof (cases "(off, n, contents) = (off', n', contents')")
    case False
    then have "off' + n' \<le> off \<and> contents = Inr (byte_range (off - (off' + n')) (off - (off' + n') + n) rest)"
      using 2 bs by (auto simp: sized_Cons)
    then show ?thesis using 2(3) bs(3) len by (auto simp: byte_range_def)
  qed (use 2(3) bs len in \<open>simp add: byte_range_def\<close>)
qed simp

lemma snp_layout_field:
  assumes "raw_snp_report evidence product = Inr raw"
  obtains report version where "jget evidence ''attestation_report'' = Some report"
    "number report ''version'' = Inr version" "length raw = 1184"
    "\<And>off n contents. (off, n, contents) \<in> set (snp_layout report version (is_turin product)) \<Longrightarrow>
       contents = Inr (byte_range off (off + n) raw)"
proof -
  obtain report version where r: "jget evidence ''attestation_report'' = Some report" "number report ''version'' = Inr version"
    "puts (snp_writes report version (is_turin product)) (replicate 1184 0) = Inr raw"
    using assms by (auto simp: raw_snp_report_def result_iffs)
  let ?l = "snp_layout report version (is_turin product)"
  have "render 0 ?l 1184 = Inr raw"
    using r(3) puts_render [OF snp_layout_writes snp_layout_ascending, of "[]"] by (auto simp: result_iffs)
  note render = this snp_layout_ascending sized_writes [OF snp_layout_writes]
  show thesis using that [OF r(1,2)] length_render [OF render] render_slice [OF render] by simp
qed

lemma raw_report_data:
  assumes "raw_snp_report evidence product = Inr raw"
  obtains report where "jget evidence ''attestation_report'' = Some report"
    "array_field report ''report_data'' 64 = Inr (byte_range 0x50 0x90 raw)"
  using assms
proof (rule snp_layout_field)
  fix report version
  assume "jget evidence ''attestation_report'' = Some report"
    and "\<And>off n contents. (off, n, contents) \<in> set (snp_layout report version (is_turin product)) \<Longrightarrow>
       contents = Inr (byte_range off (off + n) raw)"
  note * = this(1) this(2) [of 80 64 "array_field report ''report_data'' 64"]
  show thesis by (rule that [OF *(1)]) (use *(2) in \<open>simp add: snp_layout_def\<close>)
qed

lemma snp_level:
  "ok_or InvalidReport (u8_try_from (case Option.bind (jget val ''snp'') as_u64 of Some n \<Rightarrow> n | None \<Rightarrow> 0)) = Inr s \<Longrightarrow>
   byte val ''snp'' = Inr s \<or> Option.bind (jget val ''snp'') as_u64 = None \<and> s = 0"
  by (auto simp: byte_def number_def u8_try_from_def split: option.splits)

lemma tcb_turin:
  assumes "tcb_bytes report key True = Inr bs"
  obtains t fmc bl tee snp ucode where "jget report key = Some t" "byte t ''fmc'' = Inr fmc" "byte t ''bootloader'' = Inr bl"
    "byte t ''tee'' = Inr tee" "byte t ''snp'' = Inr snp" "byte t ''microcode'' = Inr ucode"
    "bs = [fmc, bl, tee, snp, 0, 0, 0, ucode]"
  using assms by (auto simp: tcb_bytes_def result_iffs)

lemma tcb_other:
  assumes "tcb_bytes report key False = Inr bs"
  obtains t bl tee snp ucode where "jget report key = Some t" "byte t ''bootloader'' = Inr bl" "byte t ''tee'' = Inr tee"
    "byte t ''snp'' = Inr snp \<or> Option.bind (jget t ''snp'') as_u64 = None \<and> snp = 0" "byte t ''microcode'' = Inr ucode"
    "bs = [bl, tee, 0, 0, 0, 0, snp, ucode]"
proof -
  from assms obtain t bl tee snp ucode where *: "jget report key = Some t" "byte t ''bootloader'' = Inr bl"
    "byte t ''tee'' = Inr tee" "byte t ''microcode'' = Inr ucode" "bs = [bl, tee, 0, 0, 0, 0, snp, ucode]"
    "ok_or InvalidReport (u8_try_from (case Option.bind (jget t ''snp'') as_u64 of Some n \<Rightarrow> n | None \<Rightarrow> 0)) = Inr snp"
    by (auto simp: tcb_bytes_def res_bind_Inr ok_or_Inr)
  show thesis by (rule that [OF *(1,2,3) snp_level [OF *(6)] *(4,5)])
qed

section \<open>Properties\<close>

text \<open>C36. The report handed on is the one the processor signed: the code's writes into a buffer of zeros
  give exactly the rendering of the published layout of an SEV-SNP report, field by field in ascending
  order with zeros in every gap, and they fail, with the same error, exactly when a field is missing or
  out of range.\<close>

theorem raw_report_rendered:
  "raw_snp_report evidence product =
     res_bind (ok_or InvalidReport (jget evidence ''attestation_report'')) (\<lambda>report.
     res_bind (number report ''version'') (\<lambda>version.
     render 0 (snp_layout report version (is_turin product)) 1184))"
  using puts_render [OF snp_layout_writes snp_layout_ascending, of "[]"]
  by (simp add: raw_snp_report_def) (simp add: res_bind_def split: sum.split)

text \<open>C39. The certificate that is fetched for a report is the one of the signing key: the address names the
  chip identifier of the report and the security patch levels of its reported TCB, as they stand in the
  evidence, in the format of the processor generation (Turin takes the first 8 bytes of the identifier
  and also the level of the FMC).\<close>

theorem vcek_url_names_signer:
  assumes "raw_snp_report evidence product = Inr raw"
  shows "\<exists>report chip t bl tee snp ucode. jget evidence ''attestation_report'' = Some report \<and>
    array_field report ''chip_id'' 64 = Inr chip \<and> jget report ''reported_tcb'' = Some t \<and>
    byte t ''bootloader'' = Inr bl \<and> byte t ''tee'' = Inr tee \<and> byte t ''microcode'' = Inr ucode \<and>
    (if is_turin product then
       \<exists>fmc. byte t ''fmc'' = Inr fmc \<and> byte t ''snp'' = Inr snp \<and>
         vcek_url raw product base = base @ ''/'' @ hex_lower (take 8 chip) @ ''?fmcSPL='' @ show_padded 2 (unat fmc) @
           ''&blSPL='' @ show_padded 2 (unat bl) @ ''&teeSPL='' @ show_padded 2 (unat tee) @
           ''&snpSPL='' @ show_padded 2 (unat snp) @ ''&ucodeSPL='' @ show_padded 2 (unat ucode)
     else
       (byte t ''snp'' = Inr snp \<or> Option.bind (jget t ''snp'') as_u64 = None \<and> snp = 0) \<and>
       vcek_url raw product base = base @ ''/'' @ hex_lower chip @ ''?blSPL='' @ show_padded 2 (unat bl) @
           ''&teeSPL='' @ show_padded 2 (unat tee) @
           ''&snpSPL='' @ show_padded 2 (unat snp) @ ''&ucodeSPL='' @ show_padded 2 (unat ucode))"
  using assms
proof (rule snp_layout_field)
  fix report version
  assume report: "jget evidence ''attestation_report'' = Some report"
    and slices: "\<And>off n contents. (off, n, contents) \<in> set (snp_layout report version (is_turin product)) \<Longrightarrow>
       contents = Inr (byte_range off (off + n) raw)"
  have chip: "array_field report ''chip_id'' 64 = Inr (byte_range 416 480 raw)"
    using slices [of 416 64 "array_field report ''chip_id'' 64"] by (simp add: snp_layout_def)
  have tcb: "tcb_bytes report ''reported_tcb'' (is_turin product) = Inr (byte_range 384 392 raw)"
    using slices [of 384 8 "tcb_bytes report ''reported_tcb'' (is_turin product)"] by (simp add: snp_layout_def)
  have take8: "byte_range 416 424 raw = take 8 (byte_range 416 480 raw)" by (simp add: byte_range_def)
  show ?thesis
  proof (cases "is_turin product")
    case True
    then have "tcb_bytes report ''reported_tcb'' True = Inr (byte_range 384 392 raw)" using tcb by simp
    then obtain t fmc bl tee snp ucode where t: "jget report ''reported_tcb'' = Some t" "byte t ''fmc'' = Inr fmc"
      "byte t ''bootloader'' = Inr bl" "byte t ''tee'' = Inr tee" "byte t ''snp'' = Inr snp" "byte t ''microcode'' = Inr ucode"
      "byte_range 384 392 raw = [fmc, bl, tee, snp, 0, 0, 0, ucode]" by (rule tcb_turin)
    show ?thesis
      by (rule exI [of _ report], rule exI [of _ "byte_range 416 480 raw"], rule exI [of _ t])
        (use report chip True take8 t in \<open>auto simp: vcek_url_def\<close>)
  next
    case False
    then have "tcb_bytes report ''reported_tcb'' False = Inr (byte_range 384 392 raw)" using tcb by simp
    then obtain t bl tee snp ucode where t: "jget report ''reported_tcb'' = Some t"
      "byte t ''bootloader'' = Inr bl" "byte t ''tee'' = Inr tee"
      "byte t ''snp'' = Inr snp \<or> Option.bind (jget t ''snp'') as_u64 = None \<and> snp = 0" "byte t ''microcode'' = Inr ucode"
      "byte_range 384 392 raw = [bl, tee, 0, 0, 0, 0, snp, ucode]" by (rule tcb_other)
    show ?thesis
      by (rule exI [of _ report], rule exI [of _ "byte_range 416 480 raw"], rule exI [of _ t])
        (use report chip False t in \<open>auto simp: vcek_url_def\<close>)
  qed
qed

text \<open>A report of version 2 in which every field is present, over the given report data.\<close>

definition demo_tcb :: json where
  "demo_tcb = JObj [(''bootloader'', JInt 4), (''tee'', JInt 0), (''snp'', JInt 24), (''microcode'', JInt 219)]"

definition demo_version :: json where
  "demo_version = JObj [(''build'', JInt 1), (''minor'', JInt 2), (''major'', JInt 3)]"

definition json_bytes :: "bytes \<Rightarrow> json" where
  "json_bytes bs = JArr (map (\<lambda>b. JInt (uint b)) bs)"

definition demo_array :: "nat \<Rightarrow> json" where
  "demo_array n = json_bytes (replicate n 7)"

definition demo_report :: "bytes \<Rightarrow> json" where
  "demo_report rd = JObj ([(k, JInt 2). k \<leftarrow> [''version'', ''guest_svn'', ''policy'', ''vmpl'', ''sig_algo'', ''plat_info'']] @
     [(''key_info'', JInt 0), (''report_data'', json_bytes rd)] @
     [(k, demo_array n). (k, n) \<leftarrow> [(''family_id'', 16), (''image_id'', 16), (''measurement'', 48),
        (''host_data'', 32), (''id_key_digest'', 48), (''author_key_digest'', 48), (''report_id'', 32),
        (''report_id_ma'', 32), (''chip_id'', 64)]] @
     [(k, demo_tcb). k \<leftarrow> [''current_tcb'', ''reported_tcb'', ''committed_tcb'', ''launch_tcb'']] @
     [(k, demo_version). k \<leftarrow> [''current'', ''committed'']] @
     [(''signature'', JObj [(''r'', demo_array 72), (''s'', demo_array 72)])])"

abbreviation demo_evidence :: "bytes \<Rightarrow> json" where
  "demo_evidence rd \<equiv> JObj [(''attestation_report'', demo_report rd)]"

lemma render_ok: "(\<forall>(off, n, contents) \<in> set fs. is_ok contents) \<Longrightarrow> is_ok (render p fs sz)"
  by (induction p fs sz rule: render.induct) (auto simp: is_ok_def res_bind_def split: sum.splits)

lemma array_bytes_json: "array_bytes (map (\<lambda>b. JInt (uint b)) bs) = Inr bs"
proof (induction bs)
  case (Cons b bs)
  have "uint b < 2 ^ 8" using unsigned_less [of b, where ?'a = int] by simp
  then have "uint b < 2 ^ 64" by simp
  then have "as_u64 (JInt (uint b)) = Some (unat b)" by simp
  with Cons show ?case by (simp add: u8_try_from_def)
qed simp

lemma json_bytes_field: "jget val key = Some (json_bytes bs) \<Longrightarrow> length bs = n \<Longrightarrow> array_field val key n = Inr bs"
  by (simp add: array_field_def json_bytes_def array_bytes_json)

lemma demo_array_field: "jget val key = Some (demo_array n) \<Longrightarrow> is_ok (array_field val key n)"
  by (simp add: json_bytes_field demo_array_def)

lemma demo_tcb_ok: "jget val key = Some demo_tcb \<Longrightarrow> is_ok (tcb_bytes val key False)"
  by (simp add: tcb_bytes_def byte_def number_def demo_tcb_def u8_try_from_def)

lemma demo_version_ok: "jget val key = Some demo_version \<Longrightarrow> is_ok (version_field val key)"
  by (simp add: version_field_def byte_def number_def demo_version_def u8_try_from_def)

lemma demo_signature_ok: "is_ok (signature_field (demo_report rd))"
  by (simp add: signature_field_def demo_report_def json_bytes_field demo_array_def)

lemma demo_layout: "length rd = 64 \<Longrightarrow> (off, n, contents) \<in> set (snp_layout (demo_report rd) 2 False) \<Longrightarrow> is_ok contents"
  by (auto simp: snp_layout_def u32_field_def u64_field_def number_def demo_signature_ok)
    (auto simp: demo_report_def demo_array_field demo_tcb_ok demo_version_ok json_bytes_field)

lemma demo_product: "\<not> is_turin ''Genoa''"
  by code_simp

lemma demo_report_ok:
  assumes "length rd = 64"
  obtains raw where "raw_snp_report (demo_evidence rd) ''Genoa'' = Inr raw"
proof -
  have "is_ok (render 0 (snp_layout (demo_report rd) 2 False) 1184)" using demo_layout [OF assms] by (auto intro!: render_ok)
  moreover have "number (demo_report rd) ''version'' = Inr 2" by (simp add: number_def demo_report_def)
  ultimately have "\<exists>raw. raw_snp_report (demo_evidence rd) ''Genoa'' = Inr raw"
    using puts_render [OF snp_layout_writes snp_layout_ascending, of "[]" "demo_report rd" 2 False] demo_product
    by (auto simp: raw_snp_report_def is_ok_def res_bind_def split: sum.splits)
  then show thesis using that by blast
qed

lemma demo_report_raw:
  assumes "raw_snp_report (demo_evidence rd) ''Genoa'' = Inr raw" "length rd = 64"
  shows "length raw = 1184" "byte_range 0x50 0x90 raw = rd" "byte_range 0x48 0x4C raw = [0, 0, 0, 0]"
proof -
  obtain report version where *: "jget (demo_evidence rd) ''attestation_report'' = Some report" "length raw = 1184"
    and slices: "\<And>off n contents. (off, n, contents) \<in> set (snp_layout report version (is_turin ''Genoa'')) \<Longrightarrow>
       contents = Inr (byte_range off (off + n) raw)"
    by (rule snp_layout_field [OF assms(1)]) blast
  have report: "report = demo_report rd" using *(1) by simp
  show "length raw = 1184" by (rule *(2))
  have "array_field report ''report_data'' 64 = Inr (byte_range 0x50 0x90 raw)"
    using slices [of 80 64 "array_field report ''report_data'' 64"] by (simp add: snp_layout_def)
  moreover have "array_field report ''report_data'' 64 = Inr rd"
    by (rule json_bytes_field) (simp_all add: report demo_report_def assms(2))
  ultimately show "byte_range 0x50 0x90 raw = rd" by simp
  have "u32_field (number report ''key_info'') = Inr (byte_range 0x48 0x4C raw)"
    using slices [of 72 4 "u32_field (number report ''key_info'')"] by (simp add: snp_layout_def)
  moreover have "number report ''key_info'' = Inr 0" by (simp add: report demo_report_def number_def)
  moreover have "le_bytes 4 0 = [0, 0, 0, 0]" by code_simp
  ultimately show "byte_range 0x48 0x4C raw = [0, 0, 0, 0]" by (simp add: u32_field_def)
qed

definition demo_rd :: bytes where "demo_rd = replicate 64 1"

theorem vcek_url_names_signer_witness:
  "\<exists>raw chip. raw_snp_report (demo_evidence demo_rd) ''Genoa'' = Inr raw \<and>
     array_field (demo_report demo_rd) ''chip_id'' 64 = Inr chip \<and>
     vcek_url raw ''Genoa'' ''kds'' = ''kds/'' @ hex_lower chip @ ''?blSPL=04&teeSPL=00&snpSPL=24&ucodeSPL=219''"
proof -
  obtain raw where raw: "raw_snp_report (demo_evidence demo_rd) ''Genoa'' = Inr raw"
    by (rule demo_report_ok [of demo_rd]) (simp only: demo_rd_def length_replicate)
  have tcb: "jget (demo_report demo_rd) ''reported_tcb'' = Some demo_tcb" by (simp add: demo_report_def)
  have *: "byte demo_tcb ''bootloader'' = Inr 4"
    "byte demo_tcb ''tee'' = Inr 0" "byte demo_tcb ''microcode'' = Inr 219" "byte demo_tcb ''snp'' = Inr 24"
    "Option.bind (jget demo_tcb ''snp'') as_u64 = Some 24" by code_simp+
  have spl: "show_padded 2 4 = ''04''" "show_padded 2 0 = ''00''" "show_padded 2 24 = ''24''" "show_padded 2 219 = ''219''"
    by code_simp+
  show ?thesis using vcek_url_names_signer [OF raw, of "''kds''"] raw demo_product tcb * spl by auto
qed

end
