(* ===== verification/Proof_Bundle.thy ===== *)
theory Proof_Bundle
  imports Snp_Report Bootstrap
begin

text \<open>
  Proof bundles, the rest of \<open>proof.rs\<close>: the static verification material and the hosts it allows,
  the bundle itself, PEM certificates and the names a certificate covers, and the endorsements of AMD's
  key distribution service, fetched through a cache. The lemmas show that a bundle is the canonical
  encoding of its fields followed by the static material, that all of it can be read back and that it
  is never longer than promised; and that what a fetch returns is within its limit. Where it comes from
  is in \<open>Endorsements\<close>.
\<close>

section \<open>Constants\<close>

definition MEDIA_TYPE :: string where "MEDIA_TYPE = ''application/vnd.enclava.proof-bundle.v1''"
definition MAX_BUNDLE_BYTES :: nat where "MAX_BUNDLE_BYTES = 1048576"
definition MAX_STATIC_BYTES :: nat where "MAX_STATIC_BYTES = 716800"
definition KDS_CACHE_DEFAULT_SECONDS :: nat where "KDS_CACHE_DEFAULT_SECONDS = 300"
definition KDS_CACHE_MAX_SECONDS :: nat where "KDS_CACHE_MAX_SECONDS = 86400"

definition STATIC_FIELDS :: "(string \<times> nat) list" where
  "STATIC_FIELDS = [(''cc_init_data_toml'', 196608), (''workload_artifacts_json'', 196608),
     (''trustee_policy_json'', 49152), (''sigstore_material'', 196608), (''provenance_oci_material'', 311296)]"

section \<open>Static material\<close>

fun static_records :: "bytes \<Rightarrow> (string \<times> nat) list \<Rightarrow> nat \<Rightarrow> proof_error + nat" where
  "static_records bs [] cursor = Inr cursor"
| "static_records bs ((expected, limit) # rest) cursor =
     res_bind (ce_record bs cursor) (\<lambda>((label, val), cursor).
     if label \<noteq> expected then Inl UnexpectedField
     else if limit < length val then Inl TooLarge
     else static_records bs rest cursor)"

definition validate_static_material :: "bytes \<Rightarrow> proof_error + unit" where
  "validate_static_material bs =
     (if MAX_STATIC_BYTES < length bs then Inl TooLarge
      else res_bind (static_records bs STATIC_FIELDS 0) (\<lambda>cursor.
        if cursor = length bs then Inr () else Inl Malformed))"

text \<open>The hosts that the descriptor in the second field names.\<close>

definition descriptor_hosts :: "json \<Rightarrow> string list" where
  "descriptor_hosts descriptor =
     List.map_filter (\<lambda>key. Option.bind (jget descriptor key) as_str) [''app_domain'', ''tee_domain''] @
     (case Option.bind (jget descriptor ''custom_domains'') as_array of
        Some js \<Rightarrow> List.map_filter as_str js | None \<Rightarrow> [])"

definition workload_descriptor :: "json \<Rightarrow> json option" where
  "workload_descriptor val =
     (case jget val ''descriptor_payload'' of Some d \<Rightarrow> Some d
      | None \<Rightarrow> Option.bind (jget val ''descriptor'') (\<lambda>d. jget d ''descriptor''))"

definition workload_allows_host :: "externals \<Rightarrow> bytes \<Rightarrow> string \<Rightarrow> proof_error + bool" where
  "workload_allows_host X bs host =
     res_bind (validate_static_material bs) (\<lambda>_.
     res_bind (ce_record bs 0) (\<lambda>(_, cursor).
     res_bind (ce_record bs cursor) (\<lambda>((_, workload), _).
     res_bind (map_err (\<lambda>_. Malformed) (x_json_parse X workload)) (\<lambda>val.
     res_bind (ok_or Malformed (workload_descriptor val)) (\<lambda>descriptor.
     Inr (list_ex (\<lambda>allowed. eq_ignore_ascii_case allowed host) (descriptor_hosts descriptor)))))))"

section \<open>The bundle\<close>

record bundle_input =
  bi_target_origin :: string
  bi_nonce :: bytes
  bi_created_at :: nat
  bi_snp_report :: bytes
  bi_tls_leaf_der :: bytes
  bi_receipt_public_key :: bytes
  bi_amd_endorsements :: bytes
  bi_static_material :: bytes

definition bundle_records :: "bundle_input \<Rightarrow> ce_records" where
  "bundle_records i =
     [(''purpose'', as_bytes ''enclava-proof-bundle''), (''schema_version'', as_bytes ''1''),
      (''target_origin'', as_bytes (bi_target_origin i)), (''challenge_nonce'', bi_nonce i),
      (''created_at_unix_seconds'', as_bytes (show_nat (bi_created_at i))), (''snp_report'', bi_snp_report i),
      (''tls_leaf_der'', bi_tls_leaf_der i), (''proxy_receipt_public_key'', bi_receipt_public_key i),
      (''amd_endorsements'', bi_amd_endorsements i)]"

text \<open>\<open>None\<close> is the panic of \<open>ce_v1_bytes\<close>.\<close>

definition build_bundle :: "bundle_input \<Rightarrow> (proof_error + bytes) option" where
  "build_bundle i =
     (case validate_static_material (bi_static_material i) of
        Inl e \<Rightarrow> Some (Inl e)
      | Inr _ \<Rightarrow>
          if 4096 < length (bi_snp_report i) \<or> 16384 < length (bi_tls_leaf_der i) \<or>
             4096 < length (bi_receipt_public_key i) \<or> 131072 < length (bi_amd_endorsements i)
          then Some (Inl TooLarge)
          else map_option (\<lambda>bundle.
            let bundle = bundle @ bi_static_material i in
            if MAX_BUNDLE_BYTES < length bundle then Inl TooLarge else Inr bundle)
            (ce_v1_bytes (bundle_records i)))"

section \<open>Certificates\<close>

definition pem_block :: "externals \<Rightarrow> string \<Rightarrow> proof_error + bytes" where
  "pem_block X block =
     (let encoded = concat (split_whitespace (hd (split_str ''-----END CERTIFICATE-----'' block))) in
      map_err (\<lambda>_. Malformed) (x_b64_decode X encoded))"

fun pem_blocks :: "externals \<Rightarrow> string list \<Rightarrow> proof_error + bytes list" where
  "pem_blocks X [] = Inr []"
| "pem_blocks X (b # bs) =
     res_bind (pem_block X b) (\<lambda>der. res_bind (pem_blocks X bs) (\<lambda>ders. Inr (der # ders)))"

definition pem_certificates :: "externals \<Rightarrow> bytes \<Rightarrow> proof_error + bytes list" where
  "pem_certificates X bs =
     res_bind (ok_or Malformed (from_utf8 bs)) (\<lambda>txt.
     res_bind (pem_blocks X (tl (split_str ''-----BEGIN CERTIFICATE-----'' txt))) (\<lambda>certificates.
     if certificates \<noteq> [] then Inr certificates else Inl Malformed))"

definition dns_name_matches :: "string \<Rightarrow> string \<Rightarrow> bool" where
  "dns_name_matches pattern host =
     (case strip_prefix ''*.'' pattern of
        Some sfx \<Rightarrow> (case split_once ''.'' host of
            Some (_, host_suffix) \<Rightarrow> eq_ignore_ascii_case host_suffix sfx | None \<Rightarrow> False)
      | None \<Rightarrow> eq_ignore_ascii_case pattern host)"

text \<open>Reading the subject alternative names is \<open>x509-cert\<close>'s: the DNS names among them, or \<open>None\<close> when
  the certificate or the extension cannot be read or is missing.\<close>

definition certificate_covers_host :: "externals \<Rightarrow> bytes \<Rightarrow> string \<Rightarrow> proof_error + bool" where
  "certificate_covers_host X tls_leaf_der host =
     res_bind (ok_or Malformed (x_x509_dns_names X tls_leaf_der)) (\<lambda>names.
     Inr (list_ex (\<lambda>name. dns_name_matches name host) names))"

section \<open>The endorsement cache\<close>

fun find_max_age :: "string list \<Rightarrow> nat option" where
  "find_max_age [] = None"
| "find_max_age (directive # rest) =
     (case Option.bind (strip_prefix ''max-age='' (trim directive)) (\<lambda>v. parse_unsigned (2 ^ 64) (trim_matches (CHR 34) v)) of
        Some n \<Rightarrow> Some n | None \<Rightarrow> find_max_age rest)"

definition cache_max_age :: "string \<Rightarrow> nat option" where
  "cache_max_age val = find_max_age (split_char (CHR '','') (to_ascii_lowercase val))"

definition cache_ttl :: "string option \<Rightarrow> nat" where
  "cache_ttl cache_control =
     (case cache_control of
        None \<Rightarrow> KDS_CACHE_DEFAULT_SECONDS
      | Some val \<Rightarrow>
          if list_ex (\<lambda>directive. to_ascii_lowercase (trim directive) \<in> {''no-store'', ''no-cache''}) (split_char (CHR '','') val)
          then 0
          else (case cache_max_age val of Some n \<Rightarrow> n | None \<Rightarrow> KDS_CACHE_DEFAULT_SECONDS))"

text \<open>The chunks of a body add up to it: reading fails when the transport fails or the sum passes the limit.\<close>

definition response_bytes_limited :: "http_response \<Rightarrow> nat \<Rightarrow> unit + bytes" where
  "response_bytes_limited resp limit =
     (case hr_body resp of Inl _ \<Rightarrow> Inl () | Inr body \<Rightarrow> if limit < length body then Inl () else Inr body)"

definition announced_too_long :: "externals \<Rightarrow> http_response \<Rightarrow> nat \<Rightarrow> bool" where
  "announced_too_long X resp limit =
     (case x_content_length X (hr_headers resp) of Some len \<Rightarrow> limit < len | None \<Rightarrow> False)"

definition kds_request :: "string \<Rightarrow> http_request" where
  "kds_request url = get_request url [] (Some (from_secs 10))"

text \<open>What the cache has for an address at a time, no longer than the limit, and how a body gets into it.\<close>

definition kds_find :: "nat \<Rightarrow> (string \<times> cached_body) list \<Rightarrow> instant \<Rightarrow> string \<Rightarrow> bytes option" where
  "kds_find limit cache now url =
     (case map_of cache url of
        None \<Rightarrow> None
      | Some cached \<Rightarrow> if now < cb_expires_at cached \<and> length (cb_body cached) \<le> limit then Some (cb_body cached) else None)"

definition kds_insert :: "instant \<Rightarrow> string \<Rightarrow> nat \<Rightarrow> bytes \<Rightarrow> (string \<times> cached_body) list \<Rightarrow> (string \<times> cached_body) list" where
  "kds_insert now url max_age body cache =
     AList.update url \<lparr>cb_expires_at = now + from_secs max_age, cb_body = body\<rparr> cache"

definition cached_kds_body :: "'w env \<Rightarrow> string \<Rightarrow> nat \<Rightarrow> ('w, bytes option) proc" where
  "cached_kds_body E url limit =
     call (e_yield E) (\<lambda>_.
     call (gets s_kds_cache) (\<lambda>cache.
     if map_of cache url = None then ret None
     else call (e_now E) (\<lambda>now. ret (kds_find limit cache now url))))"

definition store_kds_body :: "'w env \<Rightarrow> string \<Rightarrow> nat \<Rightarrow> bytes \<Rightarrow> ('w, unit) proc" where
  "store_kds_body E url max_age body =
     call (e_yield E) (\<lambda>_.
     call (e_now E) (\<lambda>now.
     call (modify (\<lambda>s. s\<lparr>s_kds_cache := kds_insert now url max_age body (s_kds_cache s)\<rparr>)) ret))"

definition get_limited :: "'w env \<Rightarrow> string \<Rightarrow> nat \<Rightarrow> ('w, unit + bytes) proc" where
  "get_limited E url limit =
     pbind (cached_kds_body E url limit) (\<lambda>cached.
     case cached of
       Some body \<Rightarrow> ret (Inr body)
     | None \<Rightarrow>
         call (e_http E (kds_request url)) (\<lambda>result.
         case result of
           Inl _ \<Rightarrow> ret (Inl ())
         | Inr resp \<Rightarrow>
             if \<not> is_success (hr_status resp) \<or> announced_too_long (e_ext E) resp limit then ret (Inl ())
             else
               let max_age = min (cache_ttl (header_text ''cache-control'' (hr_headers resp))) KDS_CACHE_MAX_SECONDS in
               attempt (response_bytes_limited resp limit) (\<lambda>body.
               if 0 < max_age then pbind (store_kds_body E url max_age body) (\<lambda>_. ret (Inr body))
               else ret (Inr body))))"

section \<open>AMD endorsements\<close>

definition product_ok :: "string \<Rightarrow> bool" where
  "product_ok product \<longleftrightarrow> product \<noteq> [] \<and> list_all (\<lambda>c. is_ascii_alphanumeric c \<or> c = CHR ''-'') product"

text \<open>Signing key of the chip itself, not of the hypervisor (\<open>key_info\<close> masks the author key and selects the VCEK).\<close>

definition signed_by_vcek :: "bytes \<Rightarrow> bool" where
  "signed_by_vcek report \<longleftrightarrow>
     (let key_info = word_of_nat (from_le (byte_range 0x48 0x4C report)) :: u32 in
      key_info AND 2 = 0 \<and> drop_bit 2 key_info AND 7 = 0)"

definition endorsement_records :: "string \<Rightarrow> bytes \<Rightarrow> bytes \<Rightarrow> bytes \<Rightarrow> bytes \<Rightarrow> ce_records" where
  "endorsement_records product ark ask vcek crl =
     [(''purpose'', as_bytes ''enclava-amd-endorsements''), (''schema_version'', as_bytes ''1''),
      (''product'', as_bytes product), (''ark_der'', ark), (''ask_der'', ask), (''vcek_der'', vcek), (''crl_der'', crl)]"

text \<open>The three fetches run concurrently (\<open>try_join!\<close>); here they run one after the other, and what the
  others do meanwhile is in the environment.\<close>

definition amd_endorsements :: "'w env \<Rightarrow> bytes \<Rightarrow> string \<Rightarrow> string \<Rightarrow> nat \<Rightarrow> ('w, proof_error + bytes) proc" where
  "amd_endorsements E report product kds_base_url crl_max_bytes =
     (if length report \<noteq> 1184 \<or> \<not> product_ok product then ret (Inl InvalidReport)
      else if \<not> signed_by_vcek report then ret (Inl InvalidReport)
      else
        let base = trim_end_matches (CHR ''/'') kds_base_url @ ''/'' @ product;
            fetch = (\<lambda>url limit. pbind (get_limited E url limit) (\<lambda>r. ret (map_err (\<lambda>_. InvalidReport) r))) in
        pthen (fetch (base @ ''/cert_chain'') 16384) (\<lambda>chain.
        pthen (fetch (vcek_url report product base) 16384) (\<lambda>vcek.
        pthen (fetch (base @ ''/crl'') crl_max_bytes) (\<lambda>crl.
        attempt (pem_certificates (e_ext E) chain) (\<lambda>certificates.
        case certificates of
          [ask, ark] \<Rightarrow> or_panic (ce_v1_bytes (endorsement_records product ark ask vcek crl)) (\<lambda>bs. ret (Inr bs))
        | _ \<Rightarrow> ret (Inl InvalidReport))))))"

section \<open>Steps\<close>

lemma advances_cached_kds_body [advance_rules]: "env_advances R E \<Longrightarrow> advances R (cached_kds_body E url limit)"
  unfolding cached_kds_body_def by (intro advance_rules; (assumption | simp))

text \<open>The cached endorsements are part of what a motion may speak of: what follows holds of the motions that the
  fetches of this process make, among them those that leave the cache out.\<close>

definition fetches :: "'w motion \<Rightarrow> 'w env \<Rightarrow> bool" where
  "fetches R E \<longleftrightarrow> (\<forall>url limit. advances R (get_limited E url limit))"

lemma fetchesD [advance_rules]: "fetches R E \<Longrightarrow> advances R (get_limited E url limit)"
  by (simp add: fetches_def)

lemma advances_store_kds_body:
  "env_advances R E \<Longrightarrow> (\<And>s c. R s (s\<lparr>s_kds_cache := c\<rparr>)) \<Longrightarrow> advances R (store_kds_body E url n body)"
  unfolding store_kds_body_def
  by (intro advances_call advances_ret advances_env env_advances_progress; (assumption | simp add: advances_def))

lemma fetchesI: "env_advances R E \<Longrightarrow> (\<And>s c. R s (s\<lparr>s_kds_cache := c\<rparr>)) \<Longrightarrow> fetches R E"
  unfolding fetches_def get_limited_def
  by (intro allI advances_store_kds_body advance_rules; (assumption | simp))

lemma advances_list [advance_rules]:
  "advances R m \<Longrightarrow> (\<And>x xs. advances R (f x xs)) \<Longrightarrow> advances R (case r of [] \<Rightarrow> m | x # xs \<Rightarrow> f x xs)"
  by (cases r) auto

lemma advances_amd_endorsements [advance_rules]: "env_advances R E \<Longrightarrow> fetches R E \<Longrightarrow> advances R (amd_endorsements E report product base limit)"
  unfolding amd_endorsements_def by (intro advance_rules; (assumption | simp))

lemma get_limited_bounded:
  assumes "run_state (get_limited E url limit) s = (Some (Inr body), t)"
  shows "length body \<le> limit"
  using assms
  by (auto simp: get_limited_def cached_kds_body_def kds_find_def store_kds_body_def response_bytes_limited_def Let_def
      split: prod.splits option.splits sum.splits if_splits)

section \<open>Reading a bundle\<close>

text \<open>What a verifier does with a bundle: the given number of records, one after the other.\<close>

fun read_records :: "nat \<Rightarrow> bytes \<Rightarrow> nat \<Rightarrow> proof_error + ce_records" where
  "read_records 0 bs cursor = Inr []"
| "read_records (Suc n) bs cursor =
     res_bind (ce_record bs cursor) (\<lambda>(r, cursor). res_bind (read_records n bs cursor) (\<lambda>rs. Inr (r # rs)))"

lemma read_records_at:
  assumes "list_all ce_fits rs" "list_all (\<lambda>r. utf8_valid (as_bytes (fst r))) rs"
    "length pre + length (concat (map ce_enc rs)) < 2 ^ 64"
  shows "read_records (length rs) (pre @ concat (map ce_enc rs)) (length pre) = Inr rs"
  using assms
proof (induction rs arbitrary: pre)
  case (Cons r rs)
  obtain l v where r: "r = (l, v)" by (cases r)
  have "ce_record (pre @ ce_enc (l, v) @ concat (map ce_enc rs)) (length pre) = Inr ((l, v), length pre + length (ce_enc (l, v)))"
    using Cons.prems r by (intro ce_record_at) auto
  moreover have "read_records (length rs) ((pre @ ce_enc r) @ concat (map ce_enc rs)) (length (pre @ ce_enc r)) = Inr rs"
    using Cons.prems by (intro Cons.IH) auto
  ultimately show ?case using r by simp
qed simp

text \<open>Values for the static fields, within their limits.\<close>

definition static_values :: "(string \<times> nat) list \<Rightarrow> bytes list \<Rightarrow> bool" where
  "static_values fs vals \<longleftrightarrow> list_all2 (\<lambda>(_, limit) v. length v \<le> limit) fs vals"

lemma static_records_sound:
  "static_records bs fs c = Inr c' \<Longrightarrow> c \<le> length bs \<Longrightarrow>
   \<exists>vals. static_values fs vals \<and> list_all ce_fits (zip (map fst fs) vals) \<and> c' \<le> length bs \<and>
     drop c bs = concat (map ce_enc (zip (map fst fs) vals)) @ drop c' bs"
proof (induction bs fs c rule: static_records.induct)
  case (2 bs expected limit rest c)
  from 2(2) obtain v c1 where r: "ce_record bs c = Inr ((expected, v), c1)" "length v \<le> limit"
    "static_records bs rest c1 = Inr c'"
    by (auto simp: result_iffs split: if_splits)
  note sound = ce_record_sound [OF r(1)]
  from 2(1) [of expected v c1] r sound obtain vals where vals: "static_values rest vals"
    "list_all ce_fits (zip (map fst rest) vals)" "c' \<le> length bs"
    "drop c1 bs = concat (map ce_enc (zip (map fst rest) vals)) @ drop c' bs" by auto
  have "drop c bs = ce_enc (expected, v) @ drop c1 bs"
    using sound append_take_drop_id [of "length (ce_enc (expected, v))" "drop c bs"] by (simp add: add.commute)
  then show ?case using vals sound r(2) by (intro exI [of _ "v # vals"]) (simp add: static_values_def)
qed (auto simp: static_values_def)

lemma static_records_at:
  assumes "static_values fs vals" "list_all ce_fits (zip (map fst fs) vals)"
    "list_all (\<lambda>r. utf8_valid (as_bytes (fst r))) (zip (map fst fs) vals)"
    "length pre + length (concat (map ce_enc (zip (map fst fs) vals))) < 2 ^ 64"
  shows "static_records (pre @ concat (map ce_enc (zip (map fst fs) vals))) fs (length pre) =
    Inr (length pre + length (concat (map ce_enc (zip (map fst fs) vals))))"
  using assms unfolding static_values_def
proof (induction fs vals arbitrary: pre rule: list_all2_induct)
  case (Cons f fs v vals)
  obtain l limit where f: "f = (l, limit)" by (cases f)
  let ?rest = "concat (map ce_enc (zip (map fst fs) vals))"
  have "ce_record (pre @ ce_enc (l, v) @ ?rest) (length pre) = Inr ((l, v), length pre + length (ce_enc (l, v)))"
    using Cons.prems f by (intro ce_record_at) auto
  moreover have "static_records ((pre @ ce_enc (l, v)) @ ?rest) fs (length (pre @ ce_enc (l, v))) =
      Inr (length (pre @ ce_enc (l, v)) + length ?rest)"
    using Cons.prems f by (intro Cons.IH) auto
  ultimately show ?case using f Cons.hyps(1) by (simp add: add.assoc)
qed simp

lemma static_material_records:
  assumes "validate_static_material bs = Inr ()"
  obtains vals where "static_values STATIC_FIELDS vals" "list_all ce_fits (zip (map fst STATIC_FIELDS) vals)"
    "bs = concat (map ce_enc (zip (map fst STATIC_FIELDS) vals))" "length bs \<le> MAX_STATIC_BYTES"
  using assms static_records_sound [of bs STATIC_FIELDS 0]
  by (auto simp: validate_static_material_def result_iffs split: if_splits)

lemma static_labels: "static_values STATIC_FIELDS vals \<Longrightarrow> list_all (\<lambda>r. utf8_valid (as_bytes (fst r))) (zip (map fst STATIC_FIELDS) vals)"
  by (auto simp: static_values_def STATIC_FIELDS_def list_all2_Cons1)

lemma static_material_ok:
  assumes "static_values STATIC_FIELDS vals" "list_all ce_fits (zip (map fst STATIC_FIELDS) vals)"
    "bs = concat (map ce_enc (zip (map fst STATIC_FIELDS) vals))" "length bs \<le> MAX_STATIC_BYTES"
  shows "validate_static_material bs = Inr ()"
  using static_records_at [OF assms(1,2) static_labels [OF assms(1)], of "[]"] assms(3,4)
  by (simp add: validate_static_material_def MAX_STATIC_BYTES_def)

lemma bundle_labels: "list_all (\<lambda>r. utf8_valid (as_bytes (fst r))) (bundle_records i)"
  by (simp add: bundle_records_def)

lemma build_bundle_Inr:
  assumes "build_bundle i = Some (Inr b)"
  shows "validate_static_material (bi_static_material i) = Inr ()" "list_all ce_fits (bundle_records i)"
    "b = concat (map ce_enc (bundle_records i)) @ bi_static_material i" "length b \<le> MAX_BUNDLE_BYTES"
  using assms by (auto simp: build_bundle_def ce_v1_bytes_eq Let_def split: sum.splits if_splits)

section \<open>Properties\<close>

text \<open>C37. A proof bundle can be read back: it is at most a mebibyte long, and reading fourteen records from
  it gives the nine fields it was built from, with the values that were put in, followed by the five
  static fields in their fixed order and within their size limits, whose bytes are the static material.\<close>

theorem bundle_reads_back:
  assumes "build_bundle i = Some (Inr b)"
  shows "length b \<le> MAX_BUNDLE_BYTES \<and> (\<exists>vals. static_values STATIC_FIELDS vals \<and>
    ce_v1_bytes (zip (map fst STATIC_FIELDS) vals) = Some (bi_static_material i) \<and>
    read_records 14 b 0 = Inr (bundle_records i @ zip (map fst STATIC_FIELDS) vals))"
proof -
  note b = build_bundle_Inr [OF assms]
  obtain vals where vals: "static_values STATIC_FIELDS vals" "list_all ce_fits (zip (map fst STATIC_FIELDS) vals)"
    "bi_static_material i = concat (map ce_enc (zip (map fst STATIC_FIELDS) vals))"
    using static_material_records [OF b(1)] by metis
  let ?rs = "bundle_records i @ zip (map fst STATIC_FIELDS) vals"
  have "length vals = 5" using vals(1) by (auto simp: static_values_def STATIC_FIELDS_def dest: list_all2_lengthD)
  then have "length ?rs = 14" by (simp add: bundle_records_def STATIC_FIELDS_def)
  moreover have "concat (map ce_enc ?rs) = b" using b(3) vals(3) by simp
  moreover have "length b < 2 ^ 64" using b(4) by (simp add: MAX_BUNDLE_BYTES_def)
  ultimately have "read_records 14 b 0 = Inr ?rs"
    using read_records_at [of ?rs "[]"] b(2) vals(2) static_labels [OF vals(1)] bundle_labels [of i] by simp
  then show ?thesis using b(4) vals by (auto simp: ce_v1_bytes_eq)
qed

text \<open>C38. The static material is accepted exactly when it is the canonical encoding of the five named
  fields, in this order, each within its own limit and all together within theirs: nothing is missing,
  repeated, reordered or left over.\<close>

theorem static_material_exact:
  "validate_static_material bs = Inr () \<longleftrightarrow>
     length bs \<le> MAX_STATIC_BYTES \<and>
     (\<exists>vals. static_values STATIC_FIELDS vals \<and> ce_v1_bytes (zip (map fst STATIC_FIELDS) vals) = Some bs)"
proof
  assume "validate_static_material bs = Inr ()"
  then show "length bs \<le> MAX_STATIC_BYTES \<and>
     (\<exists>vals. static_values STATIC_FIELDS vals \<and> ce_v1_bytes (zip (map fst STATIC_FIELDS) vals) = Some bs)"
    by (rule static_material_records) (auto simp: ce_v1_bytes_eq)
next
  assume "length bs \<le> MAX_STATIC_BYTES \<and>
     (\<exists>vals. static_values STATIC_FIELDS vals \<and> ce_v1_bytes (zip (map fst STATIC_FIELDS) vals) = Some bs)"
  then show "validate_static_material bs = Inr ()"
    by (auto simp: ce_v1_bytes_eq intro: static_material_ok split: if_splits)
qed

section \<open>A small bundle\<close>

definition demo_values :: "bytes list" where "demo_values = [[1], [2], [3], [4], [5]]"

definition demo_static :: bytes where
  "demo_static = concat (map ce_enc (zip (map fst STATIC_FIELDS) demo_values))"

definition demo_bundle_input :: bundle_input where
  "demo_bundle_input = \<lparr>bi_target_origin = ''https://a.b'', bi_nonce = [9], bi_created_at = 5, bi_snp_report = [1, 2],
     bi_tls_leaf_der = [3], bi_receipt_public_key = [4], bi_amd_endorsements = [5], bi_static_material = demo_static\<rparr>"

lemma demo_static_ok: "validate_static_material demo_static = Inr ()"
  by (rule static_material_ok [of demo_values])
    (simp_all add: static_values_def STATIC_FIELDS_def demo_values_def demo_static_def ce_fits_def MAX_STATIC_BYTES_def)

lemma demo_bundle_ok: "\<exists>b. build_bundle demo_bundle_input = Some (Inr b)"
proof -
  have "length demo_static < 1000" by (simp add: demo_static_def STATIC_FIELDS_def demo_values_def)
  moreover have "length (show_nat 5) = 1" by code_simp
  ultimately show ?thesis
    using demo_static_ok
    by (simp add: build_bundle_def demo_bundle_input_def ce_v1_bytes_eq bundle_records_def ce_fits_def MAX_BUNDLE_BYTES_def)
qed

theorem bundle_reads_back_witness:
  "\<exists>b vals. build_bundle demo_bundle_input = Some (Inr b) \<and> length b \<le> MAX_BUNDLE_BYTES \<and>
     read_records 14 b 0 = Inr (bundle_records demo_bundle_input @ zip (map fst STATIC_FIELDS) vals)"
proof -
  obtain b where b: "build_bundle demo_bundle_input = Some (Inr b)" using demo_bundle_ok by blast
  show ?thesis using bundle_reads_back [OF b] b by blast
qed

end
