(* ===== verification/Endorsements.thy ===== *)
theory Endorsements
  imports Proof_Bundle Ttl_Cache Machine_Steps
begin

text \<open>
  Where the endorsements of a bundle come from. The cache of AMD's key distribution service keeps the
  contract of \<open>Ttl_Cache\<close>; and a cache that only holds what the service really answered for each
  address stays one under every fetch of this process, whatever else happens meanwhile. So the
  endorsements are the service's own answers for the addresses derived from the report.
\<close>

section \<open>The cache over time\<close>

text \<open>Nothing evicts, and a lookup drops nothing.\<close>

fun kds_exec :: "(string, bytes \<times> nat) cache_op \<Rightarrow> (string \<times> cached_body) list \<Rightarrow> (string \<times> cached_body) list" where
  "kds_exec (CacheStore t url (body, max_age)) c = (if 0 < max_age then kds_insert t url max_age body c else c)"
| "kds_exec (CacheEvict url) c = c"
| "kds_exec (CacheLookup t url) c = c"

lemma kds_find_insert:
  "kds_find limit (kds_insert t url max_age body c) now url' =
     (if url' = url then (if length body \<le> limit \<and> now < t + from_secs max_age then Some body else None)
      else kds_find limit c now url')"
  by (auto simp: kds_find_def kds_insert_def update_conv')

interpretation kds_cache: ttl_cache "kds_find limit" kds_exec fst "\<lambda>v. from_secs (snd v)" "\<lambda>_ v. length (fst v) \<le> limit"
  "\<lambda>v. 0 < snd v" for limit
proof unfold_locales
  fix x :: "(string, bytes \<times> nat) cache_op" and k c now
  assume "cache_key x \<noteq> k"
  then show "kds_find limit (kds_exec x c) now k = kds_find limit c now k"
    by (cases x rule: cache_key.cases) (auto simp: kds_find_insert)
qed (auto simp: kds_find_insert)

text \<open>What the cache serves is the last body of that address that it took, less than its own \<open>max-age\<close> old.\<close>

lemma kds_cache_fresh:
  assumes "list_all (lookup_by now) ops" "kds_find limit (fold kds_exec ops []) now url = Some body"
  shows "\<exists>pre t max_age post. ops = pre @ CacheStore t url (body, max_age) # post \<and> now < t + from_secs max_age \<and>
    length body \<le> limit \<and> \<not> list_ex (cache_stores (\<lambda>v. 0 < snd v) url) post"
  using kds_cache.find_history [OF _ assms] by (fastforce simp: kds_find_def)

section \<open>Only what the service answered\<close>

definition kds_answer :: "event list \<Rightarrow> string \<Rightarrow> bytes \<Rightarrow> bool" where
  "kds_answer trail url body \<longleftrightarrow>
     (\<exists>resp. Exchange (kds_request url) (Inr resp) \<in> set trail \<and> is_success (hr_status resp) \<and> hr_body resp = Inr body)"

definition kds_genuine :: "'w trace \<Rightarrow> 'w sys \<Rightarrow> bool" where
  "kds_genuine tr s \<longleftrightarrow>
     (\<forall>url cached. map_of (s_kds_cache s) url = Some cached \<longrightarrow> kds_answer (tr (s_world s)) url (cb_body cached))"

abbreviation kds_moves :: "'w trace \<Rightarrow> 'w motion" where
  "kds_moves tr \<equiv> \<lambda>s t. prefix (tr (s_world s)) (tr (s_world t)) \<and> (kds_genuine tr s \<longrightarrow> kds_genuine tr t)"

lemma kds_answer_later: "kds_answer trail url body \<Longrightarrow> prefix trail trail' \<Longrightarrow> kds_answer trail' url body"
  by (auto simp: kds_answer_def prefix_def)

lemma progress_kds: "progress (kds_moves tr)"
  by (auto simp: progress_def kds_genuine_def intro: prefix_order.trans)

lemma kds_moves_grow:
  "s_kds_cache t = s_kds_cache s \<Longrightarrow> prefix (tr (s_world s)) (tr (s_world t)) \<Longrightarrow> kds_moves tr s t"
  by (auto simp: kds_genuine_def intro: kds_answer_later)

lemma happened_answer:
  "happened tr s t (Exchange (kds_request url) (Inr resp)) \<Longrightarrow> is_success (hr_status resp) \<Longrightarrow> hr_body resp = Inr body \<Longrightarrow>
     kds_answer (tr (s_world t)) url body"
  by (auto simp: happened_def kds_answer_def)

lemma kds_find_genuine:
  "kds_genuine tr s \<Longrightarrow> kds_find limit (s_kds_cache s) now url = Some body \<Longrightarrow> kds_answer (tr (s_world s)) url body"
  by (auto simp: kds_find_def kds_genuine_def split: option.splits if_splits)

lemma kds_insert_genuine:
  "kds_genuine tr s \<Longrightarrow> kds_answer (tr (s_world s)) url body \<Longrightarrow>
     kds_genuine tr (s\<lparr>s_kds_cache := kds_insert now url max_age body (s_kds_cache s)\<rparr>)"
  by (auto simp: kds_genuine_def kds_insert_def update_conv')

lemma cached_kds_body_genuine:
  assumes "env_advances (kds_moves tr) E" "kds_genuine tr s" "run_state (cached_kds_body E url limit) s = (r, t)"
  shows "kds_genuine tr t" "r = Some (Some body) \<Longrightarrow> kds_answer (tr (s_world t)) url body"
proof -
  obtain s1 where y: "run_state (e_yield E) s = ((), s1)" by (metis prod.collapse unit.exhaust)
  obtain now s2 where n: "run_state (e_now E) s1 = (now, s2)" by (rule prod.exhaust)
  from advancesD [OF advances_env(7) [OF assms(1)] y] assms(2) have g1: "kds_genuine tr s1" by blast
  from advancesD [OF advances_env(3) [OF assms(1)] n] g1 have g2: "kds_genuine tr s2"
    and p: "prefix (tr (s_world s1)) (tr (s_world s2))" by blast+
  show "kds_genuine tr t" using assms(3) y n g1 g2 by (auto simp: cached_kds_body_def split: if_splits)
  show "kds_answer (tr (s_world t)) url body" if "r = Some (Some body)"
    using that assms(3) y n kds_answer_later [OF kds_find_genuine [OF g1] p]
    by (auto simp: cached_kds_body_def split: if_splits)
qed

lemma store_kds_body_genuine:
  assumes "env_advances (kds_moves tr) E" "kds_genuine tr s" "kds_answer (tr (s_world s)) url body"
    "run_state (store_kds_body E url max_age body) s = (r, t)"
  shows "kds_genuine tr t" "kds_answer (tr (s_world t)) url body"
proof -
  obtain s1 where y: "run_state (e_yield E) s = ((), s1)" by (metis prod.collapse unit.exhaust)
  obtain now s2 where n: "run_state (e_now E) s1 = (now, s2)" by (rule prod.exhaust)
  have "kds_moves tr s s2"
    by (rule progress_trans [OF progress_kds advancesD [OF advances_env(7) [OF assms(1)] y] advancesD [OF advances_env(3) [OF assms(1)] n]])
  with assms(2,3) have "kds_genuine tr s2" "kds_answer (tr (s_world s2)) url body" by (auto intro: kds_answer_later)
  with assms(4) y n show "kds_genuine tr t" "kds_answer (tr (s_world t)) url body"
    by (auto simp: store_kds_body_def kds_insert_genuine)
qed

text \<open>A fetch returns what the service answered for its address, now or when it was put into the cache.\<close>

lemma get_limited_genuine:
  assumes "observed E tr" "env_advances (kds_moves tr) E" "kds_genuine tr s" "run_state (get_limited E url limit) s = (r, t)"
  shows "kds_genuine tr t" "r = Some (Inr body) \<Longrightarrow> kds_answer (tr (s_world t)) url body"
proof -
  obtain c s1 where c: "run_state (cached_kds_body E url limit) s = (c, s1)" by (rule prod.exhaust)
  obtain a s2 where h: "run_state (e_http E (kds_request url)) s1 = (a, s2)" by (rule prod.exhaust)
  note cached = cached_kds_body_genuine [OF assms(2,3) c]
  have g2: "kds_genuine tr s2" using advancesD [OF advances_env(1) [OF assms(2)] h] cached(1) by blast
  have answer: "kds_answer (tr (s_world s2)) url b"
    if "a = Inr resp" "is_success (hr_status resp)" "hr_body resp = Inr b" for resp b
    using observed_http [OF assms(1) h] that by (blast intro: happened_answer)
  note stored = store_kds_body_genuine [OF assms(2) g2 answer]
  show "kds_genuine tr t"
    using assms(4) c h cached(1) g2 stored(1)
    by (auto simp: get_limited_def response_bytes_limited_def Let_def split: option.splits sum.splits if_splits prod.splits)
  show "kds_answer (tr (s_world t)) url body" if "r = Some (Inr body)"
    using that assms(4) c h cached(2) answer stored(2)
    by (auto simp: get_limited_def response_bytes_limited_def Let_def split: option.splits sum.splits if_splits prod.splits)
qed

lemma fetches_log: "observed E tr \<Longrightarrow> fetches (log_grows tr) E"
  by (rule fetchesI [OF observed_advances]) simp_all

lemma fetches_kds: "observed E tr \<Longrightarrow> env_advances (kds_moves tr) E \<Longrightarrow> fetches (kds_moves tr) E"
  unfolding fetches_def
  by (intro allI advancesI conjI impI) (blast dest: advancesD [OF fetchesD [OF fetches_log]], blast dest: get_limited_genuine(1))

section \<open>The endorsements of a report\<close>

text \<open>The signing key is the chip's own, and the certificates, the chip's certificate and the revocation list are
  what the service answered for the product and for the address that names the report's chip.\<close>

definition endorsed :: "externals \<Rightarrow> event list \<Rightarrow> string \<Rightarrow> bytes \<Rightarrow> string \<Rightarrow> bytes \<Rightarrow> bool" where
  "endorsed X trail kds_base_url report product endorsements \<longleftrightarrow>
     (let base = trim_end_matches (CHR ''/'') kds_base_url @ ''/'' @ product in
      signed_by_vcek report \<and>
      (\<exists>chain ask ark vcek crl. kds_answer trail (base @ ''/cert_chain'') chain \<and> pem_certificates X chain = Inr [ask, ark] \<and>
         kds_answer trail (vcek_url report product base) vcek \<and> kds_answer trail (base @ ''/crl'') crl \<and>
         ce_v1_bytes (endorsement_records product ark ask vcek crl) = Some endorsements))"

lemma run_two_Inr:
  "run_state (case xs of [] \<Rightarrow> ret (Inl e) | [x] \<Rightarrow> ret (Inl e) | [x, y] \<Rightarrow> m x y | x # y # z # zs \<Rightarrow> ret (Inl e)) s = (Some (Inr v), t) \<longleftrightarrow>
     (\<exists>x y. xs = [x, y] \<and> run_state (m x y) s = (Some (Inr v), t))"
  by (auto split: list.split)

lemma amd_endorsements_genuine:
  assumes "observed E tr" "env_advances (kds_moves tr) E" "kds_genuine tr s"
    "run_state (amd_endorsements E report product kds_base_url crl_max_bytes) s = (Some (Inr endorsements), t)"
  shows "endorsed (e_ext E) (tr (s_world t)) kds_base_url report product endorsements"
proof -
  let ?base = "trim_end_matches (CHR ''/'') kds_base_url @ ''/'' @ product"
  obtain chain s1 vcek s2 crl ask ark where signed: "signed_by_vcek report"
    and chain: "run_state (get_limited E (?base @ ''/cert_chain'') 16384) s = (Some (Inr chain), s1)"
    and vcek: "run_state (get_limited E (vcek_url report product ?base) 16384) s1 = (Some (Inr vcek), s2)"
    and crl: "run_state (get_limited E (?base @ ''/crl'') crl_max_bytes) s2 = (Some (Inr crl), t)"
    and pem: "pem_certificates (e_ext E) chain = Inr [ask, ark]"
    and bs: "ce_v1_bytes (endorsement_records product ark ask vcek crl) = Some endorsements"
    using assms(4)
    by (auto simp: amd_endorsements_def Let_def run_pthen_Inr run_attempt_Inr run_two_Inr run_steps map_err_Inr
        simp del: run_pthen run_pbind run_attempt run_or_panic append_assoc split: if_splits)
  note one = get_limited_genuine [OF assms(1-3) chain]
  note two = get_limited_genuine [OF assms(1,2) one(1) vcek]
  note three = get_limited_genuine [OF assms(1,2) two(1) crl]
  have grow: "prefix (tr (s_world s1)) (tr (s_world s2))" "prefix (tr (s_world s2)) (tr (s_world t))"
    using advancesD [OF fetchesD [OF fetches_log [OF assms(1)]] vcek] advancesD [OF fetchesD [OF fetches_log [OF assms(1)]] crl]
    by simp_all
  have "kds_answer (tr (s_world t)) (?base @ ''/cert_chain'') chain" "kds_answer (tr (s_world t)) (vcek_url report product ?base) vcek"
    by (rule kds_answer_later [OF one(2) [OF refl] prefix_order.trans [OF grow]], rule kds_answer_later [OF two(2) [OF refl] grow(2)])
  with three(2) [OF refl] signed pem bs show ?thesis unfolding endorsed_def Let_def by blast
qed

lemma endorsed_later:
  "endorsed X trail base report product endorsements \<Longrightarrow> prefix trail trail' \<Longrightarrow> endorsed X trail' base report product endorsements"
  unfolding endorsed_def Let_def by (blast intro: kds_answer_later)

end
