(* ===== verification/Proof_Endpoint.thy ===== *)
theory Proof_Endpoint
  imports Endorsements Attestation
begin

text \<open>
  The public proof endpoint, \<open>proof_source\<close> to \<open>proof_bundle\<close> of \<open>handlers.rs\<close>: who asks and for
  which origin, the admission by rate and by the single quote slot, and the bundle of a fresh report
  with its endorsements. The lemmas show what a bundle that is handed out is bound to, and that the
  slot is free again afterwards whatever happened.
\<close>

section \<open>The request\<close>

definition PROOF_CRL_MAX_BYTES :: nat where "PROOF_CRL_MAX_BYTES = 120000"

text \<open>An address is its canonical text: \<open>127.0.0.0/8\<close> and \<open>::1\<close> are loopback.\<close>

definition is_loopback :: "string \<Rightarrow> bool" where
  "is_loopback ip \<longleftrightarrow> starts_with ''127.'' ip \<or> ip = ''::1''"

definition proof_source :: "externals \<Rightarrow> (string \<times> string) list \<Rightarrow> string \<Rightarrow> string" where
  "proof_source X headers peer_ip =
     (case (if is_loopback peer_ip
            then Option.bind (header_text ''x-forwarded-for'' headers) (\<lambda>v. x_ip_parse X (trim (hd (split_char (CHR '','') v))))
            else None) of
        Some forwarded \<Rightarrow> forwarded | None \<Rightarrow> peer_ip)"

definition proof_crl_max_bytes :: "string option \<Rightarrow> nat" where
  "proof_crl_max_bytes raw =
     min (case Option.bind raw (parse_unsigned (2 ^ 64)) of
            Some n \<Rightarrow> if 0 < n then n else PROOF_CRL_MAX_BYTES | None \<Rightarrow> PROOF_CRL_MAX_BYTES)
       PROOF_CRL_MAX_BYTES"

text \<open>The host and the origin of the request, from its \<open>Host\<close> header.\<close>

definition proof_origin :: "externals \<Rightarrow> (string \<times> string) list \<Rightarrow> string + (string \<times> string)" where
  "proof_origin X headers =
     res_bind (ok_or ''target_origin_missing'' (header_text ''host'' headers)) (\<lambda>host.
     res_bind (ok_or ''target_origin_invalid'' (x_authority_parse X host)) (\<lambda>(host, port).
     res_bind (map_err (\<lambda>_. ''target_origin_invalid'') (validate_attestation_domain host)) (\<lambda>host.
     Inr (host, ''https://'' @ host @
       (case port of None \<Rightarrow> [] | Some p \<Rightarrow> if p = 443 then [] else '':'' @ show_nat p)))))"

definition proof_nonce :: "externals \<Rightarrow> string option \<Rightarrow> unit + bytes" where
  "proof_nonce X raw_query =
     (case filter (\<lambda>(key, _). key = ''nonce'')
        (List.map_filter (split_once ''='') (split_char (CHR ''&'') (case raw_query of Some q \<Rightarrow> q | None \<Rightarrow> []))) of
        [(_, raw)] \<Rightarrow>
          res_bind (ok_or () (from_utf8 (x_percent_decode X raw))) (\<lambda>val.
          map_err (\<lambda>_. ()) (decode_fixed32_base64 X val ''nonce''))
      | _ \<Rightarrow> Inl ())"

definition proof_preflight :: response where
  "proof_preflight =
     \<lparr>rp_status = 204,
      rp_headers = [(''access-control-allow-origin'', ''*''), (''access-control-allow-methods'', ''GET, OPTIONS''),
        (''access-control-allow-headers'', ''Accept''), (''access-control-max-age'', ''600''), (''cache-control'', ''no-store'')],
      rp_body = BytesBody []\<rparr>"

section \<open>Admission\<close>

definition admit_proof :: "'w env \<Rightarrow> string \<Rightarrow> ('w, bool) proc" where
  "admit_proof E source =
     call (State_Monad.bind (e_yield E) (\<lambda>_. State_Monad.bind (e_now E) (\<lambda>now.
       State (\<lambda>s. case allow source now (s_proof_rate s) of (ok, rate) \<Rightarrow> (ok, s\<lparr>s_proof_rate := rate\<rparr>))))) ret"

text \<open>The semaphore of one permit. The permit is given back when it is dropped: at the end, and when the
  section under it panics.\<close>

definition acquire_quote_slot :: "'w env \<Rightarrow> ('w, bool) proc" where
  "acquire_quote_slot E =
     call (e_yield E) (\<lambda>_.
     call (State (\<lambda>s. (\<not> s_quote_busy s, s\<lparr>s_quote_busy := True\<rparr>))) ret)"

definition dropping_quote_slot :: "('w, 'a) proc \<Rightarrow> ('w, 'a) proc" where
  "dropping_quote_slot m = State (\<lambda>s. case run_state m s of (r, t) \<Rightarrow> (r, t\<lparr>s_quote_busy := False\<rparr>))"

section \<open>The identity of the origin\<close>

text \<open>The static material and the TLS leaf certificate with the hash of its key, or the refusal.\<close>

definition read_file :: "'w env \<Rightarrow> string \<Rightarrow> string \<Rightarrow> ('w, io_error + bytes) proc" where
  "read_file E var dflt = call (io_read E (\<lambda>F. fs_read F (env_or (e_vars E) var dflt))) ret"

definition leaf_of_file :: "externals \<Rightarrow> bytes \<Rightarrow> proof_error + bytes" where
  "leaf_of_file X cert_file =
     (if starts_with (as_bytes ''-----BEGIN CERTIFICATE-----'') cert_file
      then res_bind (pem_certificates X cert_file) (\<lambda>certificates. Inr (hd certificates))
      else Inr cert_file)"

definition origin_material :: "'w env \<Rightarrow> string \<Rightarrow> ('w, response + bytes) proc" where
  "origin_material E host =
     pbind (read_file E ''PROOF_MATERIAL_PATH'' ''/etc/enclava-verification/verification-material.ce'') (\<lambda>r.
     case r of
       Inl _ \<Rightarrow> ret (Inl (proof_json_response 503 ''proof_material_unavailable''))
     | Inr static \<Rightarrow>
         ret (if \<not> is_ok (validate_static_material static) then Inl (proof_json_response 503 ''proof_material_unavailable'')
              else if workload_allows_host (e_ext E) static host \<noteq> Inr True
              then Inl (proof_json_response 403 ''target_origin_not_allowed'')
              else Inr static))"

definition origin_leaf :: "'w env \<Rightarrow> string \<Rightarrow> ('w, response + (bytes \<times> bytes)) proc" where
  "origin_leaf E host =
     pbind (read_file E ''PROOF_TLS_CERT_PATH'' ''/run/enclava/public-tls/certificates/tls.crt'') (\<lambda>r.
     case r of
       Inl _ \<Rightarrow> ret (Inl (proof_json_response 503 ''tls_identity_unavailable''))
     | Inr cert_file \<Rightarrow>
         ret (case leaf_of_file (e_ext E) cert_file of
                Inl _ \<Rightarrow> Inl (proof_json_response 503 ''tls_identity_invalid'')
              | Inr leaf \<Rightarrow>
                  if certificate_covers_host (e_ext E) leaf host \<noteq> Inr True
                  then Inl (proof_json_response 503 ''tls_identity_host_mismatch'')
                  else case x_x509_spki (e_ext E) leaf of
                         None \<Rightarrow> Inl (proof_json_response 503 ''tls_identity_invalid'')
                       | Some spki \<Rightarrow> Inr (leaf, x_sha256 (e_ext E) spki)))"

text \<open>An early answer, or on with the value.\<close>

definition or_answer :: "('w, response + 'a) proc \<Rightarrow> ('a \<Rightarrow> ('w, response) proc) \<Rightarrow> ('w, response) proc" where
  "or_answer m k = pbind m (\<lambda>r. case r of Inl resp \<Rightarrow> ret resp | Inr x \<Rightarrow> k x)"

section \<open>The bundle\<close>

definition fetch_evidence :: "'w env \<Rightarrow> bytes \<Rightarrow> ('w, string + json) proc" where
  "fetch_evidence E report_data =
     call (e_http E (evidence_request (e_config E) report_data)) (\<lambda>result.
     case result of
       Inl _ \<Rightarrow> ret (Inl ''attestation_unavailable'')
     | Inr resp \<Rightarrow>
         ret (if \<not> is_success (hr_status resp) \<or> announced_too_long (e_ext E) resp 65536 then Inl ''attestation_unavailable''
              else res_bind (map_err (\<lambda>_. ''attestation_unavailable'') (response_bytes_limited resp 65536)) (\<lambda>bs.
                map_err (\<lambda>_. ''attestation_evidence_invalid'') (x_json_parse (e_ext E) bs))))"

definition endorsements_for :: "'w env \<Rightarrow> bytes \<Rightarrow> string \<Rightarrow> ('w, string + bytes) proc" where
  "endorsements_for E report product =
     pbind (amd_endorsements E report product (env_or (e_vars E) ''AMD_KDS_BASE_URL'' ''https://kdsintf.amd.com/vcek/v1'')
       (proof_crl_max_bytes (e_vars E ''AMD_KDS_CRL_MAX_BYTES''))) (\<lambda>r.
     case r of
       Inr endorsements \<Rightarrow> ret (Inr endorsements)
     | Inl _ \<Rightarrow> call (log_line (LogJson (JObj [(''event'', JStr ''amd_endorsements_unavailable''), (''product'', JStr product)])))
         (\<lambda>_. ret (Inl ''amd_endorsements_unavailable'')))"

definition generate_bundle ::
  "'w env \<Rightarrow> string \<Rightarrow> bytes \<Rightarrow> bytes \<Rightarrow> bytes \<Rightarrow> bytes \<Rightarrow> ('w, string + bytes) proc" where
  "generate_bundle E origin nonce report_data leaf static =
     pthen (fetch_evidence E report_data) (\<lambda>evidence.
     let product = env_or (e_vars E) ''AMD_KDS_PRODUCT'' ''Genoa'' in
     attempt (map_err (\<lambda>_. ''attestation_evidence_invalid'') (raw_snp_report evidence product)) (\<lambda>report.
     if byte_range 0x50 0x90 report \<noteq> report_data then ret (Inl ''attestation_evidence_invalid'')
     else
       pthen (endorsements_for E report product) (\<lambda>endorsements.
       call (e_unix E) (\<lambda>(now, _).
       or_panic (build_bundle \<lparr>bi_target_origin = origin, bi_nonce = nonce, bi_created_at = now, bi_snp_report = report,
           bi_tls_leaf_der = leaf, bi_receipt_public_key = x_ed_public (e_ext E) (e_receipt_seed E),
           bi_amd_endorsements = endorsements, bi_static_material = static\<rparr>) (\<lambda>bdl.
       ret (map_err (\<lambda>_. ''proof_bundle_invalid'') bdl))))))"

text \<open>The same within 20 seconds: \<open>None\<close> when they are over. The environment says whether they suffice,
  and when they do not it has done what the generation did until then.\<close>

definition generate_in_time ::
  "'w env \<Rightarrow> string \<Rightarrow> bytes \<Rightarrow> bytes \<Rightarrow> bytes \<Rightarrow> bytes \<Rightarrow> ('w, (string + bytes) option) proc" where
  "generate_in_time E origin nonce report_data leaf static =
     call (e_now E) (\<lambda>now.
     call (e_expired E (now + from_secs 20)) (\<lambda>late.
     if late then ret None
     else pbind (generate_bundle E origin nonce report_data leaf static) (\<lambda>r. ret (Some r))))"

definition bundle_answer :: "(string + bytes) option \<Rightarrow> response" where
  "bundle_answer result =
     (case result of
        Some (Inr bdl) \<Rightarrow>
          \<lparr>rp_status = 200,
           rp_headers = [(''content-type'', MEDIA_TYPE), (''cache-control'', ''no-store''), (''access-control-allow-origin'', ''*'')],
           rp_body = BytesBody bdl\<rparr>
      | Some (Inl err) \<Rightarrow> proof_json_response 502 err
      | None \<Rightarrow> proof_json_response 504 ''proof_generation_timeout'')"

definition quote :: "'w env \<Rightarrow> string \<Rightarrow> bytes \<Rightarrow> bytes \<Rightarrow> bytes \<Rightarrow> bytes \<Rightarrow> ('w, response) proc" where
  "quote E origin nonce static leaf spki_sha256 =
     pbind (acquire_quote_slot E) (\<lambda>acquired.
     if \<not> acquired then ret (proof_json_response 429 ''quote_busy'')
     else dropping_quote_slot (
       or_panic (strip_prefix ''https://'' origin) (\<lambda>authority.
       or_panic (build_report_data (e_ext E) authority nonce spki_sha256
         (public_key_sha256 (e_ext E) (e_receipt_seed E))) (\<lambda>report_data.
       pbind (generate_in_time E origin nonce report_data leaf static) (\<lambda>result.
       ret (bundle_answer result))))))"

definition proof_bundle ::
  "'w env \<Rightarrow> string \<Rightarrow> (string \<times> string) list \<Rightarrow> string option \<Rightarrow> ('w, response) proc" where
  "proof_bundle E peer_ip headers raw_query =
     (case proof_nonce (e_ext E) raw_query of
        Inl _ \<Rightarrow> ret (proof_json_response 400 ''nonce_invalid'')
      | Inr nonce \<Rightarrow>
          (case proof_origin (e_ext E) headers of
             Inl err \<Rightarrow> ret (proof_json_response 400 err)
           | Inr (host, origin) \<Rightarrow>
               pbind (admit_proof E (proof_source (e_ext E) headers peer_ip)) (\<lambda>admitted.
               if \<not> admitted then ret (proof_json_response 429 ''rate_limited'')
               else
                 or_answer (origin_material E host) (\<lambda>static.
                 or_answer (origin_leaf E host) (\<lambda>(leaf, spki_sha256).
                 quote E origin nonce static leaf spki_sha256)))))"

section \<open>Steps\<close>

text \<open>The limiter's windows are part of what a motion may speak of, so these hold of motions that do not.\<close>

lemma advances_admit_proof:
  "env_advances R E \<Longrightarrow> (\<And>s r. R s (s\<lparr>s_proof_rate := r\<rparr>)) \<Longrightarrow> advances R (admit_proof E source)"
  unfolding admit_proof_def
  by (intro advances_call advances_bind advances_ret advances_env env_advances_progress; (assumption | simp add: advances_def split: prod.split))

lemma advances_acquire [advance_rules]: "env_advances R E \<Longrightarrow> advances R (acquire_quote_slot E)"
  unfolding acquire_quote_slot_def by (intro advance_rules; (assumption | simp))

lemma advances_dropping [advance_rules]: "progress R \<Longrightarrow> advances R m \<Longrightarrow> advances R (dropping_quote_slot m)"
proof (rule advancesI)
  fix s x t
  assume R: "progress R" "advances R m" and "run_state (dropping_quote_slot m) s = (x, t)"
  then obtain u where "run_state m s = (x, u)" "t = u\<lparr>s_quote_busy := False\<rparr>"
    by (auto simp: dropping_quote_slot_def split: prod.splits)
  then show "R s t" using R progress_same [OF R(1), where s = u and t = t] by (auto dest: advancesD intro: progress_trans)
qed

lemma advances_read_file [advance_rules]: "env_advances R E \<Longrightarrow> advances R (read_file E v d)"
  unfolding read_file_def by (intro advance_rules; (assumption | simp))

lemma advances_origin_material [advance_rules]: "env_advances R E \<Longrightarrow> advances R (origin_material E host)"
  unfolding origin_material_def by (intro advance_rules; (assumption | simp))

lemma advances_origin_leaf [advance_rules]: "env_advances R E \<Longrightarrow> advances R (origin_leaf E host)"
  unfolding origin_leaf_def by (intro advance_rules; (assumption | simp))

lemma advances_fetch_evidence [advance_rules]: "env_advances R E \<Longrightarrow> advances R (fetch_evidence E rd)"
  unfolding fetch_evidence_def by (intro advance_rules; (assumption | simp))

lemma advances_endorsements_for [advance_rules]: "env_advances R E \<Longrightarrow> fetches R E \<Longrightarrow> advances R (endorsements_for E report product)"
  unfolding endorsements_for_def by (intro advance_rules; (assumption | simp))

lemma advances_generate_bundle [advance_rules]: "env_advances R E \<Longrightarrow> fetches R E \<Longrightarrow> advances R (generate_bundle E origin nonce rd leaf static)"
  unfolding generate_bundle_def by (intro advance_rules; (assumption | simp))

lemma advances_generate_in_time [advance_rules]: "env_advances R E \<Longrightarrow> fetches R E \<Longrightarrow> advances R (generate_in_time E origin nonce rd leaf static)"
  unfolding generate_in_time_def by (intro advance_rules; (assumption | simp))

lemma advances_quote [advance_rules]: "env_advances R E \<Longrightarrow> fetches R E \<Longrightarrow> advances R (quote E origin nonce static leaf spki)"
  unfolding quote_def by (intro advance_rules; (assumption | simp))

lemma advances_or_answer [advance_rules]:
  "progress R \<Longrightarrow> advances R m \<Longrightarrow> (\<And>x. advances R (k x)) \<Longrightarrow> advances R (or_answer m k)"
  unfolding or_answer_def by (intro advances_pbind advances_sum advances_ret)

lemma advances_proof_bundle:
  "env_advances R E \<Longrightarrow> fetches R E \<Longrightarrow> (\<And>s r. R s (s\<lparr>s_proof_rate := r\<rparr>)) \<Longrightarrow> advances R (proof_bundle E peer headers query)"
  unfolding proof_bundle_def by (intro advances_admit_proof advance_rules; (assumption | simp))

lemma run_or_answer:
  "run_state (or_answer m k) s = (Some r, t) \<longleftrightarrow> run_state m s = (Some (Inl r), t) \<or>
     (\<exists>x u. run_state m s = (Some (Inr x), u) \<and> run_state (k x) u = (Some r, t))"
  by (auto simp: or_answer_def split: prod.splits option.splits sum.splits)

lemma refusal_not_200 [simp]: "rp_status (proof_json_response code err) = code"
  by (simp add: proof_json_response_def)

lemma fetch_evidence_Inr:
  assumes "observed E tr" "run_state (fetch_evidence E rd) s = (Some (Inr evidence), t)"
  obtains r bs where "happened tr s t (Exchange (evidence_request (e_config E) rd) (Inr r))" "is_success (hr_status r)"
    "hr_body r = Inr bs" "length bs \<le> 65536" "x_json_parse (e_ext E) bs = Inr evidence"
proof -
  obtain r s1 where h: "run_state (e_http E (evidence_request (e_config E) rd)) s = (r, s1)" by (rule prod.exhaust)
  from assms(2) h observed_http [OF assms(1) h] that show thesis
    by (auto simp: fetch_evidence_def response_bytes_limited_def result_iffs split: sum.splits if_splits)
qed

lemma origin_material_Inr:
  "run_state (origin_material E host) s = (Some (Inr static), t) \<Longrightarrow> workload_allows_host (e_ext E) static host = Inr True"
  by (auto simp: origin_material_def split: prod.splits option.splits sum.splits if_splits)

lemma origin_leaf_Inr:
  "run_state (origin_leaf E host) s = (Some (Inr (leaf, h)), t) \<Longrightarrow>
   certificate_covers_host (e_ext E) leaf host = Inr True \<and> (\<exists>spki. x_x509_spki (e_ext E) leaf = Some spki \<and> h = x_sha256 (e_ext E) spki)"
  by (auto simp: origin_leaf_def split: prod.splits sum.splits if_splits option.splits)

lemma origin_material_code:
  "run_state (origin_material E host) s = (Some (Inl resp), t) \<Longrightarrow> rp_status resp \<noteq> 200"
  by (auto simp: origin_material_def split: prod.splits option.splits sum.splits if_splits)

lemma origin_leaf_code: "run_state (origin_leaf E host) s = (Some (Inl resp), t) \<Longrightarrow> rp_status resp \<noteq> 200"
  by (auto simp: origin_leaf_def split: prod.splits sum.splits if_splits option.splits)

text \<open>The endorsements of a report, with the environment's product and address.\<close>

abbreviation amd_product :: "'w env \<Rightarrow> string" where
  "amd_product E \<equiv> env_or (e_vars E) ''AMD_KDS_PRODUCT'' ''Genoa''"

abbreviation amd_endorsed :: "'w env \<Rightarrow> event list \<Rightarrow> bytes \<Rightarrow> bytes \<Rightarrow> bool" where
  "amd_endorsed E trail report endorsements \<equiv>
     endorsed (e_ext E) trail (env_or (e_vars E) ''AMD_KDS_BASE_URL'' ''https://kdsintf.amd.com/vcek/v1'') report
       (amd_product E) endorsements"

lemma endorsements_for_genuine:
  assumes "observed E tr" "env_advances (kds_moves tr) E" "kds_genuine tr s"
    "run_state (endorsements_for E report (amd_product E)) s = (Some (Inr endorsements), t)"
  shows "amd_endorsed E (tr (s_world t)) report endorsements"
  using assms(4)
  by (auto simp: endorsements_for_def dest: amd_endorsements_genuine [OF assms(1-3)] split: prod.splits option.splits sum.splits)

text \<open>The bundle an origin gets for a report.\<close>

abbreviation bundle_of :: "'w env \<Rightarrow> string \<Rightarrow> bytes \<Rightarrow> bytes \<Rightarrow> bytes \<Rightarrow> nat \<Rightarrow> bytes \<Rightarrow> bytes \<Rightarrow> bundle_input" where
  "bundle_of E origin nonce leaf static now report endorsements \<equiv>
     \<lparr>bi_target_origin = origin, bi_nonce = nonce, bi_created_at = now, bi_snp_report = report,
      bi_tls_leaf_der = leaf, bi_receipt_public_key = x_ed_public (e_ext E) (e_receipt_seed E),
      bi_amd_endorsements = endorsements, bi_static_material = static\<rparr>"

lemma generate_bundle_Inr:
  assumes "observed E tr" "run_state (generate_bundle E origin nonce rd leaf static) s = (Some (Inr bdl), t)"
  obtains r bs evidence report endorsements now where
    "happened tr s t (Exchange (evidence_request (e_config E) rd) (Inr r))" "is_success (hr_status r)" "hr_body r = Inr bs"
    "x_json_parse (e_ext E) bs = Inr evidence"
    "raw_snp_report evidence (env_or (e_vars E) ''AMD_KDS_PRODUCT'' ''Genoa'') = Inr report" "byte_range 0x50 0x90 report = rd"
    "build_bundle (bundle_of E origin nonce leaf static now report endorsements) = Some (Inr bdl)"
    "env_advances (kds_moves tr) E \<Longrightarrow> kds_genuine tr s \<Longrightarrow> amd_endorsed E (tr (s_world t)) report endorsements"
proof -
  note adv = observed_advances [OF assms(1)]
  let ?product = "env_or (e_vars E) ''AMD_KDS_PRODUCT'' ''Genoa''"
  obtain evidence s1 report endorsements s2 now n where
    f: "run_state (fetch_evidence E rd) s = (Some (Inr evidence), s1)" and r: "raw_snp_report evidence ?product = Inr report"
    "byte_range 0x50 0x90 report = rd" and e: "run_state (endorsements_for E report ?product) s1 = (Some (Inr endorsements), s2)"
    and u: "run_state (e_unix E) s2 = ((now, n), t)"
    and b: "build_bundle (bundle_of E origin nonce leaf static now report endorsements) = Some (Inr bdl)"
    using assms(2)
    by (auto simp: generate_bundle_def Let_def run_pthen_Inr run_attempt_Inr run_steps map_err_Inr
        simp del: run_pthen run_call run_or_panic run_attempt split: if_splits prod.splits)
  have later: "prefix (tr (s_world s2)) (tr (s_world t))" by (rule advancesD [OF advances_env(4) [OF adv] u])
  have "prefix (tr (s_world s1)) (tr (s_world t))"
    by (rule prefix_order.trans [OF advancesD [OF advances_endorsements_for [OF adv fetches_log [OF assms(1)]] e] later])
  moreover have "amd_endorsed E (tr (s_world t)) report endorsements" if "env_advances (kds_moves tr) E" "kds_genuine tr s"
    using advancesD [OF advances_fetch_evidence [OF that(1)] f] that(2)
    by (blast intro: endorsed_later [OF endorsements_for_genuine [OF assms(1) that(1) _ e] later])
  ultimately show thesis
    using f by (elim fetch_evidence_Inr [OF assms(1)]) (rule that, rule happened_later, assumption+, (rule r b)+, assumption)
qed

lemma dropping_run:
  "run_state (dropping_quote_slot m) s = (r, t) \<longleftrightarrow> (\<exists>u. run_state m s = (r, u) \<and> t = u\<lparr>s_quote_busy := False\<rparr>)"
  by (auto simp: dropping_quote_slot_def split: prod.splits)

lemma bundle_answer_200: "rp_status (bundle_answer result) = 200 \<longleftrightarrow> (\<exists>b. result = Some (Inr b))"
  by (auto simp: bundle_answer_def split: option.splits sum.splits)

lemma bundle_answer_body: "rp_body (bundle_answer (Some (Inr b))) = BytesBody b"
  by (simp add: bundle_answer_def)

lemma quote_steps:
  assumes "run_state (quote E origin nonce static leaf h) s = (Some resp, t)" "rp_status resp = 200"
  obtains s1 authority rd bdl t' where "run_state (acquire_quote_slot E) s = (Some True, s1)" "origin = ''https://'' @ authority"
    "build_report_data (e_ext E) authority nonce h (public_key_sha256 (e_ext E) (e_receipt_seed E)) = Some rd"
    "run_state (generate_in_time E origin nonce rd leaf static) s1 = (Some (Some (Inr bdl)), t')"
    "t = t'\<lparr>s_quote_busy := False\<rparr>" "rp_body resp = BytesBody bdl"
  using assms
  by (auto simp: quote_def run_steps dropping_run strip_prefix_iff bundle_answer_200 bundle_answer_body
      simp del: run_pbind run_call run_or_panic split: if_splits)

lemma generate_in_time_Some:
  assumes "run_state (generate_in_time E origin nonce rd leaf static) s = (Some (Some r), t)"
  obtains now s1 s2 where "run_state (e_now E) s = (now, s1)" "run_state (e_expired E (now + from_secs 20)) s1 = (False, s2)"
    "run_state (generate_bundle E origin nonce rd leaf static) s2 = (Some r, t)"
  using assms
  by (auto simp: generate_in_time_def run_steps simp del: run_pbind run_call split: if_splits)

lemma quote_bundle:
  assumes "observed E tr" "run_state (quote E origin nonce static leaf h) s = (Some resp, t)" "rp_status resp = 200"
  obtains authority rd bdl r bs evidence report endorsements now where "origin = ''https://'' @ authority"
    "build_report_data (e_ext E) authority nonce h (public_key_sha256 (e_ext E) (e_receipt_seed E)) = Some rd"
    "happened tr s t (Exchange (evidence_request (e_config E) rd) (Inr r))" "is_success (hr_status r)" "hr_body r = Inr bs"
    "x_json_parse (e_ext E) bs = Inr evidence"
    "raw_snp_report evidence (env_or (e_vars E) ''AMD_KDS_PRODUCT'' ''Genoa'') = Inr report" "byte_range 0x50 0x90 report = rd"
    "build_bundle (bundle_of E origin nonce leaf static now report endorsements) = Some (Inr bdl)"
    "env_advances (kds_moves tr) E \<Longrightarrow> kds_genuine tr s \<Longrightarrow> amd_endorsed E (tr (s_world t)) report endorsements"
    "rp_body resp = BytesBody bdl" "\<not> s_quote_busy t"
  using assms(2,3)
proof (rule quote_steps)
  fix s1 authority rd bdl t'
  assume a: "run_state (acquire_quote_slot E) s = (Some True, s1)" and o: "origin = ''https://'' @ authority"
    and rd: "build_report_data (e_ext E) authority nonce h (public_key_sha256 (e_ext E) (e_receipt_seed E)) = Some rd"
    and g: "run_state (generate_in_time E origin nonce rd leaf static) s1 = (Some (Some (Inr bdl)), t')"
    and t: "t = t'\<lparr>s_quote_busy := False\<rparr>" and body: "rp_body resp = BytesBody bdl"
  note adv = observed_advances [OF assms(1)]
  from g obtain now s2 s3 where n: "run_state (e_now E) s1 = (now, s2)"
    and e: "run_state (e_expired E (now + from_secs 20)) s2 = (False, s3)"
    and b: "run_state (generate_bundle E origin nonce rd leaf static) s3 = (Some (Inr bdl), t')"
    by (rule generate_in_time_Some)
  have "prefix (tr (s_world s)) (tr (s_world s3))"
    by (rule advances_trans [OF progress_log advances_trans [OF progress_log advancesD [OF advances_acquire [OF adv] a]
        advances_env(3) [OF adv] n] advances_env(8) [OF adv] e])
  then have later: "happened tr s t ev" if "happened tr s3 t' ev" for ev
    using happened_earlier [OF _ that] by (simp add: happened_def t)
  have genuine: "kds_genuine tr s3" if "env_advances (kds_moves tr) E" "kds_genuine tr s"
    using that advancesD [OF advances_acquire [OF that(1)] a] advancesD [OF advances_env(3) [OF that(1)] n]
      advancesD [OF advances_env(8) [OF that(1)] e] by blast
  show thesis
    using assms(1) b
    by (rule generate_bundle_Inr)
      (rule that [OF o rd later _ _ _ _ _ _ _ body], assumption+, simp add: t genuine, simp add: t)
qed

section \<open>Properties\<close>

text \<open>C8. A proof bundle is bound to the request, the pod and the processor. A 200 answer means that the query
  carried one well-formed nonce, that the host is one the signed workload material allows and that the
  public TLS certificate covers it, that during the request the attestation agent was asked for evidence
  over the data derived from this origin, this nonce, the certificate's key and the proxy's receipt key,
  that the report in the agent's answer carries exactly these data, and that the bundle is built from
  this report, certificate, nonce and material. Its endorsements are the answers of AMD's service for the
  addresses that name the product and this report's chip, provided the cache held only such answers before
  the request and other tasks keep it so, as this one does. The quote slot is free again.\<close>

theorem proof_bundle_bound:
  assumes "observed E tr" "run_state (proof_bundle E peer headers query) s = (Some resp, t)" "rp_status resp = 200"
  shows "\<exists>nonce host authority static leaf spki rd r bs evidence report endorsements now bdl.
    proof_nonce (e_ext E) query = Inr nonce \<and> proof_origin (e_ext E) headers = Inr (host, ''https://'' @ authority) \<and>
    workload_allows_host (e_ext E) static host = Inr True \<and> certificate_covers_host (e_ext E) leaf host = Inr True \<and>
    x_x509_spki (e_ext E) leaf = Some spki \<and>
    build_report_data (e_ext E) authority nonce (x_sha256 (e_ext E) spki) (public_key_sha256 (e_ext E) (e_receipt_seed E)) = Some rd \<and>
    happened tr s t (Exchange (evidence_request (e_config E) rd) (Inr r)) \<and> is_success (hr_status r) \<and> hr_body r = Inr bs \<and>
    x_json_parse (e_ext E) bs = Inr evidence \<and>
    raw_snp_report evidence (env_or (e_vars E) ''AMD_KDS_PRODUCT'' ''Genoa'') = Inr report \<and> byte_range 0x50 0x90 report = rd \<and>
    build_bundle (bundle_of E (''https://'' @ authority) nonce leaf static now report endorsements) = Some (Inr bdl) \<and>
    (env_advances (kds_moves tr) E \<and> kds_genuine tr s \<longrightarrow>
       amd_endorsed E (tr (s_world t)) report endorsements \<and> kds_genuine tr t) \<and>
    rp_body resp = BytesBody bdl \<and> \<not> s_quote_busy t"
proof -
  note adv = observed_advances [OF assms(1)]
  obtain nonce host origin s1 static s2 leaf h s3 where n: "proof_nonce (e_ext E) query = Inr nonce"
    and o: "proof_origin (e_ext E) headers = Inr (host, origin)"
    and a: "run_state (admit_proof E (proof_source (e_ext E) headers peer)) s = (Some True, s1)"
    and m: "run_state (origin_material E host) s1 = (Some (Inr static), s2)"
    and l: "run_state (origin_leaf E host) s2 = (Some (Inr (leaf, h)), s3)"
    and q: "run_state (quote E origin nonce static leaf h) s3 = (Some resp, t)"
    using assms(2,3)
    by (auto simp: proof_bundle_def run_steps run_or_answer dest: origin_material_code origin_leaf_code simp del: run_pbind
        split: sum.splits if_splits prod.splits)
  have "prefix (tr (s_world s)) (tr (s_world s1))" by (rule advancesD [OF advances_admit_proof [OF adv] a]) simp
  then have "prefix (tr (s_world s)) (tr (s_world s3))"
    by (rule advances_trans [OF progress_log advances_trans [OF progress_log _ advances_origin_material [OF adv] m]
        advances_origin_leaf [OF adv] l])
  note earlier = happened_earlier [OF this]
  have genuine: "kds_genuine tr s3 \<and> kds_genuine tr t" if kds: "env_advances (kds_moves tr) E" "kds_genuine tr s"
  proof -
    have "kds_moves tr s s1" by (rule advancesD [OF advances_admit_proof [OF kds(1)] a]) (simp add: kds_genuine_def)
    moreover have "kds_moves tr s t"
      by (rule advancesD [OF advances_proof_bundle [OF kds(1) fetches_kds [OF assms(1) kds(1)]] assms(2)]) (simp add: kds_genuine_def)
    ultimately show ?thesis
      using kds(2) advancesD [OF advances_origin_material [OF kds(1)] m] advancesD [OF advances_origin_leaf [OF kds(1)] l] by blast
  qed
  from origin_leaf_Inr [OF l] obtain spki where spki: "certificate_covers_host (e_ext E) leaf host = Inr True"
    "x_x509_spki (e_ext E) leaf = Some spki" "h = x_sha256 (e_ext E) spki" by blast
  show ?thesis
    using assms(1) q assms(3)
    by (rule quote_bundle) (use n o origin_material_Inr [OF m] spki earlier genuine in blast)
qed

end
