(* ===== verification/Proof_Runs.thy ===== *)
theory Proof_Runs
  imports Proof_Endpoint
begin

text \<open>
  A concrete request to the proof endpoint that is answered with a bundle: the material allows the host,
  the certificate covers it, the agent answers with a report over the derived data and the key
  distribution service with its certificates.
\<close>

section \<open>The world\<close>

definition pem2 :: bytes where
  "pem2 = as_bytes (''-----BEGIN CERTIFICATE-----aa-----END CERTIFICATE-----'' @
     ''-----BEGIN CERTIFICATE-----bb-----END CERTIFICATE-----'')"

definition proof_response :: http_response where
  "proof_response = \<lparr>hr_status = 200, hr_headers = [(''cache-control'', ''no-store'')], hr_body = Inr pem2\<rparr>"

definition proof_rd :: bytes where
  "proof_rd = as_bytes (hex_lower (replicate 32 0))"

text \<open>A hash that is constant: the data of every report are the same.\<close>

definition proof_ext :: externals where
  "proof_ext = demo_externals\<lparr>x_sha256 := (\<lambda>_. replicate 32 0), x_json_parse := (\<lambda>bs. Inr (if bs = [2]
     then JObj [(''descriptor_payload'', JObj [(''app_domain'', JStr ''a.b'')])] else demo_evidence proof_rd))\<rparr>"

definition proof_env :: "event list env" where
  "proof_env = (demo_env (\<lambda>_. Inr proof_response) demo_config)\<lparr>e_ext := proof_ext\<rparr>"

definition proof_sys :: "event list sys" where
  "proof_sys = demo_sys\<lparr>s_files :=
     [(''/etc/enclava-verification/verification-material.ce'', File \<lparr>fn_mode = 0, fn_gid = None, fn_data = demo_static\<rparr>),
      (''/run/enclava/public-tls/certificates/tls.crt'', File \<lparr>fn_mode = 0, fn_gid = None, fn_data = as_bytes ''a.b''\<rparr>)]\<rparr>"

definition proof_query :: string where
  "proof_query = ''nonce='' @ hex_lower (replicate 32 3)"

lemma proof_env_sel [simp]:
  "e_ext proof_env = proof_ext" "e_config proof_env = demo_config" "e_receipt_seed proof_env = [7]" "e_vars proof_env = (\<lambda>_. None)"
  "run_state (e_http proof_env q) s = (Inr proof_response, s\<lparr>s_world := s_world s @ [Exchange q (Inr proof_response)]\<rparr>)"
  "run_state (e_now proof_env) s = (0, s)" "run_state (e_unix proof_env) s = ((0, 0), s)"
  "e_io proof_env = State_Monad.return no_faults" "e_yield proof_env = State_Monad.return ()"
  "e_expired proof_env d = State_Monad.return False"
  by (simp_all add: proof_env_def demo_env_def)

lemma proof_observed: "observed proof_env id"
  using demo_observed [of "\<lambda>_. Inr proof_response" demo_config]
  by (simp add: observed_def env_advances_def proof_env_def)

lemma proof_env_kds: "env_advances (kds_moves id) proof_env"
  unfolding env_advances_def
  by (intro conjI allI progress_kds advancesI kds_moves_grow) (auto simp: proof_env_def demo_env_def)

section \<open>The pieces\<close>

lemma proof_nonce_ok: "proof_nonce proof_ext (Some proof_query) = Inr (replicate 32 3)"
  by code_simp

lemma proof_origin_ok: "proof_origin proof_ext [(''host'', ''a.b'')] = Inr (''a.b'', ''https://a.b'')"
  by code_simp

lemma pem2_ok: "pem_certificates proof_ext pem2 = Inr [[0xAA], [0xBB]]"
  by code_simp

lemma pem2_length: "length pem2 = 108"
  by code_simp

lemma demo_static_second:
  "\<exists>c r. ce_record demo_static 0 = Inr (r, c) \<and> (\<exists>l d. ce_record demo_static c = Inr ((l, [2]), d))"
proof -
  let ?a = "(''cc_init_data_toml'', [1])" and ?b = "(''workload_artifacts_json'', [2])"
  obtain rest where s: "demo_static = ce_enc ?a @ ce_enc ?b @ rest"
    by (simp add: demo_static_def STATIC_FIELDS_def demo_values_def)
  have u: "utf8_valid (as_bytes (fst ?a))" "utf8_valid (as_bytes (fst ?b))" by code_simp+
  have "ce_record demo_static 0 = Inr (?a, length (ce_enc ?a))"
    using ce_record_at [of "fst ?a" "[1]" "[]" "ce_enc ?b @ rest"] u by (simp add: s ce_fits_def)
  moreover have "ce_record demo_static (length (ce_enc ?a)) = Inr (?b, length (ce_enc ?a) + length (ce_enc ?b))"
    using ce_record_at [of "fst ?b" "[2]" "ce_enc ?a" rest] u by (simp add: s ce_fits_def)
  ultimately show ?thesis by blast
qed

lemma proof_host_ok: "workload_allows_host proof_ext demo_static ''a.b'' = Inr True"
proof -
  obtain c r l d where "ce_record demo_static 0 = Inr (r, c)" "ce_record demo_static c = Inr ((l, [2]), d)"
    using demo_static_second by blast
  then show ?thesis
    by (simp add: workload_allows_host_def demo_static_ok proof_ext_def workload_descriptor_def descriptor_hosts_def
        map_filter_simps eq_ignore_ascii_case_def)
qed

lemma proof_leaf_ok: "leaf_of_file proof_ext (as_bytes ''a.b'') = Inr (as_bytes ''a.b'')"
  "certificate_covers_host proof_ext (as_bytes ''a.b'') ''a.b'' = Inr True" "x_x509_spki proof_ext (as_bytes ''a.b'') = Some (as_bytes ''a.b'')"
  by code_simp+

lemma proof_files [simp]:
  "run_state (read_file proof_env ''PROOF_MATERIAL_PATH'' ''/etc/enclava-verification/verification-material.ce'') s = (Some (Inr demo_static), s)"
  "run_state (read_file proof_env ''PROOF_TLS_CERT_PATH'' ''/run/enclava/public-tls/certificates/tls.crt'') s = (Some (Inr (as_bytes ''a.b'')), s)"
  if "s_files s = s_files proof_sys"
  using that
  by (simp_all add: read_file_def io_read_def env_or_def fs_read_def no_faults_def proof_sys_def fs_lookup_def)

lemma proof_report_data:
  "build_report_data proof_ext ''a.b'' (replicate 32 3) (x_sha256 proof_ext spki) (public_key_sha256 proof_ext [7]) = Some proof_rd"
  by (simp add: build_report_data_def tee_tls_transcript_hash_def ce_v1_hash_def ce_v1_bytes_eq ce_fits_def proof_ext_def
      public_key_sha256_def proof_rd_def)

lemma proof_get_limited:
  "s_kds_cache s = [] \<Longrightarrow> 108 \<le> limit \<Longrightarrow> run_state (get_limited proof_env url limit) s =
     (Some (Inr pem2), s\<lparr>s_world := s_world s @ [Exchange (kds_request url) (Inr proof_response)]\<rparr>)"
proof -
  have "cache_ttl (header_text ''cache-control'' (hr_headers proof_response)) = 0" by code_simp
  moreover assume "s_kds_cache s = []" "108 \<le> limit"
  ultimately show ?thesis
    using pem2_length
    by (simp add: get_limited_def cached_kds_body_def kds_find_def proof_response_def is_success_def announced_too_long_def proof_ext_def
        demo_externals_def response_bytes_limited_def)
qed

section \<open>The run\<close>

text \<open>What an answered fetch leaves as it was.\<close>

abbreviation same_pod :: "event list sys \<Rightarrow> event list sys \<Rightarrow> bool" where
  "same_pod s t \<equiv> s_kds_cache t = s_kds_cache s \<and> s_files t = s_files s \<and> s_quote_busy t = s_quote_busy s"

lemma proof_crl_limit: "proof_crl_max_bytes None = 120000"
  by (simp add: proof_crl_max_bytes_def PROOF_CRL_MAX_BYTES_def)

lemma proof_endorsements:
  assumes "length report = 1184" "byte_range 0x48 0x4C report = [0, 0, 0, 0]" "s_kds_cache s = []"
  shows "\<exists>bs t. run_state (endorsements_for proof_env report ''Genoa'') s = (Some (Inr bs), t) \<and> length bs < 1000 \<and> same_pod s t"
proof -
  have product: "product_ok ''Genoa''" by code_simp
  have signed: "signed_by_vcek report" using assms(2) by (simp add: signed_by_vcek_def)
  let ?bs = "ce_v1_bytes (endorsement_records ''Genoa'' [0xBB] [0xAA] pem2 pem2)"
  obtain bs where bs: "?bs = Some bs" "length bs < 1000"
    using pem2_length by (simp add: ce_v1_bytes_eq endorsement_records_def ce_fits_def)
  then show ?thesis
    using assms product signed
    by (simp add: endorsements_for_def amd_endorsements_def proof_get_limited pem2_ok proof_crl_limit Let_def env_or_def)
qed

lemma proof_evidence:
  "\<exists>t. run_state (fetch_evidence proof_env rd) s = (Some (Inr (demo_evidence proof_rd)), t) \<and> same_pod s t"
proof -
  have "pem2 \<noteq> [2]"
  proof
    assume "pem2 = [2]"
    then show False using pem2_length by (auto dest: arg_cong [where f = length])
  qed
  then show ?thesis
    using pem2_length
    by (simp add: fetch_evidence_def proof_response_def is_success_def announced_too_long_def response_bytes_limited_def
        proof_ext_def demo_externals_def)
qed

text \<open>What is said about the bundle's origin, nonce and leaf is small.\<close>

lemma proof_built:
  assumes "length report = 1184" "length endorsements < 1000"
  shows "\<exists>b. build_bundle (bundle_of proof_env ''https://a.b'' (replicate 32 3) (as_bytes ''a.b'') demo_static 0 report endorsements) = Some (Inr b)"
proof -
  have "length demo_static < 1000" by (simp add: demo_static_def STATIC_FIELDS_def demo_values_def)
  moreover have "length (show_nat 0) = 1" "length (x_ed_public proof_ext [7]) < 100" by code_simp+
  ultimately show ?thesis
    using demo_static_ok assms by (simp add: build_bundle_def ce_v1_bytes_eq bundle_records_def ce_fits_def MAX_BUNDLE_BYTES_def)
qed

lemma proof_generated:
  assumes "s_kds_cache s = []"
  shows "\<exists>b t. run_state (generate_bundle proof_env ''https://a.b'' (replicate 32 3) proof_rd (as_bytes ''a.b'') demo_static) s = (Some (Inr b), t)"
proof -
  have len: "length proof_rd = 64" by code_simp
  obtain raw where raw: "raw_snp_report (demo_evidence proof_rd) ''Genoa'' = Inr raw" using len by (rule demo_report_ok)
  note report = demo_report_raw [OF raw len]
  obtain t where t: "run_state (fetch_evidence proof_env proof_rd) s = (Some (Inr (demo_evidence proof_rd)), t)" "s_kds_cache t = []"
    using proof_evidence [of proof_rd s] assms by auto
  obtain bs u where u: "run_state (endorsements_for proof_env raw ''Genoa'') t = (Some (Inr bs), u)" "length bs < 1000"
    using proof_endorsements [OF report(1,3) t(2)] by blast
  obtain b where "build_bundle (bundle_of proof_env ''https://a.b'' (replicate 32 3) (as_bytes ''a.b'') demo_static 0 raw bs) = Some (Inr b)"
    using proof_built [OF report(1) u(2)] by blast
  then show ?thesis using t u raw report by (simp add: generate_bundle_def env_or_def Let_def)
qed

lemma proof_admitted:
  "\<exists>t. run_state (admit_proof proof_env (proof_source proof_ext [(''host'', ''a.b'')] ''9.9.9.9'')) proof_sys = (Some True, t) \<and>
     same_pod proof_sys t"
proof -
  have "fst (allow (proof_source proof_ext [(''host'', ''a.b'')] ''9.9.9.9'') 0 (s_proof_rate proof_sys))"
    by (simp add: allow_def proof_sys_def demo_sys_def retain_recent_def source_window_def PROOF_GLOBAL_PER_MINUTE_def
        PROOF_PER_SOURCE_PER_MINUTE_def)
  then show ?thesis by (auto simp: admit_proof_def split: prod.split)
qed

lemma proof_quoted:
  assumes "s_kds_cache s = []" "\<not> s_quote_busy s"
  shows "\<exists>resp t. run_state (quote proof_env ''https://a.b'' (replicate 32 3) demo_static (as_bytes ''a.b'') (x_sha256 proof_ext spki)) s = (Some resp, t) \<and>
     rp_status resp = 200"
proof -
  obtain b t where "run_state (generate_bundle proof_env ''https://a.b'' (replicate 32 3) proof_rd (as_bytes ''a.b'') demo_static)
      (s\<lparr>s_quote_busy := True\<rparr>) = (Some (Inr b), t)"
    using proof_generated [of "s\<lparr>s_quote_busy := True\<rparr>"] assms(1) by auto
  moreover have "strip_prefix ''https://'' ''https://a.b'' = Some ''a.b''" by code_simp
  ultimately show ?thesis
    using assms(2)
    by (simp add: quote_def acquire_quote_slot_def dropping_quote_slot_def generate_in_time_def proof_report_data bundle_answer_200)
qed

lemma proof_answered:
  "\<exists>resp t. run_state (proof_bundle proof_env ''9.9.9.9'' [(''host'', ''a.b'')] (Some proof_query)) proof_sys = (Some resp, t) \<and>
     rp_status resp = 200"
proof -
  obtain t where t: "run_state (admit_proof proof_env (proof_source proof_ext [(''host'', ''a.b'')] ''9.9.9.9'')) proof_sys = (Some True, t)"
    "s_kds_cache t = []" "s_files t = s_files proof_sys" "\<not> s_quote_busy t"
    using proof_admitted by (auto simp: proof_sys_def demo_sys_def)
  have "run_state (origin_material proof_env ''a.b'') t = (Some (Inr demo_static), t)"
    using t(3) proof_host_ok demo_static_ok by (simp add: origin_material_def is_ok_def)
  moreover have "run_state (origin_leaf proof_env ''a.b'') t = (Some (Inr (as_bytes ''a.b'', x_sha256 proof_ext (as_bytes ''a.b''))), t)"
    using t(3) proof_leaf_ok by (simp add: origin_leaf_def)
  ultimately show ?thesis
    using proof_quoted [OF t(2,4), of "as_bytes ''a.b''"] t(1)
    by (simp add: proof_bundle_def proof_nonce_ok proof_origin_ok or_answer_def)
qed

theorem proof_bundle_bound_witness:
  "\<exists>resp t r bs report bdl.
     run_state (proof_bundle proof_env ''9.9.9.9'' [(''host'', ''a.b'')] (Some proof_query)) proof_sys = (Some resp, t) \<and>
     happened id proof_sys t (Exchange (evidence_request demo_config (byte_range 0x50 0x90 report)) (Inr r)) \<and>
     hr_body r = Inr bs \<and> rp_body resp = BytesBody bdl \<and> (\<exists>endorsements. amd_endorsed proof_env (s_world t) report endorsements) \<and>
     \<not> s_quote_busy t"
proof -
  obtain resp t where run: "run_state (proof_bundle proof_env ''9.9.9.9'' [(''host'', ''a.b'')] (Some proof_query)) proof_sys = (Some resp, t)"
    "rp_status resp = 200"
    using proof_answered by blast
  have "kds_genuine id proof_sys" by (simp add: kds_genuine_def proof_sys_def demo_sys_def)
  with proof_bundle_bound [OF proof_observed run] proof_env_kds run(1) show ?thesis by (auto simp: proof_env_sel)
qed

end
