(* ===== verification/Sev_Device.thy ===== *)
theory Sev_Device
  imports Process
begin

text \<open>
  The derived key of the processor, \<open>sev.rs\<close>: making the device node when the container has none, one
  request to the driver, and the choice of the key from its answer. The driver is a parameter; what the
  file system says of the device node is in the state, what can fail in \<open>sev_faults\<close>. The lemmas show
  when a key comes out and that it is never the zero key.
\<close>

section \<open>Requests\<close>

definition SEV_GUEST_DEVICE :: string where "SEV_GUEST_DEVICE = ''/dev/sev-guest''"
definition GUEST_FIELD_SELECT_BASE :: u64 where "GUEST_FIELD_SELECT_BASE = 0"
definition owner_seed_seal_guest_field_select :: u64 where
  "owner_seed_seal_guest_field_select = GUEST_FIELD_SELECT_BASE"

record snp_derived_key_req =
  root_key_select :: u32
  rsvd :: u32
  guest_field_select :: u64
  vmpl :: u32
  dk_guest_svn :: u32
  tcb_version :: u64

text \<open>The driver answers a request of a message version with an error of the system call, or with
  \<open>exitinfo2\<close> and the 64 bytes of the response.\<close>

type_synonym sev_driver = "nat \<Rightarrow> snp_derived_key_req \<Rightarrow> string + (u64 \<times> bytes)"

section \<open>The device node\<close>

datatype node_kind = CharDevice nat nat | OtherNode

record sev_state =
  sev_node :: "node_kind option"
  sev_log :: "string list"

record sev_faults =
  lock_poisoned :: bool
  exists_fails :: bool
  stat_fails :: "string option"
  mknod_fails :: "string option"
  open_fails :: "string option"

definition log_sev_internal_error :: "string \<Rightarrow> string \<Rightarrow> sev_state \<Rightarrow> string \<times> sev_state" where
  "log_sev_internal_error code detail S = (code, S\<lparr>sev_log := sev_log S @ [code @ '':'' @ detail]\<rparr>)"

definition sev_failed :: "string \<Rightarrow> string \<Rightarrow> sev_state \<Rightarrow> (string + 'a) \<times> sev_state" where
  "sev_failed code detail S = (case log_sev_internal_error code detail S of (e, S) \<Rightarrow> (Inl e, S))"

text \<open>The line that names the device; a line without a first word has no second one.\<close>

definition misc_line :: "string \<Rightarrow> string \<Rightarrow> string option" where
  "misc_line name contents =
     Option.bind (find (\<lambda>ws. 1 < length ws \<and> ws ! 1 = name) (map split_whitespace (str_lines contents))) (\<lambda>ws. Some (hd ws))"

definition parse_proc_misc_minor :: "io_faults \<Rightarrow> fs \<Rightarrow> string \<Rightarrow> sev_state \<Rightarrow> (string + nat option) \<times> sev_state" where
  "parse_proc_misc_minor F fs name S =
     (case fs_read_to_string F ''/proc/misc'' fs of
        Inl err \<Rightarrow> sev_failed ''proc_misc_read_failed'' (io_text err) S
      | Inr contents \<Rightarrow>
          (case misc_line name contents of
             None \<Rightarrow> (Inr None, S)
           | Some minor \<Rightarrow>
               (case parse_uint (2 ^ 32) minor of
                  Inl err \<Rightarrow> sev_failed ''proc_misc_minor_parse_failed'' err S
                | Inr n \<Rightarrow> (Inr (Some n), S))))"

definition mknod_device :: "sev_faults \<Rightarrow> nat \<Rightarrow> sev_state \<Rightarrow> (string + unit) \<times> sev_state" where
  "mknod_device SF minor S =
     (case mknod_fails SF of
        Some err \<Rightarrow> sev_failed ''sev_guest_mknod_failed'' err S
      | None \<Rightarrow> (Inr (), case sev_node S of Some _ \<Rightarrow> S | None \<Rightarrow> S\<lparr>sev_node := Some (CharDevice 10 minor)\<rparr>))"

definition ensure_sev_guest_device ::
  "sev_faults \<Rightarrow> io_faults \<Rightarrow> fs \<Rightarrow> string \<Rightarrow> sev_state \<Rightarrow> (string + unit) \<times> sev_state" where
  "ensure_sev_guest_device SF F fs path S =
     (if sev_node S \<noteq> None \<and> \<not> exists_fails SF then
        (case stat_fails SF of
           Some err \<Rightarrow> sev_failed ''sev_guest_stat_failed'' err S
         | None \<Rightarrow>
             (case sev_node S of
                Some (CharDevice _ _) \<Rightarrow> (Inr (), S)
              | _ \<Rightarrow> (Inl ''sev_guest_not_char_device'', S)))
      else
        (case parse_proc_misc_minor F fs ''sev-guest'' S of
           (Inl err, S) \<Rightarrow> (Inl err, S)
         | (Inr None, S) \<Rightarrow> (Inl ''sev_guest_missing_from_proc_misc'', S)
         | (Inr (Some minor), S) \<Rightarrow>
             if CHR 0x00 \<in> set path then (Inl ''sev_guest_path_contains_nul'', S) else mknod_device SF minor S))"

section \<open>The key\<close>

definition extract_fw_error :: "u64 \<Rightarrow> u32" where
  "extract_fw_error exitinfo2 = ucast (exitinfo2 AND 0xffffffff)"

definition extract_vmm_error :: "u64 \<Rightarrow> u32" where
  "extract_vmm_error exitinfo2 = ucast (drop_bit 32 exitinfo2)"

definition derived_key_req :: snp_derived_key_req where
  "derived_key_req =
     \<lparr>root_key_select = 0, rsvd = 0, guest_field_select = owner_seed_seal_guest_field_select, vmpl = 0,
      dk_guest_svn = 0, tcb_version = 0\<rparr>"

definition first_nonzero_half :: "bytes \<Rightarrow> string + bytes" where
  "first_nonzero_half data =
     (if list_ex (\<lambda>b. b \<noteq> 0) (take 32 data) then Inr (take 32 data)
      else if list_ex (\<lambda>b. b \<noteq> 0) (take 32 (drop 32 data)) then Inr (take 32 (drop 32 data))
      else Inl ''sev_guest_derived_key_zero'')"

definition read_derived_key :: "sev_driver \<Rightarrow> sev_state \<Rightarrow> (string + bytes) \<times> sev_state" where
  "read_derived_key ioctl S =
     (case ioctl 1 derived_key_req of
        Inl err \<Rightarrow> sev_failed ''sev_guest_ioctl_failed'' err S
      | Inr (exitinfo2, data) \<Rightarrow>
          (let fw_error = extract_fw_error exitinfo2; vmm_error = extract_vmm_error exitinfo2 in
           if fw_error \<noteq> 0 \<or> vmm_error \<noteq> 0 then
             (Inl ''sev_guest_derived_key_error'',
              S\<lparr>sev_log := sev_log S @ [''sev_guest_derived_key_error:fw='' @ show_nat (unat fw_error) @ '':vmm='' @ show_nat (unat vmm_error)]\<rparr>)
           else (first_nonzero_half data, S)))"

definition derive_measurement_policy_key ::
  "sev_driver \<Rightarrow> sev_faults \<Rightarrow> io_faults \<Rightarrow> fs \<Rightarrow> sev_state \<Rightarrow> (string + bytes) \<times> sev_state" where
  "derive_measurement_policy_key ioctl SF F fs S =
     (if lock_poisoned SF then (Inl ''sev_guest_lock_poisoned'', S)
      else case ensure_sev_guest_device SF F fs SEV_GUEST_DEVICE S of
        (Inl err, S) \<Rightarrow> (Inl err, S)
      | (Inr _, S) \<Rightarrow>
          (case open_fails SF of
             Some err \<Rightarrow> sev_failed ''sev_guest_open_failed'' err S
           | None \<Rightarrow> read_derived_key ioctl S))"

section \<open>When a key comes out\<close>

text \<open>The two halves of \<open>exitinfo2\<close> lose nothing: no error is reported exactly when the word is zero.\<close>

lemma no_sev_error: "extract_fw_error w = 0 \<and> extract_vmm_error w = 0 \<longleftrightarrow> w = 0"
proof
  assume a: "extract_fw_error w = 0 \<and> extract_vmm_error w = 0"
  show "w = 0"
  proof (rule bit_word_eqI)
    fix n assume n: "n < LENGTH(64)"
    have fw: "\<not> bit (extract_fw_error w) n" and vmm: "\<not> bit (extract_vmm_error w) (n - 32)"
      using a by simp_all
    have mask: "(0xffffffff :: u64) = mask 32" by (simp add: mask_eq_exp_minus_1)
    show "bit w n = bit (0 :: u64) n"
    proof (cases "n < 32")
      case True
      with fw show ?thesis by (simp add: extract_fw_error_def mask bit_simps)
    next
      case False
      with vmm n show ?thesis by (simp add: extract_vmm_error_def bit_simps)
    qed
  qed
qed (simp add: extract_fw_error_def extract_vmm_error_def)

lemma first_nonzero_half_Inr:
  assumes "length data = 64"
  shows "first_nonzero_half data = Inr key \<longleftrightarrow>
    key = (if set (take 32 data) \<subseteq> {0} then drop 32 data else take 32 data) \<and> length key = 32 \<and> (\<exists>b \<in> set key. b \<noteq> 0)"
  using assms by (auto simp: first_nonzero_half_def list_ex_iff)

lemma sev_failed_not_Inr [simp]: "sev_failed code d S \<noteq> (Inr x, S')"
  by (simp add: sev_failed_def log_sev_internal_error_def)

lemma read_derived_key_Inr:
  "read_derived_key ioctl S = (Inr key, S') \<longleftrightarrow>
     S' = S \<and> (\<exists>data. ioctl 1 derived_key_req = Inr (0, data) \<and> first_nonzero_half data = Inr key)"
  using no_sev_error by (auto simp: read_derived_key_def Let_def split: sum.splits prod.splits if_splits)

text \<open>A key is returned exactly when the node could be had and opened and the driver answered without an
  error; it is the first half of the answer that is not all zero.\<close>

theorem derived_key_exact:
  assumes "\<And>v req e data. ioctl v req = Inr (e, data) \<Longrightarrow> length data = 64"
  shows "derive_measurement_policy_key ioctl SF F fs S = (Inr key, S') \<longleftrightarrow>
    \<not> lock_poisoned SF \<and> ensure_sev_guest_device SF F fs SEV_GUEST_DEVICE S = (Inr (), S') \<and> open_fails SF = None \<and>
    (\<exists>data. ioctl 1 derived_key_req = Inr (0, data) \<and> length key = 32 \<and> (\<exists>b \<in> set key. b \<noteq> 0) \<and>
      key = (if set (take 32 data) \<subseteq> {0} then drop 32 data else take 32 data))"
proof -
  have half: "first_nonzero_half data = Inr key \<longleftrightarrow> length key = 32 \<and> (\<exists>b \<in> set key. b \<noteq> 0) \<and>
      key = (if set (take 32 data) \<subseteq> {0} then drop 32 data else take 32 data)" if "ioctl 1 derived_key_req = Inr (0, data)" for data
    using first_nonzero_half_Inr [OF assms [OF that]] by blast
  have "derive_measurement_policy_key ioctl SF F fs S = (Inr key, S') \<longleftrightarrow>
    \<not> lock_poisoned SF \<and> ensure_sev_guest_device SF F fs SEV_GUEST_DEVICE S = (Inr (), S') \<and> open_fails SF = None \<and>
    (\<exists>data. ioctl 1 derived_key_req = Inr (0, data) \<and> first_nonzero_half data = Inr key)"
    by (auto simp: derive_measurement_policy_key_def read_derived_key_Inr split: prod.splits sum.splits option.splits)
  then show ?thesis by (simp only: half cong: conj_cong)
qed

text \<open>A node that is there and is no character device is left alone and not opened; one that is made has the
  number of the driver.\<close>

lemma ensure_sev_guest_device_node:
  assumes "ensure_sev_guest_device SF F fs path S = (Inr (), S')" "\<not> exists_fails SF" "mknod_fails SF = None"
  shows "\<exists>major minor. sev_node S' = Some (CharDevice major minor) \<and> (sev_node S \<noteq> None \<longrightarrow> S' = S)"
  using assms
  by (auto simp: ensure_sev_guest_device_def parse_proc_misc_minor_def mknod_device_def sev_failed_def log_sev_internal_error_def
      split: if_splits option.splits node_kind.splits sum.splits prod.splits)

end
