(* ===== verification/Startup.thy ===== *)
theory Startup
  imports Handlers
begin

text \<open>
  The start of the process, \<open>main.rs\<close>: the sentinel that tells \<open>enclava-init\<close> that the container
  runs (\<open>signal_started\<close> with the record read from \<open>/proc\<close>), the HTTP client, the TLS material, the
  initial \<open>AppState\<close>, and the first refresh of the ownership state with the ready sentinel of the
  configuration store. The lemmas show that the sentinel is written only under its own name in its own
  directory and never through a symbolic link, and that its record can be read back.
\<close>

section \<open>The record of the process\<close>

definition first_status_id :: "string \<Rightarrow> string \<Rightarrow> string + nat" where
  "first_status_id stat key =
     res_bind (ok_or (''missing '' @ key @ '' in process status'') (find (starts_with key) (str_lines stat))) (\<lambda>line.
     res_bind (case split_whitespace (drop (length key) line) of
         [] \<Rightarrow> Inl (''missing value for '' @ key @ '' in process status'') | w # _ \<Rightarrow> Inr w) (\<lambda>w.
     map_err (\<lambda>err. ''invalid '' @ key @ '' in process status: '' @ err) (parse_uint (2 ^ 32) w)))"

definition uid_gid_from_status :: "string \<Rightarrow> string + (nat \<times> nat)" where
  "uid_gid_from_status stat =
     res_bind (first_status_id stat ''Uid:'') (\<lambda>uid.
     res_bind (first_status_id stat ''Gid:'') (\<lambda>gid. Inr (uid, gid)))"

definition current_uid_gid :: "io_faults \<Rightarrow> fs \<Rightarrow> string + (nat \<times> nat)" where
  "current_uid_gid F fs =
     res_bind (map_err (\<lambda>e. ''failed to read /proc/self/status: '' @ io_text e) (fs_read_to_string F ''/proc/self/status'' fs))
       uid_gid_from_status"

definition start_time_ticks_from_stat :: "string \<Rightarrow> string + nat" where
  "start_time_ticks_from_stat stat =
     res_bind (ok_or ''process stat is missing command delimiter'' (rsplit_once '') '' stat)) (\<lambda>(_, rest).
     let ws = split_whitespace rest in
     res_bind (if 19 < length ws then Inr (ws ! 19) else Inl ''process stat is missing start_time'') (\<lambda>w.
     map_err (\<lambda>err. ''invalid process stat start_time: '' @ err) (parse_uint (2 ^ 64) w)))"

definition current_start_time_ticks :: "io_faults \<Rightarrow> fs \<Rightarrow> string + nat" where
  "current_start_time_ticks F fs =
     res_bind (map_err (\<lambda>e. ''failed to read /proc/self/stat: '' @ io_text e) (fs_read_to_string F ''/proc/self/stat'' fs))
       start_time_ticks_from_stat"

definition nl :: string where "nl = [CHR 10]"

definition sentinel_record :: "io_faults \<Rightarrow> nat \<Rightarrow> string \<Rightarrow> fs \<Rightarrow> string + string" where
  "sentinel_record F pid name fs =
     res_bind (current_uid_gid F fs) (\<lambda>(uid, gid).
     res_bind (current_start_time_ticks F fs) (\<lambda>ticks.
     Inr (''version=1'' @ nl @ ''container='' @ name @ nl @ ''pid='' @ show_nat pid @ nl @
       ''start_time_ticks='' @ show_nat ticks @ nl @ ''uid='' @ show_nat uid @ nl @ ''gid='' @ show_nat gid @ nl)))"

section \<open>The started sentinel\<close>

definition DEFAULT_STARTED_DIR :: string where "DEFAULT_STARTED_DIR = ''/run/enclava/containers''"

definition validate_sentinel_name :: "string \<Rightarrow> string + unit" where
  "validate_sentinel_name name =
     (if name = [] \<or> name = ''.'' \<or> name = ''..'' then Inl ''ENCLAVA_CONTAINER_NAME must be a single path component''
      else if CHR ''/'' \<in> set name \<or> CHR 0x00 \<in> set name then Inl ''ENCLAVA_CONTAINER_NAME must be a single path component''
      else Inr ())"

text \<open>The file-system model has no symbolic links: which paths are links is asked of two predicates, one for
  the check and one for the moment of opening, since a link may appear in between. \<open>O_NOFOLLOW\<close> makes
  opening a link fail.\<close>

definition open_nofollow ::
  "io_faults \<Rightarrow> (string \<Rightarrow> bool) \<Rightarrow> nat \<Rightarrow> string \<Rightarrow> fs \<Rightarrow> (io_error + unit) \<times> fs" where
  "open_nofollow F link mode p fs =
     (if link p then (Inl (OtherIo ''Too many levels of symbolic links (os error 40)''), fs) else fs_open_write F mode p fs)"

definition write_sentinel ::
  "io_faults \<Rightarrow> (string \<Rightarrow> bool) \<Rightarrow> nat \<Rightarrow> string \<Rightarrow> string \<Rightarrow> fs \<Rightarrow> (string + unit) \<times> fs" where
  "write_sentinel F link pid sentinel name fs =
     (let failed = (\<lambda>err. ''failed to write sentinel '' @ sentinel @ '': '' @ io_text err) in
      case sentinel_record F pid name fs of
        Inl err \<Rightarrow> (Inl err, fs)
      | Inr body \<Rightarrow>
          io_then (open_nofollow F link 0x1A0 sentinel fs) failed (\<lambda>_ fs.
          io_then (fs_write_all F sentinel (as_bytes body) fs) failed (\<lambda>_ fs. (Inr (), fs))))"

definition signal_started ::
  "io_faults \<Rightarrow> (string \<Rightarrow> bool) \<Rightarrow> (string \<Rightarrow> bool) \<Rightarrow> nat \<Rightarrow> string \<Rightarrow> string \<Rightarrow> fs \<Rightarrow> (string + unit) \<times> fs" where
  "signal_started F link_seen link pid started_dir name fs =
     (case validate_sentinel_name name of
        Inl err \<Rightarrow> (Inl err, fs)
      | Inr _ \<Rightarrow>
          io_then (fs_create_dir_all F started_dir fs)
            (\<lambda>err. ''failed to create started dir '' @ started_dir @ '': '' @ io_text err) (\<lambda>_ fs.
          let sentinel = path_join started_dir name in
          if io_fails F (Stat sentinel) = None \<and> link_seen sentinel
          then (Inl (''sentinel '' @ sentinel @ '' must not be a symlink''), fs)
          else write_sentinel F link pid sentinel name fs))"

text \<open>\<open>var_os\<close> gives the raw bytes of a variable.\<close>

definition signal_enclava_started_if_configured ::
  "io_faults \<Rightarrow> (string \<Rightarrow> bool) \<Rightarrow> (string \<Rightarrow> bool) \<Rightarrow> nat \<Rightarrow> environment \<Rightarrow> fs \<Rightarrow> (string + unit) \<times> fs" where
  "signal_enclava_started_if_configured F link_seen link pid var_os fs =
     (case var_os ''ENCLAVA_CONTAINER_NAME'' of
        None \<Rightarrow> (Inr (), fs)
      | Some name \<Rightarrow>
          if \<not> utf8_valid (as_bytes name) then (Inl ''ENCLAVA_CONTAINER_NAME must be UTF-8'', fs)
          else case validate_sentinel_name name of
            Inl err \<Rightarrow> (Inl err, fs)
          | Inr _ \<Rightarrow> signal_started F link_seen link pid (env_or var_os ''ENCLAVA_STARTED_DIR'' DEFAULT_STARTED_DIR) name fs)"

section \<open>Client, certificate and state\<close>

definition build_http_client :: "externals \<Rightarrow> io_faults \<Rightarrow> config \<Rightarrow> fs \<Rightarrow> string + unit" where
  "build_http_client X F cfg fs =
     res_bind (if trim (c_kbs_resource_ca_cert_pem cfg) \<noteq> []
         then map_err id (res_bind (x_pem_certificate X (as_bytes (c_kbs_resource_ca_cert_pem cfg)))
           (\<lambda>_. Inr [as_bytes (c_kbs_resource_ca_cert_pem cfg)]))
         else Inr []) (\<lambda>certs.
     res_bind (if trim (c_kbs_resource_ca_cert_path cfg) \<noteq> []
         then res_bind (map_err io_text (fs_read F (c_kbs_resource_ca_cert_path cfg) fs)) (\<lambda>pem.
           res_bind (x_pem_certificate X pem) (\<lambda>_. Inr (certs @ [pem])))
         else Inr certs) (\<lambda>certs.
     x_client_build X certs))"

record tls_material =
  cert_der :: bytes
  key_der :: bytes
  spki_sha256 :: bytes

definition generate_tls_material :: "externals \<Rightarrow> string \<Rightarrow> string + tls_material" where
  "generate_tls_material X domain =
     res_bind (x_self_signed X [domain, ''localhost'']) (\<lambda>(cert, key).
     res_bind (ok_or ''certificate'' (x_x509_spki X cert)) (\<lambda>spki.
     Inr \<lparr>cert_der = cert, key_der = key, spki_sha256 = x_sha256 X spki\<rparr>))"

definition app_state :: "config \<Rightarrow> instant \<Rightarrow> instant \<Rightarrow> fs \<Rightarrow> 'w \<Rightarrow> 'w sys" where
  "app_state cfg now1 now2 fs w =
     \<lparr>s_guard = guard_new (c_storage_ownership_mode cfg), s_challenges = [], s_aa_cache = aa_cache_new now1 now2, s_kbs_cache = [],
      s_proof_rate = \<lparr>pr_global = [], pr_sources = []\<rparr>, s_quote_busy = False, s_kds_cache = [], s_files = fs,
      s_tasks = [], s_log = [], s_world = w\<rparr>"

text \<open>From the first refresh to the listeners.\<close>

definition prepare :: "'w env \<Rightarrow> ('w, unit) proc" where
  "prepare E =
     pbind (initialize_ownership_state E) (\<lambda>_.
     if c_cap_api_signing_pubkey (e_config E) = [] then
       call (e_unix E) (\<lambda>(secs, _).
       call (io_call E (\<lambda>F. write_ready_sentinel_with_options F secs (c_cap_config_dir (e_config E))
         \<lparr>file_gid = c_cap_config_file_gid (e_config E)\<rparr>)) (\<lambda>r.
       case r of
         Inl e \<Rightarrow> call (log_line (log_text [(''event'', quoted ''config_ready_sentinel_startup_failed''),
           (''error'', quoted (config_error_to_string e))])) ret
       | Inr _ \<Rightarrow> ret ()))
     else ret ())"

section \<open>Where the sentinel goes\<close>

lemma validate_sentinel_name_ok:
  "validate_sentinel_name name = Inr u \<longleftrightarrow> name \<notin> {[], ''.'', ''..''} \<and> CHR ''/'' \<notin> set name \<and> CHR 0x00 \<notin> set name"
  by (auto simp: validate_sentinel_name_def)

lemma open_nofollow_frame:
  "q \<noteq> p \<or> link p \<Longrightarrow> fs_lookup (snd (open_nofollow F link mode p fs)) q = fs_lookup fs q"
  by (auto simp: open_nofollow_def fs_frame)

lemma open_nofollow_link: "link p \<Longrightarrow> io_then (open_nofollow F link mode p fs) f k = (Inl (f (OtherIo ''Too many levels of symbolic links (os error 40)'')), fs)"
  by (simp add: open_nofollow_def)

lemma write_sentinel_frame:
  assumes "q \<noteq> p \<or> link q"
  shows "fs_lookup (snd (write_sentinel F link pid p name fs)) q = fs_lookup fs q"
proof (cases "link p")
  case True
  then show ?thesis by (simp add: write_sentinel_def open_nofollow_link Let_def split: sum.split)
next
  case False
  then have "q \<noteq> p" using assms by auto
  then show ?thesis
    unfolding write_sentinel_def Let_def
    by (auto split: sum.split intro!: io_then_frame simp: open_nofollow_frame fs_frame)
qed

text \<open>Only the directories on the way and the sentinel itself change, and the sentinel only if it is no link.\<close>

lemma signal_started_frame:
  assumes "q \<notin> set (path_chain dir)" "q \<noteq> path_join dir name \<or> link q"
  shows "fs_lookup (snd (signal_started F seen link pid dir name fs)) q = fs_lookup fs q"
  unfolding signal_started_def Let_def
  using fs_create_dir_frame [OF assms(1), of F fs]
  by (auto split: sum.split intro!: io_then_frame simp: write_sentinel_frame [where link = link, OF assms(2)])

lemma write_sentinel_ok:
  assumes "write_sentinel F link pid p name fs = (Inr u, fs')"
  obtains body f where "sentinel_record F pid name fs = Inr body" "\<not> link p"
    "fs_lookup fs' p = Some (File f)" "fn_data f = as_bytes body"
proof (cases "sentinel_record F pid name fs")
  case (Inr body)
  then show thesis
    using assms that by (auto simp: write_sentinel_def io_then_Inr open_nofollow_def Let_def split: if_splits dest!: fs_write_all_ok)
qed (use assms in \<open>simp add: write_sentinel_def Let_def\<close>)

lemma signal_started_ok:
  assumes "signal_started F seen link pid dir name fs = (Inr u, fs')"
  obtains fs1 body f where "sentinel_record F pid name fs1 = Inr body" "\<not> link (path_join dir name)"
    "fs_lookup fs' (path_join dir name) = Some (File f)" "fn_data f = as_bytes body"
proof -
  obtain fs1 where "write_sentinel F link pid (path_join dir name) name fs1 = (Inr u, fs')"
    using assms by (auto simp: signal_started_def io_then_Inr Let_def split: sum.splits if_splits)
  then show thesis by (rule write_sentinel_ok) (rule that)
qed

section \<open>Properties\<close>


text \<open>A process of which \<open>/proc\<close> tells little more than needed.\<close>

definition proc_files :: fs where
  "proc_files = [(''/proc/self/status'', File \<lparr>fn_mode = 0, fn_gid = None,
       fn_data = as_bytes (''Name:'' @ nl @ ''Uid: 7 7'' @ nl @ ''Gid: 8'' @ nl)\<rparr>),
     (''/proc/self/stat'', File \<lparr>fn_mode = 0, fn_gid = None,
       fn_data = as_bytes ''1 (a) b) S 1 1 1 1 1 1 1 1 1 1 1 1 1 1 1 1 1 1 99 1''\<rparr>)]"

lemma parse_uint_digits: "parse_uint (2 ^ 32) ''7'' = Inr 7" "parse_uint (2 ^ 32) ''8'' = Inr 8" "parse_uint (2 ^ 64) ''99'' = Inr 99"
  by (simp_all add: parse_uint_def is_ascii_digit_def)

lemma proc_files_read:
  "fs_read_to_string no_faults ''/proc/self/status'' proc_files = Inr (''Name:'' @ nl @ ''Uid: 7 7'' @ nl @ ''Gid: 8'' @ nl)"
  "fs_read_to_string no_faults ''/proc/self/stat'' proc_files = Inr ''1 (a) b) S 1 1 1 1 1 1 1 1 1 1 1 1 1 1 1 1 1 1 99 1''"
  by code_simp+

lemma proc_uid_gid: "current_uid_gid no_faults proc_files = Inr (7, 8)"
proof -
  let ?stat = "''Name:'' @ nl @ ''Uid: 7 7'' @ nl @ ''Gid: 8'' @ nl"
  have "find (starts_with ''Uid:'') (str_lines ?stat) = Some ''Uid: 7 7''" "find (starts_with ''Gid:'') (str_lines ?stat) = Some ''Gid: 8''"
    "split_whitespace (drop (length ''Uid:'') ''Uid: 7 7'') = [''7'', ''7'']" "split_whitespace (drop (length ''Gid:'') ''Gid: 8'') = [''8'']"
    by code_simp+
  then have "first_status_id ?stat ''Uid:'' = Inr 7" "first_status_id ?stat ''Gid:'' = Inr 8"
    unfolding first_status_id_def by (simp_all add: parse_uint_digits del: power_numeral)
  then show ?thesis by (simp add: current_uid_gid_def proc_files_read uid_gid_from_status_def)
qed

lemma proc_ticks: "current_start_time_ticks no_faults proc_files = Inr 99"
proof -
  let ?stat = "''1 (a) b) S 1 1 1 1 1 1 1 1 1 1 1 1 1 1 1 1 1 1 99 1''"
  have "rsplit_once '') '' ?stat = Some (''1 (a) b'', ''S 1 1 1 1 1 1 1 1 1 1 1 1 1 1 1 1 1 1 99 1'')"
    "split_whitespace ''S 1 1 1 1 1 1 1 1 1 1 1 1 1 1 1 1 1 1 99 1'' = ''S'' # replicate 18 ''1'' @ [''99'', ''1'']"
    by code_simp+
  then have "start_time_ticks_from_stat ?stat = Inr 99"
    by (simp add: start_time_ticks_from_stat_def parse_uint_digits nth_append del: power_numeral)
  then show ?thesis by (simp add: current_start_time_ticks_def proc_files_read)
qed

text \<open>The started directory is made, the record read and the sentinel opened.\<close>

lemma proc_started:
  "fst (signal_started no_faults (\<lambda>_. False) (\<lambda>_. False) 3 ''/r'' ''proxy'' proc_files) = Inr ()"
proof -
  have undisturbed: "io_fails no_faults op = None" for op by (simp add: no_faults_def)
  have c: "fs_create_dir_all no_faults ''/r'' proc_files = (Inr (), fs_set ''/r'' Dir proc_files)"
    "path_join ''/r'' ''proxy'' = ''/r/proxy''" "validate_sentinel_name ''proxy'' = Inr ()" by code_simp+
  have "fs_read_to_string no_faults q (fs_set ''/r'' Dir proc_files) = fs_read_to_string no_faults q proc_files" if "q \<noteq> ''/r''" for q
    using that by (simp add: fs_read_to_string_def fs_read_def no_faults_def)
  then have "sentinel_record no_faults 3 ''proxy'' (fs_set ''/r'' Dir proc_files) = sentinel_record no_faults 3 ''proxy'' proc_files"
    by (simp add: sentinel_record_def current_uid_gid_def current_start_time_ticks_def)
  moreover have "is_ok (sentinel_record no_faults 3 ''proxy'' proc_files)"
    by (simp add: sentinel_record_def proc_uid_gid proc_ticks)
  moreover have "path_parent ''/r/proxy'' = Some ''/r''" "fs_lookup proc_files ''/r/proxy'' = None" by code_simp+
  ultimately show ?thesis
    by (auto simp: signal_started_def c write_sentinel_def open_nofollow_def fs_open_write_def parent_is_dir_def fs_write_all_def
        undisturbed is_ok_def Let_def split: sum.splits)
qed

definition proc_vars :: environment where
  "proc_vars = (\<lambda>k. if k = ''ENCLAVA_CONTAINER_NAME'' then Some ''proxy''
     else if k = ''ENCLAVA_STARTED_DIR'' then Some ''/r'' else None)"

lemma proc_vars [simp]: "proc_vars ''ENCLAVA_CONTAINER_NAME'' = Some ''proxy''" "env_or proc_vars ''ENCLAVA_STARTED_DIR'' dflt = ''/r''"
  by (simp_all add: proc_vars_def env_or_def)

lemma proc_started_if_configured:
  "fst (signal_enclava_started_if_configured no_faults (\<lambda>_. False) (\<lambda>_. False) 3 proc_vars proc_files) = Inr ()"
proof -
  have "utf8_valid (as_bytes ''proxy'')" "validate_sentinel_name ''proxy'' = Inr ()" by code_simp+
  then show ?thesis using proc_started by (simp add: signal_enclava_started_if_configured_def)
qed


end
