(* ===== verification/Router.thy ===== *)
theory Router
  imports Startup Proof_Endpoint
begin

text \<open>
  The request path of the process, \<open>app_router\<close> and \<open>ownership_gate\<close> of \<open>main.rs\<close>: the table of routes
  of the two listeners, the gate in front of it, and the dispatch to the handlers with their extractors.
  What \<open>axum\<close> does itself (matching a path against the patterns, reading a body or a query into the
  request type, the answers to a wrong method or a malformed body) is the record \<open>web\<close>, an argument of
  the dispatch. \<open>process_run\<close> is the whole process: start-up, then any requests and background tasks in any
  order. The lemmas show that all of it moves the ownership machine only by its own operations on a
  running clock, so the machine's properties hold of the process, and which endpoints a locked pod
  serves.
\<close>

section \<open>Requests\<close>

record request =
  rq_method :: string
  rq_path :: string
  rq_query :: "string option"
  rq_headers :: "(string \<times> string) list"
  rq_peer_ip :: string
  rq_body :: bytes

record web =
  w_route :: "string list \<Rightarrow> string \<Rightarrow> (string \<times> string) option"
  w_param :: "string \<Rightarrow> response + string"
  w_query :: "request \<Rightarrow> response + attestation_query"
  w_password :: "request \<Rightarrow> response + string"
  w_new_password :: "request \<Rightarrow> response + (string \<times> string)"
  w_mnemonic :: "request \<Rightarrow> response + (string \<times> string)"
  w_claim :: "request \<Rightarrow> response + bootstrap_claim_request"
  w_receipt :: "request \<Rightarrow> response + sign_receipt_request"
  w_bytes :: "request \<Rightarrow> response + bytes"
  w_method_not_allowed :: response

section \<open>Routes\<close>

datatype endpoint = Health | Status | AttestationInfo | AttestationEvidence | ProofBundle | ProofPreflight
  | CdhResource | UnlockPod | ChangePassword | Recover | EnableAutoUnlock | DisableAutoUnlock
  | BootstrapChallenge | BootstrapClaim | EncryptedLogs | ConfigPut | ConfigDelete | ConfigList
  | Teardown | SignReceipt

type_synonym routes = "(string \<times> (string \<times> endpoint) list) list"

definition config_routes :: routes where
  "config_routes =
     [(''/.well-known/confidential/config/{key}'', [(''PUT'', ConfigPut), (''DELETE'', ConfigDelete)]),
      (''/config/{key}'', [(''PUT'', ConfigPut), (''DELETE'', ConfigDelete)]),
      (''/.well-known/confidential/config'', [(''GET'', ConfigList)]),
      (''/config'', [(''GET'', ConfigList)])]"

definition app_router :: "bool \<Rightarrow> routes" where
  "app_router expose_config_routes =
     [(''/health'', [(''GET'', Health)]),
      (''/status'', [(''GET'', Status)]),
      (''/.well-known/confidential/status'', [(''GET'', Status)]),
      (''/v1/attestation/info'', [(''GET'', AttestationInfo)]),
      (''/v1/attestation'', [(''GET'', AttestationEvidence)]),
      (''/.well-known/confidential/attestation'', [(''GET'', AttestationEvidence)]),
      (''/.well-known/confidential/proof-bundle'', [(''GET'', ProofBundle), (''OPTIONS'', ProofPreflight)]),
      (''/cdh/resource/{*path}'', [(''GET'', CdhResource)]),
      (''/unlock'', [(''POST'', UnlockPod)]),
      (''/.well-known/confidential/unlock'', [(''POST'', UnlockPod)]),
      (''/change-password'', [(''POST'', ChangePassword)]),
      (''/.well-known/confidential/change-password'', [(''POST'', ChangePassword)]),
      (''/recover'', [(''POST'', Recover)]),
      (''/.well-known/confidential/recover'', [(''POST'', Recover)]),
      (''/enable-auto-unlock'', [(''POST'', EnableAutoUnlock)]),
      (''/.well-known/confidential/enable-auto-unlock'', [(''POST'', EnableAutoUnlock)]),
      (''/disable-auto-unlock'', [(''POST'', DisableAutoUnlock)]),
      (''/.well-known/confidential/disable-auto-unlock'', [(''POST'', DisableAutoUnlock)]),
      (''/.well-known/confidential/bootstrap/challenge'', [(''POST'', BootstrapChallenge)]),
      (''/.well-known/confidential/bootstrap/claim'', [(''POST'', BootstrapClaim)]),
      (''/.well-known/confidential/logs'', [(''GET'', EncryptedLogs)])] @
     (if expose_config_routes then config_routes else []) @
     [(''/.well-known/confidential/teardown'', [(''POST'', Teardown)]),
      (''/teardown'', [(''POST'', Teardown)]),
      (''/receipts/sign'', [(''POST'', SignReceipt)]),
      (''/.well-known/confidential/receipts/sign'', [(''POST'', SignReceipt)])]"

definition http_router :: routes where "http_router = app_router False"
definition tls_router :: routes where "tls_router = app_router True"

text \<open>A route for \<open>GET\<close> also answers \<open>HEAD\<close>.\<close>

definition method_endpoint :: "(string \<times> endpoint) list \<Rightarrow> string \<Rightarrow> endpoint option" where
  "method_endpoint handlers m =
     (case map_of handlers m of Some e \<Rightarrow> Some e | None \<Rightarrow> if m = ''HEAD'' then map_of handlers ''GET'' else None)"

section \<open>Dispatch\<close>

definition extracted :: "response + 'a \<Rightarrow> ('a \<Rightarrow> ('w, response) proc) \<Rightarrow> ('w, response) proc" where
  "extracted r k = (case r of Inl resp \<Rightarrow> ret resp | Inr x \<Rightarrow> k x)"

definition with_token ::
  "'w env \<Rightarrow> (externals \<Rightarrow> nat \<Rightarrow> string \<Rightarrow> string \<Rightarrow> string option \<Rightarrow> jwt_error + api_token_claims) \<Rightarrow> request \<Rightarrow>
   (api_token_claims \<Rightarrow> ('w, response) proc) \<Rightarrow> ('w, response) proc" where
  "with_token E auth req k =
     call (e_unix E) (\<lambda>(now, _).
     extracted (map_err jwt_rejection_response (auth (e_ext E) now (c_cap_api_signing_pubkey (e_config E)) (c_instance_id (e_config E))
       (header_text ''authorization'' (rq_headers req)))) k)"

definition run_endpoint :: "'w env \<Rightarrow> web \<Rightarrow> request \<Rightarrow> string \<Rightarrow> endpoint \<Rightarrow> ('w, response) proc" where
  "run_endpoint E W req capture ep =
     (case ep of
        Health \<Rightarrow> health E
      | Status \<Rightarrow> status E
      | AttestationInfo \<Rightarrow> attestation_info E
      | AttestationEvidence \<Rightarrow> extracted (w_query W req) (attestation E)
      | ProofBundle \<Rightarrow> proof_bundle E (rq_peer_ip req) (rq_headers req) (rq_query req)
      | ProofPreflight \<Rightarrow> ret proof_preflight
      | CdhResource \<Rightarrow> extracted (w_param W capture) (cdh_resource E)
      | UnlockPod \<Rightarrow> extracted (w_password W req) (unlock E)
      | ChangePassword \<Rightarrow> extracted (w_new_password W req) (\<lambda>(old, new). change_password E old new)
      | Recover \<Rightarrow> extracted (w_mnemonic W req) (\<lambda>(mnemonic, new). recover E mnemonic new)
      | EnableAutoUnlock \<Rightarrow> enable_auto_unlock
      | DisableAutoUnlock \<Rightarrow> extracted (w_password W req) (disable_auto_unlock E)
      | BootstrapChallenge \<Rightarrow> bootstrap_challenge_handler E
      | BootstrapClaim \<Rightarrow> extracted (w_claim W req) (bootstrap_claim E)
      | EncryptedLogs \<Rightarrow> encrypted_logs E (rq_query req)
      | ConfigPut \<Rightarrow> with_token E config_auth req (\<lambda>claims.
          extracted (w_param W capture) (\<lambda>key. extracted (w_bytes W req) (config_put E claims key)))
      | ConfigDelete \<Rightarrow> with_token E config_auth req (\<lambda>claims. extracted (w_param W capture) (config_delete E claims))
      | ConfigList \<Rightarrow> with_token E config_auth req (\<lambda>_. config_list E)
      | Teardown \<Rightarrow> with_token E teardown_auth req (teardown E)
      | SignReceipt \<Rightarrow> extracted (w_receipt W req) (sign_receipt_handler E))"

text \<open>The endpoint of a request: \<open>None\<close> when no pattern matches, \<open>Some None\<close> when the method does not.\<close>

definition endpoint_of :: "web \<Rightarrow> routes \<Rightarrow> request \<Rightarrow> (endpoint option \<times> string) option" where
  "endpoint_of W routes req =
     (case w_route W (map fst routes) (rq_path req) of
        None \<Rightarrow> None
      | Some (pattern, capture) \<Rightarrow>
          (case map_of routes pattern of
             None \<Rightarrow> None
           | Some handlers \<Rightarrow> Some (method_endpoint handlers (rq_method req), capture)))"

definition route_request :: "'w env \<Rightarrow> web \<Rightarrow> routes \<Rightarrow> request \<Rightarrow> ('w, response) proc" where
  "route_request E W routes req =
     (case endpoint_of W routes req of
        None \<Rightarrow> not_found (rq_path req)
      | Some (None, _) \<Rightarrow> ret (w_method_not_allowed W)
      | Some (Some ep, capture) \<Rightarrow> run_endpoint E W req capture ep)"

definition locked_response :: response where
  "locked_response =
     \<lparr>rp_status = 423, rp_headers = [(''content-type'', ''application/json''), (''cache-control'', ''no-store'')],
      rp_body = JsonBody (JObj [(''error'', JStr ''locked''), (''state'', JStr ''locked''),
        (''message'', JStr ''Pod is locked. POST /unlock with password to proceed.'')])\<rparr>"

definition ownership_gate :: "'w env \<Rightarrow> request \<Rightarrow> ('w, response) proc \<Rightarrow> ('w, response) proc" where
  "ownership_gate E req next =
     call (get_guard E) (\<lambda>g. if should_gate g (rq_path req) then ret locked_response else next)"

definition serve :: "'w env \<Rightarrow> web \<Rightarrow> routes \<Rightarrow> request \<Rightarrow> ('w, response) proc" where
  "serve E W routes req = ownership_gate E req (route_request E W routes req)"

section \<open>The process\<close>

text \<open>From the initial state: start-up, then requests on either listener and spawned tasks. A step that
  panics ends there (the state it reached stays).\<close>

inductive process_run :: "'w env \<Rightarrow> web \<Rightarrow> 'w sys \<Rightarrow> 'w sys \<Rightarrow> bool" for E W s0 where
  prepared: "run_state (prepare E) s0 = (r, s) \<Longrightarrow> process_run E W s0 s"
| served: "process_run E W s0 s \<Longrightarrow> routes = http_router \<or> routes = tls_router \<Longrightarrow>
    run_state (serve E W routes req) s = (r, t) \<Longrightarrow> process_run E W s0 t"
| task: "process_run E W s0 s \<Longrightarrow> tsk \<in> set (s_tasks s) \<Longrightarrow>
    run_state (run_task E tsk) s = (r, t) \<Longrightarrow> process_run E W s0 t"

end
