(* ===== verification/System.thy ===== *)
theory System
  imports Router
begin

text \<open>
  The whole process. Every handler, every background task and the start-up make only the motions that the
  environment, the locked operations of the machine and of the tables, and the fetches of endorsements make
  (\<open>drives\<close>). Of two motions this is used. In one the machine changes only by the operations of
  \<open>ownership.rs\<close>, each at the time the clock shows when its lock is held; so a run of the process is, on the
  machine, a run of these operations on a clock that does not go back. In the other the log of exchanges
  grows and the cache of endorsements holds only what was answered.
\<close>

section \<open>Every procedure is made of its operations\<close>

lemma advances_case_ownership_error [advance_rules]:
  "advances R a \<Longrightarrow> advances R b \<Longrightarrow> advances R c \<Longrightarrow> advances R d \<Longrightarrow> advances R e \<Longrightarrow> advances R f \<Longrightarrow>
   (\<And>x. advances R (g x)) \<Longrightarrow> (\<And>x. advances R (h x)) \<Longrightarrow> (\<And>x. advances R (i x)) \<Longrightarrow> (\<And>x. advances R (j x)) \<Longrightarrow>
   (\<And>x. advances R (k x)) \<Longrightarrow> (\<And>x. advances R (l x)) \<Longrightarrow>
   advances R (case err of RateLimited \<Rightarrow> a | NotLocked \<Rightarrow> b | PasswordRequired \<Rightarrow> c | WrongPassword \<Rightarrow> d
     | InstanceIdMissing \<Rightarrow> e | Timeout \<Rightarrow> f | UnlockAmbiguous x \<Rightarrow> g x | Filesystem x \<Rightarrow> h x | Kdf x \<Rightarrow> i x
     | Envelope x \<Rightarrow> j x | OwnerSeedUnavailable x \<Rightarrow> k x | Store x \<Rightarrow> l x)"
  by (cases err) simp_all

lemma advances_case_outcome [advance_rules]:
  "advances R a \<Longrightarrow> advances R b \<Longrightarrow> (\<And>x. advances R (c x)) \<Longrightarrow> advances R d \<Longrightarrow>
   advances R (case r of HandoffUnlocked \<Rightarrow> a | HandoffWrongPassword \<Rightarrow> b | HandoffFatal x \<Rightarrow> c x | HandoffTimeout \<Rightarrow> d)"
  by (cases r) simp_all

lemma advances_case_bool [advance_rules]:
  "advances R m \<Longrightarrow> advances R n \<Longrightarrow> advances R (case b of True \<Rightarrow> m | False \<Rightarrow> n)"
  by (cases b) simp_all

lemma advances_case_claim [advance_rules]:
  "advances R a \<Longrightarrow> advances R b \<Longrightarrow> advances R c \<Longrightarrow>
   advances R (case r of UnlockReservation \<Rightarrow> a | ClaimUnclaimed \<Rightarrow> b | Conflict \<Rightarrow> c)"
  by (cases r) simp_all

text \<open>A motion that the process makes: its environment does, so do the operations of the machine, of the queue of
  challenges and of the proof limiter as the handlers perform them under their locks, and so do the fetches
  of endorsements. Whatever the process does is then made of such steps, so it needs to be said only once.\<close>

definition drives :: "'w motion \<Rightarrow> 'w env \<Rightarrow> bool" where
  "drives R E \<longleftrightarrow> env_advances R E \<and> fetches R E \<and> (\<forall>x. op_time x = None \<longrightarrow> allows R (apply_op x)) \<and>
     advances R (guard_call_at E begin_unlock_attempt) \<and> advances R (guard_call_at E begin_recovery_from_error) \<and>
     advances R (guard_call_at E begin_secret_operation_attempt) \<and>
     (\<forall>c e. advances R (record_bootstrap_challenge E c e)) \<and> (\<forall>c. advances R (consume_bootstrap_challenge E c)) \<and>
     (\<forall>source. advances R (admit_proof E source))"

lemma drives_env: "drives R E \<Longrightarrow> env_advances R E"
  by (simp add: drives_def)

lemma drives_locked [advance_rules]:
  "drives R E \<Longrightarrow> fetches R E"
  "drives R E \<Longrightarrow> advances R (guard_call_at E begin_unlock_attempt)"
  "drives R E \<Longrightarrow> advances R (guard_call_at E begin_recovery_from_error)"
  "drives R E \<Longrightarrow> advances R (guard_call_at E begin_secret_operation_attempt)"
  "drives R E \<Longrightarrow> advances R (record_bootstrap_challenge E c e)"
  "drives R E \<Longrightarrow> advances R (consume_bootstrap_challenge E c)"
  "drives R E \<Longrightarrow> advances R (admit_proof E source)"
  by (simp_all add: drives_def)

lemma drives_op: "drives R E \<Longrightarrow> op_time x = None \<Longrightarrow> allows R (apply_op x)"
  by (simp add: drives_def del: allows_def)

lemma drives_machine [advance_rules]:
  assumes "drives R E"
  shows "allows R set_locked" "allows R set_locked_after_retry" "allows R set_unclaimed" "allows R set_unclaimed_preserving_attempts"
    "allows R set_unlocked" "allows R (set_error msg)" "allows R (set_ownership_error err)"
    "allows R (restore_reprobeable_error_if_unlocking n)" "allows R (\<lambda>g. snd (claim_recovered_state n obs g))"
    "allows R (\<lambda>g. snd (begin_recovery_verification g))"
  using drives_op [OF assms, of SetLocked] drives_op [OF assms, of SetLockedAfterRetry] drives_op [OF assms, of SetUnclaimed]
    drives_op [OF assms, of SetUnclaimedPreserving] drives_op [OF assms, of SetUnlocked] drives_op [OF assms, of "SetError msg"]
    drives_op [OF assms, of "SetOwnershipError err"] drives_op [OF assms, of "RestoreReprobeable n"]
    drives_op [OF assms, of "ClaimRecovered n obs"] drives_op [OF assms, of RecoveryVerification]
  by simp_all

lemma allows_sum [advance_rules]:
  "(\<And>x. allows R (f x)) \<Longrightarrow> (\<And>y. allows R (g y)) \<Longrightarrow> allows R (case r of Inl x \<Rightarrow> f x | Inr y \<Rightarrow> g y)"
  by (cases r) simp_all

lemma moves_settle [advance_rules]: "drives R E \<Longrightarrow> advances R (settle_ownership_state E material)"
  unfolding settle_ownership_state_def by (intro advance_rules drives_env; assumption)

lemma moves_evict [advance_rules]: "env_advances R E \<Longrightarrow> advances R (evict_owner_seed_entries E)"
  unfolding evict_owner_seed_entries_def by (intro advance_rules; (assumption | simp))

lemma moves_refresh [advance_rules]: "drives R E \<Longrightarrow> advances R (refresh_ownership_state E force)"
  unfolding refresh_ownership_state_def by (intro advance_rules drives_env; assumption)

lemma moves_maybe_refresh [advance_rules]: "drives R E \<Longrightarrow> advances R (maybe_refresh_unclaimed_state E)"
  unfolding maybe_refresh_unclaimed_state_def by (intro advance_rules drives_env; assumption)

lemma moves_refresh_before [advance_rules]: "drives R E \<Longrightarrow> advances R (refresh_before E deadline force)"
  unfolding refresh_before_def by (intro advance_rules drives_env; assumption)

lemma advances_sleep_until [advance_rules]: "env_advances R E \<Longrightarrow> advances R (sleep_until E wake)"
  unfolding sleep_until_def by (intro advance_rules; assumption)

lemma moves_startup_loop [advance_rules]:
  "drives R E \<Longrightarrow> advances R (startup_loop E deadline polls errors window)"
proof (induction E deadline polls errors window rule: startup_loop.induct)
  case (1 E deadline polls errors window)
  show ?case
    by (subst startup_loop.simps) (intro advance_rules drives_env 1; (assumption | rule 1 | simp))
qed

lemma moves_initialize [advance_rules]: "drives R E \<Longrightarrow> advances R (initialize_ownership_state E)"
  unfolding initialize_ownership_state_def by (intro advance_rules drives_env; assumption)

lemma advances_prepare [advance_rules]: "drives R E \<Longrightarrow> advances R (prepare E)"
  unfolding prepare_def by (intro advance_rules drives_env; assumption)

subsection \<open>Unlocking\<close>

lemma moves_via_init_socket [advance_rules]:
  "drives R E \<Longrightarrow> advances R (unlock_owner_seed_via_init_socket E seed)"
  unfolding unlock_owner_seed_via_init_socket_def by (intro advance_rules drives_env; assumption)

lemma moves_render_password [advance_rules]:
  "drives R E \<Longrightarrow> advances R (render_password_handoff_outcome E outcome)"
  unfolding render_password_handoff_outcome_def by (intro advance_rules drives_env; assumption)

lemma moves_unlock_material [advance_rules]:
  "drives R E \<Longrightarrow> advances R (unlock_owner_seed_material E seed)"
  unfolding unlock_owner_seed_material_def by (intro advance_rules drives_env; assumption)

lemma moves_finalize [advance_rules]:
  "drives R E \<Longrightarrow> advances R (finalize_rewrapped_owner_seed E seed)"
  unfolding finalize_rewrapped_owner_seed_def by (intro advance_rules drives_env; assumption)

lemma moves_fail_unlock [advance_rules]: "drives R E \<Longrightarrow> advances R (fail_unlock E err)"
  unfolding fail_unlock_def by (intro advance_rules drives_env; assumption)

lemma moves_or_fail_unlock [advance_rules]:
  "drives R E \<Longrightarrow> (\<And>v. advances R (k v)) \<Longrightarrow> advances R (or_fail_unlock E r k)"
  unfolding or_fail_unlock_def by (intro advances_sum moves_fail_unlock)

lemma moves_render_level1 [advance_rules]:
  "drives R E \<Longrightarrow> advances R (render_level1_handoff_outcome E outcome)"
  unfolding render_level1_handoff_outcome_def by (intro advance_rules drives_env; assumption)

lemma moves_unlock_level1 [advance_rules]: "drives R E \<Longrightarrow> advances R (unlock_level1_mode E password)"
  unfolding unlock_level1_mode_def by (intro advance_rules drives_env; assumption)

lemma moves_load_revalidated [advance_rules]:
  "drives R E \<Longrightarrow> advances R (load_owner_seed_material_with_revalidation E)"
  unfolding load_owner_seed_material_with_revalidation_def by (intro advance_rules drives_env; assumption)

lemma moves_unlock_password [advance_rules]: "drives R E \<Longrightarrow> advances R (unlock_password_mode E password)"
  unfolding unlock_password_mode_def by (intro advance_rules drives_env; assumption)

lemma advances_answer_not_locked [advance_rules]: "env_advances R E \<Longrightarrow> advances R (answer_not_locked E)"
  unfolding answer_not_locked_def by (intro advance_rules; assumption)

lemma moves_recovery_outcome [advance_rules]: "drives R E \<Longrightarrow> advances R (recovery_outcome E generation r)"
  unfolding recovery_outcome_def by (intro advance_rules drives_env; assumption)

lemma moves_recovery_section [advance_rules]: "drives R E \<Longrightarrow> advances R (recovery_section E generation)"
  unfolding recovery_section_def by (intro advance_rules drives_env; assumption)

lemma moves_begin_unlock [advance_rules]: "drives R E \<Longrightarrow> advances R (begin_unlock E)"
  unfolding begin_unlock_def by (intro advance_rules drives_env drives_locked; assumption)

lemma moves_reserve_unlock [advance_rules]: "drives R E \<Longrightarrow> advances R (reserve_unlock E)"
  unfolding reserve_unlock_def by (intro advance_rules drives_env drives_locked; assumption)

lemma advances_spawn_unlock_task [advance_rules]: "progress R \<Longrightarrow> advances R (spawn_unlock_task E password)"
  unfolding spawn_unlock_task_def by (intro advances_call advances_gets advances_spawn advances_ret; assumption)

lemma moves_unlock [advance_rules]: "drives R E \<Longrightarrow> advances R (unlock E password)"
  unfolding unlock_def by (intro advance_rules drives_env; assumption)

lemma moves_release [advance_rules]: "drives R E \<Longrightarrow> advances R (release_verification E b)"
  unfolding release_verification_def by (cases b; simp; intro advance_rules drives_env; assumption)

lemma moves_verify [advance_rules]:
  "drives R E \<Longrightarrow> advances R (verify_owner_seed_for_recovery E seed b)"
  unfolding verify_owner_seed_for_recovery_def spawn_recovery_init_ready_watch_def by (intro advance_rules drives_env; assumption)

lemma moves_ready_watch [advance_rules]: "drives R E \<Longrightarrow> advances R (ready_watch E timeout)"
  unfolding ready_watch_def by (intro advance_rules drives_env; (assumption | simp add: advance_rules split: sum.split))

lemma moves_recovery_watch [advance_rules]: "drives R E \<Longrightarrow> advances R (recovery_watch E timeout)"
  unfolding recovery_watch_def by (intro advance_rules drives_env; (assumption | simp add: advance_rules split: sum.split))

subsection \<open>Reading and claiming\<close>

lemma advances_health [advance_rules]: "env_advances R E \<Longrightarrow> advances R (health E)"
  unfolding health_def by (intro advance_rules; assumption)

lemma advances_read_init_stage [advance_rules]: "env_advances R E \<Longrightarrow> advances R (read_init_stage E)"
  unfolding read_init_stage_def by (intro advance_rules; assumption)

lemma advances_status_diagnostic [advance_rules]: "env_advances R E \<Longrightarrow> advances R (status_diagnostic E)"
  unfolding status_diagnostic_def by (intro advance_rules; assumption)

lemma advances_bootstrap_diagnostics [advance_rules]: "env_advances R E \<Longrightarrow> advances R (bootstrap_diagnostics_for_status E)"
  unfolding bootstrap_diagnostics_for_status_def by (intro advance_rules; assumption)

lemma advances_fetch_identity [advance_rules]: "env_advances R E \<Longrightarrow> advances R (fetch_ownership_identity E)"
  unfolding fetch_ownership_identity_def by (intro advance_rules; assumption)

lemma moves_status [advance_rules]: "drives R E \<Longrightarrow> advances R (status E)"
  unfolding status_def by (intro advance_rules drives_env; assumption)

lemma advances_already_claimed [advance_rules]: "env_advances R E \<Longrightarrow> advances R (already_claimed E)"
  unfolding already_claimed_def by (intro advance_rules; assumption)

lemma moves_when_unclaimed [advance_rules]:
  "drives R E \<Longrightarrow> advances R k \<Longrightarrow> advances R (when_unclaimed E k)"
  unfolding when_unclaimed_def by (intro advance_rules drives_env; assumption)

lemma moves_bootstrap_challenge [advance_rules]: "drives R E \<Longrightarrow> advances R (bootstrap_challenge_handler E)"
  unfolding bootstrap_challenge_handler_def by (intro advance_rules drives_env; assumption)

lemma moves_rate_limited [advance_rules]:
  "drives R E \<Longrightarrow> advances R (begin_rate_limited_secret_operation E)"
  unfolding begin_rate_limited_secret_operation_def by (intro advance_rules drives_env drives_locked; assumption)

lemma advances_restore_kbs [advance_rules]: "env_advances R E \<Longrightarrow> advances R (restore_kbs_owner_seed_resource E path prev)"
  unfolding restore_kbs_owner_seed_resource_def by (intro advance_rules; assumption)

lemma advances_update_owner_seed [advance_rules]: "env_advances R E \<Longrightarrow> advances R (update_owner_seed_material E enc sealed)"
  unfolding update_owner_seed_material_def by (intro advance_rules; assumption)

subsection \<open>Handlers\<close>

lemma moves_with_wrap_key [advance_rules]:
  "drives R E \<Longrightarrow> (\<And>x. advances R (k x)) \<Longrightarrow> advances R (with_wrap_key E err pw k)"
  unfolding with_wrap_key_def by (intro advance_rules drives_env; assumption)

lemma moves_wrap_seed [advance_rules]:
  "drives R E \<Longrightarrow> (\<And>x. advances R (k x)) \<Longrightarrow> advances R (wrap_seed E err key seed k)"
  unfolding wrap_seed_def by (intro advance_rules drives_env; assumption)

lemma moves_store_seed [advance_rules]:
  "drives R E \<Longrightarrow> (\<And>x. advances R (k x)) \<Longrightarrow> advances R (store_seed E err enc sealed (k ()))"
  unfolding store_seed_def by (intro advance_rules drives_env; assumption)

lemma moves_claim_outcome [advance_rules]: "drives R E \<Longrightarrow> advances R (claim_outcome E seed r)"
  unfolding claim_outcome_def by (intro advance_rules drives_env; assumption)

lemma moves_hand_over_new_seed [advance_rules]: "drives R E \<Longrightarrow> advances R (hand_over_new_seed E seed)"
  unfolding hand_over_new_seed_def by (intro advance_rules drives_env; assumption)

lemma moves_seal_new_owner [advance_rules]: "drives R E \<Longrightarrow> advances R (seal_new_owner E pw)"
  unfolding seal_new_owner_def by (intro advance_rules drives_env; assumption)

lemma moves_bootstrap_claim [advance_rules]: "drives R E \<Longrightarrow> advances R (bootstrap_claim E req)"
  unfolding bootstrap_claim_def by (intro advance_rules drives_env; assumption)

lemma moves_open_owner_seed [advance_rules]:
  "drives R E \<Longrightarrow> (\<And>x. advances R (k x)) \<Longrightarrow> advances R (open_owner_seed E err pw loaded k)"
  unfolding open_owner_seed_def by (intro advance_rules drives_env; assumption)

lemma moves_with_owner_seed [advance_rules]:
  "drives R E \<Longrightarrow> (\<And>x. advances R (k x)) \<Longrightarrow> advances R (with_owner_seed E err pw k)"
  unfolding with_owner_seed_def by (intro advance_rules drives_env; assumption)

lemma moves_audit_owner_change [advance_rules]: "drives R E \<Longrightarrow> advances R (audit_owner_change E seed action)"
  unfolding audit_owner_change_def by (intro advance_rules drives_env; assumption)

lemma moves_change_password [advance_rules]: "drives R E \<Longrightarrow> advances R (change_password E old new)"
  unfolding change_password_def by (intro advance_rules drives_env; assumption)

lemma moves_enable_auto_unlock [advance_rules]: "drives R E \<Longrightarrow> advances R (enable_auto_unlock)"
  unfolding enable_auto_unlock_def by (intro advance_rules drives_env; assumption)

lemma moves_disable_auto_unlock [advance_rules]: "drives R E \<Longrightarrow> advances R (disable_auto_unlock E pw)"
  unfolding disable_auto_unlock_def by (intro advance_rules drives_env; assumption)

lemma moves_persist_recovery [advance_rules]: "drives R E \<Longrightarrow> advances R (persist_recovery E seed env)"
  unfolding persist_recovery_def by (intro advance_rules drives_env; assumption)

lemma moves_verify_then_persist [advance_rules]: "drives R E \<Longrightarrow> advances R (verify_then_persist E seed env b)"
  unfolding verify_then_persist_def by (intro advance_rules drives_env; assumption)

lemma moves_rewrap_for_recovery [advance_rules]: "drives R E \<Longrightarrow> advances R (rewrap_for_recovery E seed pw b)"
  unfolding rewrap_for_recovery_def by (intro advance_rules drives_env; assumption)

lemma moves_recover [advance_rules]: "drives R E \<Longrightarrow> advances R (recover E m pw)"
  unfolding recover_def by (intro advance_rules drives_env; assumption)

lemma moves_spawn_config_metadata_sync [advance_rules]: "drives R E \<Longrightarrow> advances R (spawn_config_metadata_sync E a b claims)"
  unfolding spawn_config_metadata_sync_def by (intro advance_rules drives_env; assumption)

lemma moves_require_config_storage_ready [advance_rules]: "drives R E \<Longrightarrow> advances R (require_config_storage_ready E)"
  unfolding require_config_storage_ready_def by (intro advance_rules drives_env; assumption)

lemma moves_config_put [advance_rules]: "drives R E \<Longrightarrow> advances R (config_put E claims key body)"
  unfolding config_put_def by (intro advance_rules drives_env; assumption)

lemma moves_config_list [advance_rules]: "drives R E \<Longrightarrow> advances R (config_list E)"
  unfolding config_list_def by (intro advance_rules drives_env; assumption)

lemma moves_config_delete [advance_rules]: "drives R E \<Longrightarrow> advances R (config_delete E claims key)"
  unfolding config_delete_def by (intro advance_rules drives_env; assumption)

lemma moves_teardown_answer [advance_rules]: "drives R E \<Longrightarrow> advances R (teardown_answer E now claims a b)"
  unfolding teardown_answer_def by (intro advance_rules drives_env; assumption)

lemma moves_teardown [advance_rules]: "drives R E \<Longrightarrow> advances R (teardown E claims)"
  unfolding teardown_def by (intro advance_rules drives_env; assumption)

lemma moves_sign_receipt_handler [advance_rules]: "drives R E \<Longrightarrow> advances R (sign_receipt_handler E req)"
  unfolding sign_receipt_handler_def by (intro advance_rules drives_env; assumption)

lemma moves_cdh_resource [advance_rules]: "drives R E \<Longrightarrow> advances R (cdh_resource E path)"
  unfolding cdh_resource_def by (intro advance_rules drives_env; assumption)

lemma moves_encrypted_logs [advance_rules]: "drives R E \<Longrightarrow> advances R (encrypted_logs E q)"
  unfolding encrypted_logs_def by (intro advance_rules drives_env; assumption)

lemma advances_attestation_info [advance_rules]: "env_advances R E \<Longrightarrow> advances R (attestation_info E)"
  unfolding attestation_info_def by (intro advance_rules; assumption)

lemma advances_attestation [advance_rules]: "env_advances R E \<Longrightarrow> advances R (attestation E query)"
  unfolding attestation_def stamped_def by (intro advance_rules; assumption)

lemma moves_proof_bundle [advance_rules]: "drives R E \<Longrightarrow> advances R (proof_bundle E peer headers query)"
  unfolding proof_bundle_def by (intro advance_rules drives_env; assumption)

lemma advances_not_found [advance_rules]: "progress R \<Longrightarrow> advances R (not_found path)"
  unfolding not_found_def by (rule advances_ret)

subsection \<open>Tasks and requests\<close>

lemma advances_metadata_sync_attempts [advance_rules]: "env_advances R E \<Longrightarrow> advances R (metadata_sync_attempts E url body ns)"
  by (induction ns) (auto intro!: advance_rules)

lemma advances_metadata_sync [advance_rules]: "env_advances R E \<Longrightarrow> advances R (metadata_sync E url body)"
  unfolding metadata_sync_def by (intro advance_rules; assumption)

lemma moves_run_task [advance_rules]: "drives R E \<Longrightarrow> advances R (run_task E tsk)"
  unfolding run_task_def by (cases tsk; simp; intro advance_rules drives_env; assumption)

lemma advances_extracted [advance_rules]:
  "progress R \<Longrightarrow> (\<And>x. advances R (k x)) \<Longrightarrow> advances R (extracted r k)"
  unfolding extracted_def by (intro advances_sum advances_ret)

lemma advances_with_token [advance_rules]:
  "env_advances R E \<Longrightarrow> (\<And>c. advances R (k c)) \<Longrightarrow> advances R (with_token E auth req k)"
  unfolding with_token_def by (intro advance_rules; assumption)

lemma moves_run_endpoint [advance_rules]: "drives R E \<Longrightarrow> advances R (run_endpoint E W req capture ep)"
  unfolding run_endpoint_def by (cases ep; simp; intro advance_rules drives_env; assumption)

lemma moves_route_request [advance_rules]: "drives R E \<Longrightarrow> advances R (route_request E W routes req)"
  unfolding route_request_def by (intro advance_rules drives_env; assumption)

lemma moves_serve [advance_rules]: "drives R E \<Longrightarrow> advances R (serve E W routes req)"
  unfolding serve_def ownership_gate_def by (intro advance_rules drives_env; assumption)

lemma moves_process:
  assumes "drives R E" "process_run E W s t"
  shows "R s t"
  using assms(2)
proof induction
  case (prepared r s1)
  then show ?case by (rule advancesD [OF advances_prepare [OF assms(1)]])
next
  case (served s1 routes req r t)
  show ?case by (rule advances_trans [OF env_advances_progress [OF drives_env [OF assms(1)]] served.IH moves_serve [OF assms(1)] served(3)])
next
  case (task s1 tsk r t)
  show ?case by (rule advances_trans [OF env_advances_progress [OF drives_env [OF assms(1)]] task.IH moves_run_task [OF assms(1)] task(3)])
qed

subsection \<open>Two such motions\<close>

text \<open>The machine and the tables by their operations, in a process whose other tasks keep to them; and the growth of
  the log with a cache of endorsements that holds only what was answered.\<close>

lemma moves_admit_proof: "machine_env E clk \<Longrightarrow> advances (machine_moves clk) (admit_proof E source)"
  unfolding admit_proof_def
proof (intro advances_call advances_locked advances_ret progress_machine)
  fix now and s :: "'a sys"
  assume "now = clk (s_world s)"
  then show "machine_moves clk s (snd (case allow source now (s_proof_rate s) of (ok, rate) \<Rightarrow> (ok, s\<lparr>s_proof_rate := rate\<rparr>)))"
    using table_moves_op [of snd "(source, now)" now rate_step "s_proof_rate s"]
    by (simp add: machine_moves_def guard_moves_refl table_moves_refl rate_step_def split_beta)
qed

lemma moves_fetches: "machine_env E clk \<Longrightarrow> fetches (machine_moves clk) E"
  by (rule fetchesI) (auto intro: advance_rules machine_moves_unchanged)

lemma machine_drives: "machine_env E clk \<Longrightarrow> drives (machine_moves clk) E"
  by (simp add: drives_def machine_env_advances moves_fetches machine_allows advances_attempts moves_record_challenge
      moves_consume_challenge moves_admit_proof del: allows_def)

lemma kds_allows: "allows (kds_moves tr) f"
  by (simp add: kds_genuine_def)

lemma kds_guard_call_at: "env_advances (kds_moves tr) E \<Longrightarrow> advances (kds_moves tr) (guard_call_at E f)"
  by (rule advances_guard_call_at [OF _ kds_allows])

lemma kds_State:
  "(\<And>s. s_kds_cache (snd (f s)) = s_kds_cache s \<and> s_world (snd (f s)) = s_world s) \<Longrightarrow> advances (kds_moves tr) (State f)"
  by (simp add: advances_def kds_genuine_def)

lemma kds_challenges:
  "env_advances (kds_moves tr) E \<Longrightarrow> advances (kds_moves tr) (record_bootstrap_challenge E c e)"
  "env_advances (kds_moves tr) E \<Longrightarrow> advances (kds_moves tr) (consume_bootstrap_challenge E c)"
  unfolding record_bootstrap_challenge_def consume_bootstrap_challenge_def modify_State
  by (intro advances_bind advances_env env_advances_progress kds_State; (assumption | simp split: prod.split))+

lemma kds_admit: "env_advances (kds_moves tr) E \<Longrightarrow> advances (kds_moves tr) (admit_proof E source)"
  by (rule advances_admit_proof) (simp_all add: kds_genuine_def)

lemma kds_drives: "observed E tr \<Longrightarrow> env_advances (kds_moves tr) E \<Longrightarrow> drives (kds_moves tr) E"
  by (simp add: drives_def fetches_kds kds_allows kds_guard_call_at kds_challenges kds_admit del: allows_def)

section \<open>Well-formed states\<close>

definition rate_wf :: "proof_rate \<Rightarrow> bool" where
  "rate_wf r \<longleftrightarrow> rate_inv r \<and> length (pr_global r) \<le> PROOF_GLOBAL_PER_MINUTE \<and>
     list_all (\<lambda>(_, seen). length seen \<le> PROOF_PER_SOURCE_PER_MINUTE) (pr_sources r)"

definition sys_wf :: "'w sys \<Rightarrow> bool" where
  "sys_wf s \<longleftrightarrow> length (s_challenges s) \<le> BOOTSTRAP_CHALLENGE_MAX_ACTIVE \<and> rate_wf (s_proof_rate s) \<and>
     length (m_attempts (g_machine (s_guard s))) \<le> UNLOCK_MAX_ATTEMPTS"

lemma rate_wf_empty: "rate_wf no_requests"
  by (simp add: rate_wf_def rate_inv_def no_requests_def)

lemma list_all_update: "P (k, v) \<Longrightarrow> list_all P al \<Longrightarrow> list_all P (AList.update k v al)"
  by (induction al) (auto simp: list_all_iff)

lemma retain_wf: "rate_wf r \<Longrightarrow> rate_wf (retain_recent now r)"
proof -
  assume r: "rate_wf r"
  have "length (filter p xs) \<le> n" if "length xs \<le> n" for p and xs :: "instant list" and n
    using length_filter_le [of p xs] that by linarith
  with r retain_inv [of r now] show ?thesis
    by (auto simp: rate_wf_def retain_recent_def list_all_iff)
qed

lemma allow_wf:
  assumes "rate_wf r"
  shows "rate_wf (snd (allow source now r))"
proof -
  let ?r = "retain_recent now r"
  have r: "rate_wf ?r" by (rule retain_wf [OF assms])
  have "length (source_window ?r source) \<le> PROOF_PER_SOURCE_PER_MINUTE"
    using r by (auto simp: rate_wf_def source_window_def list_all_iff split: option.split dest!: map_of_SomeD)
  with r allow_inv [of r source now] assms show ?thesis
    by (auto simp: rate_wf_def allow_def Let_def not_le intro!: list_all_update)
qed

section \<open>The gate\<close>

text \<open>What \<open>axum\<close> documents of its patterns: a matched pattern is one of the table, it matches only paths that
  begin with its fixed part, and a pattern without a parameter matches only itself.\<close>

definition fixed_part :: "string \<Rightarrow> string" where
  "fixed_part pattern = takeWhile (\<lambda>c. c \<noteq> CHR 0x7B) pattern"

definition router_law :: "web \<Rightarrow> bool" where
  "router_law W \<longleftrightarrow> (\<forall>patterns path pattern capture. w_route W patterns path = Some (pattern, capture) \<longrightarrow>
     pattern \<in> set patterns \<and> starts_with (fixed_part pattern) path \<and> (fixed_part pattern = pattern \<longrightarrow> path = pattern))"

definition locked_endpoints :: "endpoint list" where
  "locked_endpoints = [Health, Status, AttestationEvidence, ProofBundle, ProofPreflight, UnlockPod, ChangePassword, Recover,
     EnableAutoUnlock, DisableAutoUnlock, BootstrapChallenge, BootstrapClaim, EncryptedLogs]"

text \<open>The patterns that lead to other endpoints, and that no path the gate lets through begins with.\<close>

definition gated_patterns :: "string list" where
  "gated_patterns = [''/v1/attestation/info'', ''/.well-known/confidential/config/{key}'', ''/config/{key}'',
     ''/.well-known/confidential/config'', ''/config'', ''/.well-known/confidential/teardown'', ''/teardown'',
     ''/receipts/sign'', ''/.well-known/confidential/receipts/sign'']"

lemma endpoint_pattern:
  assumes "router_law W" "endpoint_of W routes req = Some (Some ep, capture)"
  obtains pattern handlers where "(pattern, handlers) \<in> set routes" "ep \<in> snd ` set handlers"
    "starts_with (fixed_part pattern) (rq_path req)" "fixed_part pattern = pattern \<longrightarrow> rq_path req = pattern"
proof -
  from assms(2) obtain pattern handlers where r: "w_route W (map fst routes) (rq_path req) = Some (pattern, capture)"
    "map_of routes pattern = Some handlers" "method_endpoint handlers (rq_method req) = Some ep"
    by (auto simp: endpoint_of_def split: option.splits)
  have "ep \<in> snd ` set handlers"
    using r(3) by (auto simp: method_endpoint_def split: option.splits if_splits dest!: map_of_SomeD intro: rev_image_eqI)
  with r assms(1) show thesis by (intro that [of pattern handlers]) (auto simp: router_law_def dest: map_of_SomeD)
qed

definition route_class :: "string \<Rightarrow> endpoint \<Rightarrow> bool" where
  "route_class pattern ep \<longleftrightarrow> ep \<in> set locked_endpoints \<or> ep = CdhResource \<and> pattern = ''/cdh/resource/{*path}'' \<or>
     pattern \<in> set gated_patterns"

lemma routes_classified: "list_all (\<lambda>(pattern, handlers). list_all (route_class pattern \<circ> snd) handlers) (app_router tls)"
  by (cases tls) (simp_all only:, code_simp+)

lemma routes_split:
  "(pattern, handlers) \<in> set (app_router tls) \<Longrightarrow> ep \<in> snd ` set handlers \<Longrightarrow> route_class pattern ep"
  using routes_classified [of tls] by (fastforce simp: list_all_iff)

lemma gated_not_allowed: "list_all (\<lambda>p. list_all (\<lambda>a. \<not> starts_with (fixed_part p) a) ALLOWED_PATHS) (''/cdh/resource/{*path}'' # gated_patterns)"
  by code_simp

lemma gated_not_seed:
  "list_all (\<lambda>p. \<not> starts_with (fixed_part p) ''/cdh/resource/default/'' \<and> \<not> starts_with ''/cdh/resource/default/'' (fixed_part p)) gated_patterns"
  by code_simp

lemma starts_with_both: "starts_with a s \<Longrightarrow> starts_with b s \<Longrightarrow> starts_with a b \<or> starts_with b a"
  by (fastforce simp: starts_with_iff append_eq_append_conv2)

lemma gated_pattern_blocked:
  assumes "pattern \<in> set gated_patterns" "starts_with (fixed_part pattern) path"
  shows "path \<notin> set ALLOWED_PATHS \<and> \<not> is_tls_seed_cdh_path path"
  using assms gated_not_allowed gated_not_seed starts_with_both [of "fixed_part pattern" path "''/cdh/resource/default/''"]
  by (auto simp: list_all_iff is_tls_seed_cdh_path_def)

lemma cdh_pattern_blocked:
  "starts_with (fixed_part ''/cdh/resource/{*path}'') path \<Longrightarrow> path \<notin> set ALLOWED_PATHS"
  using gated_not_allowed by (auto simp: list_all_iff)

lemma plain_listener_routes:
  "list_all (\<lambda>(_, hs). list_all (\<lambda>(_, e). e \<notin> {ConfigPut, ConfigDelete, ConfigList}) hs) (app_router False)"
  by code_simp

section \<open>Properties\<close>

text \<open>C4. The process never does anything to the ownership machine but what the machine's own operations allow.
  Whatever requests arrive on the two listeners and whatever tasks run, in any order and interleaved with
  any other activity that keeps to the machine's operations, the machine is after a run where some
  sequence of its operations, at times in the order of the clock, takes it from its initial state. So at
  no time are more attempts on record than the budget, the charged attempts of every window stay within
  it as long as the pod is not reset to a fresh one, and a pod in a manual mode counts as unlocked only
  after \<open>set_unlocked\<close>.\<close>

theorem process_refines_machine:
  assumes "machine_env E clk" "process_run E W (app_state (e_config E) now1 now2 files w) t"
  shows "\<exists>ops. let g0 = guard_new (c_storage_ownership_mode (e_config E)) in
    s_guard t = run_ops ops g0 \<and> clock_ok (clk w) ops \<and> last_time (clk w) ops \<le> clk (s_world t) \<and>
    length (m_attempts (g_machine (s_guard t))) \<le> UNLOCK_MAX_ATTEMPTS \<and>
    (never_clears ops g0 \<longrightarrow> (\<forall>x. length (filter (in_window x) (charge_log ops g0)) \<le> UNLOCK_MAX_ATTEMPTS)) \<and>
    (mode_requires_manual_unlock (g_mode g0) \<and> current_state (s_guard t) = Unlocked \<longrightarrow> SetUnlocked \<in> set ops)"
proof -
  let ?g = "guard_new (c_storage_ownership_mode (e_config E))"
  have init: "budget_inv (clk w, ?g)" "m_attempts (g_machine ?g) = []"
    by (simp_all add: guard_new_def new_with_signal_dir_def Let_def budget_inv_def)
  have manual: "mode_requires_manual_unlock (g_mode ?g) \<Longrightarrow> current_state ?g \<noteq> Unlocked"
    by (simp add: guard_new_def new_with_signal_dir_def Let_def current_state_def)
  have moved: "guard_moves clk ?g w (s_guard t) (s_world t)"
    using moves_process [OF machine_drives [OF assms(1)] assms(2)] by (simp add: machine_moves_def app_state_def)
  then obtain ops where ops: "s_guard t = run_ops ops ?g" "clock_ok (clk w) ops" "last_time (clk w) ops \<le> clk (s_world t)"
    by (auto simp: guard_moves_def)
  have "length (m_attempts (g_machine (s_guard t))) \<le> UNLOCK_MAX_ATTEMPTS"
    using moves_budget [OF moved init(1)] by (simp add: budget_inv_def)
  moreover have "window_ok (charge_log ops ?g)" if "never_clears ops ?g"
    using charge_log_window [OF init(1), of "[]" ops] init(2) ops(2) that by (simp add: tracks_def window_ok_def)
  ultimately show ?thesis
    using ops run_ops_Unlocked [OF manual, of ops] by (auto simp: Let_def window_ok_def intro!: exI [of _ ops])
qed

text \<open>C5. The state of the process stays well-formed: in every state a run of the process reaches, at most 32
  challenges are outstanding, the windows of the proof limiter have one entry per source and hold no more
  times than they admit, and no more attempts are on record than the budget. And the cache of endorsements
  holds only what AMD's service answered for the very address, as far as the log of the exchanges tells and
  what is not this process leaves the cache alone.\<close>

theorem process_state_wf:
  assumes "machine_env E clk" "process_run E W (app_state (e_config E) now1 now2 files w) t"
  shows "sys_wf t \<and> (observed E tr \<and> env_advances (kds_moves tr) E \<longrightarrow> kds_genuine tr t)"
proof -
  let ?s = "app_state (e_config E) now1 now2 files w"
  have moved: "machine_moves clk ?s t" by (rule moves_process [OF machine_drives [OF assms(1)] assms(2)])
  have "budget_inv (clk w, s_guard ?s)"
    by (simp add: app_state_def guard_new_def new_with_signal_dir_def Let_def budget_inv_def)
  then have "budget_inv (clk (s_world t), s_guard t)"
    using moves_budget [of clk "s_guard ?s" w] moved by (simp add: machine_moves_def app_state_def)
  moreover from moved have queue: "table_moves queue_step challenge_time (clk w) [] (clk (s_world t)) (s_challenges t)"
    and windows: "table_moves rate_step snd (clk w) no_requests (clk (s_world t)) (s_proof_rate t)"
    by (simp_all add: machine_moves_def app_state_def no_requests_def)
  have "length (s_challenges t) \<le> BOOTSTRAP_CHALLENGE_MAX_ACTIVE"
    by (rule table_moves_inv [OF queue]) (simp_all add: queue_step_def step_active)
  moreover have "rate_wf (s_proof_rate t)"
    by (rule table_moves_inv [where I = rate_wf, OF windows rate_wf_empty]) (auto simp: rate_step_def allow_wf)
  moreover have "kds_genuine tr t" if "observed E tr" "env_advances (kds_moves tr) E"
    using moves_process [OF kds_drives [OF that] assms(2)] by (simp add: app_state_def kds_genuine_def)
  ultimately show ?thesis by (simp add: sys_wf_def budget_inv_def)
qed



section \<open>A concrete process\<close>

lemma clock_env_machine: "machine_env (clock_env answer cfg) id"
  using clock_env_timed [of answer cfg]
  by (auto simp: machine_env_def clock_env_def env_advances_def advances_def progress_machine intro!: machine_moves_unchanged)

definition demo_route :: "string list \<Rightarrow> string \<Rightarrow> (string \<times> string) option" where
  "demo_route patterns path =
     map_option (\<lambda>p. (p, drop (length (fixed_part p)) path))
       (find (\<lambda>p. if fixed_part p = p then path = p else starts_with (fixed_part p) path) patterns)"

definition demo_web :: web where
  "demo_web = \<lparr>w_route = demo_route, w_param = Inr, w_query = (\<lambda>_. Inl locked_response), w_password = (\<lambda>_. Inr ''pw''),
     w_new_password = (\<lambda>_. Inl locked_response), w_mnemonic = (\<lambda>_. Inl locked_response), w_claim = (\<lambda>_. Inl locked_response),
     w_receipt = (\<lambda>_. Inl locked_response), w_bytes = Inr \<circ> rq_body, w_method_not_allowed = locked_response\<rparr>"

lemma demo_router_law: "router_law demo_web"
  by (auto simp: router_law_def demo_web_def demo_route_def find_Some_iff starts_with_iff split: if_splits)

definition demo_config_request :: request where
  "demo_config_request = \<lparr>rq_method = ''PUT'', rq_path = ''/config/k'', rq_query = None, rq_headers = [], rq_peer_ip = ''10.0.0.1'',
     rq_body = [1]\<rparr>"

text \<open>A start and one request.\<close>

abbreviation demo_start :: "instant sys" where
  "demo_start \<equiv> app_state (e_config (clock_env no_answer demo_config)) 0 0 [] 0"

lemma demo_run: "\<exists>t. process_run E demo_web s0 t"
proof -
  obtain r s where "run_state (prepare E) s0 = (r, s)" by (rule prod.exhaust)
  then have "process_run E demo_web s0 s" by (rule process_run.prepared)
  moreover obtain r' t where "run_state (serve E demo_web http_router demo_config_request) s = (r', t)" by (rule prod.exhaust)
  ultimately show ?thesis by (blast intro: process_run.served)
qed

theorem process_refines_machine_witness:
  "\<exists>t ops. process_run (clock_env no_answer demo_config) demo_web demo_start t \<and>
     s_guard t = run_ops ops (guard_new ''password'') \<and> length (m_attempts (g_machine (s_guard t))) \<le> UNLOCK_MAX_ATTEMPTS"
proof -
  obtain t where run: "process_run (clock_env no_answer demo_config) demo_web demo_start t" using demo_run by blast
  have "c_storage_ownership_mode (e_config (clock_env no_answer demo_config)) = ''password''" by (simp add: clock_env_def)
  with process_refines_machine [OF clock_env_machine run] run show ?thesis by (auto simp: Let_def)
qed

text \<open>A world that is its own log and its own clock, the time being the pauses so far.\<close>

definition slept :: "event list \<Rightarrow> instant" where
  "slept trail = sum_list (map (\<lambda>ev. case ev of Slept d \<Rightarrow> d | Exchange _ _ \<Rightarrow> 0) trail)"

definition logged_env :: "event list env" where
  "logged_env = (demo_env no_answer demo_config)\<lparr>e_now := gets (\<lambda>s. slept (s_world s))\<rparr>"

lemma logged_timed: "timed logged_env slept"
  by (simp add: timed_def logged_env_def demo_env_def env_advances_def advances_def progress_def slept_def)

lemma logged_machine: "machine_env logged_env slept"
  using logged_timed
  by (auto simp: machine_env_def logged_env_def demo_env_def env_advances_def advances_def progress_machine slept_def
      intro!: machine_moves_unchanged)

lemma logged_observed: "observed logged_env id"
  using demo_observed [of no_answer demo_config] by (simp add: observed_def env_advances_def logged_env_def advances_def progress_refl [OF progress_log])

lemma logged_kds: "env_advances (kds_moves id) logged_env"
  unfolding env_advances_def
  by (intro conjI allI progress_kds advancesI kds_moves_grow) (auto simp: logged_env_def demo_env_def)

theorem process_state_wf_witness:
  "\<exists>t. process_run logged_env demo_web (app_state demo_config 0 0 [] []) t \<and> sys_wf t \<and> kds_genuine id t"
proof -
  have cfg: "e_config logged_env = demo_config" by (simp add: logged_env_def)
  obtain t where run: "process_run logged_env demo_web (app_state demo_config 0 0 [] []) t" using demo_run by blast
  from process_state_wf [OF logged_machine run [folded cfg], of id] logged_observed logged_kds run show ?thesis by blast
qed



end
