(* ===== verification/Spec2Isabelle.thy ===== *)
theory Spec2Isabelle
  imports Prelude Rust_Std Json Hex_Codec Ce_V1 Civil_Time Ownership Ownership_Runs Externals
    Receipts Http Jwt Fs Kv_Store Config_Store Owner_Crypto Config Process Traces Claims
    Aa_Token Ttl_Cache Kbs Handoff Escrow Owner_Seed Rate_Window Bootstrap Init_Status
    Machine_Steps Unlock Handlers Handler_Runs Attestation Snp_Report Proof_Bundle Endorsements
    Proof_Endpoint Proof_Runs Sev_Device Startup Router System
begin

text \<open>
  A verification development of the attestation proxy, the Rust service that runs inside a confidential
  pod, proves the pod to its clients, keeps the owner's storage key sealed in a key broker and unlocks the
  pod's volumes for the owner. Everything the service does apart from socket I/O is translated, function by
  function, from \<open>src/src/*.rs\<close>.

  \<^bold>\<open>Parts and how they meet.\<close> One process holds an \<open>AppState\<close> (\<open>lib.rs\<close>): the ownership machine behind
  its mutex, the bootstrap challenges, two caches, the proof limits. \<open>main.rs\<close> announces the start,
  reads the configuration, refreshes the ownership state and serves two routers through a gate that
  closes while the pod is locked. The handlers (\<open>handlers.rs\<close>) move the machine (\<open>ownership.rs\<close>), read and
  write the owner seed's ciphertext (\<open>kbs.rs\<close>, \<open>escrow.rs\<close>), hand volume keys to the mounting containers
  or to \<open>enclava-init\<close>, sign receipts (\<open>receipts.rs\<close>), check API tokens (\<open>jwt.rs\<close>), keep configuration
  values (\<open>config_store.rs\<close>) and produce evidence (\<open>attestation.rs\<close>, \<open>proof.rs\<close>).

  \<^bold>\<open>Shared ground.\<close> \<open>Prelude\<close> has the machine integers, byte strings, results as sums and the
  named collections of rules. \<open>Rust_Std\<close>, \<open>Json\<close>, \<open>Hex_Codec\<close> and \<open>Civil_Time\<close> model what the program
  uses of the standard library and of \<open>serde_json\<close>, and its own hexadecimal and calendar routines. \<open>Externals\<close> is the
  record of what other crates provide (hashes, signatures, encryption, base64, X.509, the JSON parser):
  parameters everywhere, with the laws a theorem needs as named hypotheses. \<open>Fs\<close> models the file calls with
  an oracle for the calls that fail and for short writes; \<open>Http\<close> requests and responses. \<open>Process\<close> is the
  shared state and the monad of a task: a task is a function on the state that may end in a panic (\<open>None\<close>),
  and every call at which the runtime may switch tasks or another process may act goes through the
  environment, which may do to the state whatever the hypotheses of a theorem allow. \<open>Traces\<close> has the
  rules for what survives such a task (\<open>advances\<close>), the log of exchanges (\<open>observed\<close>), the clock (\<open>timed\<close>)
  and the absence of other tasks (\<open>undisturbed\<close>); \<open>Machine_Steps\<close> the same for the machine
  (\<open>machine_env\<close>, and \<open>yields\<close>, a weakest precondition on it).

  \<^bold>\<open>Theories of the components, and what their lemmas show.\<close>
  \<^item> \<open>Ownership\<close>, \<open>Ownership_Runs\<close>: \<open>OwnershipGuard\<close>, one function per method, with the clock reading as
    argument; sequences of methods as the interleavings of requests. The budget of attempts in every
    window, the exclusiveness of the unlock reservation, the cancel guard, and that only \<open>set_unlocked\<close> unlocks.
  \<^item> \<open>Ce_V1\<close>, \<open>Receipts\<close>: the canonical encoding and its reader, the receipt signer; injectivity,
    read-back, verification under the published key.
  \<^item> \<open>Jwt\<close>: the API tokens; both extractors accept exactly the valid tokens.
  \<^item> \<open>Kv_Store\<close> (interface), \<open>Config_Store\<close>: configuration values as files; under every pattern of
    failing calls the directory refines a map, and no key escapes it.
  \<^item> \<open>Owner_Crypto\<close>: envelope, mnemonic, derived keys, audit events; round trips and zeroized passwords.
  \<^item> \<open>Config\<close>, \<open>Claims\<close>, \<open>Aa_Token\<close>: the environment, the claims documents, the agent's token with its cache.
  \<^item> \<open>Ttl_Cache\<close> (interface), \<open>Kbs\<close>: the broker's resources and their cache; freshness, and that writes and
    deletions are reported only on the broker's own answer.
  \<^item> \<open>Handoff\<close>, \<open>Escrow\<close>, \<open>Owner_Seed\<close>: key files and their polls, atomic escrow files, the ciphertext across
    its three backends and the ownership state it implies; absence is concluded only from a 404.
  \<^item> \<open>Rate_Window\<close> (interface), \<open>Bootstrap\<close>: decoders, report data, the challenge queue, the rate of proofs.
  \<^item> \<open>Init_Status\<close>, \<open>Unlock\<close>: what \<open>enclava-init\<close> reports, waiting for it, start-up, the unlock handler and its
    background tasks; termination, sanitised diagnostics, and that no reservation is stranded.
  \<^item> \<open>Handlers\<close>, \<open>Handler_Runs\<close>: claim, change of password, recovery, configuration, teardown; what must have
    happened before each of them reports success, with concrete runs.
  \<^item> \<open>Attestation\<close>, \<open>Snp_Report\<close>, \<open>Proof_Bundle\<close>, \<open>Endorsements\<close>, \<open>Proof_Endpoint\<close>, \<open>Proof_Runs\<close>: the evidence
    endpoint, the raw SEV-SNP report against a table of its fields, bundles with their certificates, the
    public proof endpoint; evidence and bundles are bound to the request, the TLS key and the receipt key.
    The cache of AMD's endorsements is fresh and only ever holds what the service answered for each
    address: a guarantee of every fetch that relies on the same of the other tasks (\<open>kds_moves\<close>).
  \<^item> \<open>Sev_Device\<close>: the derived key of the processor (\<open>sev.rs\<close>, which no handler calls).
  \<^item> \<open>Startup\<close>, \<open>Router\<close>, \<open>System\<close>: the start of the process, the route tables with the gate, every handler
    behind its route, and the whole process: each of its runs moves the ownership machine, the queue of
    challenges and the windows of the proof limiter only by their own operations at the times of the
    clock, so their limits hold of the process and its state stays well-formed, with a cache of
    endorsements that holds only real answers; and a locked pod serves only a fixed list of endpoints.

  \<^bold>\<open>Interfaces.\<close> \<open>byte_codec\<close> (interpreted by the hexadecimal codec), \<open>kv_store\<close> (by the configuration
  directory), \<open>ttl_cache\<close> (by the cache of endorsements) and its extension
  \<open>evicting_cache\<close> (by the resource cache), \<open>rate_limiter\<close> (by both windows of the proof limiter).

  \<^bold>\<open>Bounds and fuel.\<close> Loops with a deadline run on fuel that is computed from it: the hand-off polls on
  \<open>poll_rounds\<close>, the timeout divided by the pause, and two; \<open>wait_for_enclava_init_ready\<close> on \<open>wait_rounds\<close> and the
  connection loop on its timeout and two, in nanoseconds, since their last pauses are cut to the deadline
  and a pause that is not empty takes at least one. On a clock that
  runs with the sleeps the fuel never runs out: this is what the termination theorems say. Retries with a
  count recurse on it. Integers keep their width where the code relies on it (generations, lengths,
  report fields); instants and durations are natural numbers of nanoseconds, and the panic of
  \<open>Instant + Duration\<close> on overflow is modelled where the duration is configured (the caches, the challenges)
  and not where it is a constant.

  \<^bold>\<open>Assumptions.\<close> The laws of cryptography and encodings (\<open>gcm_law\<close>, \<open>b64_law\<close>, \<open>envelope_law\<close> and the like, together
  \<open>crypto_laws\<close>), the clock (\<open>timed\<close>), the log (\<open>observed\<close>), the discipline of the other tasks
  (\<open>undisturbed\<close>, \<open>machine_env\<close>, \<open>kds_moves\<close>) and the matching of paths by the web framework (\<open>router_law\<close>). Each is
  a hypothesis of the theorems that use it and is shown to hold of a concrete environment in their
  witnesses.

  \<^bold>\<open>Not modelled.\<close> The listeners and the server loop (I/O of the web framework and the TLS library), the
  framework's extraction of bodies (a parameter), mutexes poisoned by a panic under a lock (a panic of the
  model ends its request and leaves the locks free), and \<open>SensitiveState\<close> and the other wrappers whose only
  effect is on memory after its use. Fetches that run concurrently (\<open>try_join!\<close>) run one after the other.
\<close>

end
